(* ===== verification/Prelude.thy ===== *)
theory Prelude
  imports Main
begin

text \<open>
  Shared ground of the development: the collections of lemmas the component theories
  extend, Go's errors as values, the state passing form of an operation that talks to the
  Kubernetes API, the parts of the packages \<open>strings\<close> and \<open>path\<close> the
  operator uses, and JSON values.
\<close>

section \<open>Collections\<close>

named_theorems frame_intros \<open>introduction rules for operations that keep a state property\<close>
named_theorems io_defs \<open>unfolding of the sequencing combinators\<close>
named_theorems naming_defs \<open>unfolding of names and labels\<close>

section \<open>Errors\<close>

text \<open>
  An error of the Kubernetes API carries a reason and its message; a sentinel is a
  package level error variable, known by its name; \<open>Errorf\<close> is an anonymous error;
  \<open>Wrap\<close> is \<open>errors.Wrap\<close>, whose cause stays visible to
  \<open>errors.Is\<close> and to the \<open>IsNotFound\<close> family. A Go panic is an error
  value of its own that no handler sees.
\<close>

datatype api_reason = ReasonNotFound | ReasonAlreadyExists | ReasonConflict | ReasonOther string

datatype error =
    ApiError api_reason string
  | Sentinel string
  | Errorf string
  | Wrap string error
  | Panic string

fun cause :: "error \<Rightarrow> error" where
  "cause (Wrap m e) = cause e"
| "cause e = e"

fun error_text :: "error \<Rightarrow> string" where
  "error_text (ApiError r m) = m"
| "error_text (Sentinel m) = m"
| "error_text (Errorf m) = m"
| "error_text (Wrap m e) = m @ '': '' @ error_text e"
| "error_text (Panic m) = m"

definition is_reason :: "api_reason \<Rightarrow> error \<Rightarrow> bool" where
  "is_reason r e = (case cause e of ApiError r' m \<Rightarrow> r' = r | _ \<Rightarrow> False)"

abbreviation IsNotFound :: "error \<Rightarrow> bool" where
  "IsNotFound \<equiv> is_reason ReasonNotFound"

abbreviation IsAlreadyExists :: "error \<Rightarrow> bool" where
  "IsAlreadyExists \<equiv> is_reason ReasonAlreadyExists"

abbreviation IsConflict :: "error \<Rightarrow> bool" where
  "IsConflict \<equiv> is_reason ReasonConflict"

definition error_is :: "error \<Rightarrow> string \<Rightarrow> bool" where
  "error_is e s = (cause e = Sentinel s)"

fun is_panic :: "error \<Rightarrow> bool" where
  "is_panic (Panic m) = True"
| "is_panic e = False"

lemma is_reason_Wrap [simp]: "is_reason r (Wrap m e) = is_reason r e"
  by (simp add: is_reason_def)

lemma is_reason_base [simp]:
  "is_reason r (ApiError r' m) = (r' = r)"
  "\<not> is_reason r (Sentinel s)" "\<not> is_reason r (Errorf s)" "\<not> is_reason r (Panic s)"
  by (simp_all add: is_reason_def)

lemma error_is_simps [simp]:
  "error_is (Wrap m e) s = error_is e s"
  "error_is (Sentinel t) s = (t = s)"
  "\<not> error_is (ApiError r m) s" "\<not> error_is (Errorf m) s" "\<not> error_is (Panic m) s"
  by (simp_all add: error_is_def)

section \<open>Operations with effects\<close>

text \<open>
  An operation takes the world and returns its result, or the error it ends with, and the
  world it leaves. The world is a type variable: the operator reaches the cluster only
  through the calls of \<open>Kube.env\<close>, which are parameters of the model.
  \<open>attempt m h k\<close> is Go's \<open>x, err := m; if err != nil { h }; k\<close>:
  a panic passes through. \<open>must s m k\<close> is the common case whose handler returns
  \<open>errors.Wrap(err, s)\<close>.
\<close>

type_synonym ('w, 'a) io = "'w \<Rightarrow> (error + 'a) \<times> 'w"

definition ret :: "'a \<Rightarrow> ('w, 'a) io" where
  "ret x = (\<lambda>w. (Inr x, w))"

definition throw :: "error \<Rightarrow> ('w, 'a) io" where
  "throw e = (\<lambda>w. (Inl e, w))"

definition attempt :: "('w, 'a) io \<Rightarrow> (error \<Rightarrow> ('w, 'b) io) \<Rightarrow> ('a \<Rightarrow> ('w, 'b) io) \<Rightarrow> ('w, 'b) io" where
  "attempt m h k = (\<lambda>w. case m w of
       (Inr x, w') \<Rightarrow> k x w'
     | (Inl e, w') \<Rightarrow> if is_panic e then (Inl e, w') else h e w')"

definition must :: "string \<Rightarrow> ('w, 'a) io \<Rightarrow> ('a \<Rightarrow> ('w, 'b) io) \<Rightarrow> ('w, 'b) io" where
  "must s m k = attempt m (\<lambda>e. throw (Wrap s e)) k"

definition plain :: "('w, 'a) io \<Rightarrow> ('a \<Rightarrow> ('w, 'b) io) \<Rightarrow> ('w, 'b) io" where
  "plain m k = attempt m throw k"

definition look :: "('w \<Rightarrow> 'a) \<Rightarrow> ('a \<Rightarrow> ('w, 'b) io) \<Rightarrow> ('w, 'b) io" where
  "look f k = (\<lambda>w. k (f w) w)"

lemmas io_basics [io_defs] = ret_def throw_def attempt_def must_def plain_def look_def

subsection \<open>State properties kept by an operation\<close>

definition keeps :: "('w \<Rightarrow> bool) \<Rightarrow> ('w, 'a) io \<Rightarrow> bool" where
  "keeps I m \<longleftrightarrow> (\<forall>w. I w \<longrightarrow> I (snd (m w)))"

definition yields :: "('w \<Rightarrow> bool) \<Rightarrow> ('w, 'a) io \<Rightarrow> ('a \<Rightarrow> 'w \<Rightarrow> bool) \<Rightarrow> bool" where
  "yields I m Q \<longleftrightarrow> (\<forall>w. I w \<longrightarrow> I (snd (m w)) \<and> (\<forall>x. fst (m w) = Inr x \<longrightarrow> Q x (snd (m w))))"

lemma keepsI: "(\<And>w. I w \<Longrightarrow> I (snd (m w))) \<Longrightarrow> keeps I m"
  by (simp add: keeps_def)

lemma keepsD: "keeps I m \<Longrightarrow> I w \<Longrightarrow> I (snd (m w))"
  by (simp add: keeps_def)

lemma keeps_run: "keeps I m \<Longrightarrow> I w \<Longrightarrow> m w = (r, w') \<Longrightarrow> I w'"
  using keepsD by fastforce

lemma keeps_ret [frame_intros]: "keeps I (ret x)"
  by (simp add: keeps_def ret_def)

lemma keeps_throw [frame_intros]: "keeps I (throw e)"
  by (simp add: keeps_def throw_def)

lemma keeps_attempt [frame_intros]:
  assumes "keeps I m" and "\<And>e. keeps I (h e)" and "\<And>x. keeps I (k x)"
  shows "keeps I (attempt m h k)"
proof (rule keepsI)
  fix w assume I: "I w"
  obtain r w' where m: "m w = (r, w')" by fastforce
  from assms(1) I m have "I w'" by (rule keeps_run)
  with m assms(2,3) show "I (snd (attempt m h k w))"
    by (cases r) (auto simp: attempt_def keeps_def)
qed

lemma keeps_must [frame_intros]:
  "keeps I m \<Longrightarrow> (\<And>x. keeps I (k x)) \<Longrightarrow> keeps I (must s m k)"
  by (simp add: must_def keeps_attempt keeps_throw)

lemma keeps_plain [frame_intros]:
  "keeps I m \<Longrightarrow> (\<And>x. keeps I (k x)) \<Longrightarrow> keeps I (plain m k)"
  by (simp add: plain_def keeps_attempt keeps_throw)

lemma keeps_look [frame_intros]: "(\<And>x. keeps I (k x)) \<Longrightarrow> keeps I (look f k)"
  by (simp add: keeps_def look_def)

lemma keeps_if [frame_intros]:
  "(c \<Longrightarrow> keeps I a) \<Longrightarrow> (\<not> c \<Longrightarrow> keeps I b) \<Longrightarrow> keeps I (if c then a else b)"
  by simp

lemma keeps_option [frame_intros]:
  "(x = None \<Longrightarrow> keeps I a) \<Longrightarrow> (\<And>y. x = Some y \<Longrightarrow> keeps I (b y)) \<Longrightarrow>
   keeps I (case x of None \<Rightarrow> a | Some y \<Rightarrow> b y)"
  by (cases x) auto

lemma keeps_prod [frame_intros]:
  "(\<And>a b. x = (a, b) \<Longrightarrow> keeps I (f a b)) \<Longrightarrow> keeps I (case x of (a, b) \<Rightarrow> f a b)"
  by (cases x) auto

lemma keeps_let [frame_intros]: "(\<And>y. y = x \<Longrightarrow> keeps I (f y)) \<Longrightarrow> keeps I (let y = x in f y)"
  by simp

lemma keeps_list [frame_intros]:
  "(xs = [] \<Longrightarrow> keeps I a) \<Longrightarrow> (\<And>y ys. xs = y # ys \<Longrightarrow> keeps I (b y ys)) \<Longrightarrow>
   keeps I (case xs of [] \<Rightarrow> a | y # ys \<Rightarrow> b y ys)"
  by (cases xs) auto

lemma keeps_sum [frame_intros]:
  "(\<And>e. x = Inl e \<Longrightarrow> keeps I (a e)) \<Longrightarrow> (\<And>y. x = Inr y \<Longrightarrow> keeps I (b y)) \<Longrightarrow>
   keeps I (case x of Inl e \<Rightarrow> a e | Inr y \<Rightarrow> b y)"
  by (cases x) auto

text \<open>An operation's result can carry a fact about the world into what follows.\<close>

lemma keeps_attempt_yields:
  assumes "yields I m Q" and "\<And>e. keeps I (h e)"
    and "\<And>x w. Q x w \<Longrightarrow> I w \<Longrightarrow> I (snd (k x w))"
  shows "keeps I (attempt m h k)"
proof (rule keepsI)
  fix w assume I: "I w"
  obtain r w' where m: "m w = (r, w')" by fastforce
  from assms(1) I m have I': "I w'" and q: "\<And>x. r = Inr x \<Longrightarrow> Q x w'"
    by (force simp: yields_def)+
  show "I (snd (attempt m h k w))"
  proof (cases r)
    case (Inl e)
    with m I' assms(2) show ?thesis by (auto simp: attempt_def keeps_def)
  next
    case (Inr x)
    with m I' q assms(3) show ?thesis by (auto simp: attempt_def)
  qed
qed

lemma keeps_must_result:
  assumes m: "keeps I m" and k: "\<And>x w w'. m w = (Inr x, w') \<Longrightarrow> keeps I (k x)"
  shows "keeps I (must s m k)"
  unfolding must_def
proof (rule keeps_attempt_yields [OF _ keeps_throw])
  show "yields I m (\<lambda>x w'. \<exists>w. m w = (Inr x, w'))"
    using m by (auto simp: yields_def keeps_def prod_eq_iff)
qed (use k in \<open>blast intro: keepsD\<close>)

text \<open>A sequence that ended well: every step of it did.\<close>

lemma must_Inr:
  "must s m k w = (Inr x, w') \<longleftrightarrow> (\<exists>y w1. m w = (Inr y, w1) \<and> k y w1 = (Inr x, w'))"
  by (auto simp: must_def attempt_def throw_def split: prod.splits sum.splits if_splits)

lemma plain_Inr:
  "plain m k w = (Inr x, w') \<longleftrightarrow> (\<exists>y w1. m w = (Inr y, w1) \<and> k y w1 = (Inr x, w'))"
  by (auto simp: plain_def attempt_def throw_def split: prod.splits sum.splits if_splits)

lemma ret_Inr [simp]: "ret x w = (Inr y, w') \<longleftrightarrow> y = x \<and> w' = w"
  by (auto simp: ret_def)

lemma throw_Inr [simp]: "throw e w \<noteq> (Inr y, w')"
  by (simp add: throw_def)

section \<open>Strings\<close>

text \<open>\<open>strings.TrimRight(s, cutset)\<close> for a one character cutset, and friends.\<close>

definition trim_right :: "char \<Rightarrow> string \<Rightarrow> string" where
  "trim_right c s = rev (dropWhile (\<lambda>x. x = c) (rev s))"

fun has_prefix :: "string \<Rightarrow> string \<Rightarrow> bool" where
  "has_prefix [] s = True"
| "has_prefix (p # ps) [] = False"
| "has_prefix (p # ps) (c # cs) = (p = c \<and> has_prefix ps cs)"

definition trim_prefix :: "string \<Rightarrow> string \<Rightarrow> string" where
  "trim_prefix p s = (if has_prefix p s then drop (length p) s else s)"

definition trim_suffix :: "string \<Rightarrow> string \<Rightarrow> string" where
  "trim_suffix p s = rev (trim_prefix (rev p) (rev s))"

fun str_contains :: "string \<Rightarrow> string \<Rightarrow> bool" where
  "str_contains p [] = (p = [])"
| "str_contains p (c # cs) = (has_prefix p (c # cs) \<or> str_contains p cs)"

fun str_join :: "string \<Rightarrow> string list \<Rightarrow> string" where
  "str_join sep [] = []"
| "str_join sep [x] = x"
| "str_join sep (x # y # xs) = x @ sep @ str_join sep (y # xs)"

text \<open>\<open>strings.Split\<close> on a one character separator.\<close>

fun str_split :: "char \<Rightarrow> string \<Rightarrow> string list" where
  "str_split c [] = [[]]"
| "str_split c (x # xs) =
     (if x = c then [] # str_split c xs
      else (case str_split c xs of [] \<Rightarrow> [[x]] | p # ps \<Rightarrow> (x # p) # ps))"

text \<open>\<open>strings.ReplaceAll\<close> of a single character.\<close>

definition replace_char :: "char \<Rightarrow> string \<Rightarrow> string \<Rightarrow> string" where
  "replace_char c r s = concat (map (\<lambda>x. if x = c then r else [x]) s)"

lemma has_prefix_append [simp]: "has_prefix p (p @ s)"
  by (induction p) auto

lemma has_prefix_iff: "has_prefix p s \<longleftrightarrow> (\<exists>t. s = p @ t)"
  by (induction p s rule: has_prefix.induct) auto

lemma trim_prefix_append [simp]: "trim_prefix p (p @ s) = s"
  by (simp add: trim_prefix_def)

lemma trim_right_last: "trim_right c s \<noteq> [] \<Longrightarrow> last (trim_right c s) \<noteq> c"
  using hd_dropWhile [of "\<lambda>x. x = c" "rev s"]
  by (simp add: trim_right_def last_rev)

lemma length_trim_right: "length (trim_right c s) \<le> length s"
  unfolding trim_right_def by (metis length_dropWhile_le length_rev)

lemma trim_right_id: "s = [] \<or> last s \<noteq> c \<Longrightarrow> trim_right c s = s"
  unfolding trim_right_def
  by (cases s rule: rev_cases) auto

lemma trim_right_idem [simp]: "trim_right c (trim_right c s) = trim_right c s"
  using trim_right_id trim_right_last by blast

lemma trim_right_prefix: "\<exists>k. s = trim_right c s @ replicate k c"
proof -
  have "rev s = takeWhile (\<lambda>x. x = c) (rev s) @ dropWhile (\<lambda>x. x = c) (rev s)" by simp
  then have "s = rev (dropWhile (\<lambda>x. x = c) (rev s)) @ rev (takeWhile (\<lambda>x. x = c) (rev s))"
    by (metis rev_append rev_swap)
  moreover have "rev (takeWhile (\<lambda>x. x = c) (rev s)) =
      replicate (length (takeWhile (\<lambda>x. x = c) (rev s))) c"
    by (rule replicate_eqI) (auto dest: set_takeWhileD)
  ultimately show ?thesis unfolding trim_right_def by fastforce
qed

lemma str_split_not_Nil [simp]: "str_split c s \<noteq> []"
  by (induction s) (auto split: list.splits)

lemma str_split_no_sep: "c \<notin> set s \<Longrightarrow> str_split c s = [s]"
  by (induction s) auto

lemma str_split_append:
  "c \<notin> set a \<Longrightarrow> str_split c (a @ c # b) = a # str_split c b"
  by (induction a) auto

text \<open>
  The verb \<open>%q\<close> of \<open>fmt\<close> on ASCII text: double quotes, backslash escapes, control
  characters by letter or in hexadecimal.
\<close>

definition hex_digit :: "nat \<Rightarrow> char" where
  "hex_digit n = ''0123456789abcdef'' ! (n mod 16)"

definition go_quote_char :: "char \<Rightarrow> string" where
  "go_quote_char c =
     (if c = CHR 0x22 then [CHR 0x5C, CHR 0x22]
      else if c = CHR 0x5C then [CHR 0x5C, CHR 0x5C]
      else if c = CHR 0x07 then [CHR 0x5C, CHR ''a'']
      else if c = CHR 0x08 then [CHR 0x5C, CHR ''b'']
      else if c = CHR 0x09 then [CHR 0x5C, CHR ''t'']
      else if c = CHR 0x0A then [CHR 0x5C, CHR ''n'']
      else if c = CHR 0x0B then [CHR 0x5C, CHR ''v'']
      else if c = CHR 0x0C then [CHR 0x5C, CHR ''f'']
      else if c = CHR 0x0D then [CHR 0x5C, CHR ''r'']
      else if of_char c < (32 :: nat) \<or> c = CHR 0x7F
        then [CHR 0x5C, CHR ''x'', hex_digit (of_char c div 16), hex_digit (of_char c)]
      else [c])"

definition go_quote :: "string \<Rightarrow> string" where
  "go_quote s = [CHR 0x22] @ concat (map go_quote_char s) @ [CHR 0x22]"

subsection \<open>\<open>path.Join\<close>\<close>

text \<open>
  \<open>path.Clean\<close> on the slash separated elements: drop empty and \<open>.\<close> elements,
  let \<open>..\<close> remove the element before it (at the root it is dropped, in a relative
  path a leading \<open>..\<close> stays). \<open>path.Join\<close> joins the non-empty elements and
  cleans; when all are empty it is the empty string.
\<close>

fun path_steps :: "bool \<Rightarrow> string list \<Rightarrow> string list \<Rightarrow> string list" where
  "path_steps rooted acc [] = rev acc"
| "path_steps rooted acc (x # xs) =
     (if x = [] \<or> x = ''.'' then path_steps rooted acc xs
      else if x = ''..'' then
        (case acc of
           [] \<Rightarrow> path_steps rooted (if rooted then [] else [''..'']) xs
         | a # as \<Rightarrow> path_steps rooted (if a = ''..'' then ''..'' # acc else as) xs)
      else path_steps rooted (x # acc) xs)"

definition path_clean :: "string \<Rightarrow> string" where
  "path_clean s =
     (let rooted = has_prefix ''/'' s;
          body = str_join ''/'' (path_steps rooted [] (str_split (CHR ''/'') s))
      in if rooted then ''/'' @ body else if body = [] then ''.'' else body)"

definition path_join :: "string list \<Rightarrow> string" where
  "path_join xs =
     (let ne = filter (\<lambda>x. x \<noteq> []) xs in if ne = [] then [] else path_clean (str_join ''/'' ne))"

text \<open>An element of a path that \<open>path.Clean\<close> leaves alone.\<close>

definition plain_element :: "string \<Rightarrow> bool" where
  "plain_element e \<longleftrightarrow> e \<noteq> [] \<and> CHR ''/'' \<notin> set e \<and> e \<noteq> ''.'' \<and> e \<noteq> ''..''"

lemma path_steps_plain:
  "list_all plain_element es \<Longrightarrow> path_steps rooted acc es = rev acc @ es"
  by (induction es arbitrary: acc) (auto simp: plain_element_def)

lemma str_split_join:
  "es \<noteq> [] \<Longrightarrow> list_all plain_element es \<Longrightarrow> str_split (CHR ''/'') (str_join ''/'' es) = es"
  by (induction es rule: induct_list012) (auto simp: str_split_no_sep str_split_append plain_element_def)

lemma path_clean_rooted:
  assumes "es \<noteq> []" and "list_all plain_element es"
  shows "path_clean (''/'' @ str_join ''/'' es) = ''/'' @ str_join ''/'' es"
    and "path_clean (''//'' @ str_join ''/'' es) = ''/'' @ str_join ''/'' es"
  using assms by (simp_all add: path_clean_def Let_def str_split_join path_steps_plain)

lemma path_join_root:
  assumes "plain_element a" and "plain_element b"
  shows "path_join [''/'', a, b] = ''/'' @ str_join ''/'' [a, b]"
  using path_clean_rooted(2) [of "[a, b]"] assms by (auto simp: path_join_def Let_def plain_element_def)

lemma path_join_under:
  assumes "plain_element a" and "plain_element b" and "plain_element c"
  shows "path_join [''/'' @ str_join ''/'' [a, b], c] = ''/'' @ str_join ''/'' [a, b, c]"
  using path_clean_rooted(1) [of "[a, b, c]"] assms by (auto simp: path_join_def Let_def plain_element_def)

section \<open>JSON values\<close>

text \<open>
  Go's \<open>map[string]any\<close> trees. An object is a partial function from keys to values, so
  \<open>maps.Copy\<close> is \<open>(++)\<close> and \<open>delete\<close> stores \<open>None\<close>.
\<close>

datatype json =
    JNull
  | JBool bool
  | JInt int
  | JStr string
  | JList "json list"
  | JObj "string \<Rightarrow> json option"

fun as_object :: "json option \<Rightarrow> (string \<Rightarrow> json option) option" where
  "as_object (Some (JObj m)) = Some m"
| "as_object x = None"

fun as_list :: "json option \<Rightarrow> json list option" where
  "as_list (Some (JList xs)) = Some xs"
| "as_list x = None"

fun as_string :: "json option \<Rightarrow> string option" where
  "as_string (Some (JStr s)) = Some s"
| "as_string x = None"

text \<open>Opaque values: parts of the API's structs the operator copies and never inspects.\<close>

type_synonym opaque = json

end
