(* ===== verification/Kube.thy ===== *)
theory Kube
  imports Prelude
begin

text \<open>
  The API objects the backup and restore controllers work on, with the fields those
  controllers read or write, and the interface of everything that is not in this
  repository: the Kubernetes API (controller-runtime's client), client-go's retry and poll
  helpers, apimachinery's finalizer and condition helpers, command execution in a pod, the
  clock and the feature gates. The interface is the record \<open>env\<close>; every operation
  of the controllers takes one as an argument.
\<close>

section \<open>Objects\<close>

type_synonym key = "string \<times> string" \<comment> \<open>namespace and name\<close>
type_synonym strmap = "string \<Rightarrow> string option"
type_synonym time = int \<comment> \<open>nanoseconds since Go's zero time\<close>

record ObjectMeta =
  Name :: string
  Namespace :: string
  UID :: string
  ResourceVersion :: string
  Generation :: int
  CreationTimestamp :: time
  DeletionTimestamp :: "time option"
  Labels :: strmap
  Annotations :: strmap
  Finalizers :: "string list"

text \<open>\<open>(*metav1.Time).IsZero\<close>: nil or the zero time.\<close>

definition time_IsZero :: "time option \<Rightarrow> bool" where
  "time_IsZero t \<longleftrightarrow> t = None \<or> t = Some 0"

definition Second :: int where
  "Second = 1000000000"

definition object_key :: "ObjectMeta \<Rightarrow> key" where
  "object_key m = (Namespace m, Name m)"

text \<open>Indexing a Go map of strings: a missing key reads as the empty string.\<close>

definition str_at :: "strmap \<Rightarrow> string \<Rightarrow> string" where
  "str_at m k = (case m k of None \<Rightarrow> [] | Some v \<Rightarrow> v)"

definition deref :: "'a option \<Rightarrow> 'a \<Rightarrow> 'a" where
  "deref p d = (case p of None \<Rightarrow> d | Some v \<Rightarrow> v)"

lemma deref_simps [simp]: "deref None d = d" "deref (Some v) d = v"
  by (simp_all add: deref_def)

datatype ConditionStatus = ConditionTrue | ConditionFalse | ConditionUnknown

record Condition =
  ConditionType :: string
  ConditionStatus :: ConditionStatus
  ConditionReason :: string
  ObservedGeneration :: int
  LastTransitionTime :: time

subsection \<open>pgBackRest repositories and jobs in a cluster's spec and status\<close>

record RepoS3 =
  S3Bucket :: string
  S3Endpoint :: string
  S3Region :: string

record PGBackRestRepo =
  RepoNameOf :: string
  RepoAzureContainer :: "string option"
  RepoGCSBucket :: "string option"
  RepoS3Spec :: "RepoS3 option"
  RepoVolume :: "opaque option"

record PGBackRestManualBackup =
  ManualRepoName :: string
  ManualOptions :: "string list"
  ManualInitialDelaySeconds :: int
  ManualEnv :: "opaque list"
  ManualEnvFrom :: "opaque list"

record PostgresClusterDataSource =
  SourceClusterName :: string
  SourceClusterNamespace :: string
  SourceRepoName :: string
  SourceOptions :: "string list"
  SourceTolerations :: "opaque list option"
  SourceEnv :: "opaque list"
  SourceEnvFrom :: "opaque list"

record PGBackRestRestoreSpec =
  RestoreEnabled :: "bool option"
  RestoreDataSource :: "PostgresClusterDataSource option"

record PGBackRestJobStatus =
  JobStatusID :: string
  JobFinished :: bool
  JobStatusCompletionTime :: "time option"
  JobSucceededCount :: int
  JobFailedCount :: int

record PGBackRestStatus =
  ManualBackupStatus :: "PGBackRestJobStatus option"
  RestoreStatus :: "PGBackRestJobStatus option"

record CheckpointConfig =
  CheckpointEnabled :: "bool option"
  CheckpointTimeoutSeconds :: "int option"

record OfflineSnapshotConfig =
  Checkpoint :: "CheckpointConfig option"

record VolumeSnapshotsSpec =
  SnapshotMode :: string
  SnapshotClassName :: string
  OfflineConfig :: "OfflineSnapshotConfig option"
  SnapshotJobs :: "opaque list option" \<comment> \<open>the tolerations of \<open>Jobs\<close>\<close>

record Backups =
  BackupsEnabled :: "bool option"
  BackRestImage :: string
  BackRestGlobal :: strmap
  BackRestRepos :: "PGBackRestRepo list"
  BackRestManual :: "PGBackRestManualBackup option"
  BackRestRestore :: "PGBackRestRestoreSpec option"
  BackRestJobTolerations :: "opaque list option option"
  VolumeSnapshotsOf :: "VolumeSnapshotsSpec option"

text \<open>\<open>Backups.IsVolumeSnapshotsEnabled\<close> and \<open>Backups.IsEnabled\<close>.\<close>

definition IsVolumeSnapshotsEnabled :: "Backups \<Rightarrow> bool" where
  "IsVolumeSnapshotsEnabled b =
     (case VolumeSnapshotsOf b of None \<Rightarrow> False | Some vs \<Rightarrow> SnapshotClassName vs \<noteq> [])"

definition BackupsIsEnabled :: "Backups \<Rightarrow> bool" where
  "BackupsIsEnabled b = (case BackupsEnabled b of None \<Rightarrow> True | Some e \<Rightarrow> e)"

definition DefaultOfflineSnapshotConfig :: OfflineSnapshotConfig where
  "DefaultOfflineSnapshotConfig =
     \<lparr>Checkpoint = Some \<lparr>CheckpointEnabled = Some True, CheckpointTimeoutSeconds = Some 300\<rparr>\<rparr>"

subsection \<open>Clusters\<close>

text \<open>
  A volume claim: the data source a claim is filled from, and its other fields, which the operator
  only copies.
\<close>

record TypedLocalObjectReference =
  APIGroup :: "string option"
  RefKind :: string
  RefName :: string

record PVCSpec =
  ClaimFields :: opaque
  DataSource :: "TypedLocalObjectReference option"

record TablespaceVolume =
  TablespaceName :: string
  TablespaceClaimSpec :: PVCSpec

record PGInstanceSetSpec =
  SetName :: string
  SetDataVolumeClaimSpec :: PVCSpec
  SetWALVolumeClaimSpec :: "PVCSpec option"
  SetTablespaceVolumes :: "TablespaceVolume list"

record PerconaPGCluster =
  pg_meta :: ObjectMeta
  Unmanaged :: "bool option"
  Pause :: "bool option"
  CRVersion :: string
  BackupsOf :: Backups
  AppState :: string
  PatroniVersion :: string
  ClusterConditions :: "Condition list"
  pg_PGBackRest :: "PGBackRestStatus option"
  pg_InstanceSets :: "PGInstanceSetSpec list"
  pg_PostgresVersion :: int
  pg_Image :: string

record PostgresCluster =
  cc_meta :: ObjectMeta
  cc_PGBackRest :: "PGBackRestStatus option"

subsection \<open>Backups and restores\<close>

datatype BackupMethod = BackupMethodPGBackrest | BackupMethodVolumeSnapshot | BackupMethodOther string

datatype PGBackupState =
    BackupNew | BackupStarting | BackupRunning | BackupFailed | BackupSucceeded
  | BackupStateOther string

datatype PGBackupStorageType =
    StorageTypeUnset | PGBackupStorageTypeFilesystem | PGBackupStorageTypeAzure
  | PGBackupStorageTypeGCS | PGBackupStorageTypeS3

definition IsTerminal :: "PGBackupState \<Rightarrow> bool" where
  "IsTerminal s \<longleftrightarrow> s = BackupFailed \<or> s = BackupSucceeded"

lemma IsTerminal_simps [simp]:
  "IsTerminal BackupFailed" "IsTerminal BackupSucceeded" "\<not> IsTerminal BackupNew"
  "\<not> IsTerminal BackupStarting" "\<not> IsTerminal BackupRunning" "\<not> IsTerminal (BackupStateOther x)"
  by (simp_all add: IsTerminal_def)

record SnapshotStatus =
  DataVolumeSnapshotRef :: "string option"
  WALVolumeSnapshotRef :: "string option"
  TablespaceVolumeSnapshotRefs :: "(string \<times> string) list" \<comment> \<open>in the order of iteration\<close>

record PerconaPGBackupSpec =
  SpecPGCluster :: string
  SpecRepoName :: "string option"
  SpecMethod :: "BackupMethod option"
  SpecOptions :: "string list"
  SpecEnv :: "opaque list"
  SpecEnvFrom :: "opaque list"

record PerconaPGBackupStatus =
  JobName :: string
  State :: PGBackupState
  StatusError :: string
  CompletedAt :: "time option"
  Destination :: string
  BackupType :: string
  StorageType :: PGBackupStorageType
  StatusRepo :: "PGBackRestRepo option"
  StatusImage :: string
  BackupName :: string
  BackupSize :: int
  StatusCRVersion :: string
  LatestRestorableTime :: "time option"
  Snapshot :: "SnapshotStatus option"
  Conditions :: "Condition list"

record PerconaPGBackup =
  b_meta :: ObjectMeta
  b_spec :: PerconaPGBackupSpec
  b_status :: PerconaPGBackupStatus

datatype PGRestoreState =
    RestoreNew | RestoreStarting | RestoreRunning | RestoreFailed | RestoreSucceeded
  | RestoreStateOther string

record PerconaPGRestore =
  r_meta :: ObjectMeta
  RestorePGCluster :: string
  RestoreRepoName :: "string option"
  VolumeSnapshotBackupName :: string
  RestoreOptions :: "string list"
  RestoreEnv :: "opaque list"
  RestoreEnvFrom :: "opaque list"
  RestoreState :: PGRestoreState
  RestoreCompletedAt :: "time option"

subsection \<open>Jobs, leases, pods, volumes\<close>

record JobCondition =
  JobConditionType :: string
  JobConditionStatus :: ConditionStatus

text \<open>The pod template of a job with one container, as the restore writes it.\<close>

record JobVolume =
  JobVolumeName :: string
  JobClaimName :: string

record JobVolumeMount =
  JobMountName :: string
  JobMountPath :: string

record JobPodTemplate =
  JobTemplateAnnotations :: "(string \<times> string) list"
  JobContainerName :: string
  JobContainerImage :: string
  JobContainerCommand :: "string list"
  JobContainerRequests :: "(string \<times> string) list"
  JobContainerLimits :: "(string \<times> string) list"
  JobContainerMounts :: "JobVolumeMount list"
  JobPodVolumes :: "JobVolume list"
  JobRestartPolicy :: string
  JobTolerations :: "opaque list"

record Job =
  j_meta :: ObjectMeta
  JobConditions :: "JobCondition list"
  JobCompletionTime :: "time option"
  JobSucceededPods :: int
  JobFailedPods :: int
  JobTemplate :: "JobPodTemplate option"

record Lease =
  l_meta :: ObjectMeta
  HolderIdentity :: "string option"
  AcquireTime :: "time option"

record Pod =
  p_meta :: ObjectMeta
  PodPhase :: string
  PodConditions :: "JobCondition list"

record StatefulSet =
  s_meta :: ObjectMeta
  StsReplicas :: int
  StsReadyReplicas :: int

record PVC =
  v_meta :: ObjectMeta
  v_spec :: PVCSpec

record Endpoints =
  e_meta :: ObjectMeta
  EndpointSubsets :: "opaque list"

record VolumeSnapshotError =
  SnapshotErrorTime :: "time option"
  SnapshotErrorMessage :: "string option"

record VolumeSnapshotStatus =
  ReadyToUse :: "bool option"
  SnapshotError :: "VolumeSnapshotError option"

record VolumeSnapshot =
  vs_meta :: ObjectMeta
  VolumeSnapshotClassName :: string
  PersistentVolumeClaimName :: string
  SnapshotStatusOf :: "VolumeSnapshotStatus option"

text \<open>What \<open>pgbackrest info\<close> prints, as \<open>percona/pgbackrest\<close> reads it.\<close>

record InfoBackup =
  InfoAnnotation :: "(string \<times> string) list" \<comment> \<open>the JSON object, with distinct keys\<close>
  InfoLabel :: string
  InfoType :: string
  InfoDelta :: int
  InfoStart :: time

record InfoStanza =
  StanzaName :: string
  StanzaBackups :: "InfoBackup list"
  StanzaCode :: int
  StanzaMessage :: string

section \<open>The interface to the outside\<close>

text \<open>
  \<open>Exec\<close> runs a command in a pod and gives its error, its standard output and its
  standard error; \<open>PodExec\<close> is the injected \<open>runtime.PodExecutor\<close>, which
  is given namespace, pod, container, standard input and command. \<open>CreateOrUpdate_Lease\<close> is controllerutil's \<open>CreateOrUpdate\<close> on a
  lease with the given key and mutate function. \<open>Patch_...\<close> take the object the merge
  patch is computed from and the changed object, and return the object the server answers.
\<close>

record 'w env =
  time_Now :: "'w \<Rightarrow> time"
  feature_Enabled :: "string \<Rightarrow> bool"
  RetryOnConflict :: "('w, unit) io \<Rightarrow> ('w, unit) io"
  PollUntil :: "('w, bool) io \<Rightarrow> ('w, unit) io"
  multierror_text :: "error list \<Rightarrow> string"
  ContainsFinalizer :: "string list \<Rightarrow> string \<Rightarrow> bool"
  AddFinalizer :: "string list \<Rightarrow> string \<Rightarrow> string list \<times> bool"
  RemoveFinalizer :: "string list \<Rightarrow> string \<Rightarrow> string list \<times> bool"
  FindStatusCondition :: "Condition list \<Rightarrow> string \<Rightarrow> Condition option"
  IsStatusConditionPresentAndEqual :: "Condition list \<Rightarrow> string \<Rightarrow> ConditionStatus \<Rightarrow> bool"
  SetStatusCondition :: "Condition list \<Rightarrow> Condition \<Rightarrow> Condition list"
  RemoveStatusCondition :: "Condition list \<Rightarrow> string \<Rightarrow> Condition list"
  Get_Backup :: "key \<Rightarrow> ('w, PerconaPGBackup) io"
  List_Backups :: "string \<Rightarrow> string \<Rightarrow> ('w, PerconaPGBackup list) io"
  Update_Backup :: "PerconaPGBackup \<Rightarrow> ('w, unit) io"
  StatusUpdate_Backup :: "PerconaPGBackup \<Rightarrow> ('w, unit) io"
  Patch_Backup :: "PerconaPGBackup \<Rightarrow> PerconaPGBackup \<Rightarrow> ('w, PerconaPGBackup) io"
  Get_Cluster :: "key \<Rightarrow> ('w, PerconaPGCluster) io"
  Update_Cluster :: "PerconaPGCluster \<Rightarrow> ('w, unit) io"
  Patch_Cluster :: "PerconaPGCluster \<Rightarrow> PerconaPGCluster \<Rightarrow> ('w, PerconaPGCluster) io"
  Get_Crunchy :: "key \<Rightarrow> ('w, PostgresCluster) io"
  StatusUpdate_Crunchy :: "PostgresCluster \<Rightarrow> ('w, unit) io"
  StatusPatch_Crunchy :: "PostgresCluster \<Rightarrow> PostgresCluster \<Rightarrow> ('w, unit) io"
  Get_Restore :: "key \<Rightarrow> ('w, PerconaPGRestore) io"
  StatusUpdate_Restore :: "PerconaPGRestore \<Rightarrow> ('w, unit) io"
  Patch_Restore :: "PerconaPGRestore \<Rightarrow> PerconaPGRestore \<Rightarrow> ('w, PerconaPGRestore) io"
  Get_Job :: "key \<Rightarrow> ('w, Job) io"
  List_Jobs :: "string \<Rightarrow> strmap \<Rightarrow> ('w, Job list) io"
  Update_Job :: "Job \<Rightarrow> ('w, unit) io"
  Delete_Job :: "Job \<Rightarrow> ('w, unit) io"
  Get_Lease :: "key \<Rightarrow> ('w, Lease) io"
  CreateOrUpdate_Lease :: "key \<Rightarrow> (Lease \<Rightarrow> ('w, Lease) io) \<Rightarrow> ('w, unit) io"
  Delete_Lease :: "Lease \<Rightarrow> ('w, unit) io"
  List_InstancePods :: "string \<Rightarrow> string \<Rightarrow> ('w, Pod list) io"
  List_Pods :: "string \<Rightarrow> strmap \<Rightarrow> ('w, Pod list) io"
  Get_StatefulSet :: "key \<Rightarrow> ('w, StatefulSet) io"
  Patch_StatefulSet :: "StatefulSet \<Rightarrow> StatefulSet \<Rightarrow> ('w, unit) io"
  List_PVCs :: "string \<Rightarrow> strmap \<Rightarrow> ('w, PVC list) io"
  Create_VolumeSnapshot :: "VolumeSnapshot \<Rightarrow> ('w, unit) io"
  Get_VolumeSnapshot :: "key \<Rightarrow> ('w, VolumeSnapshot) io"
  SetControllerReference :: "PerconaPGBackup \<Rightarrow> VolumeSnapshot \<Rightarrow> error + VolumeSnapshot"
  NewExecClient :: "('w, unit) io"
  Exec :: "Pod \<Rightarrow> string list \<Rightarrow> ('w, error option \<times> string \<times> string) io"
  json_Unmarshal_Info :: "string \<Rightarrow> error + InfoStanza list"
  PodExec :: "string \<Rightarrow> string \<Rightarrow> string \<Rightarrow> string \<Rightarrow> string list \<Rightarrow> ('w, error option \<times> string \<times> string) io"
  LatestCommitGetter :: "PerconaPGCluster \<Rightarrow> PerconaPGBackup \<Rightarrow> ('w, time option) io"
  time_RFC3339 :: "time \<Rightarrow> string"
  volumesnapshot_GroupName :: string
  SetControllerReference_Job :: "PerconaPGRestore \<Rightarrow> Job \<Rightarrow> error + Job"
  List_Restores :: "string \<Rightarrow> ('w, PerconaPGRestore list) io"
  List_StatefulSets :: "string \<Rightarrow> strmap \<Rightarrow> ('w, StatefulSet list) io"
  Get_PVC :: "key \<Rightarrow> ('w, PVC) io"
  Create_PVC :: "PVC \<Rightarrow> ('w, unit) io"
  Delete_PVC :: "PVC \<Rightarrow> ('w, unit) io"
  Create_Job :: "Job \<Rightarrow> ('w, unit) io"
  DeleteForeground_Job :: "key \<Rightarrow> ('w, unit) io"
  Get_Endpoints :: "key \<Rightarrow> ('w, Endpoints) io"
  Delete_Endpoints :: "Endpoints \<Rightarrow> ('w, unit) io"

text \<open>\<open>client.IgnoreNotFound\<close> on the error of a call whose result is not used.\<close>

definition ignore_not_found :: "('w, unit) io \<Rightarrow> ('w, unit) io" where
  "ignore_not_found m = attempt m (\<lambda>e. if IsNotFound e then ret () else throw e) ret"

subsection \<open>Documented behaviour the properties rely on\<close>

text \<open>
  \<open>retry.RetryOnConflict\<close> runs its function, and runs it again only while the
  error is a conflict: its outcome is the outcome of the last of one or more runs, all
  earlier ones having ended with a conflict.
\<close>

inductive conflict_runs :: "('w, unit) io \<Rightarrow> 'w \<Rightarrow> (error + unit) \<times> 'w \<Rightarrow> bool" for f where
  last_run: "conflict_runs f w (f w)"
| again: "f w = (Inl e, w') \<Longrightarrow> IsConflict e \<Longrightarrow> conflict_runs f w' r \<Longrightarrow> conflict_runs f w r"

definition retry_law :: "'w env \<Rightarrow> bool" where
  "retry_law E \<longleftrightarrow> (\<forall>f w. conflict_runs f w (RetryOnConflict E f w))"

text \<open>
  The finalizer helpers of controllerutil and the condition helpers of apimachinery.
\<close>

definition finalizer_laws :: "'w env \<Rightarrow> bool" where
  "finalizer_laws E \<longleftrightarrow>
     (\<forall>fs f. ContainsFinalizer E fs f = (f \<in> set fs)) \<and>
     (\<forall>fs f. set (fst (AddFinalizer E fs f)) = insert f (set fs) \<and> snd (AddFinalizer E fs f) = (f \<notin> set fs)) \<and>
     (\<forall>fs f. set (fst (RemoveFinalizer E fs f)) = set fs - {f} \<and> snd (RemoveFinalizer E fs f) = (f \<in> set fs))"

definition condition_laws :: "'w env \<Rightarrow> bool" where
  "condition_laws E \<longleftrightarrow>
     (\<forall>cs t. FindStatusCondition E cs t = find (\<lambda>c. ConditionType c = t) cs) \<and>
     (\<forall>cs t s. IsStatusConditionPresentAndEqual E cs t s =
         (map_option ConditionStatus (FindStatusCondition E cs t) = Some s)) \<and>
     (\<forall>cs c. map_option ConditionStatus (FindStatusCondition E (SetStatusCondition E cs c) (ConditionType c)) =
         Some (ConditionStatus c)) \<and>
     (\<forall>cs t. FindStatusCondition E (RemoveStatusCondition E cs t) t = None)"

lemma conflict_runs_keeps:
  assumes "conflict_runs f w r" and "keeps I f" and "I w"
  shows "I (snd r)"
  using assms
proof (induction rule: conflict_runs.induct)
  case (last_run w)
  then show ?case by (simp add: keepsD)
next
  case (again w e w' r)
  from again.prems(1,2) again.hyps(1) have "I w'" by (rule keeps_run)
  with again.prems(1) show ?case by (rule again.IH)
qed

lemma keeps_RetryOnConflict:
  assumes "retry_law E" and "keeps I f"
  shows "keeps I (RetryOnConflict E f)"
proof (rule keepsI)
  fix w assume "I w"
  from assms(1) have "conflict_runs f w (RetryOnConflict E f w)"
    by (simp add: retry_law_def)
  from this assms(2) \<open>I w\<close> show "I (snd (RetryOnConflict E f w))"
    by (rule conflict_runs_keeps)
qed

text \<open>
  A retried function that ended well ended well on its last run, from a world that the
  earlier runs left.
\<close>

lemma conflict_runs_inv:
  assumes "conflict_runs f w r" and "keeps I f" and "I w"
  shows "\<exists>w0. I w0 \<and> f w0 = r"
  using assms
proof (induction rule: conflict_runs.induct)
  case (last_run w)
  then show ?case by blast
next
  case (again w e w1 r)
  from again.prems(1,2) again.hyps(1) have "I w1" by (rule keeps_run)
  with again.prems(1) show ?case by (rule again.IH)
qed

lemma keeps_ignore_not_found [frame_intros]: "keeps I m \<Longrightarrow> keeps I (ignore_not_found m)"
  unfolding ignore_not_found_def by (intro frame_intros)

text \<open>
  \<open>wait.PollUntilContextTimeout\<close> with an immediate first run: it ends well once the
  condition holds, with the condition's error, or with the deadline.
\<close>

inductive poll_runs :: "('w, bool) io \<Rightarrow> 'w \<Rightarrow> (error + unit) \<times> 'w \<Rightarrow> bool" for c where
  poll_done: "c w = (Inr True, w') \<Longrightarrow> poll_runs c w (Inr (), w')"
| poll_error: "c w = (Inl e, w') \<Longrightarrow> poll_runs c w (Inl e, w')"
| poll_deadline: "c w = (Inr False, w') \<Longrightarrow> poll_runs c w (Inl (Sentinel ''context deadline exceeded''), w')"
| poll_again: "c w = (Inr False, w') \<Longrightarrow> poll_runs c w' r \<Longrightarrow> poll_runs c w r"

definition poll_law :: "'w env \<Rightarrow> bool" where
  "poll_law E \<longleftrightarrow> (\<forall>c w. poll_runs c w (PollUntil E c w))"

lemma poll_runs_keeps:
  assumes "poll_runs c w r" and "keeps I c" and "I w"
  shows "I (snd r)"
  using assms
proof (induction rule: poll_runs.induct)
  case (poll_again w w' r)
  from poll_again.prems(1,2) poll_again.hyps(1) have "I w'" by (rule keeps_run)
  with poll_again.prems(1) show ?case by (rule poll_again.IH)
qed (auto dest: keeps_run)

lemma keeps_PollUntil:
  assumes "poll_law E" and "keeps I c"
  shows "keeps I (PollUntil E c)"
  using assms poll_runs_keeps by (intro keepsI) (fastforce simp: poll_law_def)

lemma poll_runs_ok:
  assumes "poll_runs c w r" and "fst r = Inr ()"
  shows "\<exists>w0. c w0 = (Inr True, snd r)"
  using assms by (induction rule: poll_runs.induct) auto

subsection \<open>State the API calls leave alone\<close>

text \<open>
  \<open>calls_keep E I\<close>: every call but the status update of a backup, the status update
  of a restore and the deletion of a volume claim keeps \<open>I\<close>, and the helpers that call back keep what their argument keeps.
  The world stands for everything outside the operator, so a call may also let other writers
  proceed; \<open>I\<close> then is a property that none of them breaks.
\<close>

definition calls_keep :: "'w env \<Rightarrow> ('w \<Rightarrow> bool) \<Rightarrow> bool" where
  "calls_keep E I \<longleftrightarrow>
     (\<forall>k. keeps I (Get_Backup E k)) \<and> (\<forall>n c. keeps I (List_Backups E n c)) \<and>
     (\<forall>b. keeps I (Update_Backup E b)) \<and> (\<forall>a b. keeps I (Patch_Backup E a b)) \<and>
     (\<forall>k. keeps I (Get_Cluster E k)) \<and> (\<forall>c. keeps I (Update_Cluster E c)) \<and>
     (\<forall>a b. keeps I (Patch_Cluster E a b)) \<and> (\<forall>k. keeps I (Get_Crunchy E k)) \<and>
     (\<forall>c. keeps I (StatusUpdate_Crunchy E c)) \<and> (\<forall>a b. keeps I (StatusPatch_Crunchy E a b)) \<and>
     (\<forall>k. keeps I (Get_Restore E k)) \<and> (\<forall>a b. keeps I (Patch_Restore E a b)) \<and>
     (\<forall>k. keeps I (Get_Job E k)) \<and> (\<forall>n l. keeps I (List_Jobs E n l)) \<and>
     (\<forall>j. keeps I (Update_Job E j)) \<and> (\<forall>j. keeps I (Delete_Job E j)) \<and>
     (\<forall>k. keeps I (Get_Lease E k)) \<and> (\<forall>l. keeps I (Delete_Lease E l)) \<and>
     (\<forall>k f. (\<forall>l. keeps I (f l)) \<longrightarrow> keeps I (CreateOrUpdate_Lease E k f)) \<and>
     (\<forall>n c. keeps I (List_InstancePods E n c)) \<and> (\<forall>n l. keeps I (List_Pods E n l)) \<and>
     (\<forall>k. keeps I (Get_StatefulSet E k)) \<and> (\<forall>a b. keeps I (Patch_StatefulSet E a b)) \<and>
     (\<forall>n l. keeps I (List_PVCs E n l)) \<and> (\<forall>v. keeps I (Create_VolumeSnapshot E v)) \<and>
     (\<forall>k. keeps I (Get_VolumeSnapshot E k)) \<and> keeps I (NewExecClient E) \<and>
     (\<forall>p c. keeps I (Exec E p c)) \<and> (\<forall>n p c i a. keeps I (PodExec E n p c i a)) \<and>
     (\<forall>c b. keeps I (LatestCommitGetter E c b)) \<and>
     (\<forall>n. keeps I (List_Restores E n)) \<and> (\<forall>n l. keeps I (List_StatefulSets E n l)) \<and>
     (\<forall>k. keeps I (Get_PVC E k)) \<and> (\<forall>p. keeps I (Create_PVC E p)) \<and>
     (\<forall>j. keeps I (Create_Job E j)) \<and> (\<forall>k. keeps I (DeleteForeground_Job E k)) \<and>
     (\<forall>k. keeps I (Get_Endpoints E k)) \<and> (\<forall>e. keeps I (Delete_Endpoints E e))"

lemma calls_keepD:
  assumes "calls_keep E I"
  shows "keeps I (Get_Backup E k)" and "keeps I (List_Backups E n c)"
    and "keeps I (Update_Backup E b)" and "keeps I (Patch_Backup E b b')"
    and "keeps I (Get_Cluster E k)" and "keeps I (Update_Cluster E pc)"
    and "keeps I (Patch_Cluster E pc pc')" and "keeps I (Get_Crunchy E k)"
    and "keeps I (StatusUpdate_Crunchy E cc)" and "keeps I (StatusPatch_Crunchy E cc cc')"
    and "keeps I (Get_Restore E k)" and "keeps I (Patch_Restore E rs rs')"
    and "keeps I (Get_Job E k)" and "keeps I (List_Jobs E n l)"
    and "keeps I (Update_Job E j)" and "keeps I (Delete_Job E j)"
    and "keeps I (Get_Lease E k)" and "keeps I (Delete_Lease E le)"
    and "(\<And>x. keeps I (f x)) \<Longrightarrow> keeps I (CreateOrUpdate_Lease E k f)"
    and "keeps I (List_InstancePods E n c)" and "keeps I (List_Pods E n l)"
    and "keeps I (Get_StatefulSet E k)" and "keeps I (Patch_StatefulSet E s s')"
    and "keeps I (List_PVCs E n l)" and "keeps I (Create_VolumeSnapshot E v)"
    and "keeps I (Get_VolumeSnapshot E k)" and "keeps I (NewExecClient E)"
    and "keeps I (Exec E p a)" and "keeps I (PodExec E n c i h a)"
    and "keeps I (LatestCommitGetter E pc b)"
    and "keeps I (List_Restores E n)" and "keeps I (List_StatefulSets E n l)"
    and "keeps I (Get_PVC E k)" and "keeps I (Create_PVC E pvc)"
    and "keeps I (Create_Job E j)" and "keeps I (DeleteForeground_Job E k)"
    and "keeps I (Get_Endpoints E k)" and "keeps I (Delete_Endpoints E ep)"
  using assms unfolding calls_keep_def by (simp_all del: split_paired_All)

text \<open>The frame of the whole interface.\<close>

definition frame_of :: "'w env \<Rightarrow> ('w \<Rightarrow> bool) \<Rightarrow> bool" where
  "frame_of E I \<longleftrightarrow> retry_law E \<and> poll_law E \<and> calls_keep E I"

lemma frame_ofD:
  assumes "frame_of E I"
  shows "keeps I f \<Longrightarrow> keeps I (RetryOnConflict E f)"
    and "keeps I c \<Longrightarrow> keeps I (PollUntil E c)"
    and "calls_keep E I"
  using assms keeps_RetryOnConflict keeps_PollUntil by (auto simp: frame_of_def)

lemmas frameD = frame_ofD(1,2) calls_keepD [OF frame_ofD(3)]

end
