(* ===== verification/Naming.thy ===== *)
theory Naming
  imports Kube "HOL-Library.Word"
begin

unbundle bit_operations_syntax

text \<open>
  The package \<open>internal/naming\<close> and \<open>percona/naming\<close>: the names, labels and
  selectors of every object a cluster owns, and the DNS safe names. Names are functions of
  the cluster's metadata, label sets are maps. \<open>labels.Merge\<close>,
  \<open>rand.SafeEncodeString\<close> (apimachinery) and the random suffix of generated names
  are parameters.
\<close>

section \<open>Prefixes, annotations and labels\<close>

definition PrefixPercona :: string where
  "PrefixPercona = ''percona.com/''"

definition PrefixPerconaInternal :: string where
  "PrefixPerconaInternal = ''internal.'' @ PrefixPercona"

definition PrefixPerconaPGV2 :: string where
  "PrefixPerconaPGV2 = ''pgv2.percona.com/''"

definition PrefixCrunchy :: string where
  "PrefixCrunchy = ''postgres-operator.crunchydata.com/''"

definition labelPrefix :: string where
  "labelPrefix = ''postgres-operator.crunchydata.com/''"

definition PGBackRestBackup :: string where
  "PGBackRestBackup = labelPrefix @ ''pgbackrest-backup''"

definition PGBackRestRestore :: string where
  "PGBackRestRestore = labelPrefix @ ''pgbackrest-restore''"

definition AnnotationPGBackrestBackup :: string where
  "AnnotationPGBackrestBackup = PrefixPerconaPGV2 @ ''pgbackrest-backup''"

definition AnnotationPGBackrestBackupJobName :: string where
  "AnnotationPGBackrestBackupJobName = AnnotationPGBackrestBackup @ ''-job-name''"

definition AnnotationPGBackrestBackupJobType :: string where
  "AnnotationPGBackrestBackupJobType = AnnotationPGBackrestBackup @ ''-job-type''"

definition AnnotationBackupInProgress :: string where
  "AnnotationBackupInProgress = PrefixPerconaPGV2 @ ''backup-in-progress''"

definition AnnotationClusterBootstrapRestore :: string where
  "AnnotationClusterBootstrapRestore = PrefixPerconaPGV2 @ ''cluster-bootstrap-restore''"

definition AnnotationInstanceSuspended :: string where
  "AnnotationInstanceSuspended = PrefixPerconaPGV2 @ ''instance-suspended''"

definition FinalizerDeleteBackup :: string where
  "FinalizerDeleteBackup = PrefixPerconaInternal @ ''delete-backup''"

definition FinalizerSnapshotInProgress :: string where
  "FinalizerSnapshotInProgress = PrefixPercona @ ''snapshot-in-progress''"

definition FinalizerKeepJob :: string where
  "FinalizerKeepJob = PrefixPerconaInternal @ ''keep-job''"

definition AnnotationSnapshotRestore :: string where
  "AnnotationSnapshotRestore = PrefixPerconaPGV2 @ ''snapshot-restore''"

definition AnnotationPVCsPreparedAt :: string where
  "AnnotationPVCsPreparedAt = PrefixPerconaPGV2 @ ''pvcs-prepared-at''"

definition FinalizerSnapshotRestore :: string where
  "FinalizerSnapshotRestore = PrefixPerconaInternal @ ''snapshot-restore''"

definition KindVolumeSnapshot :: string where
  "KindVolumeSnapshot = ''VolumeSnapshot''"

definition FinalizerDeleteRestore :: string where
  "FinalizerDeleteRestore = PrefixPerconaInternal @ ''delete-restore''"

definition ConditionClusterIsReadyForBackup :: string where
  "ConditionClusterIsReadyForBackup = ''ReadyForBackup''"

definition LabelCluster :: string where
  "LabelCluster = labelPrefix @ ''cluster''"

definition LabelInstance :: string where
  "LabelInstance = labelPrefix @ ''instance''"

definition LabelInstanceSet :: string where
  "LabelInstanceSet = labelPrefix @ ''instance-set''"

definition LabelPatroni :: string where
  "LabelPatroni = labelPrefix @ ''patroni''"

definition LabelRole :: string where
  "LabelRole = labelPrefix @ ''role''"

definition LabelData :: string where
  "LabelData = labelPrefix @ ''data''"

definition LabelMoveJob :: string where
  "LabelMoveJob = labelPrefix @ ''move-job''"

definition LabelPGBackRest :: string where
  "LabelPGBackRest = labelPrefix @ ''pgbackrest''"

definition LabelPGBackRestBackup :: string where
  "LabelPGBackRestBackup = labelPrefix @ ''pgbackrest-backup''"

definition LabelPGBackRestConfig :: string where
  "LabelPGBackRestConfig = labelPrefix @ ''pgbackrest-config''"

definition LabelPGBackRestDedicated :: string where
  "LabelPGBackRestDedicated = labelPrefix @ ''pgbackrest-dedicated''"

definition LabelPGBackRestRepo :: string where
  "LabelPGBackRestRepo = labelPrefix @ ''pgbackrest-repo''"

definition LabelPGBackRestRepoVolume :: string where
  "LabelPGBackRestRepoVolume = labelPrefix @ ''pgbackrest-volume''"

definition LabelPGBackRestCronJob :: string where
  "LabelPGBackRestCronJob = labelPrefix @ ''pgbackrest-cronjob''"

definition LabelPGBackRestRestore :: string where
  "LabelPGBackRestRestore = labelPrefix @ ''pgbackrest-restore''"

definition LabelPGBackRestRestoreConfig :: string where
  "LabelPGBackRestRestoreConfig = labelPrefix @ ''pgbackrest-restore-config''"

definition LabelPostgresUser :: string where
  "LabelPostgresUser = labelPrefix @ ''pguser''"

definition LabelStandalonePGAdmin :: string where
  "LabelStandalonePGAdmin = labelPrefix @ ''pgadmin''"

definition LabelCrunchyBridgeClusterPostgresRole :: string where
  "LabelCrunchyBridgeClusterPostgresRole = labelPrefix @ ''cbc-pgrole''"

definition RolePatroniReplica :: string where
  "RolePatroniReplica = ''replica''"

definition RolePGBouncer :: string where
  "RolePGBouncer = ''pgbouncer''"

definition RolePGAdmin :: string where
  "RolePGAdmin = ''pgadmin''"

definition RolePostgresData :: string where
  "RolePostgresData = ''pgdata''"

definition RolePostgresWAL :: string where
  "RolePostgresWAL = ''pgwal''"

definition RoleTablespace :: string where
  "RoleTablespace = ''tablespace''"

definition RoleCrunchyBridgeClusterPostgresRole :: string where
  "RoleCrunchyBridgeClusterPostgresRole = ''cbc-pgrole''"

definition DataPGAdmin :: string where
  "DataPGAdmin = ''pgadmin''"

definition DataPGBackRest :: string where
  "DataPGBackRest = ''pgbackrest''"

definition ContainerDatabase :: string where
  "ContainerDatabase = ''database''"

definition DefaultContainerAnnotation :: string where
  "DefaultContainerAnnotation = ''kubectl.kubernetes.io/default-container''"

definition DataPostgres :: string where
  "DataPostgres = ''postgres''"

definition BackupManual :: string where
  "BackupManual = ''manual''"

definition BackupReplicaCreate :: string where
  "BackupReplicaCreate = ''replica-create''"

definition BackupScheduled :: string where
  "BackupScheduled = ''scheduled''"

lemmas const_defs [naming_defs] =
  PrefixPercona_def PrefixPerconaInternal_def PrefixPerconaPGV2_def PrefixCrunchy_def
  labelPrefix_def PGBackRestBackup_def PGBackRestRestore_def AnnotationPGBackrestBackup_def
  AnnotationPGBackrestBackupJobName_def AnnotationPGBackrestBackupJobType_def AnnotationBackupInProgress_def AnnotationClusterBootstrapRestore_def
  AnnotationInstanceSuspended_def FinalizerDeleteBackup_def FinalizerSnapshotInProgress_def FinalizerKeepJob_def
  FinalizerDeleteRestore_def AnnotationSnapshotRestore_def AnnotationPVCsPreparedAt_def
  FinalizerSnapshotRestore_def KindVolumeSnapshot_def ContainerDatabase_def DefaultContainerAnnotation_def ConditionClusterIsReadyForBackup_def LabelCluster_def LabelInstance_def
  LabelInstanceSet_def LabelPatroni_def LabelRole_def LabelData_def
  LabelMoveJob_def LabelPGBackRest_def LabelPGBackRestBackup_def LabelPGBackRestConfig_def
  LabelPGBackRestDedicated_def LabelPGBackRestRepo_def LabelPGBackRestRepoVolume_def LabelPGBackRestCronJob_def
  LabelPGBackRestRestore_def LabelPGBackRestRestoreConfig_def LabelPostgresUser_def LabelStandalonePGAdmin_def
  LabelCrunchyBridgeClusterPostgresRole_def RolePatroniReplica_def RolePGBouncer_def RolePGAdmin_def
  RolePostgresData_def RolePostgresWAL_def RoleTablespace_def RoleCrunchyBridgeClusterPostgresRole_def
  DataPGAdmin_def DataPGBackRest_def DataPostgres_def BackupManual_def
  BackupReplicaCreate_def BackupScheduled_def

definition replacePrefix :: "string \<Rightarrow> string \<Rightarrow> string \<Rightarrow> string" where
  "replacePrefix s oldPrefix newPrefix =
     (if has_prefix oldPrefix s then newPrefix @ drop (length oldPrefix) s else s)"

definition ToCrunchyAnnotation :: "string \<Rightarrow> string" where
  "ToCrunchyAnnotation annotation = replacePrefix annotation PrefixPerconaPGV2 PrefixCrunchy"

definition SuggestedPrefix :: string where
  "SuggestedPrefix = ''suggested-pgbackrest-''"

definition SuggestedPGBackRestRepoVolumeSizeAnnotation :: "string \<Rightarrow> string" where
  "SuggestedPGBackRestRepoVolumeSizeAnnotation repoName = SuggestedPrefix @ repoName @ ''-pvc-size''"

definition PGBackRestRepoFromVolumeSizeAnnotation :: "string \<Rightarrow> string \<times> bool" where
  "PGBackRestRepoFromVolumeSizeAnnotation annotation =
     (if \<not> has_prefix SuggestedPrefix annotation \<or> \<not> has_prefix (rev ''-pvc-size'') (rev annotation)
      then ([], False)
      else let repoName = trim_suffix ''-pvc-size'' (trim_prefix SuggestedPrefix annotation)
           in (repoName, repoName \<noteq> []))"

section \<open>Names\<close>

definition mk_meta :: "string \<Rightarrow> string \<Rightarrow> ObjectMeta" where
  "mk_meta ns n = \<lparr>Name = n, Namespace = ns, UID = [], ResourceVersion = [], Generation = 0,
     CreationTimestamp = 0, DeletionTimestamp = None, Labels = Map.empty,
     Annotations = Map.empty, Finalizers = []\<rparr>"

abbreviation cluster_ns :: "'a PostgresCluster_scheme \<Rightarrow> string" where
  "cluster_ns c \<equiv> Namespace (cc_meta c)"

abbreviation cluster_name :: "'a PostgresCluster_scheme \<Rightarrow> string" where
  "cluster_name c \<equiv> Name (cc_meta c)"

definition AsObjectKey :: "ObjectMeta \<Rightarrow> key" where
  "AsObjectKey m = (Namespace m, Name m)"

definition ClusterConfigMap :: "'a PostgresCluster_scheme \<Rightarrow> ObjectMeta" where
  "ClusterConfigMap cluster = mk_meta (cluster_ns cluster) (cluster_name cluster @ ''-config'')"

definition ClusterInstanceRBAC :: "'a PostgresCluster_scheme \<Rightarrow> ObjectMeta" where
  "ClusterInstanceRBAC cluster = mk_meta (cluster_ns cluster) (cluster_name cluster @ ''-instance'')"

definition ClusterPGAdmin :: "'a PostgresCluster_scheme \<Rightarrow> ObjectMeta" where
  "ClusterPGAdmin cluster = mk_meta (cluster_ns cluster) (cluster_name cluster @ ''-pgadmin'')"

definition ClusterPGBouncer :: "'a PostgresCluster_scheme \<Rightarrow> ObjectMeta" where
  "ClusterPGBouncer cluster = mk_meta (cluster_ns cluster) (cluster_name cluster @ ''-pgbouncer'')"

definition ClusterPodService :: "'a PostgresCluster_scheme \<Rightarrow> ObjectMeta" where
  "ClusterPodService cluster = mk_meta (cluster_ns cluster) (cluster_name cluster @ ''-pods'')"

definition ClusterPrimaryService :: "'a PostgresCluster_scheme \<Rightarrow> ObjectMeta" where
  "ClusterPrimaryService cluster = mk_meta (cluster_ns cluster) (cluster_name cluster @ ''-primary'')"

definition ClusterReplicaService :: "'a PostgresCluster_scheme \<Rightarrow> ObjectMeta" where
  "ClusterReplicaService cluster = mk_meta (cluster_ns cluster) (cluster_name cluster @ ''-replicas'')"

definition ClusterDedicatedSnapshotVolume :: "'a PostgresCluster_scheme \<Rightarrow> ObjectMeta" where
  "ClusterDedicatedSnapshotVolume cluster = mk_meta (cluster_ns cluster) (cluster_name cluster @ ''-snapshot'')"

text \<open>Names with a random suffix take the four characters of \<open>rand.String(4)\<close>.\<close>

definition ClusterVolumeSnapshot :: "string \<Rightarrow> 'a PostgresCluster_scheme \<Rightarrow> ObjectMeta" where
  "ClusterVolumeSnapshot random cluster =
     mk_meta (cluster_ns cluster) (cluster_name cluster @ ''-pgdata-snapshot-'' @ random)"

definition GenerateInstance :: "string \<Rightarrow> 'a PostgresCluster_scheme \<Rightarrow> string \<Rightarrow> ObjectMeta" where
  "GenerateInstance random cluster setName =
     mk_meta (cluster_ns cluster) (cluster_name cluster @ ''-'' @ setName @ ''-'' @ random)"

text \<open>
  The FNV-1 and FNV-1a hashes of \<open>hash/fnv\<close>, and \<open>fmt.Sprint\<close> of an
  unsigned number.
\<close>

definition byte_word :: "char \<Rightarrow> 32 word" where
  "byte_word c = word_of_nat (of_char c)"

definition fnv32 :: "string \<Rightarrow> 32 word" where
  "fnv32 s = fold (\<lambda>c h. (h * 16777619) XOR byte_word c) s 2166136261"

definition fnv32a :: "string \<Rightarrow> 32 word" where
  "fnv32a s = fold (\<lambda>c h. (h XOR byte_word c) * 16777619) s 2166136261"

fun sprint_nat :: "nat \<Rightarrow> string" where
  "sprint_nat n = (if n < 10 then [char_of (48 + n)] else sprint_nat (n div 10) @ [char_of (48 + n mod 10)])"

declare sprint_nat.simps [simp del]

definition sprint_int :: "int \<Rightarrow> string" where
  "sprint_int i = (if i < 0 then ''-'' @ sprint_nat (nat (- i)) else sprint_nat (nat i))"

text \<open>
  \<open>s[:4]\<close> panics when \<open>s\<close> is shorter: \<open>GenerateStartupInstance\<close> and
  \<open>SafeDNSUniqueName\<close> below are partial.
\<close>

definition slice4 :: "string \<Rightarrow> string option" where
  "slice4 s = (if length s < 4 then None else Some (take 4 s))"

definition GenerateStartupInstance ::
    "(string \<Rightarrow> string) \<Rightarrow> 'a PostgresCluster_scheme \<Rightarrow> string \<Rightarrow> ObjectMeta option" where
  "GenerateStartupInstance safeEncode cluster setName =
     (case slice4 (safeEncode (sprint_nat (unat (fnv32 (cluster_name cluster @ setName))))) of
        None \<Rightarrow> None
      | Some suffix \<Rightarrow>
          Some (mk_meta (cluster_ns cluster) (cluster_name cluster @ ''-'' @ setName @ ''-'' @ suffix)))"

definition InstanceConfigMap :: "ObjectMeta \<Rightarrow> ObjectMeta" where
  "InstanceConfigMap inst = mk_meta (Namespace inst) (Name inst @ ''-config'')"

definition InstanceCertificates :: "ObjectMeta \<Rightarrow> ObjectMeta" where
  "InstanceCertificates inst = mk_meta (Namespace inst) (Name inst @ ''-certs'')"

definition InstanceSet :: "'a PostgresCluster_scheme \<Rightarrow> string \<Rightarrow> ObjectMeta" where
  "InstanceSet cluster setName =
     mk_meta (cluster_ns cluster) (cluster_name cluster @ ''-set-'' @ setName)"

definition InstancePostgresDataVolume :: "ObjectMeta \<Rightarrow> ObjectMeta" where
  "InstancePostgresDataVolume inst = mk_meta (Namespace inst) (Name inst @ ''-pgdata'')"

definition InstanceTablespaceDataVolume :: "ObjectMeta \<Rightarrow> string \<Rightarrow> ObjectMeta" where
  "InstanceTablespaceDataVolume inst tablespaceName =
     mk_meta (Namespace inst) (Name inst @ ''-'' @ tablespaceName @ ''-tablespace'')"

definition InstancePostgresWALVolume :: "ObjectMeta \<Rightarrow> ObjectMeta" where
  "InstancePostgresWALVolume inst = mk_meta (Namespace inst) (Name inst @ ''-pgwal'')"

definition MonitoringUserSecret :: "'a PostgresCluster_scheme \<Rightarrow> ObjectMeta" where
  "MonitoringUserSecret cluster = mk_meta (cluster_ns cluster) (cluster_name cluster @ ''-monitoring'')"

definition ExporterWebConfigMap :: "'a PostgresCluster_scheme \<Rightarrow> ObjectMeta" where
  "ExporterWebConfigMap cluster = mk_meta (cluster_ns cluster) (cluster_name cluster @ ''-exporter-web-config'')"

definition ExporterQueriesConfigMap :: "'a PostgresCluster_scheme \<Rightarrow> ObjectMeta" where
  "ExporterQueriesConfigMap cluster = mk_meta (cluster_ns cluster) (cluster_name cluster @ ''-exporter-queries-config'')"

definition ReplicationClientCertSecret :: "'a PostgresCluster_scheme \<Rightarrow> ObjectMeta" where
  "ReplicationClientCertSecret cluster = mk_meta (cluster_ns cluster) (cluster_name cluster @ ''-replication-cert'')"

definition OperatorConfigurationSecret :: "string \<Rightarrow> ObjectMeta" where
  "OperatorConfigurationSecret pgoNamespace = mk_meta pgoNamespace ''pgo-config''"

definition PatroniScope :: "'a PostgresCluster_scheme \<Rightarrow> string" where
  "PatroniScope cluster = cluster_name cluster @ ''-ha''"

definition PatroniDistributedConfiguration :: "'a PostgresCluster_scheme \<Rightarrow> ObjectMeta" where
  "PatroniDistributedConfiguration cluster = mk_meta (cluster_ns cluster) (PatroniScope cluster @ ''-config'')"

definition PatroniLeaderConfigMap :: "'a PostgresCluster_scheme \<Rightarrow> ObjectMeta" where
  "PatroniLeaderConfigMap cluster = mk_meta (cluster_ns cluster) (PatroniScope cluster @ ''-leader'')"

definition PatroniLeaderEndpoints :: "'a PostgresCluster_scheme \<Rightarrow> ObjectMeta" where
  "PatroniLeaderEndpoints cluster = mk_meta (cluster_ns cluster) (PatroniScope cluster)"

definition PatroniTrigger :: "'a PostgresCluster_scheme \<Rightarrow> ObjectMeta" where
  "PatroniTrigger cluster = mk_meta (cluster_ns cluster) (PatroniScope cluster @ ''-failover'')"

definition PGBackRestBackupJob :: "string \<Rightarrow> 'a PostgresCluster_scheme \<Rightarrow> ObjectMeta" where
  "PGBackRestBackupJob random cluster =
     mk_meta (cluster_ns cluster) (cluster_name cluster @ ''-backup-'' @ random)"

definition PGBackRestCronJob :: "'a PostgresCluster_scheme \<Rightarrow> string \<Rightarrow> string \<Rightarrow> ObjectMeta" where
  "PGBackRestCronJob cluster backuptype repoName =
     mk_meta (cluster_ns cluster) (cluster_name cluster @ ''-'' @ repoName @ ''-'' @ backuptype)"

definition PGBackRestRepoVolume :: "'a PostgresCluster_scheme \<Rightarrow> string \<Rightarrow> ObjectMeta" where
  "PGBackRestRepoVolume cluster repoName =
     mk_meta (cluster_ns cluster) (cluster_name cluster @ ''-'' @ repoName)"

definition PostgresUserSecret :: "'a PostgresCluster_scheme \<Rightarrow> string \<Rightarrow> ObjectMeta" where
  "PostgresUserSecret cluster username =
     mk_meta (cluster_ns cluster) (cluster_name cluster @ ''-pguser-'' @ username)"

definition PostgresCustomUserSecretName :: "'a PostgresCluster_scheme \<Rightarrow> string \<Rightarrow> ObjectMeta" where
  "PostgresCustomUserSecretName cluster name = mk_meta (cluster_ns cluster) name"

definition PGBackRestConfig :: "'a PostgresCluster_scheme \<Rightarrow> ObjectMeta" where
  "PGBackRestConfig cluster = mk_meta (cluster_ns cluster) (cluster_name cluster @ ''-pgbackrest-config'')"

definition VolumeSnapshotCronJob :: "'a PostgresCluster_scheme \<Rightarrow> ObjectMeta" where
  "VolumeSnapshotCronJob cluster = mk_meta (cluster_ns cluster) (cluster_name cluster @ ''-snapshot'')"

definition PGBackRestRestoreJob :: "'a PostgresCluster_scheme \<Rightarrow> ObjectMeta" where
  "PGBackRestRestoreJob cluster = mk_meta (cluster_ns cluster) (cluster_name cluster @ ''-pgbackrest-restore'')"

definition PGBackRestRBAC :: "'a PostgresCluster_scheme \<Rightarrow> ObjectMeta" where
  "PGBackRestRBAC cluster = mk_meta (cluster_ns cluster) (cluster_name cluster @ ''-pgbackrest'')"

definition PGBackRestSSHConfig :: "'a PostgresCluster_scheme \<Rightarrow> ObjectMeta" where
  "PGBackRestSSHConfig cluster = mk_meta (cluster_ns cluster) (cluster_name cluster @ ''-ssh-config'')"

definition PGBackRestSSHSecret :: "'a PostgresCluster_scheme \<Rightarrow> ObjectMeta" where
  "PGBackRestSSHSecret cluster = mk_meta (cluster_ns cluster) (cluster_name cluster @ ''-ssh'')"

definition PGBackRestSecret :: "'a PostgresCluster_scheme \<Rightarrow> ObjectMeta" where
  "PGBackRestSecret cluster = mk_meta (cluster_ns cluster) (cluster_name cluster @ ''-pgbackrest'')"

definition PGBackRestClientCertSecret :: "'a PostgresCluster_scheme \<Rightarrow> ObjectMeta" where
  "PGBackRestClientCertSecret cluster = mk_meta (cluster_ns cluster) (cluster_name cluster @ ''-pgbackrest-client-tls'')"

definition PGBackRestRepoCertSecret :: "'a PostgresCluster_scheme \<Rightarrow> ObjectMeta" where
  "PGBackRestRepoCertSecret cluster = mk_meta (cluster_ns cluster) (cluster_name cluster @ ''-pgbackrest-repo-tls'')"

definition DeprecatedPostgresUserSecret :: "'a PostgresCluster_scheme \<Rightarrow> ObjectMeta" where
  "DeprecatedPostgresUserSecret cluster = mk_meta (cluster_ns cluster) (cluster_name cluster @ ''-pguser'')"

definition PostgresRootCASecret :: "'a PostgresCluster_scheme \<Rightarrow> ObjectMeta" where
  "PostgresRootCASecret cluster = mk_meta (cluster_ns cluster) (cluster_name cluster @ ''-cluster-ca-cert'')"

definition PostgresTLSSecret :: "'a PostgresCluster_scheme \<Rightarrow> ObjectMeta" where
  "PostgresTLSSecret cluster = mk_meta (cluster_ns cluster) (cluster_name cluster @ ''-cluster-cert'')"

definition MovePGDataDirJob :: "'a PostgresCluster_scheme \<Rightarrow> ObjectMeta" where
  "MovePGDataDirJob cluster = mk_meta (cluster_ns cluster) (cluster_name cluster @ ''-move-pgdata-dir'')"

definition MovePGWALDirJob :: "'a PostgresCluster_scheme \<Rightarrow> ObjectMeta" where
  "MovePGWALDirJob cluster = mk_meta (cluster_ns cluster) (cluster_name cluster @ ''-move-pgwal-dir'')"

definition MovePGBackRestRepoDirJob :: "'a PostgresCluster_scheme \<Rightarrow> ObjectMeta" where
  "MovePGBackRestRepoDirJob cluster = mk_meta (cluster_ns cluster) (cluster_name cluster @ ''-move-pgbackrest-repo-dir'')"

definition CAIssuer :: "'a PostgresCluster_scheme \<Rightarrow> ObjectMeta" where
  "CAIssuer cluster = mk_meta (cluster_ns cluster) (cluster_name cluster @ ''-ca-issuer'')"

definition TLSIssuer :: "'a PostgresCluster_scheme \<Rightarrow> ObjectMeta" where
  "TLSIssuer cluster = mk_meta (cluster_ns cluster) (cluster_name cluster @ ''-tls-issuer'')"

definition StandalonePGAdmin :: "ObjectMeta \<Rightarrow> ObjectMeta" where
  "StandalonePGAdmin pgadmin = mk_meta (Namespace pgadmin) (''pgadmin-'' @ UID pgadmin)"

definition UpgradeCheckConfigMap :: "string \<Rightarrow> ObjectMeta" where
  "UpgradeCheckConfigMap pgoNamespace = mk_meta pgoNamespace ''pgo-upgrade-check''"

lemmas name_defs [naming_defs] =
  ClusterConfigMap_def ClusterInstanceRBAC_def ClusterPGAdmin_def
  ClusterPGBouncer_def ClusterPodService_def ClusterPrimaryService_def
  ClusterReplicaService_def ClusterDedicatedSnapshotVolume_def MonitoringUserSecret_def
  ExporterWebConfigMap_def ExporterQueriesConfigMap_def ReplicationClientCertSecret_def
  PGBackRestConfig_def VolumeSnapshotCronJob_def PGBackRestRestoreJob_def
  PGBackRestRBAC_def PGBackRestSSHConfig_def PGBackRestSSHSecret_def
  PGBackRestSecret_def PGBackRestClientCertSecret_def PGBackRestRepoCertSecret_def
  DeprecatedPostgresUserSecret_def PostgresRootCASecret_def PostgresTLSSecret_def
  MovePGDataDirJob_def MovePGWALDirJob_def MovePGBackRestRepoDirJob_def
  CAIssuer_def TLSIssuer_def PatroniDistributedConfiguration_def
  PatroniLeaderConfigMap_def PatroniLeaderEndpoints_def PatroniTrigger_def
  InstanceConfigMap_def InstanceCertificates_def InstanceSet_def
  InstancePostgresDataVolume_def InstanceTablespaceDataVolume_def InstancePostgresWALVolume_def
  PGBackRestCronJob_def PGBackRestRepoVolume_def PostgresUserSecret_def
  PostgresCustomUserSecretName_def StandalonePGAdmin_def PatroniScope_def
  mk_meta_def AsObjectKey_def

section \<open>Label sets\<close>

text \<open>
  \<open>labels.Merge\<close> of apimachinery is the parameter \<open>mrg\<close>; its documented
  behaviour is that the second map wins.
\<close>

type_synonym merge_fn = "strmap \<Rightarrow> strmap \<Rightarrow> strmap"

definition merge_law :: "merge_fn \<Rightarrow> bool" where
  "merge_law mrg \<longleftrightarrow> (\<forall>a b. mrg a b = a ++ b)"

definition Merge :: "merge_fn \<Rightarrow> strmap list \<Rightarrow> strmap" where
  "Merge mrg sets = foldl mrg Map.empty sets"

definition DirectoryMoveJobLabels :: "string \<Rightarrow> strmap" where
  "DirectoryMoveJobLabels clusterName = [LabelCluster \<mapsto> clusterName, LabelMoveJob \<mapsto> []]"

definition PGBackRestLabels :: "string \<Rightarrow> strmap" where
  "PGBackRestLabels clusterName = [LabelCluster \<mapsto> clusterName, LabelPGBackRest \<mapsto> []]"

definition PGBackRestBackupJobLabels :: "merge_fn \<Rightarrow> string \<Rightarrow> string \<Rightarrow> string \<Rightarrow> strmap" where
  "PGBackRestBackupJobLabels mrg clusterName repoName backupType =
     mrg [LabelPGBackRestRepo \<mapsto> repoName, LabelPGBackRestBackup \<mapsto> backupType]
         (PGBackRestLabels clusterName)"

definition PGBackRestBackupJobSelector :: "merge_fn \<Rightarrow> string \<Rightarrow> string \<Rightarrow> string \<Rightarrow> strmap" where
  "PGBackRestBackupJobSelector mrg clusterName repoName backupType =
     PGBackRestBackupJobLabels mrg clusterName repoName backupType"

definition PGBackRestRestoreConfigLabels :: "merge_fn \<Rightarrow> string \<Rightarrow> strmap" where
  "PGBackRestRestoreConfigLabels mrg clusterName =
     mrg [LabelPGBackRestRestoreConfig \<mapsto> []] (PGBackRestLabels clusterName)"

definition PGBackRestRestoreConfigSelector :: "merge_fn \<Rightarrow> string \<Rightarrow> strmap" where
  "PGBackRestRestoreConfigSelector mrg clusterName = PGBackRestRestoreConfigLabels mrg clusterName"

definition PGBackRestRestoreJobLabels :: "merge_fn \<Rightarrow> string \<Rightarrow> strmap" where
  "PGBackRestRestoreJobLabels mrg clusterName =
     mrg [LabelPGBackRestRestore \<mapsto> []] (PGBackRestLabels clusterName)"

definition PGBackRestRestoreJobSelector :: "merge_fn \<Rightarrow> string \<Rightarrow> strmap" where
  "PGBackRestRestoreJobSelector mrg clusterName = PGBackRestRestoreJobLabels mrg clusterName"

definition PGBackRestRepoLabels :: "merge_fn \<Rightarrow> string \<Rightarrow> string \<Rightarrow> strmap" where
  "PGBackRestRepoLabels mrg clusterName repoName =
     mrg (PGBackRestLabels clusterName) [LabelPGBackRestRepo \<mapsto> repoName]"

definition PGBackRestSelector :: "string \<Rightarrow> strmap" where
  "PGBackRestSelector clusterName = PGBackRestLabels clusterName"

definition PGBackRestConfigLabels :: "merge_fn \<Rightarrow> string \<Rightarrow> strmap" where
  "PGBackRestConfigLabels mrg clusterName =
     mrg (PGBackRestLabels clusterName) [LabelPGBackRestConfig \<mapsto> []]"

definition PGBackRestCronJobLabels :: "merge_fn \<Rightarrow> string \<Rightarrow> string \<Rightarrow> string \<Rightarrow> strmap" where
  "PGBackRestCronJobLabels mrg clusterName repoName backupType =
     mrg (PGBackRestLabels clusterName)
       [LabelPGBackRestRepo \<mapsto> repoName, LabelPGBackRestCronJob \<mapsto> backupType,
        LabelPGBackRestBackup \<mapsto> BackupScheduled]"

definition PGBackRestDedicatedLabels :: "merge_fn \<Rightarrow> string \<Rightarrow> strmap" where
  "PGBackRestDedicatedLabels mrg clusterName =
     mrg (PGBackRestLabels clusterName) [LabelPGBackRestDedicated \<mapsto> []]"

definition PGBackRestDedicatedSelector :: "merge_fn \<Rightarrow> string \<Rightarrow> strmap" where
  "PGBackRestDedicatedSelector mrg clusterName = PGBackRestDedicatedLabels mrg clusterName"

definition PGBackRestRepoVolumeLabels :: "merge_fn \<Rightarrow> string \<Rightarrow> string \<Rightarrow> strmap" where
  "PGBackRestRepoVolumeLabels mrg clusterName repoName =
     mrg (PGBackRestRepoLabels mrg clusterName repoName)
       [LabelPGBackRestRepoVolume \<mapsto> [], LabelData \<mapsto> DataPGBackRest]"

definition StandalonePGAdminLabels :: "string \<Rightarrow> strmap" where
  "StandalonePGAdminLabels pgAdminName =
     [LabelStandalonePGAdmin \<mapsto> pgAdminName, LabelRole \<mapsto> RolePGAdmin]"

definition StandalonePGAdminSelector :: "string \<Rightarrow> strmap" where
  "StandalonePGAdminSelector pgAdminName = StandalonePGAdminLabels pgAdminName"

definition StandalonePGAdminDataLabels :: "merge_fn \<Rightarrow> string \<Rightarrow> strmap" where
  "StandalonePGAdminDataLabels mrg pgAdminName =
     mrg (StandalonePGAdminLabels pgAdminName) [LabelData \<mapsto> DataPGAdmin]"

definition StandalonePGAdminDataSelector :: "merge_fn \<Rightarrow> string \<Rightarrow> strmap" where
  "StandalonePGAdminDataSelector mrg pgAdminName = StandalonePGAdminDataLabels mrg pgAdminName"

lemmas label_defs [naming_defs] =
  DirectoryMoveJobLabels_def PGBackRestLabels_def PGBackRestBackupJobLabels_def
  PGBackRestBackupJobSelector_def PGBackRestRestoreConfigLabels_def
  PGBackRestRestoreConfigSelector_def PGBackRestRestoreJobLabels_def
  PGBackRestRestoreJobSelector_def PGBackRestRepoLabels_def PGBackRestSelector_def
  PGBackRestConfigLabels_def PGBackRestCronJobLabels_def PGBackRestDedicatedLabels_def
  PGBackRestDedicatedSelector_def PGBackRestRepoVolumeLabels_def StandalonePGAdminLabels_def
  StandalonePGAdminSelector_def StandalonePGAdminDataLabels_def StandalonePGAdminDataSelector_def

section \<open>Label selectors\<close>

datatype SelectorOp = OpExists | OpIn

record Requirement =
  ReqKey :: string
  ReqOperator :: SelectorOp
  ReqValues :: "string list"

record LabelSelector =
  MatchLabels :: strmap
  MatchExpressions :: "Requirement list"

definition exists_req :: "string \<Rightarrow> Requirement" where
  "exists_req k = \<lparr>ReqKey = k, ReqOperator = OpExists, ReqValues = []\<rparr>"

definition AnyCluster :: LabelSelector where
  "AnyCluster = \<lparr>MatchLabels = Map.empty, MatchExpressions = [exists_req LabelCluster]\<rparr>"

definition Cluster :: "string \<Rightarrow> LabelSelector" where
  "Cluster cluster = \<lparr>MatchLabels = [LabelCluster \<mapsto> cluster], MatchExpressions = []\<rparr>"

definition ClusterRestoreJobs :: "string \<Rightarrow> LabelSelector" where
  "ClusterRestoreJobs cluster =
     \<lparr>MatchLabels = [LabelCluster \<mapsto> cluster], MatchExpressions = [exists_req LabelPGBackRestRestore]\<rparr>"

definition ClusterBackupJobs :: "string \<Rightarrow> LabelSelector" where
  "ClusterBackupJobs cluster =
     \<lparr>MatchLabels = [LabelCluster \<mapsto> cluster], MatchExpressions = [exists_req LabelPGBackRestBackup]\<rparr>"

definition ClusterDataForPostgresAndPGBackRest :: "string \<Rightarrow> LabelSelector" where
  "ClusterDataForPostgresAndPGBackRest cluster =
     \<lparr>MatchLabels = [LabelCluster \<mapsto> cluster],
      MatchExpressions =
        [\<lparr>ReqKey = LabelData, ReqOperator = OpIn, ReqValues = [DataPostgres, DataPGBackRest]\<rparr>]\<rparr>"

definition ClusterInstance :: "string \<Rightarrow> string \<Rightarrow> LabelSelector" where
  "ClusterInstance cluster inst =
     \<lparr>MatchLabels = [LabelCluster \<mapsto> cluster, LabelInstance \<mapsto> inst], MatchExpressions = []\<rparr>"

definition ClusterInstances :: "string \<Rightarrow> LabelSelector" where
  "ClusterInstances cluster =
     \<lparr>MatchLabels = [LabelCluster \<mapsto> cluster], MatchExpressions = [exists_req LabelInstance]\<rparr>"

definition ClusterInstanceSet :: "string \<Rightarrow> string \<Rightarrow> LabelSelector" where
  "ClusterInstanceSet cluster setName =
     \<lparr>MatchLabels = [LabelCluster \<mapsto> cluster, LabelInstanceSet \<mapsto> setName], MatchExpressions = []\<rparr>"

definition ClusterInstanceSets :: "string \<Rightarrow> LabelSelector" where
  "ClusterInstanceSets cluster =
     \<lparr>MatchLabels = [LabelCluster \<mapsto> cluster], MatchExpressions = [exists_req LabelInstanceSet]\<rparr>"

definition ClusterPatronis :: "'a PostgresCluster_scheme \<Rightarrow> LabelSelector" where
  "ClusterPatronis cluster =
     \<lparr>MatchLabels = [LabelCluster \<mapsto> cluster_name cluster, LabelPatroni \<mapsto> PatroniScope cluster],
      MatchExpressions = []\<rparr>"

definition ClusterPGBouncerSelector :: "'a PostgresCluster_scheme \<Rightarrow> LabelSelector" where
  "ClusterPGBouncerSelector cluster =
     \<lparr>MatchLabels = [LabelCluster \<mapsto> cluster_name cluster, LabelRole \<mapsto> RolePGBouncer],
      MatchExpressions = []\<rparr>"

definition ClusterPostgresUsers :: "string \<Rightarrow> LabelSelector" where
  "ClusterPostgresUsers cluster =
     \<lparr>MatchLabels = [LabelCluster \<mapsto> cluster], MatchExpressions = [exists_req LabelPostgresUser]\<rparr>"

definition CrunchyBridgeClusterPostgresRoles :: "string \<Rightarrow> LabelSelector" where
  "CrunchyBridgeClusterPostgresRoles clusterName =
     \<lparr>MatchLabels = [LabelCluster \<mapsto> clusterName, LabelRole \<mapsto> RoleCrunchyBridgeClusterPostgresRole],
      MatchExpressions = []\<rparr>"

section \<open>DNS names\<close>

definition maxDNSSafeLength :: nat where
  "maxDNSSafeLength = 63"

definition SafeDNSName :: "string \<Rightarrow> string" where
  "SafeDNSName name =
     (let name = trim_right (CHR ''-'') name
      in if length name \<le> maxDNSSafeLength then name
         else trim_right (CHR ''-'') (take maxDNSSafeLength name))"

definition SafeDNSUniqueName :: "(string \<Rightarrow> string) \<Rightarrow> string \<Rightarrow> string option" where
  "SafeDNSUniqueName safeEncode name =
     (let name = trim_right (CHR ''-'') name
      in if length name \<le> maxDNSSafeLength then Some name
         else let prefix = trim_right (CHR ''-'') (take (maxDNSSafeLength - 5) name)
              in case slice4 (safeEncode (sprint_nat (unat (fnv32a name)))) of
                   None \<Rightarrow> None
                 | Some suffix \<Rightarrow> Some (prefix @ ''-'' @ suffix))"

text \<open>\<open>net.DefaultResolver.LookupCNAME\<close> is the argument \<open>lookup\<close>.\<close>

definition KubernetesClusterDomain :: "(string \<Rightarrow> error + string) \<Rightarrow> string \<Rightarrow> string" where
  "KubernetesClusterDomain lookup override =
     (if override \<noteq> [] then override
      else let api = ''kubernetes.default.svc''
           in case lookup api of
                Inr cname \<Rightarrow> trim_suffix ''.'' (trim_prefix (api @ ''.'') cname)
              | Inl e \<Rightarrow> ''cluster.local'')"

definition dns_names :: "string \<Rightarrow> string \<Rightarrow> string \<Rightarrow> string list" where
  "dns_names name namespace domain =
     [name @ ''.'' @ namespace @ ''.svc.'' @ domain, name @ ''.'' @ namespace @ ''.svc'',
      name @ ''.'' @ namespace, name]"

definition InstancePodDNSNames ::
    "(string \<Rightarrow> error + string) \<Rightarrow> ObjectMeta \<Rightarrow> string \<Rightarrow> string \<Rightarrow> string list" where
  "InstancePodDNSNames lookup inst serviceName dnsSuffix =
     (let domain = KubernetesClusterDomain lookup dnsSuffix;
          name = Name inst @ ''-0.'' @ serviceName
      in dns_names name (Namespace inst) domain)"

definition RepoHostPodDNSNames ::
    "(string \<Rightarrow> error + string) \<Rightarrow> ObjectMeta \<Rightarrow> string \<Rightarrow> string \<Rightarrow> error + string list" where
  "RepoHostPodDNSNames lookup repoHost serviceName dnsSuffix =
     (if Namespace repoHost = [] then Inl (Errorf ''repoHost.Namespace is empty'')
      else if Name repoHost = [] then Inl (Errorf ''repoHost.Name is empty'')
      else if serviceName = [] then Inl (Errorf ''repoHost.Spec.ServiceName is empty'')
      else let domain = KubernetesClusterDomain lookup dnsSuffix;
               name = Name repoHost @ ''-0.'' @ serviceName
           in Inr (dns_names name (Namespace repoHost) domain))"

definition ServiceDNSNames ::
    "(string \<Rightarrow> error + string) \<Rightarrow> ObjectMeta \<Rightarrow> string \<Rightarrow> error + string list" where
  "ServiceDNSNames lookup service dnsSuffix =
     (if Name service = [] then Inl (Errorf ''service.Name is empty'')
      else if Namespace service = [] then Inl (Errorf ''service.Namespace is empty'')
      else Inr (dns_names (Name service) (Namespace service) (KubernetesClusterDomain lookup dnsSuffix)))"

section \<open>Lemmas\<close>

lemma digit_plain: "d < 10 \<Longrightarrow> char_of (48 + d :: nat) \<noteq> CHR ''/''"
proof
  assume d: "d < 10" and "char_of (48 + d) = CHR ''/''"
  then have "of_char (char_of (48 + d) :: char) = (47 :: nat)" by simp
  with d show False by simp
qed

lemma sprint_plain: "CHR ''/'' \<notin> set (sprint_nat n)" "CHR ''/'' \<notin> set (sprint_int i)"
proof -
  show nat: "CHR ''/'' \<notin> set (sprint_nat n)" for n
  proof (induction n rule: sprint_nat.induct)
    case (1 n)
    then show ?case
      using digit_plain [of n] digit_plain [of "n mod 10"] by (subst sprint_nat.simps) (auto dest: sym)
  qed
  show "CHR ''/'' \<notin> set (sprint_int i)" by (simp add: sprint_int_def nat)
qed

lemma sprint_nat_length: "4 \<le> length (sprint_nat n) \<longleftrightarrow> 1000 \<le> n"
proof -
  have gen: "Suc k \<le> length (sprint_nat n) \<longleftrightarrow> (10 ^ k \<le> n \<or> k = 0)" for k
  proof (induction k arbitrary: n)
    case 0
    show ?case by (subst sprint_nat.simps) simp
  next
    case (Suc k)
    show ?case
    proof (cases "n < 10")
      case True
      then have "n < 10 ^ Suc k" using one_le_power [of "10::nat" k] by (simp; linarith)
      with True show ?thesis by (subst sprint_nat.simps) simp
    next
      case False
      then have len: "length (sprint_nat n) = Suc (length (sprint_nat (n div 10)))"
        by (subst sprint_nat.simps) simp
      have "10 ^ k \<le> n div 10 \<longleftrightarrow> 10 ^ Suc k \<le> n"
        by (simp add: less_eq_div_iff_mult_less_eq mult.commute)
      with False len Suc.IH [of "n div 10"] show ?thesis
        by (cases k) auto
    qed
  qed
  from gen [of 3] show ?thesis by simp
qed

lemma has_prefix_append_iff:
  "has_prefix p (x @ y) \<longleftrightarrow>
     has_prefix p x \<or> (has_prefix x p \<and> has_prefix (drop (length x) p) y)"
  by (induction p x rule: has_prefix.induct) auto

lemma slice4_None_iff: "slice4 s = None \<longleftrightarrow> length s < 4"
  by (simp add: slice4_def)

lemma slice4_Some: "slice4 s = Some t \<Longrightarrow> length t = 4 \<and> set t \<subseteq> set s"
  by (auto simp: slice4_def split: if_splits dest: in_set_takeD)

text \<open>
  What the code relies on of \<open>rand.SafeEncodeString\<close>: it replaces each character by
  one of an alphabet of letters and digits.
\<close>

definition safe_encode_law :: "(string \<Rightarrow> string) \<Rightarrow> bool" where
  "safe_encode_law f \<longleftrightarrow> (\<forall>s. length (f s) = length s \<and> CHR ''-'' \<notin> set (f s))"

lemma slice4_encode_None:
  assumes "safe_encode_law f"
  shows "slice4 (f (sprint_nat n)) = None \<longleftrightarrow> n < 1000"
proof -
  from assms have "length (f (sprint_nat n)) = length (sprint_nat n)"
    by (simp add: safe_encode_law_def)
  then show ?thesis using sprint_nat_length [of n] by (simp add: slice4_None_iff not_le [symmetric])
qed

lemma label_neqs [simp]:
  "LabelCluster \<noteq> LabelPGBackRest" "LabelCluster \<noteq> LabelPGBackRestBackup"
  "LabelCluster \<noteq> LabelPGBackRestConfig" "LabelCluster \<noteq> LabelPGBackRestDedicated"
  "LabelCluster \<noteq> LabelPGBackRestRepo" "LabelCluster \<noteq> LabelPGBackRestRepoVolume"
  "LabelCluster \<noteq> LabelPGBackRestCronJob" "LabelCluster \<noteq> LabelPGBackRestRestore"
  "LabelCluster \<noteq> LabelPGBackRestRestoreConfig" "LabelCluster \<noteq> LabelData"
  "LabelPGBackRest \<noteq> LabelCluster" "LabelPGBackRest \<noteq> LabelPGBackRestBackup"
  "LabelPGBackRest \<noteq> LabelPGBackRestConfig" "LabelPGBackRest \<noteq> LabelPGBackRestDedicated"
  "LabelPGBackRest \<noteq> LabelPGBackRestRepo" "LabelPGBackRest \<noteq> LabelPGBackRestRepoVolume"
  "LabelPGBackRest \<noteq> LabelPGBackRestCronJob" "LabelPGBackRest \<noteq> LabelPGBackRestRestore"
  "LabelPGBackRest \<noteq> LabelPGBackRestRestoreConfig" "LabelPGBackRest \<noteq> LabelData"
  "LabelPGBackRestBackup \<noteq> LabelCluster" "LabelPGBackRestBackup \<noteq> LabelPGBackRest"
  "LabelPGBackRestBackup \<noteq> LabelPGBackRestConfig" "LabelPGBackRestBackup \<noteq> LabelPGBackRestDedicated"
  "LabelPGBackRestBackup \<noteq> LabelPGBackRestRepo" "LabelPGBackRestBackup \<noteq> LabelPGBackRestRepoVolume"
  "LabelPGBackRestBackup \<noteq> LabelPGBackRestCronJob" "LabelPGBackRestBackup \<noteq> LabelPGBackRestRestore"
  "LabelPGBackRestBackup \<noteq> LabelPGBackRestRestoreConfig" "LabelPGBackRestBackup \<noteq> LabelData"
  "LabelPGBackRestConfig \<noteq> LabelCluster" "LabelPGBackRestConfig \<noteq> LabelPGBackRest"
  "LabelPGBackRestConfig \<noteq> LabelPGBackRestBackup" "LabelPGBackRestConfig \<noteq> LabelPGBackRestDedicated"
  "LabelPGBackRestConfig \<noteq> LabelPGBackRestRepo" "LabelPGBackRestConfig \<noteq> LabelPGBackRestRepoVolume"
  "LabelPGBackRestConfig \<noteq> LabelPGBackRestCronJob" "LabelPGBackRestConfig \<noteq> LabelPGBackRestRestore"
  "LabelPGBackRestConfig \<noteq> LabelPGBackRestRestoreConfig" "LabelPGBackRestConfig \<noteq> LabelData"
  "LabelPGBackRestDedicated \<noteq> LabelCluster" "LabelPGBackRestDedicated \<noteq> LabelPGBackRest"
  "LabelPGBackRestDedicated \<noteq> LabelPGBackRestBackup" "LabelPGBackRestDedicated \<noteq> LabelPGBackRestConfig"
  "LabelPGBackRestDedicated \<noteq> LabelPGBackRestRepo" "LabelPGBackRestDedicated \<noteq> LabelPGBackRestRepoVolume"
  "LabelPGBackRestDedicated \<noteq> LabelPGBackRestCronJob" "LabelPGBackRestDedicated \<noteq> LabelPGBackRestRestore"
  "LabelPGBackRestDedicated \<noteq> LabelPGBackRestRestoreConfig" "LabelPGBackRestDedicated \<noteq> LabelData"
  "LabelPGBackRestRepo \<noteq> LabelCluster" "LabelPGBackRestRepo \<noteq> LabelPGBackRest"
  "LabelPGBackRestRepo \<noteq> LabelPGBackRestBackup" "LabelPGBackRestRepo \<noteq> LabelPGBackRestConfig"
  "LabelPGBackRestRepo \<noteq> LabelPGBackRestDedicated" "LabelPGBackRestRepo \<noteq> LabelPGBackRestRepoVolume"
  "LabelPGBackRestRepo \<noteq> LabelPGBackRestCronJob" "LabelPGBackRestRepo \<noteq> LabelPGBackRestRestore"
  "LabelPGBackRestRepo \<noteq> LabelPGBackRestRestoreConfig" "LabelPGBackRestRepo \<noteq> LabelData"
  "LabelPGBackRestRepoVolume \<noteq> LabelCluster" "LabelPGBackRestRepoVolume \<noteq> LabelPGBackRest"
  "LabelPGBackRestRepoVolume \<noteq> LabelPGBackRestBackup" "LabelPGBackRestRepoVolume \<noteq> LabelPGBackRestConfig"
  "LabelPGBackRestRepoVolume \<noteq> LabelPGBackRestDedicated" "LabelPGBackRestRepoVolume \<noteq> LabelPGBackRestRepo"
  "LabelPGBackRestRepoVolume \<noteq> LabelPGBackRestCronJob" "LabelPGBackRestRepoVolume \<noteq> LabelPGBackRestRestore"
  "LabelPGBackRestRepoVolume \<noteq> LabelPGBackRestRestoreConfig" "LabelPGBackRestRepoVolume \<noteq> LabelData"
  "LabelPGBackRestCronJob \<noteq> LabelCluster" "LabelPGBackRestCronJob \<noteq> LabelPGBackRest"
  "LabelPGBackRestCronJob \<noteq> LabelPGBackRestBackup" "LabelPGBackRestCronJob \<noteq> LabelPGBackRestConfig"
  "LabelPGBackRestCronJob \<noteq> LabelPGBackRestDedicated" "LabelPGBackRestCronJob \<noteq> LabelPGBackRestRepo"
  "LabelPGBackRestCronJob \<noteq> LabelPGBackRestRepoVolume" "LabelPGBackRestCronJob \<noteq> LabelPGBackRestRestore"
  "LabelPGBackRestCronJob \<noteq> LabelPGBackRestRestoreConfig" "LabelPGBackRestCronJob \<noteq> LabelData"
  "LabelPGBackRestRestore \<noteq> LabelCluster" "LabelPGBackRestRestore \<noteq> LabelPGBackRest"
  "LabelPGBackRestRestore \<noteq> LabelPGBackRestBackup" "LabelPGBackRestRestore \<noteq> LabelPGBackRestConfig"
  "LabelPGBackRestRestore \<noteq> LabelPGBackRestDedicated" "LabelPGBackRestRestore \<noteq> LabelPGBackRestRepo"
  "LabelPGBackRestRestore \<noteq> LabelPGBackRestRepoVolume" "LabelPGBackRestRestore \<noteq> LabelPGBackRestCronJob"
  "LabelPGBackRestRestore \<noteq> LabelPGBackRestRestoreConfig" "LabelPGBackRestRestore \<noteq> LabelData"
  "LabelPGBackRestRestoreConfig \<noteq> LabelCluster" "LabelPGBackRestRestoreConfig \<noteq> LabelPGBackRest"
  "LabelPGBackRestRestoreConfig \<noteq> LabelPGBackRestBackup" "LabelPGBackRestRestoreConfig \<noteq> LabelPGBackRestConfig"
  "LabelPGBackRestRestoreConfig \<noteq> LabelPGBackRestDedicated" "LabelPGBackRestRestoreConfig \<noteq> LabelPGBackRestRepo"
  "LabelPGBackRestRestoreConfig \<noteq> LabelPGBackRestRepoVolume" "LabelPGBackRestRestoreConfig \<noteq> LabelPGBackRestCronJob"
  "LabelPGBackRestRestoreConfig \<noteq> LabelPGBackRestRestore" "LabelPGBackRestRestoreConfig \<noteq> LabelData"
  "LabelData \<noteq> LabelCluster" "LabelData \<noteq> LabelPGBackRest"
  "LabelData \<noteq> LabelPGBackRestBackup" "LabelData \<noteq> LabelPGBackRestConfig"
  "LabelData \<noteq> LabelPGBackRestDedicated" "LabelData \<noteq> LabelPGBackRestRepo"
  "LabelData \<noteq> LabelPGBackRestRepoVolume" "LabelData \<noteq> LabelPGBackRestCronJob"
  "LabelData \<noteq> LabelPGBackRestRestore" "LabelData \<noteq> LabelPGBackRestRestoreConfig"
  by (simp_all add: const_defs)

lemma map_le_merge: "merge_law mrg \<Longrightarrow> mrg a b = a ++ b"
  by (simp add: merge_law_def)

lemma upd_map_le: "a(k \<mapsto> v) \<subseteq>\<^sub>m b \<longleftrightarrow> b k = Some v \<and> a(k := None) \<subseteq>\<^sub>m b"
  by (auto simp: map_le_def split: if_splits)

section \<open>Properties\<close>

text \<open>
  \<open>SafeDNSName\<close> always gives a name of at most 63 characters that does not end in
  a hyphen, is a prefix of the name it was given, and is not changed by applying it again.
\<close>

theorem SafeDNSName_safe:
  "length (SafeDNSName name) \<le> 63 \<and>
   \<not> (SafeDNSName name \<noteq> [] \<and> last (SafeDNSName name) = CHR ''-'') \<and>
   (\<exists>rest. name = SafeDNSName name @ rest) \<and>
   SafeDNSName (SafeDNSName name) = SafeDNSName name"
proof -
  let ?d = "CHR ''-''"
  let ?t = "trim_right ?d name"
  have len: "length (SafeDNSName name) \<le> 63"
    using length_trim_right [of ?d "take 63 ?t"]
    by (simp add: SafeDNSName_def maxDNSSafeLength_def Let_def)
  have lst: "SafeDNSName name = [] \<or> last (SafeDNSName name) \<noteq> ?d"
    using trim_right_last [of ?d] by (auto simp: SafeDNSName_def Let_def)
  have pre: "\<exists>rest. name = SafeDNSName name @ rest"
  proof -
    obtain k where k: "name = ?t @ replicate k ?d" using trim_right_prefix by blast
    obtain j where j: "take 63 ?t = trim_right ?d (take 63 ?t) @ replicate j ?d"
      using trim_right_prefix by blast
    have "?t = trim_right ?d (take 63 ?t) @ (replicate j ?d @ drop 63 ?t)"
      by (metis append.assoc append_take_drop_id j)
    with k have "\<exists>rest. name = trim_right ?d (take 63 ?t) @ rest" by (metis append.assoc)
    with k show ?thesis by (auto simp: SafeDNSName_def maxDNSSafeLength_def Let_def)
  qed
  have "SafeDNSName (SafeDNSName name) = SafeDNSName name"
    unfolding SafeDNSName_def [of "SafeDNSName name"]
    using len trim_right_id [OF lst] by (simp add: maxDNSSafeLength_def)
  with len lst pre show ?thesis by blast
qed

text \<open>
  \<open>SafeDNSUniqueName\<close> returns a name of at most 63 characters that does not end
  in a hyphen, unless it panics; it panics exactly when the name is too long and its FNV-1a
  hash prints with fewer than four digits.
\<close>

theorem SafeDNSUniqueName_safe:
  assumes "safe_encode_law safeEncode"
  shows "(SafeDNSUniqueName safeEncode name = None \<longleftrightarrow>
            63 < length (trim_right (CHR ''-'') name) \<and>
            unat (fnv32a (trim_right (CHR ''-'') name)) < 1000) \<and>
         (case SafeDNSUniqueName safeEncode name of None \<Rightarrow> True
          | Some m \<Rightarrow> length m \<le> 63 \<and> (m = [] \<or> last m \<noteq> CHR ''-''))"
proof -
  let ?d = "CHR ''-''"
  let ?t = "trim_right ?d name"
  let ?s = "slice4 (safeEncode (sprint_nat (unat (fnv32a ?t))))"
  show ?thesis
  proof (cases "length ?t \<le> 63")
    case True
    then show ?thesis using trim_right_last [of ?d name]
      by (auto simp: SafeDNSUniqueName_def maxDNSSafeLength_def Let_def)
  next
    case False
    show ?thesis
    proof (cases ?s)
      case None
      then have "unat (fnv32a ?t) < 1000" using slice4_encode_None [OF assms] by blast
      with None False show ?thesis
        by (simp add: SafeDNSUniqueName_def maxDNSSafeLength_def Let_def)
    next
      case (Some suffix)
      from slice4_Some [OF Some] have s: "length suffix = 4" "suffix \<noteq> []" by auto
      from assms have "?d \<notin> set (safeEncode x)" for x by (simp add: safe_encode_law_def)
      moreover from s have "last suffix \<in> set suffix" by simp
      ultimately have "last suffix \<noteq> ?d" using slice4_Some [OF Some] by (metis subsetD)
      moreover have "length (trim_right ?d (take 58 ?t)) \<le> 58"
        using length_trim_right [of ?d "take 58 ?t"] by simp
      moreover have "\<not> unat (fnv32a ?t) < 1000"
        using Some slice4_encode_None [OF assms] by (metis option.distinct(1))
      ultimately show ?thesis using False Some s
        by (simp add: SafeDNSUniqueName_def maxDNSSafeLength_def Let_def)
    qed
  qed
qed

lemma encode_x_law: "safe_encode_law (map (\<lambda>_. CHR ''x''))"
  by (auto simp: safe_encode_law_def)

theorem SafeDNSUniqueName_safe_witness:
  "safe_encode_law (map (\<lambda>_. CHR ''x'')) \<and>
   (SafeDNSUniqueName (map (\<lambda>_. CHR ''x'')) ''hippo-'' = Some ''hippo'')"
  using SafeDNSUniqueName_safe [OF encode_x_law, of "''hippo-''"] encode_x_law
  by (simp add: SafeDNSUniqueName_def maxDNSSafeLength_def trim_right_def)

text \<open>
  \<open>GenerateStartupInstance\<close> panics exactly for the cluster and instance set names
  whose FNV-1 hash is below 1000, because it slices four characters out of the printed hash.
  The cluster \<open>zxfih\<close> with the instance set \<open>instance1\<close> is such a pair.
\<close>

theorem GenerateStartupInstance_panics_iff:
  assumes "safe_encode_law safeEncode"
  shows "GenerateStartupInstance safeEncode cluster setName = None \<longleftrightarrow>
           unat (fnv32 (cluster_name cluster @ setName)) < 1000"
  by (auto simp: GenerateStartupInstance_def slice4_encode_None [OF assms, symmetric]
      split: option.splits)

lemma fnv32_zxfih: "fnv32 ''zxfihinstance1'' = 546"
  by (simp add: fnv32_def byte_word_def)

theorem GenerateStartupInstance_panics_witness:
  "safe_encode_law (map (\<lambda>_. CHR ''x'')) \<and>
   GenerateStartupInstance (map (\<lambda>_. CHR ''x''))
     \<lparr>cc_meta = mk_meta ''ns'' ''zxfih'', cc_PGBackRest = None\<rparr> ''instance1'' = None"
  using GenerateStartupInstance_panics_iff [OF encode_x_law,
      of "\<lparr>cc_meta = mk_meta ''ns'' ''zxfih'', cc_PGBackRest = None\<rparr>" "''instance1''"]
    fnv32_zxfih encode_x_law
  by (simp add: mk_meta_def)

text \<open>
  The Secrets the operator creates for a cluster, besides one per PostgreSQL user.
\<close>

definition cluster_secrets :: "'a PostgresCluster_scheme \<Rightarrow> ObjectMeta list" where
  "cluster_secrets c =
     [ClusterPGBouncer c, MonitoringUserSecret c, ReplicationClientCertSecret c,
      PGBackRestSSHSecret c, PGBackRestSecret c, PGBackRestClientCertSecret c,
      PGBackRestRepoCertSecret c, DeprecatedPostgresUserSecret c, PostgresRootCASecret c,
      PostgresTLSSecret c]"

text \<open>
  no two Secrets of one cluster share a name: the ten fixed ones are pairwise distinct,
  the user Secrets differ from all of them, and users have distinct Secrets.
\<close>

theorem cluster_secret_names_distinct:
  "distinct (map AsObjectKey (cluster_secrets c)) \<and>
   AsObjectKey (PostgresUserSecret c user) \<notin> set (map AsObjectKey (cluster_secrets c)) \<and>
   (AsObjectKey (PostgresUserSecret c user) = AsObjectKey (PostgresUserSecret c user') \<longleftrightarrow> user = user')"
  by (simp add: cluster_secrets_def naming_defs)

text \<open>
  Reading the repository back from an automatic volume size annotation inverts writing
  it, for every non-empty repository name; the only other annotation it accepts is
  \<open>suggested-pgbackrest-pvc-size\<close>, where prefix and suffix overlap.
\<close>

theorem volume_size_annotation_roundtrip:
  "PGBackRestRepoFromVolumeSizeAnnotation a = (r, True) \<longleftrightarrow>
     (r \<noteq> [] \<and> a = SuggestedPGBackRestRepoVolumeSizeAnnotation r) \<or>
     (r = ''pvc-size'' \<and> a = ''suggested-pgbackrest-pvc-size'')"
proof
  let ?P = SuggestedPrefix and ?S = "''-pvc-size''"
  assume from_a: "PGBackRestRepoFromVolumeSizeAnnotation a = (r, True)"
  then have pre: "has_prefix ?P a" and suf: "has_prefix (rev ?S) (rev a)"
    and r: "r = trim_suffix ?S (trim_prefix ?P a)" "r \<noteq> []"
    by (auto simp: PGBackRestRepoFromVolumeSizeAnnotation_def Let_def split: if_splits)
  from pre obtain t where t: "a = ?P @ t" by (auto simp: has_prefix_iff)
  with r have rt: "r = trim_suffix ?S t" by simp
  show "(r \<noteq> [] \<and> a = SuggestedPGBackRestRepoVolumeSizeAnnotation r) \<or>
     (r = ''pvc-size'' \<and> a = ''suggested-pgbackrest-pvc-size'')"
  proof (cases "has_prefix (rev ?S) (rev t)")
    case True
    then obtain u where "rev t = rev ?S @ u" by (auto simp: has_prefix_iff)
    then have "t = rev u @ ?S" by (simp add: rev_swap)
    with rt r t show ?thesis
      by (simp add: trim_suffix_def trim_prefix_def SuggestedPGBackRestRepoVolumeSizeAnnotation_def)
  next
    case False
    define x where "x = rev t"
    from False suf t have "has_prefix x (rev ?S)" "has_prefix (drop (length x) (rev ?S)) (rev ?P)"
      by (auto simp: has_prefix_append_iff x_def)
    with False have "x = ''ezis-cvp''"
      by (auto simp: has_prefix_iff [of x] Cons_eq_append_conv SuggestedPrefix_def
          simp flip: x_def)
    then have "t = ''pvc-size''" by (simp add: x_def rev_swap)
    with rt t show ?thesis
      by (simp add: trim_suffix_def trim_prefix_def SuggestedPrefix_def)
  qed
next
  assume "(r \<noteq> [] \<and> a = SuggestedPGBackRestRepoVolumeSizeAnnotation r) \<or>
     (r = ''pvc-size'' \<and> a = ''suggested-pgbackrest-pvc-size'')"
  then show "PGBackRestRepoFromVolumeSizeAnnotation a = (r, True)"
    by (auto simp: PGBackRestRepoFromVolumeSizeAnnotation_def SuggestedPrefix_def
        SuggestedPGBackRestRepoVolumeSizeAnnotation_def trim_suffix_def trim_prefix_def)
qed


text \<open>
  a backup Job is matched by the backup Job selector for exactly its own cluster,
  repository and type; every pgBackRest label set is matched by the cluster's pgBackRest
  selector; the Jobs of a schedule carry the labels of scheduled backups.
\<close>

theorem pgbackrest_selectors_match:
  assumes "merge_law mrg"
  shows "(PGBackRestBackupJobSelector mrg c r t \<subseteq>\<^sub>m PGBackRestBackupJobLabels mrg c' r' t' \<longleftrightarrow>
            c = c' \<and> r = r' \<and> t = t') \<and>
         PGBackRestBackupJobSelector mrg c r BackupScheduled \<subseteq>\<^sub>m PGBackRestCronJobLabels mrg c r t \<and>
         (\<forall>ls \<in> {PGBackRestBackupJobLabels mrg c r t, PGBackRestRestoreJobLabels mrg c,
                 PGBackRestRepoLabels mrg c r, PGBackRestConfigLabels mrg c,
                 PGBackRestCronJobLabels mrg c r t, PGBackRestDedicatedLabels mrg c,
                 PGBackRestRepoVolumeLabels mrg c r, PGBackRestRestoreConfigLabels mrg c}.
            PGBackRestSelector c \<subseteq>\<^sub>m ls)"
proof -
  note defs = label_defs map_le_merge [OF assms]
  have sel: "PGBackRestSelector c \<subseteq>\<^sub>m ls \<longleftrightarrow> ls LabelCluster = Some c \<and> ls LabelPGBackRest = Some []" for ls
    by (simp add: defs upd_map_le conj_commute)
  have eq: "PGBackRestBackupJobSelector mrg c r t =
      [LabelCluster \<mapsto> c, LabelPGBackRest \<mapsto> [], LabelPGBackRestRepo \<mapsto> r, LabelPGBackRestBackup \<mapsto> t]" for t
    by (rule ext) (simp add: defs)
  have job: "PGBackRestBackupJobSelector mrg c r t \<subseteq>\<^sub>m ls \<longleftrightarrow>
      ls LabelCluster = Some c \<and> ls LabelPGBackRest = Some [] \<and>
      ls LabelPGBackRestRepo = Some r \<and> ls LabelPGBackRestBackup = Some t" for ls t
    by (simp add: eq upd_map_le conj_ac)
  show ?thesis unfolding sel job by (simp add: defs) blast
qed

theorem pgbackrest_selectors_match_witness:
  "merge_law (++) \<and>
   PGBackRestSelector ''hippo'' \<subseteq>\<^sub>m PGBackRestConfigLabels (++) ''hippo''"
  using pgbackrest_selectors_match [of "(++)" "''hippo''"]
  by (simp add: merge_law_def)


end
