(* ===== verification/Controller.thy ===== *)
theory Controller
  imports Naming
begin

text \<open>
  The helpers the Percona controllers share: job conditions, finalizers, pods
  (\<open>percona/controller/utils.go\<close>), the lease lock (\<open>percona/k8s/lease.go\<close>),
  the latest backup (\<open>percona/k8s/backup.go\<close>), the pgBackRest commands
  (\<open>percona/pgbackrest\<close>) and the status update of a backup
  (\<open>perconapgbackup_types.go\<close>).
\<close>

section \<open>Jobs and pods\<close>

fun first_condition :: "string \<Rightarrow> JobCondition list \<Rightarrow> bool" where
  "first_condition t [] = False"
| "first_condition t (c # cs) =
     (if JobConditionType c = t then JobConditionStatus c = ConditionTrue else first_condition t cs)"

definition JobCompleted :: "Job \<Rightarrow> bool" where
  "JobCompleted job = first_condition ''Complete'' (JobConditions job)"

definition JobFailed :: "Job \<Rightarrow> bool" where
  "JobFailed job = first_condition ''Failed'' (JobConditions job)"

definition RemoveKeepJobFinalizer :: "'w env \<Rightarrow> Job \<Rightarrow> ('w, unit) io" where
  "RemoveKeepJobFinalizer E job = RetryOnConflict E
     (attempt (Get_Job E (object_key (j_meta job)))
        (\<lambda>e. if IsNotFound e then ret () else throw e)
        (\<lambda>j. case RemoveFinalizer E (Finalizers (j_meta j)) FinalizerKeepJob of
           (fs, removed) \<Rightarrow>
             if \<not> removed then ret ()
             else Update_Job E (j\<lparr>j_meta := (j_meta j)\<lparr>Finalizers := fs\<rparr>\<rparr>)))"

definition pod_ready :: "Pod \<Rightarrow> bool" where
  "pod_ready pod \<longleftrightarrow> PodPhase pod = ''Running'' \<and>
     (\<exists>c \<in> set (PodConditions pod). JobConditionType c = ''Ready'' \<and> JobConditionStatus c = ConditionTrue)"

definition GetReadyInstancePod :: "'w env \<Rightarrow> string \<Rightarrow> string \<Rightarrow> ('w, Pod) io" where
  "GetReadyInstancePod E clusterName namespace =
     must ''list pods'' (List_InstancePods E namespace clusterName)
       (\<lambda>pods. case find pod_ready pods of
          Some pod \<Rightarrow> ret pod
        | None \<Rightarrow> throw (Errorf ''no running instance found''))"

section \<open>Finalizers\<close>

definition ErrFinalizerPending :: string where
  "ErrFinalizerPending = ''finalizer pending''"

text \<open>
  \<open>RunFinalizer\<close> is generic in the object: \<open>fins\<close> and \<open>set_fins\<close>
  access its finalizers, \<open>patch\<close> is the client's merge patch for its type. Besides
  the Boolean it returns the object as the call leaves it.
\<close>

definition RunFinalizer ::
    "'w env \<Rightarrow> ('o \<Rightarrow> string list) \<Rightarrow> (string list \<Rightarrow> 'o \<Rightarrow> 'o) \<Rightarrow> ('o \<Rightarrow> 'o \<Rightarrow> ('w, 'o) io) \<Rightarrow>
     'o \<Rightarrow> string \<Rightarrow> ('o \<Rightarrow> ('w, unit) io) \<Rightarrow> ('w, bool \<times> 'o) io" where
  "RunFinalizer E fins set_fins patch obj finalizer f =
     (if \<not> ContainsFinalizer E (fins obj) finalizer then ret (True, obj)
      else attempt (f obj)
        (\<lambda>e. if error_is e ErrFinalizerPending then ret (False, obj)
             else throw (Wrap (''run finalizer '' @ finalizer) e))
        (\<lambda>_. case RemoveFinalizer E (fins obj) finalizer of
           (fs, removed) \<Rightarrow>
             let obj' = set_fins fs obj in
             if removed then
               attempt (patch obj obj')
                 (\<lambda>e. if IsNotFound e then ret (True, obj') else throw (Wrap ''remove finalizers'' e))
                 (\<lambda>patched. ret (True, patched))
             else ret (True, obj')))"

section \<open>Backup status\<close>

text \<open>
  \<open>PerconaPGBackup.UpdateStatus\<close> reads the object again, applies the update function
  and writes the status, retried on conflict. An update function may read the clock, and one
  that dereferences nil is partial: \<open>UpdateStatusP\<close> panics where it is
  \<open>None\<close>. \<open>UpdateStatusAt\<close> and \<open>UpdateStatus\<close> are the
  cases of a total update function, with and without the clock.
\<close>

definition UpdateStatusP ::
    "'w env \<Rightarrow> PerconaPGBackup \<Rightarrow> (time \<Rightarrow> PerconaPGBackupStatus \<Rightarrow> PerconaPGBackupStatus option) \<Rightarrow>
     ('w, unit) io" where
  "UpdateStatusP E pgBackup updateFunc = RetryOnConflict E
     (must ''get PGBackup'' (Get_Backup E (object_key (b_meta pgBackup)))
       (\<lambda>bcp. look (time_Now E) (\<lambda>now. case updateFunc now (b_status bcp) of
          None \<Rightarrow> throw (Panic ''nil pointer dereference'')
        | Some s \<Rightarrow> StatusUpdate_Backup E (bcp\<lparr>b_status := s\<rparr>))))"

definition UpdateStatusAt ::
    "'w env \<Rightarrow> PerconaPGBackup \<Rightarrow> (time \<Rightarrow> PerconaPGBackupStatus \<Rightarrow> PerconaPGBackupStatus) \<Rightarrow>
     ('w, unit) io" where
  "UpdateStatusAt E pgBackup upd = UpdateStatusP E pgBackup (\<lambda>now s. Some (upd now s))"

definition UpdateStatus ::
    "'w env \<Rightarrow> PerconaPGBackup \<Rightarrow> (PerconaPGBackupStatus \<Rightarrow> PerconaPGBackupStatus) \<Rightarrow> ('w, unit) io" where
  "UpdateStatus E pgBackup upd = UpdateStatusAt E pgBackup (\<lambda>now. upd)"

definition PGBackrestAnnotationBackupName :: string where
  "PGBackrestAnnotationBackupName = ''percona.com/backup-name''"

definition PGBackrestAnnotationJobName :: string where
  "PGBackrestAnnotationJobName = ''percona.com/backup-job-name''"

definition PGBackrestAnnotationJobType :: string where
  "PGBackrestAnnotationJobType = ''percona.com/backup-job-type''"

definition quote :: char where
  "quote = char_of (34 :: nat)"

text \<open>\<open>PerconaPGBackup.Default\<close>.\<close>

definition BackupDefault :: "PerconaPGBackup \<Rightarrow> PerconaPGBackup" where
  "BackupDefault b =
     (let m = deref (SpecMethod (b_spec b)) BackupMethodPGBackrest;
          b = b\<lparr>b_spec := (b_spec b)\<lparr>SpecMethod := Some m\<rparr>\<rparr>
      in if m = BackupMethodPGBackrest
         then b\<lparr>b_spec := (b_spec b)\<lparr>SpecOptions := SpecOptions (b_spec b) @
                [''--annotation='' @ [quote] @ PGBackrestAnnotationBackupName @ [quote] @ ''='' @
                 [quote] @ Name (b_meta b) @ [quote]]\<rparr>\<rparr>
         else b)"

section \<open>Leases\<close>

definition ErrLeaseAlreadyHeld :: string where
  "ErrLeaseAlreadyHeld = ''lease held by another holder''"

definition GetLease :: "'w env \<Rightarrow> string \<Rightarrow> string \<Rightarrow> ('w, Lease) io" where
  "GetLease E leaseName namespace = plain (Get_Lease E (namespace, leaseName)) ret"

text \<open>
  The mutate function that \<open>AcquireLease\<close> hands to \<open>CreateOrUpdate\<close>;
  \<open>checkStale\<close> is \<open>None\<close> for a nil callback.
\<close>

definition acquire_mutate ::
    "'w env \<Rightarrow> string \<Rightarrow> (string \<Rightarrow> ('w, bool) io) option \<Rightarrow> Lease \<Rightarrow> ('w, Lease) io" where
  "acquire_mutate E holder checkStale lease =
     (let take_it = look (time_Now E)
            (\<lambda>now. ret (lease\<lparr>HolderIdentity := Some holder, AcquireTime := Some now\<rparr>))
      in case HolderIdentity lease of
           None \<Rightarrow> take_it
         | Some current \<Rightarrow>
             if current = holder then ret lease
             else (case checkStale of
                 None \<Rightarrow> throw (Sentinel ErrLeaseAlreadyHeld)
               | Some check \<Rightarrow>
                   must ''failed to check if lease holder is stale'' (check current)
                     (\<lambda>stale. if \<not> stale then throw (Sentinel ErrLeaseAlreadyHeld) else take_it)))"

definition AcquireLease ::
    "'w env \<Rightarrow> string \<Rightarrow> string \<Rightarrow> string \<Rightarrow> (string \<Rightarrow> ('w, bool) io) option \<Rightarrow> ('w, unit) io" where
  "AcquireLease E leaseName holder namespace checkStale =
     plain (CreateOrUpdate_Lease E (namespace, leaseName) (acquire_mutate E holder checkStale)) ret"

definition ReleaseLease :: "'w env \<Rightarrow> string \<Rightarrow> string \<Rightarrow> string \<Rightarrow> ('w, unit) io" where
  "ReleaseLease E leaseName holder namespace =
     attempt (GetLease E leaseName namespace)
       (\<lambda>e. if IsNotFound e then ret () else throw e)
       (\<lambda>lease.
          if (case HolderIdentity lease of Some h \<Rightarrow> h \<noteq> holder | None \<Rightarrow> False)
          then throw (Sentinel ErrLeaseAlreadyHeld)
          else attempt (Delete_Lease E lease)
            (\<lambda>e. if IsNotFound e \<or> IsConflict e then ret () else throw (Wrap ''delete lease'' e))
            ret)"

section \<open>The latest backup\<close>

definition ErrRunningBackup :: string where
  "ErrRunningBackup = ''backups are running''"

definition ErrNoBackups :: string where
  "ErrNoBackups = ''no backups found''"

text \<open>
  The loop of \<open>GetLatestBackup\<close>: \<open>latest\<close> is \<open>None\<close> while it is the
  zero object, whose completion time is nil.
\<close>

definition latest_completed :: "PerconaPGBackup option \<Rightarrow> time option" where
  "latest_completed latest = Option.bind latest (\<lambda>b. CompletedAt (b_status b))"

fun latest_loop ::
    "PerconaPGBackup list \<Rightarrow> PerconaPGBackup option \<Rightarrow> bool \<Rightarrow> PerconaPGBackup option \<times> bool" where
  "latest_loop [] latest running = (latest, running)"
| "latest_loop (b # bs) latest running =
     (if deref (SpecMethod (b_spec b)) BackupMethodPGBackrest = BackupMethodVolumeSnapshot
      then latest_loop bs latest running
      else case State (b_status b) of
          BackupSucceeded \<Rightarrow>
            (let completedAt = deref (CompletedAt (b_status b)) (CreationTimestamp (b_meta b))
             in if (case latest_completed latest of None \<Rightarrow> True | Some t \<Rightarrow> t < completedAt)
                then latest_loop bs (Some b) running
                else latest_loop bs latest running)
        | BackupFailed \<Rightarrow> latest_loop bs latest running
        | _ \<Rightarrow> latest_loop bs latest True)"

definition select_latest :: "PerconaPGBackup list \<Rightarrow> error + PerconaPGBackup" where
  "select_latest bs =
     (if bs = [] then Inl (Sentinel ErrNoBackups)
      else case latest_loop bs None False of
        (latest, running) \<Rightarrow>
          (case latest of
             Some b \<Rightarrow> if CompletedAt (b_status b) = None
                then (if running then Inl (Sentinel ErrRunningBackup)
                      else Inl (Errorf ''no completed backups found''))
                else Inr b
           | None \<Rightarrow> if running then Inl (Sentinel ErrRunningBackup)
                else Inl (Errorf ''no completed backups found'')))"

definition lift :: "error + 'a \<Rightarrow> ('w, 'a) io" where
  "lift r = (case r of Inl e \<Rightarrow> throw e | Inr x \<Rightarrow> ret x)"

definition GetLatestBackup :: "'w env \<Rightarrow> PerconaPGCluster \<Rightarrow> ('w, PerconaPGBackup) io" where
  "GetLatestBackup E cr =
     plain (List_Backups E (Namespace (pg_meta cr)) (Name (pg_meta cr)))
       (\<lambda>bs. lift (select_latest bs))"

section \<open>pgBackRest commands\<close>

definition ErrNoValidBackups :: string where
  "ErrNoValidBackups = ''no valid backups''"

definition ErrStanzaNotCreated :: string where
  "ErrStanzaNotCreated = ''pgBackRest stanza not created''"

fun check_stanzas :: "InfoStanza list \<Rightarrow> error option" where
  "check_stanzas [] = None"
| "check_stanzas (s # ss) =
     (if StanzaCode s = 2 then Some (Sentinel ErrNoValidBackups)
      else if StanzaCode s = 99 then Some (Sentinel ErrStanzaNotCreated)
      else if StanzaCode s = 0 then check_stanzas ss
      else Some (Errorf (''pgBackRest info command failed with code '' @ sprint_int (StanzaCode s) @
        '': '' @ StanzaMessage s)))"

definition GetInfo :: "'w env \<Rightarrow> Pod \<Rightarrow> string \<Rightarrow> ('w, InfoStanza list) io" where
  "GetInfo E pod repoName =
     must ''failed to create client'' (NewExecClient E) (\<lambda>_.
     plain (Exec E pod [''pgbackrest'', ''info'', ''--output=json'',
          ''--repo='' @ trim_prefix ''repo'' repoName, ''--log-level-console=info''])
       (\<lambda>(err, stdout, stderr). case err of
          Some e \<Rightarrow> throw (Wrap (''exec: '' @ stderr) e)
        | None \<Rightarrow> must ''failed to unmarshal pgBackRest info output''
            (lift (json_Unmarshal_Info E stdout))
            (\<lambda>out. case check_stanzas out of Some e \<Rightarrow> throw e | None \<Rightarrow> ret out)))"

text \<open>The annotations are given in the order Go iterates the map.\<close>

definition SetAnnotationsToBackup ::
    "'w env \<Rightarrow> Pod \<Rightarrow> string \<Rightarrow> string \<Rightarrow> string \<Rightarrow> (string \<times> string) list \<Rightarrow> ('w, unit) io" where
  "SetAnnotationsToBackup E pod stanza backupSet repoName annotations =
     must ''failed to create client'' (NewExecClient E) (\<lambda>_.
     plain (Exec E pod ([''pgbackrest'', ''--stanza='' @ stanza, ''--set='' @ backupSet,
            ''--repo='' @ trim_prefix ''repo'' repoName] @
          map (\<lambda>(k, v). ''--annotation='' @ k @ ''='' @ v) annotations @ [''annotate'']))
       (\<lambda>(err, stdout, stderr). case err of
          Some e \<Rightarrow> throw (Wrap (''exec: '' @ stderr) e)
        | None \<Rightarrow> ret ()))"

section \<open>What the loop over the backups finds\<close>

text \<open>The backups the loop looks at, and the time it orders them by.\<close>

definition pgbackrest_backup :: "PerconaPGBackup \<Rightarrow> bool" where
  "pgbackrest_backup b \<longleftrightarrow> SpecMethod (b_spec b) \<noteq> Some BackupMethodVolumeSnapshot"

definition has_succeeded :: "PerconaPGBackup \<Rightarrow> bool" where
  "has_succeeded b \<longleftrightarrow> pgbackrest_backup b \<and> State (b_status b) = BackupSucceeded"

definition is_active :: "PerconaPGBackup \<Rightarrow> bool" where
  "is_active b \<longleftrightarrow> pgbackrest_backup b \<and> \<not> IsTerminal (State (b_status b))"

definition completion :: "PerconaPGBackup \<Rightarrow> time" where
  "completion b = deref (CompletedAt (b_status b)) 0"

lemma deref_snapshot_method [simp]:
  "deref m BackupMethodPGBackrest = BackupMethodVolumeSnapshot \<longleftrightarrow> m = Some BackupMethodVolumeSnapshot"
  by (cases m) auto

lemma latest_loop_Cons:
  "latest_loop (b # bs) latest running =
     latest_loop bs
       (if has_succeeded b \<and> (case latest_completed latest of None \<Rightarrow> True
             | Some t \<Rightarrow> t < deref (CompletedAt (b_status b)) (CreationTimestamp (b_meta b)))
        then Some b else latest)
       (running \<or> is_active b)"
  by (cases "State (b_status b)")
    (auto simp: has_succeeded_def is_active_def pgbackrest_backup_def Let_def split: option.splits)

lemma latest_loop_spec:
  assumes "\<forall>b \<in> set bs. has_succeeded b \<longrightarrow> CompletedAt (b_status b) \<noteq> None"
    and "\<forall>x. latest = Some x \<longrightarrow> CompletedAt (b_status x) \<noteq> None"
    and "latest_loop bs latest running = (l, r)"
  shows "(l = None \<longleftrightarrow> latest = None \<and> \<not> (\<exists>b \<in> set bs. has_succeeded b)) \<and>
    (\<forall>x. l = Some x \<longrightarrow> (x \<in> set bs \<and> has_succeeded x \<or> latest = Some x) \<and> CompletedAt (b_status x) \<noteq> None \<and>
       (\<forall>y. y \<in> set bs \<and> has_succeeded y \<or> latest = Some y \<longrightarrow> completion y \<le> completion x)) \<and>
    (r \<longleftrightarrow> running \<or> (\<exists>b \<in> set bs. is_active b))"
  using assms
proof (induction bs arbitrary: latest running)
  case Nil
  then show ?case by auto
next
  case (Cons b bs)
  let ?take = "has_succeeded b \<and> (case latest_completed latest of None \<Rightarrow> True
             | Some t \<Rightarrow> t < deref (CompletedAt (b_status b)) (CreationTimestamp (b_meta b)))"
  let ?latest = "if ?take then Some b else latest"
  have IH: "(l = None \<longleftrightarrow> ?latest = None \<and> \<not> (\<exists>b \<in> set bs. has_succeeded b)) \<and>
    (\<forall>x. l = Some x \<longrightarrow> (x \<in> set bs \<and> has_succeeded x \<or> ?latest = Some x) \<and> CompletedAt (b_status x) \<noteq> None \<and>
       (\<forall>y. y \<in> set bs \<and> has_succeeded y \<or> ?latest = Some y \<longrightarrow> completion y \<le> completion x)) \<and>
    (r \<longleftrightarrow> (running \<or> is_active b) \<or> (\<exists>b \<in> set bs. is_active b))"
    by (rule Cons.IH) (use Cons.prems in \<open>auto simp: latest_loop_Cons simp del: latest_loop.simps\<close>)
  show ?case
  proof (cases ?take)
    case True
    have le: "completion y \<le> completion b" if "latest = Some y" for y
      using True that Cons.prems(1,2)
      by (auto simp: completion_def latest_completed_def split: option.splits)
    from IH True le show ?thesis by (auto 0 4 dest: order_trans)
  next
    case False
    have le: "\<exists>y. latest = Some y \<and> completion b \<le> completion y" if "has_succeeded b"
      using False that Cons.prems(1,2)
      by (cases latest) (auto simp: completion_def latest_completed_def split: option.splits)
    from IH False le show ?thesis by (auto 0 4 dest: order_trans)
  qed
qed
section \<open>The stored state of a backup\<close>

text \<open>
  \<open>st\<close> reads the state of the stored backup at a key, \<open>None\<close> when there is no
  such object. The store's laws, the same for every kind of object with a status: a read returns the stored state and the object at the key; a
  status update writes, if anything, the state it is given at its own key; no other call changes
  the state of a stored backup. A backup's state is written by this controller only.
\<close>

definition in_states :: "('w \<Rightarrow> key \<Rightarrow> 's option) \<Rightarrow> key \<Rightarrow> 's set \<Rightarrow> 'w \<Rightarrow> bool" where
  "in_states st k S w \<longleftrightarrow> (\<forall>s. st w k = Some s \<longrightarrow> s \<in> S)"

definition status_store ::
    "(key \<Rightarrow> ('w, 'o) io) \<Rightarrow> ('o \<Rightarrow> ('w, unit) io) \<Rightarrow> ('o \<Rightarrow> key) \<Rightarrow> ('o \<Rightarrow> 's) \<Rightarrow> 'w env \<Rightarrow>
     ('w \<Rightarrow> key \<Rightarrow> 's option) \<Rightarrow> bool" where
  "status_store get put key_of state_of E st \<longleftrightarrow>
     (\<forall>k w b w'. get k w = (Inr b, w') \<longrightarrow> st w' k = Some (state_of b) \<and> key_of b = k) \<and>
     (\<forall>b w k. st (snd (put b w)) k = st w k \<or>
        k = key_of b \<and> st (snd (put b w)) k = Some (state_of b)) \<and>
     (\<forall>k S. frame_of E (in_states st k S)) \<and>
     (\<forall>k S p. keeps (in_states st k S) (Delete_PVC E p))"

definition backup_store :: "'w env \<Rightarrow> ('w \<Rightarrow> key \<Rightarrow> PGBackupState option) \<Rightarrow> bool" where
  "backup_store E st = status_store (Get_Backup E) (StatusUpdate_Backup E)
     (\<lambda>b. object_key (b_meta b)) (\<lambda>b. State (b_status b)) E st"

definition restore_store :: "'w env \<Rightarrow> ('w \<Rightarrow> key \<Rightarrow> PGRestoreState option) \<Rightarrow> bool" where
  "restore_store E st = status_store (Get_Restore E) (StatusUpdate_Restore E)
     (\<lambda>r. object_key (r_meta r)) RestoreState E st"

text \<open>
  A kind of object with a status subresource, as the controllers of backups and of restores use
  it: what reading, writing and reading again to write keep of the stored state.
\<close>

locale status_kind =
  fixes get :: "'w env \<Rightarrow> key \<Rightarrow> ('w, 'o) io" and put :: "'w env \<Rightarrow> 'o \<Rightarrow> ('w, unit) io"
    and key_of :: "'o \<Rightarrow> key" and state_of :: "'o \<Rightarrow> 's"
    and stored :: "'w env \<Rightarrow> ('w \<Rightarrow> key \<Rightarrow> 's option) \<Rightarrow> bool"
  assumes read_law: "stored E st \<Longrightarrow> get E k w = (Inr b, w') \<Longrightarrow> st w' k = Some (state_of b) \<and> key_of b = k"
    and write_law: "stored E st \<Longrightarrow> st (snd (put E b w)) k = st w k \<or>
      k = key_of b \<and> st (snd (put E b w)) k = Some (state_of b)"
    and frame_law: "stored E st \<Longrightarrow> frame_of E (in_states st k S)"
    and read_frame: "stored E st \<Longrightarrow> keeps (in_states st k S) (get E k')"
    and claim_frame: "stored E st \<Longrightarrow> keeps (in_states st k S) (Delete_PVC E p)"
begin

lemma keeps_put:
  assumes "stored E st" and "key_of b = k \<Longrightarrow> state_of b \<in> S"
  shows "keeps (in_states st k S) (put E b)"
proof (rule keepsI)
  fix w assume "in_states st k S w"
  with write_law [OF assms(1), of b w k] assms(2) show "in_states st k S (snd (put E b w))"
    by (auto simp: in_states_def)
qed

lemma yields_get:
  assumes st: "stored E st"
  shows "yields (in_states st k S) (get E k') (\<lambda>b w. key_of b = k \<longrightarrow> state_of b \<in> S)"
  unfolding yields_def
proof (intro allI conjI impI)
  fix w assume "in_states st k S w"
  with read_frame [OF st] show I: "in_states st k S (snd (get E k' w))" by (rule keepsD)
  fix b assume "fst (get E k' w) = Inr b" and k: "key_of b = k"
  then have "get E k' w = (Inr b, snd (get E k' w))" by (simp add: prod_eq_iff)
  from read_law [OF st this] I k show "state_of b \<in> S" by (simp add: in_states_def)
qed

lemma keeps_read_write:
  assumes st: "stored E st"
    and upd: "\<And>b now b'. upd now b = Some b' \<Longrightarrow> key_of b' = key_of b \<and> (state_of b \<in> S \<longrightarrow> state_of b' \<in> S)"
  shows "keeps (in_states st k S) (RetryOnConflict E
    (must msg (get E k') (\<lambda>b. look (time_Now E) (\<lambda>now. case upd now b of
        None \<Rightarrow> throw e | Some b' \<Rightarrow> put E b'))))"
proof -
  have "keeps (in_states st k S) (case upd now b of None \<Rightarrow> throw e | Some b' \<Rightarrow> put E b')"
    if "key_of b = k \<longrightarrow> state_of b \<in> S" for now b
    using that upd by (intro keeps_option keeps_throw keeps_put [OF st]) fastforce+
  then show ?thesis
    unfolding must_def
    by (intro frameD(1) [OF frame_law [OF st]] keeps_attempt_yields [OF yields_get [OF st]] keeps_throw)
      (auto simp: look_def dest: keepsD)
qed

end

interpretation backups: status_kind Get_Backup StatusUpdate_Backup "\<lambda>b. object_key (b_meta b)"
  "\<lambda>b. State (b_status b)" backup_store
  unfolding backup_store_def status_store_def
  by unfold_locales (blast intro: frameD(3))+

interpretation restores: status_kind Get_Restore StatusUpdate_Restore "\<lambda>r. object_key (r_meta r)"
  RestoreState restore_store
  unfolding restore_store_def status_store_def
  by unfold_locales (blast intro: frameD(13))+

lemmas backup_store_frame = backups.frame_law
lemmas backup_store_Get = backups.read_law

text \<open>
  The update of a status keeps the stored state within a set the update function keeps it in.
\<close>

lemma keeps_UpdateStatusP:
  assumes st: "backup_store E st"
    and upd: "\<And>now s s'. updateFunc now s = Some s' \<Longrightarrow> State s \<in> S \<Longrightarrow> State s' \<in> S"
  shows "keeps (in_states st k S) (UpdateStatusP E pgBackup updateFunc)"
proof -
  let ?upd = "\<lambda>now b. map_option (\<lambda>s. b\<lparr>b_status := s\<rparr>) (updateFunc now (b_status b))"
  have "keeps (in_states st k S) (RetryOnConflict E
     (must ''get PGBackup'' (Get_Backup E (object_key (b_meta pgBackup)))
       (\<lambda>b. look (time_Now E) (\<lambda>now. case ?upd now b of
          None \<Rightarrow> throw (Panic ''nil pointer dereference'') | Some b' \<Rightarrow> StatusUpdate_Backup E b'))))"
    by (rule backups.keeps_read_write [OF st]) (use upd in auto)
  then show ?thesis
    unfolding UpdateStatusP_def case_map_option comp_def .
qed

lemma keeps_UpdateStatusAt:
  assumes "backup_store E st" and "\<And>now s. State s \<in> S \<Longrightarrow> State (upd now s) \<in> S"
  shows "keeps (in_states st k S) (UpdateStatusAt E pgBackup upd)"
  unfolding UpdateStatusAt_def using assms by (auto intro: keeps_UpdateStatusP)

lemma keeps_UpdateStatus:
  assumes "backup_store E st" and "\<And>s. State s \<in> S \<Longrightarrow> State (upd s) \<in> S"
  shows "keeps (in_states st k S) (UpdateStatus E pgBackup upd)"
  unfolding UpdateStatus_def using assms by (auto intro: keeps_UpdateStatusAt)

text \<open>
  The specification of a backup's life: new, starting, running, succeeded, or failed from any
  state that is not final. A backup that has succeeded can still be marked failed when it is a
  volume snapshot or names no repository; no other state is left by a final one.
\<close>

inductive backup_step :: "PerconaPGBackupSpec \<Rightarrow> PGBackupState \<Rightarrow> PGBackupState \<Rightarrow> bool" for spec where
  step_start: "backup_step spec BackupNew BackupStarting"
| step_run: "backup_step spec BackupStarting BackupRunning"
| step_succeed: "backup_step spec BackupRunning BackupSucceeded"
| step_fail: "\<not> IsTerminal s \<Longrightarrow> backup_step spec s BackupFailed"
| step_late_fail: "SpecMethod spec = Some BackupMethodVolumeSnapshot \<or> deref (SpecRepoName spec) [] = [] \<Longrightarrow>
    backup_step spec BackupSucceeded BackupFailed"

inductive_cases backup_step_FailedE: "backup_step spec BackupFailed s"
inductive_cases backup_step_SucceededE: "backup_step spec BackupSucceeded s"

definition next_states :: "PerconaPGBackupSpec \<Rightarrow> PGBackupState \<Rightarrow> PGBackupState set" where
  "next_states spec s = insert s {s'. backup_step spec s s'}"

lemma next_states_self [simp, intro]: "s \<in> next_states spec s"
  by (simp add: next_states_def)

lemma next_states_step [intro]: "backup_step spec s s' \<Longrightarrow> s' \<in> next_states spec s"
  by (simp add: next_states_def)

lemma backup_step_fails:
  "backup_step spec BackupNew BackupFailed" "backup_step spec BackupStarting BackupFailed"
  "backup_step spec BackupRunning BackupFailed" "backup_step spec (BackupStateOther x) BackupFailed"
  by (simp_all add: step_fail)

lemmas backup_steps = step_start step_run step_succeed step_late_fail backup_step_fails

lemma next_states_fail: "\<not> IsTerminal s \<Longrightarrow> BackupFailed \<in> next_states spec s"
  by (intro next_states_step step_fail)

section \<open>Frames of the shared helpers\<close>

lemma keeps_lift [frame_intros]: "keeps I (lift r)"
  unfolding lift_def by (intro frame_intros)

lemma frame_helpers:
  assumes F: "frame_of E I"
  shows "keeps I (RemoveKeepJobFinalizer E job)"
    and "keeps I (GetReadyInstancePod E c n)"
    and "keeps I (GetLease E l n)"
    and "keeps I (ReleaseLease E l h n)"
    and "keeps I (GetLatestBackup E cr)"
    and "keeps I (GetInfo E pod repo)"
    and "keeps I (SetAnnotationsToBackup E pod sz bs repo an)"
proof -
  show "keeps I (RemoveKeepJobFinalizer E job)"
    unfolding RemoveKeepJobFinalizer_def by (intro frame_intros frameD [OF F])
  show "keeps I (GetReadyInstancePod E c n)"
    unfolding GetReadyInstancePod_def by (intro frame_intros frameD [OF F])
  show "keeps I (GetLease E l n)"
    unfolding GetLease_def by (intro frame_intros frameD [OF F])
  show "keeps I (ReleaseLease E l h n)"
    unfolding ReleaseLease_def GetLease_def by (intro frame_intros frameD [OF F])
  show "keeps I (GetLatestBackup E cr)"
    unfolding GetLatestBackup_def by (intro frame_intros frameD [OF F])
  show "keeps I (GetInfo E pod repo)"
    unfolding GetInfo_def by (intro frame_intros frameD [OF F])
  show "keeps I (SetAnnotationsToBackup E pod sz bs repo an)"
    unfolding SetAnnotationsToBackup_def by (intro frame_intros frameD [OF F])
qed

lemma frame_RunFinalizer:
  assumes "\<And>a b. keeps I (patch a b)" and "\<And>o'. keeps I (f o')"
  shows "keeps I (RunFinalizer E fins set_fins patch obj finalizer f)"
  unfolding RunFinalizer_def by (intro frame_intros assms)

lemma frame_AcquireLease:
  assumes F: "frame_of E I" and "\<And>h. keeps I (check h)"
  shows "keeps I (AcquireLease E l holder n (Some check))"
proof -
  have "keeps I (acquire_mutate E holder (Some check) lease)" for lease
    unfolding acquire_mutate_def Let_def option.case by (intro frame_intros assms(2))
  then show ?thesis
    unfolding AcquireLease_def by (intro frame_intros frameD [OF F])
qed

section \<open>The stored lease\<close>

text \<open>
  \<open>hd_of\<close> reads the holder of the stored lease at a key, \<open>None\<close> when there is
  no lease or it has no holder. \<open>CreateOrUpdate\<close> reads the lease, or fails to, and runs the
  mutate function on it: the function's error is returned and nothing is written; when the call
  succeeds the stored holder is the one the function returned. The calls on backups leave leases
  alone.
\<close>

definition lease_store :: "'w env \<Rightarrow> ('w \<Rightarrow> key \<Rightarrow> string option) \<Rightarrow> bool" where
  "lease_store E hd_of \<longleftrightarrow> retry_law E \<and>
     (\<forall>k f w r w'. CreateOrUpdate_Lease E k f w = (r, w') \<longrightarrow>
        (\<exists>e. r = Inl e \<and> w' = w \<and> \<not> is_panic e \<and> \<not> error_is e ErrLeaseAlreadyHeld) \<or>
        (\<exists>l fr w1. HolderIdentity l = hd_of w k \<and> f l w = (fr, w1) \<and>
           (\<forall>e. fr = Inl e \<longrightarrow> r = Inl e \<and> w' = w1) \<and>
           (\<forall>l'. fr = Inr l' \<longrightarrow> r = Inr () \<longrightarrow> hd_of w' k = HolderIdentity l'))) \<and>
     (\<forall>k k' x. keeps (\<lambda>w. hd_of w k = x) (Get_Backup E k')) \<and>
     (\<forall>k b x. keeps (\<lambda>w. hd_of w k = x) (StatusUpdate_Backup E b))"

lemma lease_store_frame:
  assumes "lease_store E hd_of"
  shows "keeps (\<lambda>w. hd_of w k = x) (Get_Backup E k')"
    and "keeps (\<lambda>w. hd_of w k = x) (StatusUpdate_Backup E b)"
    and "retry_law E"
  using assms unfolding lease_store_def by blast+

lemma lease_store_cases:
  assumes "lease_store E hd_of" and "CreateOrUpdate_Lease E k f w = (r, w')"
  obtains (unread) e where "r = Inl e" and "w' = w" and "\<not> is_panic e"
  | (mutated) l fr w1 where "HolderIdentity l = hd_of w k" and "f l w = (fr, w1)"
      and "\<And>e. fr = Inl e \<Longrightarrow> r = Inl e \<and> w' = w1"
      and "\<And>l'. fr = Inr l' \<Longrightarrow> r = Inr () \<Longrightarrow> hd_of w' k = HolderIdentity l'"
  using assms(1) [unfolded lease_store_def, THEN conjunct2, THEN conjunct1, rule_format, OF assms(2)]
  by (elim disjE exE conjE) simp_all

lemma lease_store_ok:
  assumes "lease_store E hd_of" and "CreateOrUpdate_Lease E k f w = (Inr (), w')"
  shows "\<exists>l l' w1. f l w = (Inr l', w1) \<and> hd_of w' k = HolderIdentity l'"
  using assms
proof (cases rule: lease_store_cases)
  case (mutated l fr w1)
  then show ?thesis by (cases fr) auto
qed simp

end
