(* ===== verification/Memory.thy ===== *)
theory Memory
  imports Controller
begin

text \<open>
  An API server in memory: an instance of the interface \<open>env\<close> whose world is the list of
  stored objects. It shows that the laws the properties assume of the interface can hold, and
  the witnesses run the controllers on it.
\<close>

record mem =
  m_now :: time
  m_backups :: "PerconaPGBackup list"
  m_clusters :: "PerconaPGCluster list"
  m_crunchy :: "PostgresCluster list"
  m_restores :: "PerconaPGRestore list"
  m_jobs :: "Job list"
  m_leases :: "Lease list"
  m_pods :: "Pod list"
  m_sts :: "StatefulSet list"
  m_pvcs :: "PVC list"
  m_snapshots :: "VolumeSnapshot list"
  m_endpoints :: "Endpoints list"

definition lookup :: "('o \<Rightarrow> key) \<Rightarrow> key \<Rightarrow> 'o list \<Rightarrow> 'o option" where
  "lookup key k xs = find (\<lambda>x. key x = k) xs"

definition replace :: "('o \<Rightarrow> key) \<Rightarrow> key \<Rightarrow> ('o \<Rightarrow> 'o) \<Rightarrow> 'o list \<Rightarrow> 'o list" where
  "replace key k f xs = map (\<lambda>x. if key x = k then f x else x) xs"

lemma lookup_replace:
  assumes "\<And>x. key (f x) = key x"
  shows "lookup key k (replace key k' f xs) =
    (if k = k' then map_option f (lookup key k xs) else lookup key k xs)"
  using assms by (induction xs) (auto simp: lookup_def replace_def)

lemma lookup_Cons: "lookup key k (x # xs) = (if key x = k then Some x else lookup key k xs)"
  by (simp add: lookup_def)

lemma lookup_filter: "lookup key k (filter (\<lambda>x. key x \<noteq> k') xs) = (if k = k' then None else lookup key k xs)"
  by (induction xs) (auto simp: lookup_def)

definition not_found :: error where
  "not_found = ApiError ReasonNotFound ''not found''"

definition mem_get :: "('w \<Rightarrow> 'o list) \<Rightarrow> ('o \<Rightarrow> key) \<Rightarrow> key \<Rightarrow> ('w, 'o) io" where
  "mem_get objs key k = (\<lambda>w. (case lookup key k (objs w) of None \<Rightarrow> Inl not_found | Some x \<Rightarrow> Inr x, w))"

definition mem_list :: "('w \<Rightarrow> 'o list) \<Rightarrow> ('o \<Rightarrow> bool) \<Rightarrow> ('w, 'o list) io" where
  "mem_list objs P = (\<lambda>w. (Inr (filter P (objs w)), w))"

definition mem_put ::
    "('w \<Rightarrow> 'o list) \<Rightarrow> (('o list \<Rightarrow> 'o list) \<Rightarrow> 'w \<Rightarrow> 'w) \<Rightarrow> ('o \<Rightarrow> key) \<Rightarrow> key \<Rightarrow> ('o \<Rightarrow> 'o) \<Rightarrow> ('w, 'o) io" where
  "mem_put objs upd key k f = (\<lambda>w.
     case lookup key k (objs w) of
       None \<Rightarrow> (Inl not_found, w)
     | Some x \<Rightarrow> (Inr (f x), upd (replace key k f) w))"

definition mem_new ::
    "('w \<Rightarrow> 'o list) \<Rightarrow> (('o list \<Rightarrow> 'o list) \<Rightarrow> 'w \<Rightarrow> 'w) \<Rightarrow> ('o \<Rightarrow> key) \<Rightarrow> 'o \<Rightarrow> ('w, unit) io" where
  "mem_new objs upd key x = (\<lambda>w.
     if lookup key (key x) (objs w) = None then (Inr (), upd (\<lambda>xs. x # xs) w)
     else (Inl (ApiError ReasonAlreadyExists ''already exists''), w))"

definition mem_del ::
    "('w \<Rightarrow> 'o list) \<Rightarrow> (('o list \<Rightarrow> 'o list) \<Rightarrow> 'w \<Rightarrow> 'w) \<Rightarrow> ('o \<Rightarrow> key) \<Rightarrow> key \<Rightarrow> ('w, unit) io" where
  "mem_del objs upd key k = (\<lambda>w.
     case lookup key k (objs w) of
       None \<Rightarrow> (Inl not_found, w)
     | Some x \<Rightarrow> (Inr (), upd (filter (\<lambda>y. key y \<noteq> k)) w))"

definition unit_of :: "('w, 'a) io \<Rightarrow> ('w, unit) io" where
  "unit_of m = attempt m throw (\<lambda>_. ret ())"

abbreviation "bkey b \<equiv> object_key (b_meta b)"

definition match_labels :: "strmap \<Rightarrow> strmap \<Rightarrow> bool" where
  "match_labels sel ls = list_all (\<lambda>l. sel l = None \<or> sel l = ls l)
     [LabelCluster, LabelInstance, LabelInstanceSet, LabelRole, LabelData, LabelPGBackRest,
      LabelPGBackRestBackup, LabelPGBackRestRepo, ''app.kubernetes.io/instance'']"

definition mem_poll :: "('w, bool) io \<Rightarrow> ('w, unit) io" where
  "mem_poll c = (\<lambda>w. case c w of
       (Inr True, w') \<Rightarrow> (Inr (), w')
     | (Inr False, w') \<Rightarrow> (Inl (Sentinel ''context deadline exceeded''), w')
     | (Inl e, w') \<Rightarrow> (Inl e, w'))"

definition new_lease :: "key \<Rightarrow> Lease" where
  "new_lease k = \<lparr>l_meta = \<lparr>Name = snd k, Namespace = fst k, UID = [], ResourceVersion = [],
     Generation = 0, CreationTimestamp = 0, DeletionTimestamp = None, Labels = Map.empty,
     Annotations = Map.empty, Finalizers = []\<rparr>, HolderIdentity = None, AcquireTime = None\<rparr>"

abbreviation "lkey l \<equiv> object_key (l_meta l)"
abbreviation "vkey v \<equiv> object_key (v_meta v)"

definition mem_lease :: "key \<Rightarrow> (Lease \<Rightarrow> (mem, Lease) io) \<Rightarrow> (mem, unit) io" where
  "mem_lease k f = (\<lambda>w.
     let old = deref (lookup lkey k (m_leases w)) (new_lease k) in
     case f old w of
       (Inl e, w') \<Rightarrow> (Inl e, w')
     | (Inr l, w') \<Rightarrow> (Inr (), m_leases_update (\<lambda>ls.
         old\<lparr>HolderIdentity := HolderIdentity l, AcquireTime := AcquireTime l\<rparr> #
           filter (\<lambda>x. lkey x \<noteq> k) ls) w'))"

definition mem_conditions_set :: "Condition list \<Rightarrow> Condition \<Rightarrow> Condition list" where
  "mem_conditions_set cs c = c # filter (\<lambda>d. ConditionType d \<noteq> ConditionType c) cs"

definition set_meta :: "ObjectMeta \<Rightarrow> ObjectMeta \<Rightarrow> ObjectMeta" where
  "set_meta new old = old\<lparr>Labels := Labels new, Annotations := Annotations new, Finalizers := Finalizers new\<rparr>"

lemma object_key_set_meta [simp]: "object_key (set_meta n m) = object_key m"
  by (simp add: object_key_def set_meta_def)

definition memory :: "mem env" where
  "memory = \<lparr>
     time_Now = m_now, feature_Enabled = (\<lambda>g. g = ''BackupSnapshots''),
     RetryOnConflict = (\<lambda>f. f), PollUntil = mem_poll,
     multierror_text = (\<lambda>es. concat (map error_text es)),
     ContainsFinalizer = (\<lambda>fs f. f \<in> set fs),
     AddFinalizer = (\<lambda>fs f. if f \<in> set fs then (fs, False) else (fs @ [f], True)),
     RemoveFinalizer = (\<lambda>fs f. (filter (\<lambda>g. g \<noteq> f) fs, f \<in> set fs)),
     FindStatusCondition = (\<lambda>cs t. find (\<lambda>c. ConditionType c = t) cs),
     IsStatusConditionPresentAndEqual = (\<lambda>cs t s.
       map_option ConditionStatus (find (\<lambda>c. ConditionType c = t) cs) = Some s),
     SetStatusCondition = mem_conditions_set,
     RemoveStatusCondition = (\<lambda>cs t. filter (\<lambda>d. ConditionType d \<noteq> t) cs),
     Get_Backup = mem_get m_backups bkey,
     List_Backups = (\<lambda>ns c. mem_list m_backups
       (\<lambda>b. Namespace (b_meta b) = ns \<and> SpecPGCluster (b_spec b) = c)),
     Update_Backup = (\<lambda>b. unit_of (mem_put m_backups m_backups_update bkey (bkey b)
       (\<lambda>x. x\<lparr>b_meta := set_meta (b_meta b) (b_meta x), b_spec := b_spec b\<rparr>))),
     StatusUpdate_Backup = (\<lambda>b. unit_of (mem_put m_backups m_backups_update bkey (bkey b)
       (\<lambda>x. x\<lparr>b_status := b_status b\<rparr>))),
     Patch_Backup = (\<lambda>a b. mem_put m_backups m_backups_update bkey (bkey b)
       (\<lambda>x. x\<lparr>b_meta := set_meta (b_meta b) (b_meta x)\<rparr>)),
     Get_Cluster = mem_get m_clusters (\<lambda>c. object_key (pg_meta c)),
     Update_Cluster = (\<lambda>c. unit_of (mem_put m_clusters m_clusters_update (\<lambda>c. object_key (pg_meta c))
       (object_key (pg_meta c)) (\<lambda>x. c))),
     Patch_Cluster = (\<lambda>a c. mem_put m_clusters m_clusters_update (\<lambda>c. object_key (pg_meta c))
       (object_key (pg_meta c)) (\<lambda>x. c)),
     Get_Crunchy = mem_get m_crunchy (\<lambda>c. object_key (cc_meta c)),
     StatusUpdate_Crunchy = (\<lambda>c. unit_of (mem_put m_crunchy m_crunchy_update (\<lambda>c. object_key (cc_meta c))
       (object_key (cc_meta c)) (\<lambda>x. x\<lparr>cc_PGBackRest := cc_PGBackRest c\<rparr>))),
     StatusPatch_Crunchy = (\<lambda>a c. unit_of (mem_put m_crunchy m_crunchy_update (\<lambda>c. object_key (cc_meta c))
       (object_key (cc_meta c)) (\<lambda>x. x\<lparr>cc_PGBackRest := cc_PGBackRest c\<rparr>))),
     Get_Restore = mem_get m_restores (\<lambda>r. object_key (r_meta r)),
     StatusUpdate_Restore = (\<lambda>r. unit_of (mem_put m_restores m_restores_update
       (\<lambda>r. object_key (r_meta r)) (object_key (r_meta r))
       (\<lambda>x. x\<lparr>RestoreState := RestoreState r, RestoreCompletedAt := RestoreCompletedAt r\<rparr>))),
     Patch_Restore = (\<lambda>a r. mem_put m_restores m_restores_update
       (\<lambda>r. object_key (r_meta r)) (object_key (r_meta r))
       (\<lambda>x. x\<lparr>r_meta := set_meta (r_meta r) (r_meta x)\<rparr>)),
     Get_Job = mem_get m_jobs (\<lambda>j. object_key (j_meta j)),
     List_Jobs = (\<lambda>ns l. mem_list m_jobs (\<lambda>j. Namespace (j_meta j) = ns \<and> match_labels l (Labels (j_meta j)))),
     Update_Job = (\<lambda>j. unit_of (mem_put m_jobs m_jobs_update (\<lambda>j. object_key (j_meta j))
       (object_key (j_meta j)) (\<lambda>x. j))),
     Delete_Job = (\<lambda>j. mem_del m_jobs m_jobs_update (\<lambda>j. object_key (j_meta j)) (object_key (j_meta j))),
     Get_Lease = mem_get m_leases (\<lambda>l. object_key (l_meta l)),
     CreateOrUpdate_Lease = mem_lease,
     Delete_Lease = (\<lambda>l. mem_del m_leases m_leases_update (\<lambda>l. object_key (l_meta l)) (object_key (l_meta l))),
     List_InstancePods = (\<lambda>ns c. mem_list m_pods (\<lambda>p. Namespace (p_meta p) = ns)),
     List_Pods = (\<lambda>ns l. mem_list m_pods (\<lambda>p. Namespace (p_meta p) = ns \<and> match_labels l (Labels (p_meta p)))),
     Get_StatefulSet = mem_get m_sts (\<lambda>s. object_key (s_meta s)),
     Patch_StatefulSet = (\<lambda>a s. unit_of (mem_put m_sts m_sts_update (\<lambda>s. object_key (s_meta s))
       (object_key (s_meta s)) (\<lambda>x. s))),
     List_PVCs = (\<lambda>ns l. mem_list m_pvcs (\<lambda>p. Namespace (v_meta p) = ns \<and> match_labels l (Labels (v_meta p)))),
     Create_VolumeSnapshot = mem_new m_snapshots m_snapshots_update (\<lambda>v. object_key (vs_meta v)),
     Get_VolumeSnapshot = mem_get m_snapshots (\<lambda>v. object_key (vs_meta v)),
     SetControllerReference = (\<lambda>b v. Inr v),
     NewExecClient = ret (),
     Exec = (\<lambda>p c. ret (None, [], [])),
     json_Unmarshal_Info = (\<lambda>s. Inr []),
     PodExec = (\<lambda>n p c i a. ret (None, [], [])),
     LatestCommitGetter = (\<lambda>c b. look m_now (\<lambda>now. ret (Some now))),
     time_RFC3339 = sprint_int,
     volumesnapshot_GroupName = ''snapshot.storage.k8s.io'',
     SetControllerReference_Job = (\<lambda>r j. Inr j),
     List_Restores = (\<lambda>ns. mem_list m_restores (\<lambda>r. Namespace (r_meta r) = ns)),
     List_StatefulSets = (\<lambda>ns l. mem_list m_sts (\<lambda>s. Namespace (s_meta s) = ns \<and> match_labels l (Labels (s_meta s)))),
     Get_PVC = mem_get m_pvcs vkey,
     Create_PVC = mem_new m_pvcs m_pvcs_update vkey,
     Delete_PVC = (\<lambda>p. mem_del m_pvcs m_pvcs_update vkey (vkey p)),
     Create_Job = mem_new m_jobs m_jobs_update (\<lambda>j. object_key (j_meta j)),
     DeleteForeground_Job = mem_del m_jobs m_jobs_update (\<lambda>j. object_key (j_meta j)),
     Get_Endpoints = mem_get m_endpoints (\<lambda>e. object_key (e_meta e)),
     Delete_Endpoints = (\<lambda>e. mem_del m_endpoints m_endpoints_update (\<lambda>e. object_key (e_meta e)) (object_key (e_meta e)))\<rparr>"

definition mem_state :: "mem \<Rightarrow> key \<Rightarrow> PGBackupState option" where
  "mem_state w k = map_option (\<lambda>b. State (b_status b)) (lookup bkey k (m_backups w))"

section \<open>The laws hold\<close>

lemma memory_retry: "retry_law memory"
  by (simp add: retry_law_def memory_def conflict_runs.last_run)

lemma memory_poll: "poll_law memory"
proof -
  have "poll_runs c w (mem_poll c w)" for c :: "(mem, bool) io" and w
  proof -
    obtain r w' where c: "c w = (r, w')" by fastforce
    show ?thesis
    proof (cases r)
      case (Inl e)
      with c show ?thesis by (simp add: mem_poll_def poll_runs.poll_error)
    next
      case (Inr b)
      with c show ?thesis
        by (cases b) (auto simp: mem_poll_def intro: poll_runs.poll_done poll_runs.poll_deadline)
    qed
  qed
  then show ?thesis by (simp add: poll_law_def memory_def)
qed

lemma memory_finalizers: "finalizer_laws memory"
  by (auto simp: finalizer_laws_def memory_def)

lemma memory_conditions: "condition_laws memory"
  by (auto simp: condition_laws_def memory_def mem_conditions_set_def find_None_iff)

lemma keeps_mem_get [frame_intros]: "keeps I (mem_get objs key k)"
  by (simp add: keeps_def mem_get_def)

lemma keeps_mem_list [frame_intros]: "keeps I (mem_list objs P)"
  by (simp add: keeps_def mem_list_def)

lemma keeps_unit_of [frame_intros]: "keeps I m \<Longrightarrow> keeps I (unit_of m)"
  unfolding unit_of_def by (intro frame_intros)

lemma keeps_mem_put:
  assumes "\<And>w. I w \<Longrightarrow> I (upd (replace key k f) w)"
  shows "keeps I (mem_put objs upd key k f)"
  using assms by (auto simp: keeps_def mem_put_def split: option.splits)

lemma keeps_mem_new:
  assumes "\<And>w. lookup key (key x) (objs w) = None \<Longrightarrow> I w \<Longrightarrow> I (upd (\<lambda>xs. x # xs) w)"
  shows "keeps I (mem_new objs upd key x)"
  using assms by (auto simp: keeps_def mem_new_def)

lemma keeps_mem_del:
  assumes "\<And>w. I w \<Longrightarrow> I (upd (filter (\<lambda>y. key y \<noteq> k)) w)"
  shows "keeps I (mem_del objs upd key k)"
  using assms by (auto simp: keeps_def mem_del_def split: option.splits)

lemma keeps_mem_lease:
  assumes "\<And>l. keeps I (f l)" and "\<And>g w. I w \<Longrightarrow> I (m_leases_update g w)"
  shows "keeps I (mem_lease k f)"
proof (rule keepsI)
  fix w assume "I w"
  with assms show "I (snd (mem_lease k f w))"
    by (auto simp: mem_lease_def Let_def keeps_def split: option.splits prod.splits sum.splits)
      (metis snd_conv)+
qed

text \<open>A property of the states of the stored backups and restores.\<close>

abbreviation "rkey r \<equiv> object_key (r_meta r)"

lemma memory_calls_keep:
  assumes other: "\<And>w v. m_backups v = m_backups w \<Longrightarrow> m_restores v = m_restores w \<Longrightarrow> m_pvcs v = m_pvcs w \<Longrightarrow>
      I w \<Longrightarrow> I v"
    and claim: "\<And>w p. lookup vkey (vkey p) (m_pvcs w) = None \<Longrightarrow> I w \<Longrightarrow> I (m_pvcs_update (\<lambda>ps. p # ps) w)"
    and backup: "\<And>w k f. (\<And>x. b_status (f x) = b_status x) \<Longrightarrow> (\<And>x. bkey (f x) = bkey x) \<Longrightarrow> I w \<Longrightarrow>
      I (m_backups_update (replace bkey k f) w)"
    and restore: "\<And>w k f. (\<And>x. RestoreState (f x) = RestoreState x) \<Longrightarrow> (\<And>x. rkey (f x) = rkey x) \<Longrightarrow> I w \<Longrightarrow>
      I (m_restores_update (replace rkey k f) w)"
  shows "calls_keep memory I"
proof -
  have put: "keeps I (mem_put m_backups m_backups_update bkey k f)"
    if "\<And>x. b_status (f x) = b_status x" "\<And>x. bkey (f x) = bkey x" for k f
    by (rule keeps_mem_put) (rule backup [OF that])
  have rput: "keeps I (mem_put m_restores m_restores_update rkey k f)"
    if "\<And>x. RestoreState (f x) = RestoreState x" "\<And>x. rkey (f x) = rkey x" for k f
    by (rule keeps_mem_put) (rule restore [OF that])
  show ?thesis
    unfolding calls_keep_def
    by (intro conjI allI impI; simp add: memory_def;
        intro frame_intros keeps_mem_lease put rput keeps_mem_put keeps_mem_new keeps_mem_del;
        auto intro: other claim)
qed

lemma memory_frame:
  assumes other: "\<And>w v. m_backups v = m_backups w \<Longrightarrow> m_restores v = m_restores w \<Longrightarrow> I w \<Longrightarrow> I v"
    and "\<And>w k f. (\<And>x. b_status (f x) = b_status x) \<Longrightarrow> (\<And>x. bkey (f x) = bkey x) \<Longrightarrow> I w \<Longrightarrow>
      I (m_backups_update (replace bkey k f) w)"
    and "\<And>w k f. (\<And>x. RestoreState (f x) = RestoreState x) \<Longrightarrow> (\<And>x. rkey (f x) = rkey x) \<Longrightarrow> I w \<Longrightarrow>
      I (m_restores_update (replace rkey k f) w)"
  shows "frame_of memory I" and "keeps I (Delete_PVC memory p)"
proof -
  have "calls_keep memory I"
    by (rule memory_calls_keep) (use assms in \<open>auto intro: other\<close>)
  then show "frame_of memory I"
    using memory_retry memory_poll by (simp add: frame_of_def)
  show "keeps I (Delete_PVC memory p)"
    unfolding memory_def by (simp, rule keeps_mem_del) (auto intro: other)
qed

definition mem_restore_state :: "mem \<Rightarrow> key \<Rightarrow> PGRestoreState option" where
  "mem_restore_state w k = map_option RestoreState (lookup rkey k (m_restores w))"

lemma memory_restore_store: "restore_store memory mem_restore_state"
proof -
  have get: "mem_restore_state w' k = Some (RestoreState r) \<and> rkey r = k"
    if "Get_Restore memory k w = (Inr r, w')" for k w r w'
    using that
    by (auto simp: memory_def mem_get_def mem_restore_state_def lookup_def find_Some_iff split: option.splits)
  have put: "mem_restore_state (snd (StatusUpdate_Restore memory r w)) k = mem_restore_state w k \<or>
      k = rkey r \<and> mem_restore_state (snd (StatusUpdate_Restore memory r w)) k = Some (RestoreState r)" for r w k
    by (auto simp: memory_def mem_put_def unit_of_def mem_restore_state_def io_defs lookup_replace split: option.splits)
  have frame: "frame_of memory (in_states mem_restore_state k S)"
      "keeps (in_states mem_restore_state k S) (Delete_PVC memory p)" for k S p
    by (rule memory_frame;
      auto simp: in_states_def mem_restore_state_def lookup_replace option.map_comp comp_def split: if_splits)+
  from get put frame show ?thesis
    unfolding restore_store_def status_store_def by blast
qed

lemma memory_backup_store: "backup_store memory mem_state"
proof -
  have get: "mem_state w' k = Some (State (b_status b)) \<and> bkey b = k"
    if "Get_Backup memory k w = (Inr b, w')" for k w b w'
    using that
    by (auto simp: memory_def mem_get_def mem_state_def lookup_def find_Some_iff split: option.splits)
  have put: "mem_state (snd (StatusUpdate_Backup memory b w)) k = mem_state w k \<or>
      k = bkey b \<and> mem_state (snd (StatusUpdate_Backup memory b w)) k = Some (State (b_status b))" for b w k
    by (auto simp: memory_def mem_put_def unit_of_def mem_state_def io_defs lookup_replace split: option.splits)
  have frame: "frame_of memory (in_states mem_state k S)"
      "keeps (in_states mem_state k S) (Delete_PVC memory p)" for k S p
    by (rule memory_frame;
      auto simp: in_states_def mem_state_def lookup_replace option.map_comp comp_def split: if_splits)+
  from get put frame show ?thesis
    unfolding backup_store_def status_store_def by blast
qed

definition mem_holder :: "mem \<Rightarrow> key \<Rightarrow> string option" where
  "mem_holder w k = Option.bind (lookup lkey k (m_leases w)) HolderIdentity"

lemma lookup_key: "lookup key k xs = Some x \<Longrightarrow> key x = k"
  unfolding lookup_def by (induction xs) (auto split: if_splits)

lemma mem_lease_old:
  "HolderIdentity (deref (lookup lkey k (m_leases w)) (new_lease k)) = mem_holder w k"
  "lkey (deref (lookup lkey k (m_leases w)) (new_lease k)) = k"
proof -
  have new: "HolderIdentity (new_lease k) = None" "lkey (new_lease k) = k"
    by (simp_all add: new_lease_def object_key_def)
  show "HolderIdentity (deref (lookup lkey k (m_leases w)) (new_lease k)) = mem_holder w k"
    and "lkey (deref (lookup lkey k (m_leases w)) (new_lease k)) = k"
    using new lookup_key [of lkey k "m_leases w"]
    by (cases "lookup lkey k (m_leases w)"; simp add: mem_holder_def)+
qed

lemma mem_lease_run:
  assumes "mem_lease k f w = (r, w')"
  shows "\<exists>l fr w1. HolderIdentity l = mem_holder w k \<and> f l w = (fr, w1) \<and>
    (\<forall>e. fr = Inl e \<longrightarrow> r = Inl e \<and> w' = w1) \<and>
    (\<forall>l'. fr = Inr l' \<longrightarrow> r = Inr () \<longrightarrow> mem_holder w' k = HolderIdentity l')"
proof -
  let ?old = "deref (lookup lkey k (m_leases w)) (new_lease k)"
  obtain fr w1 where run: "f ?old w = (fr, w1)" by fastforce
  show ?thesis
  proof (intro exI conjI)
    show "HolderIdentity ?old = mem_holder w k" by (rule mem_lease_old(1))
    show "f ?old w = (fr, w1)" by (rule run)
    show "\<forall>e. fr = Inl e \<longrightarrow> r = Inl e \<and> w' = w1"
      using assms run by (auto simp: mem_lease_def Let_def)
    show "\<forall>l'. fr = Inr l' \<longrightarrow> r = Inr () \<longrightarrow> mem_holder w' k = HolderIdentity l'"
      using assms run mem_lease_old(2) [of k w]
      by (auto simp: mem_lease_def Let_def mem_holder_def lookup_def)
  qed
qed

lemma memory_lease_store: "lease_store memory mem_holder"
proof -
  have "keeps (\<lambda>w. mem_holder w k = x) (Get_Backup memory k')" for k x k'
    unfolding memory_def by (simp, rule keeps_mem_get)
  moreover have "keeps (\<lambda>w. mem_holder w k = x) (StatusUpdate_Backup memory b)" for k x b
    unfolding memory_def by (simp, intro frame_intros keeps_mem_put) (simp add: mem_holder_def)
  ultimately show ?thesis
    using memory_retry mem_lease_run unfolding lease_store_def by (simp add: memory_def)
qed

section \<open>Objects for the witnesses\<close>

definition sample_meta :: "string \<Rightarrow> ObjectMeta" where
  "sample_meta n = \<lparr>Name = n, Namespace = ''ns'', UID = n @ ''-uid'', ResourceVersion = ''1'',
     Generation = 1, CreationTimestamp = 10, DeletionTimestamp = None, Labels = Map.empty,
     Annotations = Map.empty, Finalizers = []\<rparr>"

definition sample_repo :: PGBackRestRepo where
  "sample_repo = \<lparr>RepoNameOf = ''repo1'', RepoAzureContainer = None, RepoGCSBucket = None,
     RepoS3Spec = Some \<lparr>S3Bucket = ''bucket'', S3Endpoint = [], S3Region = []\<rparr>, RepoVolume = None\<rparr>"

definition sample_claim :: PVCSpec where
  "sample_claim = \<lparr>ClaimFields = JNull, DataSource = None\<rparr>"

definition sample_cluster :: PerconaPGCluster where
  "sample_cluster = \<lparr>pg_meta = sample_meta ''pg'', Unmanaged = None, Pause = None, CRVersion = ''3.0.0'',
     BackupsOf = \<lparr>BackupsEnabled = None, BackRestImage = ''img'',
       BackRestGlobal = [''repo1-path'' \<mapsto> ''/data/../pg''], BackRestRepos = [sample_repo],
       BackRestManual = None, BackRestRestore = None, BackRestJobTolerations = None,
       VolumeSnapshotsOf = Some \<lparr>SnapshotMode = ''offline'', SnapshotClassName = ''csi'', OfflineConfig = None,
         SnapshotJobs = None\<rparr>\<rparr>,
     AppState = ''ready'', PatroniVersion = ''4.0.0'', ClusterConditions = [], pg_PGBackRest = None,
     pg_InstanceSets = [\<lparr>SetName = ''set1'', SetDataVolumeClaimSpec = sample_claim, SetWALVolumeClaimSpec = None,
       SetTablespaceVolumes = []\<rparr>], pg_PostgresVersion = 17, pg_Image = ''pg-image''\<rparr>"

definition sample_status :: "PGBackupState \<Rightarrow> PerconaPGBackupStatus" where
  "sample_status s = \<lparr>JobName = [], State = s, StatusError = [], CompletedAt = None, Destination = [],
     BackupType = [], StorageType = StorageTypeUnset, StatusRepo = None, StatusImage = [],
     BackupName = [], BackupSize = 0, StatusCRVersion = [], LatestRestorableTime = None,
     Snapshot = None, Conditions = []\<rparr>"

definition sample_backup :: "string \<Rightarrow> PGBackupState \<Rightarrow> PerconaPGBackup" where
  "sample_backup n s = \<lparr>b_meta = sample_meta n,
     b_spec = \<lparr>SpecPGCluster = ''pg'', SpecRepoName = Some ''repo1'', SpecMethod = None,
       SpecOptions = [], SpecEnv = [], SpecEnvFrom = []\<rparr>,
     b_status = sample_status s\<rparr>"

definition sample_crunchy :: PostgresCluster where
  "sample_crunchy = \<lparr>cc_meta = sample_meta ''pg'', cc_PGBackRest = None\<rparr>"

definition sample_world :: "PerconaPGBackup list \<Rightarrow> mem" where
  "sample_world bs = \<lparr>m_now = 1000, m_backups = bs, m_clusters = [sample_cluster],
     m_crunchy = [sample_crunchy], m_restores = [], m_jobs = [], m_leases = [],
     m_pods = [], m_sts = [], m_pvcs = [], m_snapshots = [], m_endpoints = []\<rparr>"

lemma sample_get:
  "Get_Backup memory (''ns'', n) (sample_world [sample_backup n s]) =
     (Inr (sample_backup n s), sample_world [sample_backup n s])"
  by (simp add: memory_def mem_get_def lookup_def sample_world_def sample_backup_def sample_meta_def object_key_def)

definition sample_job :: "string \<Rightarrow> string \<Rightarrow> Job" where
  "sample_job n c = \<lparr>j_meta = sample_meta n,
     JobConditions = [\<lparr>JobConditionType = c, JobConditionStatus = ConditionTrue\<rparr>],
     JobCompletionTime = Some 900, JobSucceededPods = 1, JobFailedPods = 0, JobTemplate = None\<rparr>"

definition sample_running :: PerconaPGBackup where
  "sample_running = (sample_backup ''b1'' BackupRunning)\<lparr>b_status := (sample_status BackupRunning)\<lparr>JobName := ''job''\<rparr>\<rparr>"

definition sample_restore :: "PGRestoreState \<Rightarrow> PerconaPGRestore" where
  "sample_restore s = \<lparr>r_meta = sample_meta ''r1'', RestorePGCluster = ''pg'', RestoreRepoName = Some ''repo1'',
     VolumeSnapshotBackupName = [], RestoreOptions = [''--type=time''], RestoreEnv = [], RestoreEnvFrom = [],
     RestoreState = s, RestoreCompletedAt = None\<rparr>"

end
