(* ===== verification/Postgres_Exec.thy ===== *)
theory Postgres_Exec
  imports Kube "HOL-Library.Multiset" "HOL-Library.Char_ord" "HOL-Library.List_Lexorder"
begin

text \<open>
  The \<open>psql\<close> command lines of \<open>internal/postgres/exec.go\<close>. An executor runs
  a command with a standard input and gives its error, its standard output and its standard
  error. The variables are given as the list of pairs in the order in which Go iterates the
  map; the commands do not depend on it.
\<close>

type_synonym 'w Executor = "string \<Rightarrow> string list \<Rightarrow> ('w, error option \<times> string \<times> string) io"

definition set_args :: "(string \<times> string) list \<Rightarrow> string list" where
  "set_args variables = map (\<lambda>(k, v). ''--set='' @ k @ ''='' @ v) variables"

definition psql_Exec ::
    "'w Executor \<Rightarrow> string \<Rightarrow> (string \<times> string) list \<Rightarrow> string list \<Rightarrow>
     ('w, error option \<times> string \<times> string) io" where
  "psql_Exec exec sql variables psqlArgs =
     exec sql ([''psql'', ''-Xw'', ''--file=-''] @ sort (set_args variables @ psqlArgs))"

definition exec_script :: string where
  \<open>exec_script = ''
sql_target=$(< /dev/stdin)
sql_databases="$1"
shift 1

databases=$(psql "$@" -Xw -Aqt --file=- <<< "${sql_databases}")
while IFS= read -r database; do
	PGDATABASE="${database}" psql "$@" -Xw --file=- <<< "${sql_target}"
done <<< "${databases}"
''\<close>

definition ExecInDatabasesFromQuery ::
    "'w Executor \<Rightarrow> string \<Rightarrow> string \<Rightarrow> (string \<times> string) list \<Rightarrow>
     ('w, error option \<times> string \<times> string) io" where
  "ExecInDatabasesFromQuery exec databases sql variables =
     exec sql ([''bash'', ''-ceu'', ''--'', exec_script, ''-''] @ databases # sort (set_args variables))"

definition databases_query :: string where
  \<open>databases_query = ''SET search_path = '' @ [CHR 0x27, CHR 0x27] @ '';'' @
     ''SELECT datname FROM pg_catalog.pg_database'' @
     '' WHERE datallowconn AND datname NOT IN ('' @ [CHR 0x27] @ ''template0'' @ [CHR 0x27] @ '')''\<close>

definition ExecInAllDatabases ::
    "'w Executor \<Rightarrow> string \<Rightarrow> (string \<times> string) list \<Rightarrow>
     ('w, error option \<times> string \<times> string) io" where
  "ExecInAllDatabases exec sql variables = ExecInDatabasesFromQuery exec databases_query sql variables"

lemma sort_set_args_cong:
  assumes "mset vs = mset us"
  shows "sort (set_args vs @ as) = sort (set_args us @ as)"
proof -
  from assms have "mset (set_args vs @ as) = mset (set_args us @ as)"
    by (simp add: set_args_def)
  then show ?thesis by (metis properties_for_sort mset_sort sorted_sort)
qed

text \<open>
  The commands the operator runs through \<open>psql\<close> do not depend on the order in
  which Go iterates the map of psql variables: two iteration orders of the same map give the
  same call, for \<open>Exec\<close>, \<open>ExecInDatabasesFromQuery\<close> and
  \<open>ExecInAllDatabases\<close>.
\<close>

theorem psql_commands_deterministic:
  assumes "mset vs = mset us"
  shows "psql_Exec exec sql vs args = psql_Exec exec sql us args \<and>
    ExecInDatabasesFromQuery exec db sql vs = ExecInDatabasesFromQuery exec db sql us \<and>
    ExecInAllDatabases exec sql vs = ExecInAllDatabases exec sql us"
  using sort_set_args_cong [OF assms, of args] sort_set_args_cong [OF assms, of "[]"]
  by (simp_all add: psql_Exec_def ExecInDatabasesFromQuery_def ExecInAllDatabases_def)

theorem psql_commands_deterministic_witness:
  "psql_Exec (\<lambda>i c. ret (None, i, concat c)) ''select 1'' [(''b'', ''2''), (''a'', ''1'')] [''-At''] (0 :: nat) =
   (Inr (None, ''select 1'', ''psql-Xw--file=---set=a=1--set=b=2-At''), 0)"
  using psql_commands_deterministic [THEN conjunct1, of "[(''b'', ''2''), (''a'', ''1'')]" "[(''a'', ''1''), (''b'', ''2'')]"
      "\<lambda>i c. ret (None, i, concat c)" "''select 1''" "[''-At'']"]
  by (simp add: psql_Exec_def set_args_def ret_def)

end
