(* ===== verification/Snapshots.thy ===== *)
theory Snapshots
  imports Memory Postgres_Exec "HOL-Library.AList"
begin

text \<open>
  Backups taken as volume snapshots, \<open>percona/controller/pgbackup/snapshots\<close>: the
  reconciler of a snapshot backup (\<open>reconcile.go\<close>), the executor that takes an
  instance offline (\<open>offline.go\<close>), and the suspension of an instance
  (\<open>percona/postgres/common.go\<close>). The Go interface \<open>snapshotExecutor\<close> is
  a record of its two methods; its contract is the locale \<open>snapshot_executor\<close>.
  Requeue delays are in seconds, 0 for none.
\<close>

section \<open>Instances\<close>

definition GetReplicaPods :: "'w env \<Rightarrow> PerconaPGCluster \<Rightarrow> ('w, Pod list) io" where
  "GetReplicaPods E cr =
     must ''failed to list pods'' (List_Pods E (Namespace (pg_meta cr))
       [''app.kubernetes.io/instance'' \<mapsto> Name (pg_meta cr),
        ''postgres-operator.crunchydata.com/role'' \<mapsto> RolePatroniReplica]) ret"

definition set_sts_annotations :: "strmap \<Rightarrow> StatefulSet \<Rightarrow> StatefulSet" where
  "set_sts_annotations a sts = sts\<lparr>s_meta := (s_meta sts)\<lparr>Annotations := a\<rparr>\<rparr>"

definition SuspendInstance :: "'w env \<Rightarrow> key \<Rightarrow> ('w, bool) io" where
  "SuspendInstance E instanceKey =
     must ''failed to get stateful set'' (Get_StatefulSet E instanceKey) (\<lambda>sts.
       if Annotations (s_meta sts) AnnotationInstanceSuspended \<noteq> None
       then ret (StsReplicas sts = 0 \<and> StsReadyReplicas sts = 0)
       else must ''failed to update stateful set annotations'' (RetryOnConflict E
         (must ''failed to get stateful set'' (Get_StatefulSet E instanceKey) (\<lambda>orig.
            Patch_StatefulSet E orig
              (set_sts_annotations ((Annotations (s_meta orig))(AnnotationInstanceSuspended \<mapsto> [])) orig))))
         (\<lambda>_. ret False))"

definition UnsuspendInstance :: "'w env \<Rightarrow> key \<Rightarrow> ('w, bool) io" where
  "UnsuspendInstance E instanceKey =
     must ''failed to get stateful set'' (Get_StatefulSet E instanceKey) (\<lambda>sts.
       if Annotations (s_meta sts) AnnotationInstanceSuspended = None
       then ret (StsReplicas sts > 0 \<and> StsReadyReplicas sts > 0)
       else must ''failed to update stateful set annotations'' (RetryOnConflict E
         (must ''failed to get stateful set'' (Get_StatefulSet E instanceKey) (\<lambda>orig.
            Patch_StatefulSet E orig
              (set_sts_annotations ((Annotations (s_meta orig))(AnnotationInstanceSuspended := None)) orig))))
         (\<lambda>_. ret False))"

section \<open>The offline executor\<close>

definition annotationBackupTarget :: string where
  "annotationBackupTarget = PrefixPerconaPGV2 @ ''backup-target''"

record 'w snapshotExecutor =
  exec_prepare :: "('w, string) io"
  exec_finalize :: "('w, unit) io"

record offlineExec =
  oe_cluster :: PerconaPGCluster
  oe_backup :: PerconaPGBackup
  oe_config :: OfflineSnapshotConfig

definition newSnapshotConfig :: "VolumeSnapshotsSpec \<Rightarrow> OfflineSnapshotConfig" where
  "newSnapshotConfig vs =
     (case OfflineConfig vs of
        None \<Rightarrow> DefaultOfflineSnapshotConfig
      | Some config \<Rightarrow>
          if Checkpoint config = None
          then config\<lparr>Checkpoint := Checkpoint DefaultOfflineSnapshotConfig\<rparr> else config)"

definition newOfflineExec :: "PerconaPGCluster \<Rightarrow> VolumeSnapshotsSpec \<Rightarrow> PerconaPGBackup \<Rightarrow> offlineExec" where
  "newOfflineExec pgCluster vs pgBackup =
     \<lparr>oe_cluster = pgCluster, oe_backup = pgBackup, oe_config = newSnapshotConfig vs\<rparr>"

definition getBackupTarget :: "'w env \<Rightarrow> offlineExec \<Rightarrow> ('w, string) io" where
  "getBackupTarget E e =
     (case Annotations (b_meta (oe_backup e)) annotationBackupTarget of
        Some (c # cs) \<Rightarrow> ret (c # cs)
      | _ \<Rightarrow>
          must ''failed to get replica pods'' (GetReplicaPods E (oe_cluster e)) (\<lambda>replicas.
            case replicas of
              [] \<Rightarrow> throw (Errorf ''no replica pods found'')
            | targetPod # _ \<Rightarrow>
                let instanceName = str_at (Labels (p_meta targetPod)) LabelInstance in
                if instanceName = [] then throw (Errorf ''cannot determine instance name from pod labels'')
                else ret instanceName))"

definition checkpoint :: "'w env \<Rightarrow> offlineExec \<Rightarrow> string \<Rightarrow> ('w, unit) io" where
  "checkpoint E e instanceName =
     (case Checkpoint (oe_config e) of
        None \<Rightarrow> throw (Panic ''nil pointer dereference'')
      | Some cp \<Rightarrow>
          if \<not> deref (CheckpointEnabled cp) True then ret ()
          else
            let exec = PodExec E (Namespace (pg_meta (oe_cluster e))) (instanceName @ ''-0'') ''database'';
                timeoutSeconds = deref (CheckpointTimeoutSeconds cp) 300
            in plain (ExecInDatabasesFromQuery exec ''SELECT pg_catalog.current_database()''
                 (''SET statement_timeout = :'' @ [CHR 0x27] @ ''timeout'' @ [CHR 0x27] @ ''; CHECKPOINT;'')
                 [(''timeout'', sprint_int timeoutSeconds @ ''s''), (''ON_ERROR_STOP'', ''on''), (''QUIET'', ''on'')])
               (\<lambda>(err, stdout, stderr). case err of
                  Some x \<Rightarrow> throw (Wrap ''failed to execute checkpoint'' x)
                | None \<Rightarrow> if stderr \<noteq> [] then throw (Errorf (''checkpoint failed: '' @ stderr)) else ret ()))"

definition suspendInstance :: "'w env \<Rightarrow> offlineExec \<Rightarrow> string \<Rightarrow> ('w, unit) io" where
  "suspendInstance E e instanceName =
     must ''failed to wait for suspension''
       (PollUntil E (SuspendInstance E (Namespace (pg_meta (oe_cluster e)), instanceName))) ret"

definition resumeInstance :: "'w env \<Rightarrow> offlineExec \<Rightarrow> string \<Rightarrow> ('w, unit) io" where
  "resumeInstance E e instanceName =
     must ''failed to wait for unsuspend''
       (PollUntil E (UnsuspendInstance E (Namespace (pg_meta (oe_cluster e)), instanceName))) ret"

definition offline_prepare :: "'w env \<Rightarrow> offlineExec \<Rightarrow> ('w, string) io" where
  "offline_prepare E e =
     must ''failed to get backup target pod'' (getBackupTarget E e) (\<lambda>targetInstance.
     must ''failed to checkpoint instance'' (checkpoint E e targetInstance) (\<lambda>_.
     must ''failed to suspend instance'' (suspendInstance E e targetInstance) (\<lambda>_.
       ret targetInstance)))"

definition offline_finalize :: "'w env \<Rightarrow> offlineExec \<Rightarrow> ('w, unit) io" where
  "offline_finalize E e =
     must ''failed to get backup target'' (getBackupTarget E e) (\<lambda>targetInstance.
     must ''failed to resume instance'' (resumeInstance E e targetInstance) ret)"

definition VolumeSnapshotModeOffline :: string where
  "VolumeSnapshotModeOffline = ''offline''"

definition offline_executor :: "'w env \<Rightarrow> offlineExec \<Rightarrow> 'w snapshotExecutor" where
  "offline_executor E e = \<lparr>exec_prepare = offline_prepare E e, exec_finalize = offline_finalize E e\<rparr>"

definition newSnapshotExec ::
    "'w env \<Rightarrow> PerconaPGCluster \<Rightarrow> PerconaPGBackup \<Rightarrow> error + 'w snapshotExecutor" where
  "newSnapshotExec E cluster backup =
     (case VolumeSnapshotsOf (BackupsOf cluster) of
        None \<Rightarrow> Inl (Panic ''nil pointer dereference'')
      | Some vs \<Rightarrow>
          if SnapshotMode vs = VolumeSnapshotModeOffline
          then Inr (offline_executor E (newOfflineExec cluster vs backup))
          else Inl (Errorf (''invalid or unsupported volume snapshot mode: '' @ SnapshotMode vs)))"

section \<open>The snapshot reconciler\<close>

definition errVolumeSnapshotFailed :: string where
  "errVolumeSnapshotFailed = ''volume snapshot failed''"

definition defaultSnapshotErrorDeadline :: int where
  "defaultSnapshotErrorDeadline = 5 * 60 * Second"

record 'w snapshotReconciler =
  sr_cluster :: PerconaPGCluster
  sr_backup :: PerconaPGBackup
  sr_exec :: "'w snapshotExecutor"

definition newSnapshotReconciler ::
    "PerconaPGCluster \<Rightarrow> PerconaPGBackup \<Rightarrow> 'w snapshotExecutor \<Rightarrow> 'w snapshotReconciler" where
  "newSnapshotReconciler cluster backup exec =
     \<lparr>sr_cluster = cluster, sr_backup = backup, sr_exec = exec\<rparr>"

definition shouldFailSnapshot :: "time \<Rightarrow> VolumeSnapshot \<Rightarrow> bool" where
  "shouldFailSnapshot now volumeSnapshot =
     (case SnapshotStatusOf volumeSnapshot of
        None \<Rightarrow> False
      | Some st \<Rightarrow>
          (case SnapshotError st of
             None \<Rightarrow> False
           | Some er \<Rightarrow> \<not> time_IsZero (SnapshotErrorTime er) \<and>
               the (SnapshotErrorTime er) + defaultSnapshotErrorDeadline < now))"

definition ensureSnapshot :: "'w env \<Rightarrow> VolumeSnapshot \<Rightarrow> ('w, bool) io" where
  "ensureSnapshot E volumeSnapshot =
     attempt (Create_VolumeSnapshot E volumeSnapshot)
       (\<lambda>e. if IsAlreadyExists e then ret False else throw e)
       (\<lambda>_. ret True)"

text \<open>
  Whether the snapshot is ready, and the object as the call leaves it in its caller's
  variable.
\<close>

definition reconcileSnapshot :: "'w env \<Rightarrow> VolumeSnapshot \<Rightarrow> ('w, bool \<times> VolumeSnapshot) io" where
  "reconcileSnapshot E volumeSnapshot =
     must ''failed to ensure snapshot'' (ensureSnapshot E volumeSnapshot) (\<lambda>created.
       if created then ret (False, volumeSnapshot)
       else must ''failed to get volume snapshot''
         (Get_VolumeSnapshot E (object_key (vs_meta volumeSnapshot)))
         (\<lambda>vs. case SnapshotStatusOf vs of
            None \<Rightarrow> ret (False, vs)
          | Some st \<Rightarrow>
              if deref (ReadyToUse st) False then ret (True, vs)
              else (case SnapshotError st of
                  None \<Rightarrow> ret (False, vs)
                | Some er \<Rightarrow> look (time_Now E) (\<lambda>now.
                    if \<not> shouldFailSnapshot now vs then ret (False, vs)
                    else throw (Wrap (''VolumeSnapshot '' @ Name (vs_meta vs) @ '' failed: '' @
                      deref (SnapshotErrorMessage er) []) (Sentinel errVolumeSnapshotFailed))))))"

definition snapshot_meta :: "string \<Rightarrow> string \<Rightarrow> ObjectMeta" where
  "snapshot_meta name namespace =
     \<lparr>Name = name, Namespace = namespace, UID = [], ResourceVersion = [], Generation = 0,
      CreationTimestamp = 0, DeletionTimestamp = None, Labels = Map.empty,
      Annotations = Map.empty, Finalizers = []\<rparr>"

definition generateSnapshotIntent ::
    "'w env \<Rightarrow> 'w snapshotReconciler \<Rightarrow> string \<Rightarrow> string \<Rightarrow> ('w, VolumeSnapshot) io" where
  "generateSnapshotIntent E r snapshotRole sourcePVC =
     (case VolumeSnapshotsOf (BackupsOf (sr_cluster r)) of
        None \<Rightarrow> throw (Panic ''nil pointer dereference'')
      | Some vs \<Rightarrow>
          must ''failed to set owner reference on volume snapshot''
            (lift (SetControllerReference E (sr_backup r)
               \<lparr>vs_meta = snapshot_meta (Name (b_meta (sr_backup r)) @ ''-'' @ snapshotRole)
                            (Namespace (b_meta (sr_backup r))),
                VolumeSnapshotClassName = SnapshotClassName vs,
                PersistentVolumeClaimName = sourcePVC, SnapshotStatusOf = None\<rparr>)) ret)"

text \<open>
  The three kinds of volumes share the steps: generate the intent, reconcile it, record its
  name in the status; the assignment through \<open>Status.Snapshot\<close> panics when that is nil.
\<close>

definition record_snapshot ::
    "'w env \<Rightarrow> 'w snapshotReconciler \<Rightarrow> string \<Rightarrow> string \<Rightarrow> (string \<Rightarrow> SnapshotStatus \<Rightarrow> SnapshotStatus) \<Rightarrow>
     ('w, bool) io" where
  "record_snapshot E r role targetPVC setRef =
     must ''failed to generate snapshot intent'' (generateSnapshotIntent E r role targetPVC) (\<lambda>intent.
     must ''failed to reconcile snapshot'' (reconcileSnapshot E intent) (\<lambda>(ok, volumeSnapshot).
     must ''failed to update backup status''
       (UpdateStatusP E (sr_backup r) (\<lambda>now s. case Snapshot s of
            None \<Rightarrow> None
          | Some sn \<Rightarrow> Some (s\<lparr>Snapshot := Some (setRef (Name (vs_meta volumeSnapshot)) sn)\<rparr>)))
       (\<lambda>_. ret ok)))"

definition reconcileDataSnapshot :: "'w env \<Rightarrow> 'w snapshotReconciler \<Rightarrow> string \<Rightarrow> ('w, bool) io" where
  "reconcileDataSnapshot E r targetPVC =
     record_snapshot E r RolePostgresData targetPVC (\<lambda>n sn. sn\<lparr>DataVolumeSnapshotRef := Some n\<rparr>)"

definition reconcileWALSnapshot :: "'w env \<Rightarrow> 'w snapshotReconciler \<Rightarrow> string \<Rightarrow> ('w, bool) io" where
  "reconcileWALSnapshot E r targetPVC =
     (if targetPVC = [] then ret True
      else record_snapshot E r RolePostgresWAL targetPVC (\<lambda>n sn. sn\<lparr>WALVolumeSnapshotRef := Some n\<rparr>))"

fun tablespace_loop ::
    "'w env \<Rightarrow> 'w snapshotReconciler \<Rightarrow> (string \<times> string) list \<Rightarrow> bool \<Rightarrow> ('w, bool) io" where
  "tablespace_loop E r [] done = ret done"
| "tablespace_loop E r ((tsName, targetPVC) # ts) done =
     plain (record_snapshot E r (tsName @ ''-'' @ RoleTablespace) targetPVC
              (\<lambda>n sn. sn\<lparr>TablespaceVolumeSnapshotRefs := AList.update tsName n (TablespaceVolumeSnapshotRefs sn)\<rparr>))
       (\<lambda>ok. tablespace_loop E r ts (done \<and> ok))"

text \<open>\<open>order\<close> is the order in which Go iterates the map of tablespaces.\<close>

definition reconcileTablespaceSnapshot ::
    "'w env \<Rightarrow> ((string \<times> string) list \<Rightarrow> (string \<times> string) list) \<Rightarrow> 'w snapshotReconciler \<Rightarrow>
     (string \<times> string) list \<Rightarrow> ('w, bool) io" where
  "reconcileTablespaceSnapshot E order r targetPVCs =
     (if targetPVCs = [] then ret True else tablespace_loop E r (order targetPVCs) True)"

definition getTargetPVCs ::
    "'w env \<Rightarrow> 'w snapshotReconciler \<Rightarrow> ('w, string \<times> string \<times> (string \<times> string) list) io" where
  "getTargetPVCs E r =
     (let targetInstance = str_at (Annotations (b_meta (sr_backup r))) annotationBackupTarget;
          volumes = (\<lambda>role. List_PVCs E (Namespace (pg_meta (sr_cluster r)))
             [LabelInstance \<mapsto> targetInstance, LabelRole \<mapsto> role])
      in if targetInstance = [] then throw (Errorf ''backup target instance is not found'')
         else must ''failed to list data volumes'' (volumes RolePostgresData) (\<lambda>dataVolumes.
           case dataVolumes of
             [dv] \<Rightarrow>
               must ''failed to list WAL volumes'' (volumes RolePostgresWAL) (\<lambda>walVolumes.
               must ''failed to list tablespace volumes'' (volumes RoleTablespace) (\<lambda>tablespaceVolumes.
                 ret (Name (v_meta dv),
                      (case walVolumes of [wv] \<Rightarrow> Name (v_meta wv) | _ \<Rightarrow> []),
                      fold (\<lambda>vol. AList.update (str_at (Labels (v_meta vol)) LabelData) (Name (v_meta vol)))
                        tablespaceVolumes [])))
           | _ \<Rightarrow> throw (Errorf (''unexpected number of data volumes: '' @ sprint_nat (length dataVolumes)))))"

definition set_backup_annotations :: "strmap \<Rightarrow> PerconaPGBackup \<Rightarrow> PerconaPGBackup" where
  "set_backup_annotations a b = b\<lparr>b_meta := (b_meta b)\<lparr>Annotations := a\<rparr>\<rparr>"

definition set_backup_finalizers :: "string list \<Rightarrow> PerconaPGBackup \<Rightarrow> PerconaPGBackup" where
  "set_backup_finalizers fs b = b\<lparr>b_meta := (b_meta b)\<lparr>Finalizers := fs\<rparr>\<rparr>"

definition prepare :: "'w env \<Rightarrow> 'w snapshotReconciler \<Rightarrow> ('w, unit) io" where
  "prepare E r =
     (if ContainsFinalizer E (Finalizers (b_meta (sr_backup r))) FinalizerSnapshotInProgress then ret ()
      else must ''failed to prepare for snapshot'' (exec_prepare (sr_exec r)) (\<lambda>targetInstance.
        let orig = sr_backup r;
            backup = set_backup_annotations
              ((Annotations (b_meta orig))(annotationBackupTarget \<mapsto> targetInstance)) orig
        in must ''failed to patch backup annotations'' (Patch_Backup E orig backup) (\<lambda>_.
           must ''failed to add backup finalizer'' (RetryOnConflict E
             (plain (Get_Backup E (object_key (b_meta backup))) (\<lambda>bcp.
                plain (Patch_Backup E bcp (set_backup_finalizers
                  (fst (AddFinalizer E (Finalizers (b_meta bcp)) FinalizerSnapshotInProgress)) bcp))
                (\<lambda>_. ret ())))) ret)))"

definition complete :: "'w env \<Rightarrow> 'w snapshotReconciler \<Rightarrow> ('w, unit) io" where
  "complete E r =
     (if \<not> ContainsFinalizer E (Finalizers (b_meta (sr_backup r))) FinalizerSnapshotInProgress then ret ()
      else must ''finalize failed'' (exec_finalize (sr_exec r)) (\<lambda>_.
        must ''failed to remove finalizer'' (RetryOnConflict E
          (plain (Get_Backup E (object_key (b_meta (sr_backup r)))) (\<lambda>bcp.
             plain (Patch_Backup E bcp (set_backup_finalizers
               (fst (RemoveFinalizer E (Finalizers (b_meta bcp)) FinalizerSnapshotInProgress)) bcp))
             (\<lambda>_. ret ())))) ret))"

definition reconcileNew :: "'w env \<Rightarrow> 'w snapshotReconciler \<Rightarrow> ('w, int) io" where
  "reconcileNew E r =
     (if AppState (sr_cluster r) \<noteq> ''ready'' then ret 5
      else must ''failed to update backup status''
        (UpdateStatus E (sr_backup r) (\<lambda>s. s\<lparr>State := BackupStarting, BackupType := ''snapshot''\<rparr>))
        (\<lambda>_. ret 0))"

definition reconcileStarting :: "'w env \<Rightarrow> 'w snapshotReconciler \<Rightarrow> ('w, int) io" where
  "reconcileStarting E r =
     plain (prepare E r) (\<lambda>_.
     must ''failed to update backup status''
       (UpdateStatus E (sr_backup r) (\<lambda>s. s\<lparr>State := BackupRunning,
          Snapshot := Some \<lparr>DataVolumeSnapshotRef = None, WALVolumeSnapshotRef = None,
            TablespaceVolumeSnapshotRefs = []\<rparr>\<rparr>))
       (\<lambda>_. ret 0))"

text \<open>
  One step of \<open>reconcileRunning\<close>: a failed snapshot is collected, any other error
  ends the reconciliation.
\<close>

definition collect ::
    "string \<Rightarrow> ('w, bool) io \<Rightarrow> (bool \<Rightarrow> error list \<Rightarrow> ('w, 'b) io) \<Rightarrow> ('w, 'b) io" where
  "collect msg m k =
     attempt m
       (\<lambda>e. if error_is e errVolumeSnapshotFailed then k False [e] else throw (Wrap msg e))
       (\<lambda>ok. k ok [])"

text \<open>The end of \<open>reconcileRunning\<close>, once the three kinds are reconciled.\<close>

definition finish_running ::
    "'w env \<Rightarrow> 'w snapshotReconciler \<Rightarrow> bool \<Rightarrow> bool \<Rightarrow> bool \<Rightarrow> error list \<Rightarrow> ('w, int) io" where
  "finish_running E r dataOk walOk tablespaceOk snapshotErrors =
     (if snapshotErrors \<noteq> [] then
        must ''failed to update backup status''
          (UpdateStatusAt E (sr_backup r) (\<lambda>now s. s\<lparr>State := BackupFailed,
             StatusError := ''one or more snapshots failed: '' @ multierror_text E snapshotErrors,
             CompletedAt := Some now\<rparr>))
          (\<lambda>_. throw (Wrap (multierror_text E snapshotErrors) (Sentinel errVolumeSnapshotFailed)))
      else if \<not> dataOk \<or> \<not> walOk \<or> \<not> tablespaceOk then ret 5
      else must ''failed to complete snapshot'' (complete E r) (\<lambda>_.
        must ''failed to update backup status''
          (UpdateStatusAt E (sr_backup r) (\<lambda>now s. s\<lparr>State := BackupSucceeded, CompletedAt := Some now\<rparr>))
          (\<lambda>_. ret 0)))"

definition reconcileRunning ::
    "'w env \<Rightarrow> ((string \<times> string) list \<Rightarrow> (string \<times> string) list) \<Rightarrow> 'w snapshotReconciler \<Rightarrow>
     ('w, int) io" where
  "reconcileRunning E order r =
     must ''failed to get target PVCs'' (getTargetPVCs E r) (\<lambda>(dataPVC, walPVC, tablespacePVCs).
     collect ''failed to reconcile data snapshot'' (reconcileDataSnapshot E r dataPVC) (\<lambda>dataOk e1.
     collect ''failed to reconcile WAL snapshot'' (reconcileWALSnapshot E r walPVC) (\<lambda>walOk e2.
     collect ''failed to reconcile tablespace snapshot''
       (reconcileTablespaceSnapshot E order r tablespacePVCs) (\<lambda>tablespaceOk e3.
       finish_running E r dataOk walOk tablespaceOk (e1 @ e2 @ e3)))))"

definition snapshot_reconcile ::
    "'w env \<Rightarrow> ((string \<times> string) list \<Rightarrow> (string \<times> string) list) \<Rightarrow> 'w snapshotReconciler \<Rightarrow>
     ('w, int) io" where
  "snapshot_reconcile E order r =
     (if DeletionTimestamp (b_meta (sr_backup r)) \<noteq> None then plain (complete E r) (\<lambda>_. ret 0)
      else case State (b_status (sr_backup r)) of
          BackupNew \<Rightarrow> reconcileNew E r
        | BackupStarting \<Rightarrow> reconcileStarting E r
        | BackupRunning \<Rightarrow> reconcileRunning E order r
        | BackupFailed \<Rightarrow> plain (complete E r) (\<lambda>_. ret 0)
        | BackupSucceeded \<Rightarrow> plain (complete E r) (\<lambda>_. ret 0)
        | BackupStateOther _ \<Rightarrow> ret 0)"

definition BackupSnapshots :: string where
  "BackupSnapshots = ''BackupSnapshots''"

text \<open>
  \<open>snapshots.Reconcile\<close> for a non-nil backup and cluster, the only way it is called.
\<close>

definition fail_snapshot :: "'w env \<Rightarrow> PerconaPGBackup \<Rightarrow> string \<Rightarrow> ('w, int) io \<Rightarrow> ('w, int) io" where
  "fail_snapshot E pgBackup reason k =
     must ''failed to update backup status''
       (UpdateStatus E pgBackup (\<lambda>s. s\<lparr>State := BackupFailed, StatusError := reason\<rparr>)) (\<lambda>_. k)"

definition snapshots_Reconcile ::
    "'w env \<Rightarrow> ((string \<times> string) list \<Rightarrow> (string \<times> string) list) \<Rightarrow> PerconaPGBackup \<Rightarrow>
     PerconaPGCluster \<Rightarrow> ('w, int) io" where
  "snapshots_Reconcile E order pgBackup pgCluster =
     (if \<not> feature_Enabled E BackupSnapshots
      then fail_snapshot E pgBackup (''Feature gate '' @ [CHR 0x27] @ BackupSnapshots @ [CHR 0x27] @
             '' is not enabled'') (ret 0)
      else if \<not> IsVolumeSnapshotsEnabled (BackupsOf pgCluster)
      then fail_snapshot E pgBackup ''Volume snapshots are not enabled for this cluster'' (ret 0)
      else case newSnapshotExec E pgCluster pgBackup of
          Inl (Panic m) \<Rightarrow> throw (Panic m)
        | Inl err \<Rightarrow> fail_snapshot E pgBackup (error_text err) (throw err)
        | Inr exec \<Rightarrow> snapshot_reconcile E order (newSnapshotReconciler pgCluster pgBackup exec))"

section \<open>Frames\<close>

lemma frame_exec:
  assumes "\<And>i c. keeps I (exec i c)"
  shows "keeps I (ExecInDatabasesFromQuery exec db sql vars)"
  unfolding ExecInDatabasesFromQuery_def by (rule assms)

lemma frame_instances:
  assumes F: "frame_of E I"
  shows "keeps I (GetReplicaPods E cr)"
    and "keeps I (SuspendInstance E k)"
    and "keeps I (UnsuspendInstance E k)"
proof -
  show "keeps I (GetReplicaPods E cr)"
    unfolding GetReplicaPods_def by (intro frame_intros frameD [OF F])
  show "keeps I (SuspendInstance E k)"
    unfolding SuspendInstance_def by (intro frame_intros frameD [OF F])
  show "keeps I (UnsuspendInstance E k)"
    unfolding UnsuspendInstance_def by (intro frame_intros frameD [OF F])
qed

lemma frame_offline:
  assumes F: "frame_of E I"
  shows "keeps I (getBackupTarget E e)" and "keeps I (checkpoint E e i)"
    and "keeps I (offline_prepare E e)" and "keeps I (offline_finalize E e)"
proof -
  show target: "keeps I (getBackupTarget E e)"
    unfolding getBackupTarget_def Let_def by (intro frame_intros frame_instances [OF F])
  show checkpoint: "keeps I (checkpoint E e i)" for i
    unfolding checkpoint_def Let_def by (intro frame_intros frame_exec frameD [OF F])
  show "keeps I (offline_prepare E e)"
    unfolding offline_prepare_def suspendInstance_def
    by (intro frame_intros target checkpoint frameD [OF F] frame_instances [OF F])
  show "keeps I (offline_finalize E e)"
    unfolding offline_finalize_def resumeInstance_def
    by (intro frame_intros target frameD [OF F] frame_instances [OF F])
qed

lemma frame_snapshot:
  assumes F: "frame_of E I"
  shows "keeps I (ensureSnapshot E v)" and "keeps I (reconcileSnapshot E v)"
    and "keeps I (generateSnapshotIntent E r role pvc)" and "keeps I (getTargetPVCs E r)"
proof -
  show ensure: "keeps I (ensureSnapshot E v)" for v
    unfolding ensureSnapshot_def by (intro frame_intros frameD [OF F])
  show "keeps I (reconcileSnapshot E v)"
    unfolding reconcileSnapshot_def by (intro frame_intros ensure frameD [OF F])
  show "keeps I (generateSnapshotIntent E r role pvc)"
    unfolding generateSnapshotIntent_def by (intro frame_intros)
  show "keeps I (getTargetPVCs E r)"
    unfolding getTargetPVCs_def Let_def by (intro frame_intros frameD [OF F])
qed


lemma keeps_reconcileNew:
  assumes "backup_store E st" and "BackupStarting \<in> S"
  shows "keeps (in_states st k S) (reconcileNew E r)"
  unfolding reconcileNew_def
  by (intro frame_intros keeps_UpdateStatus [OF assms(1)]) (simp add: assms(2))

lemma keeps_record_snapshot:
  assumes st: "backup_store E st"
  shows "keeps (in_states st k S) (record_snapshot E r role pvc setRef)"
  unfolding record_snapshot_def
  by (intro frame_intros frame_snapshot [OF backup_store_frame [OF st]] keeps_UpdateStatusP [OF st])
    (auto split: option.splits)

lemma keeps_tablespace_loop:
  assumes st: "backup_store E st"
  shows "keeps (in_states st k S) (tablespace_loop E r ts d)"
proof (induction ts arbitrary: d)
  case Nil
  show ?case by (simp add: keeps_ret)
next
  case (Cons t ts)
  obtain n pvc where "t = (n, pvc)" by fastforce
  then show ?case by (auto intro!: keeps_plain keeps_record_snapshot [OF st] Cons.IH)
qed

lemma keeps_collect:
  assumes "keeps I m" and "\<And>ok es. keeps I (f ok es)"
  shows "keeps I (collect msg m f)"
  unfolding collect_def by (intro frame_intros assms)

section \<open>The contract of an executor\<close>

text \<open>
  What the reconciler relies on: an executor made for a backup touches the world only through
  the API calls, so that it keeps every property they keep; and \<open>prepare\<close> names an
  instance, since \<open>getTargetPVCs\<close> takes the empty name for a missing target.
\<close>

locale snapshot_executor =
  fixes make :: "'w env \<Rightarrow> PerconaPGCluster \<Rightarrow> VolumeSnapshotsSpec \<Rightarrow> PerconaPGBackup \<Rightarrow> 'w snapshotExecutor"
  assumes prepare_frame: "frame_of E I \<Longrightarrow> keeps I (exec_prepare (make E c vs b))"
    and finalize_frame: "frame_of E I \<Longrightarrow> keeps I (exec_finalize (make E c vs b))"
    and prepare_target: "exec_prepare (make E c vs b) w = (Inr t, w') \<Longrightarrow> t \<noteq> []"
begin

lemma keeps_prepare:
  assumes F: "frame_of E I" and "sr_exec r = make E c vs b"
  shows "keeps I (prepare E r)"
  unfolding prepare_def Let_def assms(2)
  by (intro frame_intros frameD [OF F] prepare_frame [OF F])

lemma keeps_complete:
  assumes F: "frame_of E I" and "sr_exec r = make E c vs b"
  shows "keeps I (complete E r)"
  unfolding complete_def assms(2)
  by (intro frame_intros frameD [OF F] finalize_frame [OF F])

lemma keeps_reconcileStarting:
  assumes st: "backup_store E st" and r: "sr_exec r = make E c vs b" and S: "BackupRunning \<in> S"
  shows "keeps (in_states st k S) (reconcileStarting E r)"
  unfolding reconcileStarting_def
  by (intro frame_intros keeps_prepare [OF backup_store_frame [OF st] r] keeps_UpdateStatus [OF st])
    (simp add: S)

lemma keeps_reconcileRunning:
  assumes st: "backup_store E st" and r: "sr_exec r = make E c vs b"
    and S: "BackupSucceeded \<in> S" "BackupFailed \<in> S"
  shows "keeps (in_states st k S) (reconcileRunning E order r)"
  unfolding reconcileRunning_def reconcileDataSnapshot_def reconcileWALSnapshot_def
    reconcileTablespaceSnapshot_def finish_running_def
  by (intro frame_intros keeps_collect frame_snapshot [OF backup_store_frame [OF st]]
        keeps_record_snapshot [OF st] keeps_tablespace_loop [OF st]
        keeps_complete [OF backup_store_frame [OF st] r] keeps_UpdateStatusAt [OF st])
    (simp_all add: S)

text \<open>One reconciliation of a snapshot backup follows the specification of a backup's life.\<close>

lemma keeps_snapshot_reconcile:
  assumes st: "backup_store E st" and r: "sr_exec r = make E c vs b"
  shows "keeps (in_states st k (next_states spec (State (b_status (sr_backup r)))))
    (snapshot_reconcile E order r)"
proof -
  note complete = keeps_complete [OF backup_store_frame [OF st] r]
  show ?thesis
    unfolding snapshot_reconcile_def
  proof (rule keeps_if)
    show "keeps (in_states st k (next_states spec (State (b_status (sr_backup r)))))
        (plain (complete E r) (\<lambda>_. ret 0))"
      by (intro frame_intros complete)
  qed (auto split: PGBackupState.split simp: next_states_fail
      intro!: keeps_reconcileNew [OF st] keeps_reconcileStarting [OF st r] keeps_reconcileRunning [OF st r]
        keeps_plain complete keeps_ret intro: backup_step.intros)
qed

text \<open>
  After \<open>prepare\<close> the backup it patches names a target, so the next reconciliation does
  not stop at a missing one.
\<close>

lemma prepare_annotates:
  assumes "exec_prepare (make E c vs b) w = (Inr t, w')"
  shows "str_at (Annotations (b_meta (set_backup_annotations
    ((Annotations (b_meta b))(annotationBackupTarget \<mapsto> t)) b))) annotationBackupTarget \<noteq> []"
  using prepare_target [OF assms] by (simp add: str_at_def set_backup_annotations_def)

end

section \<open>The offline executor fulfils the contract\<close>

lemma getBackupTarget_nonempty:
  assumes "getBackupTarget E e w = (Inr t, w')"
  shows "t \<noteq> []"
  using assms unfolding getBackupTarget_def Let_def must_def attempt_def ret_def throw_def
  by (auto split: option.splits list.splits prod.splits sum.splits if_splits)

lemma offline_prepare_target:
  assumes "offline_prepare E e w = (Inr t, w')"
  obtains w1 where "getBackupTarget E e w = (Inr t, w1)"
  using assms unfolding offline_prepare_def must_def attempt_def ret_def throw_def
  by (auto split: prod.splits sum.splits if_splits)

interpretation offline: snapshot_executor "\<lambda>E c vs b. offline_executor E (newOfflineExec c vs b)"
proof unfold_locales
  fix E :: "'w env" and I c vs b
  assume F: "frame_of E I"
  show "keeps I (exec_prepare (offline_executor E (newOfflineExec c vs b)))"
    by (simp add: offline_executor_def frame_offline [OF F])
  show "keeps I (exec_finalize (offline_executor E (newOfflineExec c vs b)))"
    by (simp add: offline_executor_def frame_offline [OF F])
next
  fix E :: "'w env" and c vs b w t w'
  assume "exec_prepare (offline_executor E (newOfflineExec c vs b)) w = (Inr t, w')"
  then have "offline_prepare E (newOfflineExec c vs b) w = (Inr t, w')"
    by (simp add: offline_executor_def)
  then show "t \<noteq> []"
    by (elim offline_prepare_target) (rule getBackupTarget_nonempty)
qed

lemma keeps_snapshots_Reconcile:
  assumes st: "backup_store E st" and m: "SpecMethod spec = Some BackupMethodVolumeSnapshot"
  shows "keeps (in_states st k (next_states spec (State (b_status pgBackup))))
    (snapshots_Reconcile E order pgBackup pgCluster)"
proof -
  let ?S = "next_states spec (State (b_status pgBackup))"
  have failed: "BackupFailed \<in> ?S"
    using m by (cases "State (b_status pgBackup)")
      (auto simp: next_states_def IsTerminal_def intro: backup_step.intros)
  have fail: "keeps (in_states st k ?S) (fail_snapshot E pgBackup reason f)"
    if "keeps (in_states st k ?S) f" for reason f
    unfolding fail_snapshot_def using failed
    by (intro frame_intros that keeps_UpdateStatus [OF st]) simp
  have go: "keeps (in_states st k ?S)
      (snapshot_reconcile E order (newSnapshotReconciler pgCluster pgBackup (offline_executor E (newOfflineExec pgCluster vs pgBackup))))" for vs
    using offline.keeps_snapshot_reconcile [OF st, of "newSnapshotReconciler pgCluster pgBackup
        (offline_executor E (newOfflineExec pgCluster vs pgBackup))" pgCluster vs pgBackup k spec order]
    by (simp add: newSnapshotReconciler_def)
  show ?thesis
    unfolding snapshots_Reconcile_def newSnapshotExec_def
    by (auto intro!: keeps_if fail keeps_ret keeps_throw go split: option.split)
qed

section \<open>What a snapshot backup has seen when it goes on\<close>

lemma PollUntil_ok:
  assumes "poll_law E" and "PollUntil E c w = (Inr (), w')"
  shows "\<exists>w0. c w0 = (Inr True, w')"
proof -
  from assms(1) have "poll_runs c w (PollUntil E c w)" by (simp add: poll_law_def)
  from poll_runs_ok [OF this] assms(2) show ?thesis by simp
qed

text \<open>
  When the offline executor reports the cluster prepared, the last thing it did was to read
  the stateful set of the target instance: it carries the suspension and has no replica left. When
  it reports the snapshot finalized, the instance it read is no longer suspended and has ready
  replicas.
\<close>

theorem offline_instance_observed:
  assumes "poll_law E"
  shows "(\<forall>t w w'. offline_prepare E e w = (Inr t, w') \<longrightarrow> t \<noteq> [] \<and>
      (\<exists>w0 sts. Get_StatefulSet E (Namespace (pg_meta (oe_cluster e)), t) w0 = (Inr sts, w') \<and>
         Annotations (s_meta sts) AnnotationInstanceSuspended \<noteq> None \<and>
         StsReplicas sts = 0 \<and> StsReadyReplicas sts = 0)) \<and>
    (\<forall>w w'. offline_finalize E e w = (Inr (), w') \<longrightarrow>
      (\<exists>t w0 sts. Get_StatefulSet E (Namespace (pg_meta (oe_cluster e)), t) w0 = (Inr sts, w') \<and>
         Annotations (s_meta sts) AnnotationInstanceSuspended = None \<and>
         StsReplicas sts > 0 \<and> StsReadyReplicas sts > 0))"
proof (intro conjI allI impI)
  fix t w w' assume run: "offline_prepare E e w = (Inr t, w')"
  then show "t \<noteq> []" by (elim offline_prepare_target) (rule getBackupTarget_nonempty)
  from run obtain w1 where
    "PollUntil E (SuspendInstance E (Namespace (pg_meta (oe_cluster e)), t)) w1 = (Inr (), w')"
    by (auto simp: offline_prepare_def suspendInstance_def must_Inr)
  from PollUntil_ok [OF assms this]
  show "\<exists>w0 sts. Get_StatefulSet E (Namespace (pg_meta (oe_cluster e)), t) w0 = (Inr sts, w') \<and>
         Annotations (s_meta sts) AnnotationInstanceSuspended \<noteq> None \<and>
         StsReplicas sts = 0 \<and> StsReadyReplicas sts = 0"
    by (fastforce simp: SuspendInstance_def must_Inr split: if_splits)
next
  fix w w' assume "offline_finalize E e w = (Inr (), w')"
  then obtain t w1 where
    "PollUntil E (UnsuspendInstance E (Namespace (pg_meta (oe_cluster e)), t)) w1 = (Inr (), w')"
    by (auto simp: offline_finalize_def resumeInstance_def must_Inr)
  from PollUntil_ok [OF assms this]
  show "\<exists>t w0 sts. Get_StatefulSet E (Namespace (pg_meta (oe_cluster e)), t) w0 = (Inr sts, w') \<and>
         Annotations (s_meta sts) AnnotationInstanceSuspended = None \<and>
         StsReplicas sts > 0 \<and> StsReadyReplicas sts > 0"
    by (fastforce simp: UnsuspendInstance_def must_Inr split: if_splits)
qed

lemma reconcileSnapshot_ready:
  assumes "reconcileSnapshot E v w = (Inr (True, vs), w')"
  shows "\<exists>st. SnapshotStatusOf vs = Some st \<and> ReadyToUse st = Some True"
proof -
  have [simp]: "deref x False \<longleftrightarrow> x = Some True" for x by (cases x) auto
  from assms show ?thesis
    by (auto simp: reconcileSnapshot_def must_Inr look_def split: if_splits option.splits)
qed

lemma record_snapshot_ready:
  assumes "record_snapshot E r role pvc f w = (Inr True, w')"
  shows "\<exists>v w1 vs w2 st. generateSnapshotIntent E r role pvc w = (Inr v, w1) \<and>
    reconcileSnapshot E v w1 = (Inr (True, vs), w2) \<and> SnapshotStatusOf vs = Some st \<and> ReadyToUse st = Some True"
  using assms reconcileSnapshot_ready by (fastforce simp: record_snapshot_def must_Inr)

text \<open>The snapshots of tablespaces were all ready, one after the other.\<close>

inductive all_ready :: "'w env \<Rightarrow> 'w snapshotReconciler \<Rightarrow> (string \<times> string) list \<Rightarrow> 'w \<Rightarrow> 'w \<Rightarrow> bool" for E r where
  "all_ready E r [] w w"
| "record_snapshot E r (tsName @ ''-'' @ RoleTablespace) pvc f w = (Inr True, w3) \<Longrightarrow>
   generateSnapshotIntent E r (tsName @ ''-'' @ RoleTablespace) pvc w = (Inr v, w1) \<Longrightarrow>
   reconcileSnapshot E v w1 = (Inr (True, vs), w2) \<Longrightarrow>
   SnapshotStatusOf vs = Some st \<Longrightarrow> ReadyToUse st = Some True \<Longrightarrow>
   all_ready E r ts w3 w' \<Longrightarrow> all_ready E r ((tsName, pvc) # ts) w w'"

lemma tablespace_loop_ready:
  "tablespace_loop E r ts d w = (Inr True, w') \<Longrightarrow> d \<and> all_ready E r ts w w'"
proof (induction ts arbitrary: d w)
  case Nil
  then show ?case by (auto intro: all_ready.intros)
next
  case (Cons t ts)
  obtain n pvc where t: "t = (n, pvc)" by fastforce
  from Cons.prems obtain ok w1 where rec: "record_snapshot E r (n @ ''-'' @ RoleTablespace) pvc
      (\<lambda>m sn. sn\<lparr>TablespaceVolumeSnapshotRefs := AList.update n m (TablespaceVolumeSnapshotRefs sn)\<rparr>) w = (Inr ok, w1)"
    and "tablespace_loop E r ts (d \<and> ok) w1 = (Inr True, w')"
    by (auto simp: t plain_Inr)
  from Cons.IH [OF this(2)] have d: d and ok: ok and rest: "all_ready E r ts w1 w'" by auto
  from rec ok have rec: "record_snapshot E r (n @ ''-'' @ RoleTablespace) pvc
      (\<lambda>m sn. sn\<lparr>TablespaceVolumeSnapshotRefs := AList.update n m (TablespaceVolumeSnapshotRefs sn)\<rparr>) w = (Inr True, w1)"
    by simp
  from record_snapshot_ready [OF this] obtain v w2 vs w3 st
    where "generateSnapshotIntent E r (n @ ''-'' @ RoleTablespace) pvc w = (Inr v, w2)"
      and "reconcileSnapshot E v w2 = (Inr (True, vs), w3)" and "SnapshotStatusOf vs = Some st"
      and "ReadyToUse st = Some True"
    by (elim exE conjE)
  from all_ready.intros(2) [OF rec this rest] d show ?case by (simp add: t)
qed

lemma collect_Inr:
  "collect msg m k w = (Inr x, w') \<Longrightarrow>
   (\<exists>ok w1. m w = (Inr ok, w1) \<and> k ok [] w1 = (Inr x, w')) \<or> (\<exists>e w1. k False [e] w1 = (Inr x, w'))"
  by (auto simp: collect_def attempt_def throw_def split: prod.splits sum.splits if_splits)

lemma finish_running_done:
  assumes "finish_running E r dataOk walOk tsOk es w = (Inr 0, w')"
  shows "dataOk \<and> walOk \<and> tsOk \<and> es = [] \<and> (\<exists>w1. complete E r w = (Inr (), w1))"
  using assms by (auto simp: finish_running_def must_Inr split: if_splits)

text \<open>
  C25: A running snapshot backup is completed, and so marked succeeded, only after the snapshot of
  the data volume, that of the WAL volume if the target has one, and those of all tablespaces
  were in turn reported ready, and after the executor's finalization ended well.
\<close>

theorem snapshots_ready_before_success:
  assumes "reconcileRunning E order r w = (Inr 0, w')"
  shows "\<exists>dataPVC walPVC ts w0 w1 w2 w3 w4.
    getTargetPVCs E r w = (Inr (dataPVC, walPVC, ts), w0) \<and>
    (\<exists>v vs st v1 v2. generateSnapshotIntent E r RolePostgresData dataPVC w0 = (Inr v, v1) \<and>
       reconcileSnapshot E v v1 = (Inr (True, vs), v2) \<and> SnapshotStatusOf vs = Some st \<and> ReadyToUse st = Some True) \<and>
    reconcileDataSnapshot E r dataPVC w0 = (Inr True, w1) \<and>
    (walPVC = [] \<and> w2 = w1 \<or>
     (\<exists>v vs st v1 v2. generateSnapshotIntent E r RolePostgresWAL walPVC w1 = (Inr v, v1) \<and>
       reconcileSnapshot E v v1 = (Inr (True, vs), v2) \<and> SnapshotStatusOf vs = Some st \<and> ReadyToUse st = Some True)) \<and>
    reconcileWALSnapshot E r walPVC w1 = (Inr True, w2) \<and>
    (ts = [] \<and> w3 = w2 \<or> all_ready E r (order ts) w2 w3) \<and>
    complete E r w3 = (Inr (), w4)"
proof -
  from assms obtain d wal ts w0 where pvcs: "getTargetPVCs E r w = (Inr (d, wal, ts), w0)"
    and run: "collect ''failed to reconcile data snapshot'' (reconcileDataSnapshot E r d) (\<lambda>dataOk e1.
     collect ''failed to reconcile WAL snapshot'' (reconcileWALSnapshot E r wal) (\<lambda>walOk e2.
     collect ''failed to reconcile tablespace snapshot''
       (reconcileTablespaceSnapshot E order r ts) (\<lambda>tablespaceOk e3.
       finish_running E r dataOk walOk tablespaceOk (e1 @ e2 @ e3)))) w0 = (Inr 0, w')"
    by (auto simp: reconcileRunning_def must_Inr)
  from run obtain w1 w2 w3 w4 where data: "reconcileDataSnapshot E r d w0 = (Inr True, w1)"
    and wal: "reconcileWALSnapshot E r wal w1 = (Inr True, w2)"
    and tbl: "reconcileTablespaceSnapshot E order r ts w2 = (Inr True, w3)"
    and fin: "complete E r w3 = (Inr (), w4)"
    by (auto 0 0 dest!: collect_Inr finish_running_done)
  have "wal = [] \<and> w2 = w1 \<or> (\<exists>v vs st v1 v2. generateSnapshotIntent E r RolePostgresWAL wal w1 = (Inr v, v1) \<and>
       reconcileSnapshot E v v1 = (Inr (True, vs), v2) \<and> SnapshotStatusOf vs = Some st \<and> ReadyToUse st = Some True)"
  proof (cases "wal = []")
    case False
    with wal have "record_snapshot E r RolePostgresWAL wal (\<lambda>n sn. sn\<lparr>WALVolumeSnapshotRef := Some n\<rparr>) w1 = (Inr True, w2)"
      by (simp add: reconcileWALSnapshot_def)
    from record_snapshot_ready [OF this] show ?thesis by blast
  qed (use wal in \<open>simp add: reconcileWALSnapshot_def\<close>)
  moreover have "ts = [] \<and> w3 = w2 \<or> all_ready E r (order ts) w2 w3"
    using tbl tablespace_loop_ready [of E r "order ts" True w2 w3]
    by (auto simp: reconcileTablespaceSnapshot_def split: if_splits)
  moreover have "\<exists>v vs st v1 v2. generateSnapshotIntent E r RolePostgresData d w0 = (Inr v, v1) \<and>
       reconcileSnapshot E v v1 = (Inr (True, vs), v2) \<and> SnapshotStatusOf vs = Some st \<and> ReadyToUse st = Some True"
    using record_snapshot_ready [OF data [unfolded reconcileDataSnapshot_def]] by blast
  ultimately show ?thesis using pvcs data wal fin by blast
qed

definition suspended_world :: mem where
  "suspended_world = (sample_world [])\<lparr>
     m_sts := [\<lparr>s_meta = (sample_meta ''i1'')\<lparr>Annotations := [AnnotationInstanceSuspended \<mapsto> []]\<rparr>,
       StsReplicas = 0, StsReadyReplicas = 0\<rparr>],
     m_pods := [\<lparr>p_meta = (sample_meta ''i1-0'')\<lparr>Labels := [LabelInstance \<mapsto> ''i1'',
         ''app.kubernetes.io/instance'' \<mapsto> ''pg'', LabelRole \<mapsto> RolePatroniReplica]\<rparr>,
       PodPhase = ''Running'', PodConditions = []\<rparr>]\<rparr>"

definition sample_offline :: offlineExec where
  "sample_offline = newOfflineExec sample_cluster
     \<lparr>SnapshotMode = ''offline'', SnapshotClassName = ''csi'', OfflineConfig = None, SnapshotJobs = None\<rparr> (sample_backup ''b1'' BackupStarting)"

theorem offline_instance_observed_witness:
  "\<exists>w0 sts. Get_StatefulSet memory (''ns'', ''i1'') w0 =
       (Inr sts, snd (offline_prepare memory sample_offline suspended_world)) \<and>
     Annotations (s_meta sts) AnnotationInstanceSuspended \<noteq> None \<and> StsReplicas sts = 0 \<and> StsReadyReplicas sts = 0"
proof -
  have "fst (offline_prepare memory sample_offline suspended_world) = Inr ''i1''" by code_simp
  then have "offline_prepare memory sample_offline suspended_world =
      (Inr ''i1'', snd (offline_prepare memory sample_offline suspended_world))" by (simp add: prod_eq_iff)
  moreover have "Namespace (pg_meta (oe_cluster sample_offline)) = ''ns''" by code_simp
  ultimately show ?thesis
    using offline_instance_observed [OF memory_poll, of sample_offline] by fastforce
qed

definition ready_snapshot :: "string \<Rightarrow> VolumeSnapshot" where
  "ready_snapshot n = \<lparr>vs_meta = snapshot_meta n ''ns'', VolumeSnapshotClassName = ''csi'',
     PersistentVolumeClaimName = ''pvc'',
     SnapshotStatusOf = Some \<lparr>ReadyToUse = Some True, SnapshotError = None\<rparr>\<rparr>"

definition ready_backup :: PerconaPGBackup where
  "ready_backup = (sample_backup ''b1'' BackupRunning)\<lparr>
     b_meta := (sample_meta ''b1'')\<lparr>Annotations := [annotationBackupTarget \<mapsto> ''i1'']\<rparr>,
     b_status := (sample_status BackupRunning)\<lparr>Snapshot := Some \<lparr>DataVolumeSnapshotRef = None,
       WALVolumeSnapshotRef = None, TablespaceVolumeSnapshotRefs = []\<rparr>\<rparr>\<rparr>"

definition ready_world :: mem where
  "ready_world = (sample_world [ready_backup])\<lparr>
     m_pvcs := [\<lparr>v_meta = (sample_meta ''d'')\<lparr>Labels := [LabelInstance \<mapsto> ''i1'', LabelRole \<mapsto> RolePostgresData]\<rparr>,
         v_spec = sample_claim\<rparr>,
       \<lparr>v_meta = (sample_meta ''t'')\<lparr>Labels := [LabelInstance \<mapsto> ''i1'', LabelRole \<mapsto> RoleTablespace,
          LabelData \<mapsto> ''ts'']\<rparr>, v_spec = sample_claim\<rparr>],
     m_snapshots := [ready_snapshot ''b1-pgdata'', ready_snapshot ''b1-ts-tablespace'']\<rparr>"

definition ready_reconciler :: "mem snapshotReconciler" where
  "ready_reconciler = newSnapshotReconciler sample_cluster ready_backup (offline_executor memory sample_offline)"

theorem snapshots_ready_before_success_witness:
  "fst (reconcileRunning memory (\<lambda>x. x) ready_reconciler ready_world) = Inr 0 \<and>
   (\<exists>dataPVC walPVC ts w0. getTargetPVCs memory ready_reconciler ready_world = (Inr (dataPVC, walPVC, ts), w0) \<and>
      (\<exists>w1. reconcileDataSnapshot memory ready_reconciler dataPVC w0 = (Inr True, w1)))"
proof
  show fin: "fst (reconcileRunning memory (\<lambda>x. x) ready_reconciler ready_world) = Inr 0" by code_simp
  then have "reconcileRunning memory (\<lambda>x. x) ready_reconciler ready_world =
      (Inr 0, snd (reconcileRunning memory (\<lambda>x. x) ready_reconciler ready_world))" by (simp add: prod_eq_iff)
  from snapshots_ready_before_success [OF this]
  show "\<exists>dataPVC walPVC ts w0. getTargetPVCs memory ready_reconciler ready_world = (Inr (dataPVC, walPVC, ts), w0) \<and>
      (\<exists>w1. reconcileDataSnapshot memory ready_reconciler dataPVC w0 = (Inr True, w1))"
    by (elim exE conjE) (intro exI conjI)
qed

section \<open>Names of snapshots\<close>

text \<open>
  The roles of a backup's snapshots; a tablespace's name matches \<open>^[a-z][a-z0-9]*$\<close>, so it
  has no hyphen.
\<close>

definition snapshot_role :: "string \<Rightarrow> bool" where
  "snapshot_role role \<longleftrightarrow> role = RolePostgresData \<or> role = RolePostgresWAL \<or>
     (\<exists>ts. CHR ''-'' \<notin> set ts \<and> role = ts @ ''-'' @ RoleTablespace)"

lemma last_hyphen:
  assumes "xs @ CHR ''-'' # a = ys @ CHR ''-'' # b" and "CHR ''-'' \<notin> set a" and "CHR ''-'' \<notin> set b"
  shows "xs = ys \<and> a = b"
  using assms by (auto simp: append_eq_append_conv2 append_eq_Cons_conv Cons_eq_append_conv)

lemma snapshot_role_cases:
  assumes "snapshot_role role"
  obtains (plain) "CHR ''-'' \<notin> set role" and "role \<noteq> RoleTablespace"
  | (tablespace) ts where "CHR ''-'' \<notin> set ts" and "role = ts @ CHR ''-'' # RoleTablespace"
proof -
  have "CHR ''-'' \<notin> set RolePostgresData" "CHR ''-'' \<notin> set RolePostgresWAL"
    "RolePostgresData \<noteq> RoleTablespace" "RolePostgresWAL \<noteq> RoleTablespace"
    by code_simp+
  with assms that show thesis unfolding snapshot_role_def by auto
qed

lemma snapshot_name_inj:
  assumes eq: "m @ CHR ''-'' # q = n @ CHR ''-'' # r" and q: "snapshot_role q" and r: "snapshot_role r"
  shows "m = n \<and> q = r"
proof -
  have tbl: "CHR ''-'' \<notin> set RoleTablespace" by code_simp
  from q show ?thesis
  proof (cases rule: snapshot_role_cases)
    case plain
    note q = this
    from r show ?thesis
    proof (cases rule: snapshot_role_cases)
      case plain
      from last_hyphen [OF eq q(1) plain(1)] show ?thesis .
    next
      case (tablespace ts)
      from last_hyphen [of m q "n @ CHR ''-'' # ts" RoleTablespace] eq q tbl tablespace show ?thesis by simp
    qed
  next
    case (tablespace ts)
    note q = this
    from r show ?thesis
    proof (cases rule: snapshot_role_cases)
      case plain
      from last_hyphen [of "m @ CHR ''-'' # ts" RoleTablespace n r] eq q tbl plain show ?thesis by simp
    next
      case (tablespace us)
      from last_hyphen [of "m @ CHR ''-'' # ts" RoleTablespace "n @ CHR ''-'' # us" RoleTablespace] eq q tbl tablespace
      have "m @ CHR ''-'' # ts = n @ CHR ''-'' # us" by simp
      from last_hyphen [OF this q(1) tablespace(1)] q tablespace show ?thesis by simp
    qed
  qed
qed

text \<open>\<open>controllerutil.SetControllerReference\<close> keeps the name of the owned object.\<close>

definition owner_law :: "'w env \<Rightarrow> bool" where
  "owner_law E \<longleftrightarrow> (\<forall>b v v'. SetControllerReference E b v = Inr v' \<longrightarrow> Name (vs_meta v') = Name (vs_meta v))"

text \<open>
  Snapshots of different backups or of different volumes never share a name: two intents with
  one name are for one backup name and one role. It takes that tablespace names have no hyphen and
  that setting the owner keeps the name.
\<close>

theorem snapshot_names_distinct:
  assumes "owner_law E"
    and "generateSnapshotIntent E q role pvc w = (Inr v, w')"
    and "generateSnapshotIntent E r role2 pvc2 u = (Inr v2, u')"
    and "snapshot_role role" and "snapshot_role role2" and "Name (vs_meta v) = Name (vs_meta v2)"
  shows "Name (b_meta (sr_backup q)) = Name (b_meta (sr_backup r)) \<and> role = role2"
proof -
  have name: "Name (vs_meta v) = Name (b_meta (sr_backup r)) @ CHR ''-'' # role"
    if "generateSnapshotIntent E r role pvc w = (Inr v, w')" for r role pvc w v w'
    using that assms(1) unfolding owner_law_def
    by (fastforce simp: generateSnapshotIntent_def must_Inr lift_def snapshot_meta_def
        split: option.splits sum.splits)
  from name [OF assms(2)] name [OF assms(3)] assms(6)
  have "Name (b_meta (sr_backup q)) @ CHR ''-'' # role = Name (b_meta (sr_backup r)) @ CHR ''-'' # role2" by simp
  from snapshot_name_inj [OF this assms(4,5)] show ?thesis .
qed

theorem snapshot_names_distinct_witness:
  "\<exists>v w. generateSnapshotIntent memory ready_reconciler RolePostgresData ''d'' ready_world = (Inr v, w) \<and>
     (\<forall>v2 u'. generateSnapshotIntent memory ready_reconciler (''ts'' @ ''-'' @ RoleTablespace) ''t'' ready_world = (Inr v2, u') \<longrightarrow>
        Name (vs_meta v) \<noteq> Name (vs_meta v2))"
proof -
  have run: "\<exists>v. generateSnapshotIntent memory ready_reconciler role pvc ready_world = (Inr v, ready_world)" for role pvc
    by (simp add: generateSnapshotIntent_def ready_reconciler_def newSnapshotReconciler_def sample_cluster_def
        must_def attempt_def lift_def ret_def memory_def)
  have own: "owner_law memory" by (simp add: owner_law_def memory_def)
  have "snapshot_role RolePostgresData" and "snapshot_role (''ts'' @ ''-'' @ RoleTablespace)"
    by (auto simp: snapshot_role_def intro: exI [of _ "''ts''"])
  moreover have "RolePostgresData \<noteq> ''ts'' @ ''-'' @ RoleTablespace" by code_simp
  moreover obtain v where v: "generateSnapshotIntent memory ready_reconciler RolePostgresData ''d'' ready_world =
      (Inr v, ready_world)" using run by blast
  ultimately show ?thesis
    using snapshot_names_distinct [OF own v] by blast
qed

end
