(* ===== verification/PGBackup.thy ===== *)
theory PGBackup
  imports Snapshots
begin

text \<open>
  The controller of PerconaPGBackup, \<open>percona/controller/pgbackup/controller.go\<close>:
  the lease that lets one backup of a cluster run at a time, the state machine of a backup
  taken with pgBackRest, the finalizers and the annotations through which it asks the
  cluster's controller for a backup. A result is the number of seconds after which the
  object is reconciled again, 0 for none.
\<close>

section \<open>Status and finalizers\<close>

definition ErrBackupJobNotFound :: string where
  "ErrBackupJobNotFound = ''backup Job not found''"

text \<open>\<open>failBackup\<close> also changes its caller's copy, which it returns.\<close>

definition failBackup :: "'w env \<Rightarrow> PerconaPGBackup \<Rightarrow> string \<Rightarrow> ('w, PerconaPGBackup) io" where
  "failBackup E pgBackup reason =
     plain (UpdateStatus E pgBackup (\<lambda>s. s\<lparr>State := BackupFailed, StatusError := reason\<rparr>))
       (\<lambda>_. ret (pgBackup\<lparr>b_status := (b_status pgBackup)\<lparr>State := BackupFailed, StatusError := reason\<rparr>\<rparr>))"

definition ensureFinalizers :: "'w env \<Rightarrow> PerconaPGBackup \<Rightarrow> ('w, PerconaPGBackup) io" where
  "ensureFinalizers E pgBackup =
     (case AddFinalizer E (Finalizers (b_meta pgBackup)) FinalizerDeleteBackup of
        (fs, changed) \<Rightarrow>
          let pgBackup' = set_backup_finalizers fs pgBackup in
          if \<not> changed then ret pgBackup'
          else must ''remove finalizers'' (Patch_Backup E pgBackup pgBackup') (\<lambda>_. ret pgBackup'))"

definition RunBackupFinalizer ::
    "'w env \<Rightarrow> PerconaPGBackup \<Rightarrow> string \<Rightarrow> (PerconaPGBackup \<Rightarrow> ('w, unit) io) \<Rightarrow>
     ('w, bool \<times> PerconaPGBackup) io" where
  "RunBackupFinalizer E = RunFinalizer E (\<lambda>b. Finalizers (b_meta b)) set_backup_finalizers (Patch_Backup E)"

section \<open>The backup's job\<close>

definition findBackupJob :: "'w env \<Rightarrow> merge_fn \<Rightarrow> PerconaPGBackup \<Rightarrow> ('w, Job) io" where
  "findBackupJob E mrg pb =
     (let jobName = str_at (Annotations (b_meta pb)) AnnotationPGBackrestBackupJobName;
          ns = Namespace (b_meta pb)
      in if jobName \<noteq> [] \<or> JobName (b_status pb) \<noteq> []
         then must ''get backup job by .status.jobName''
                (Get_Job E (ns, if jobName = [] then JobName (b_status pb) else jobName)) ret
         else must ''get backup jobs''
           (List_Jobs E ns (PGBackRestBackupJobSelector mrg (SpecPGCluster (b_spec pb))
              (deref (SpecRepoName (b_spec pb)) []) BackupManual))
           (\<lambda>jobs. case find (\<lambda>job. Annotations (j_meta job) PGBackRestBackup = Some (Name (b_meta pb))) jobs of
              Some job \<Rightarrow> ret job
            | None \<Rightarrow> throw (Sentinel ErrBackupJobNotFound)))"

definition checkBackupJob :: "Job \<Rightarrow> PGBackupState" where
  "checkBackupJob job =
     (if JobCompleted job then BackupSucceeded
      else if JobFailed job then BackupFailed else BackupRunning)"

section \<open>Where a backup goes\<close>

definition getRepo :: "PerconaPGCluster \<Rightarrow> PerconaPGBackup \<Rightarrow> PGBackRestRepo option" where
  "getRepo pg pb =
     (let repoName = deref (SpecRepoName (b_spec pb)) []
      in find (\<lambda>r. repoName = RepoNameOf r) (BackRestRepos (BackupsOf pg)))"

definition getDestination :: "PerconaPGCluster \<Rightarrow> PerconaPGBackup \<Rightarrow> string" where
  "getDestination pg pb =
     (case getRepo pg pb of
        None \<Rightarrow> []
      | Some repo \<Rightarrow>
          (let repoPath = str_at (BackRestGlobal (BackupsOf pg)) (RepoNameOf repo @ ''-path'')
           in case (RepoS3Spec repo, RepoGCSBucket repo, RepoAzureContainer repo) of
                (Some s3, _, _) \<Rightarrow> ''s3://'' @ path_join [S3Bucket s3, repoPath]
              | (None, Some bucket, _) \<Rightarrow> ''gs://'' @ path_join [bucket, repoPath]
              | (None, None, Some container) \<Rightarrow> ''azure://'' @ path_join [container, repoPath]
              | (None, None, None) \<Rightarrow> []))"

definition storageType :: "PGBackRestRepo \<Rightarrow> PGBackupStorageType" where
  "storageType repo =
     (if RepoS3Spec repo \<noteq> None then PGBackupStorageTypeS3
      else if RepoAzureContainer repo \<noteq> None then PGBackupStorageTypeAzure
      else if RepoGCSBucket repo \<noteq> None then PGBackupStorageTypeGCS
      else PGBackupStorageTypeFilesystem)"

section \<open>Starting and finishing a backup\<close>

text \<open>
  The cluster as \<open>startBackup\<close> writes it, one run of its retried function, and the
  function.
\<close>

definition claim_cluster :: "PerconaPGBackup \<Rightarrow> PerconaPGCluster \<Rightarrow> PerconaPGCluster" where
  "claim_cluster pb pg =
     (let annots = (Annotations (pg_meta pg))
            (PGBackRestBackup \<mapsto> Name (b_meta pb), AnnotationBackupInProgress \<mapsto> Name (b_meta pb));
          manual = deref (BackRestManual (BackupsOf pg))
            \<lparr>ManualRepoName = [], ManualOptions = [], ManualInitialDelaySeconds = 0,
             ManualEnv = [], ManualEnvFrom = []\<rparr>;
          manual = manual\<lparr>ManualRepoName := deref (SpecRepoName (b_spec pb)) [],
             ManualOptions := SpecOptions (b_spec pb),
             ManualEnv := SpecEnv (b_spec pb), ManualEnvFrom := SpecEnvFrom (b_spec pb)\<rparr>
      in pg\<lparr>pg_meta := (pg_meta pg)\<lparr>Annotations := annots\<rparr>,
            BackupsOf := (BackupsOf pg)\<lparr>BackRestManual := Some manual\<rparr>\<rparr>)"

definition start_once :: "'w env \<Rightarrow> PerconaPGBackup \<Rightarrow> ('w, unit) io" where
  "start_once E pb =
     plain (Get_Cluster E (Namespace (b_meta pb), SpecPGCluster (b_spec pb)))
       (\<lambda>pg. let a = str_at (Annotations (pg_meta pg)) AnnotationBackupInProgress in
          if a \<noteq> [] \<and> a \<noteq> Name (b_meta pb)
          then throw (Errorf (''backup '' @ a @ '' already in progress''))
          else Update_Cluster E (claim_cluster pb pg))"

definition startBackup :: "'w env \<Rightarrow> PerconaPGBackup \<Rightarrow> ('w, unit) io" where
  "startBackup E pb = must ''update PostgresCluster'' (RetryOnConflict E (start_once E pb)) ret"

definition getBackupInProgress :: "'w env \<Rightarrow> string \<Rightarrow> string \<Rightarrow> ('w, string) io" where
  "getBackupInProgress E clusterName ns =
     must ''get PostgresCluster'' (Get_Cluster E (ns, clusterName)) (\<lambda>pgCluster.
     must ''get PostgresCluster'' (Get_Crunchy E (ns, clusterName)) (\<lambda>crunchyCluster.
       let annotation = AnnotationBackupInProgress;
           crunchyAnnotation = ToCrunchyAnnotation annotation
       in if str_at (Annotations (cc_meta crunchyCluster)) crunchyAnnotation \<noteq> []
          then ret (str_at (Annotations (cc_meta crunchyCluster)) crunchyAnnotation)
          else ret (str_at (Annotations (pg_meta pgCluster)) annotation)))"

definition findBackupInPGBackrestInfo ::
    "InfoStanza list \<Rightarrow> PerconaPGBackup \<Rightarrow> (string \<times> InfoBackup) option" where
  "findBackupInPGBackrestInfo infoOutput pgBackup =
     (let matches = (\<lambda>backup.
            let v = str_at (map_of (InfoAnnotation backup)) PGBackrestAnnotationJobName;
                backupType = str_at (map_of (InfoAnnotation backup)) PGBackrestAnnotationJobType
            in InfoAnnotation backup \<noteq> [] \<and>
               \<not> (v \<noteq> [] \<and> v \<noteq> JobName (b_status pgBackup)) \<and>
               \<not> ((backupType \<noteq> str_at (Annotations (b_meta pgBackup)) AnnotationPGBackrestBackupJobType \<or>
                    backupType \<noteq> BackupReplicaCreate) \<and>
                   str_at (map_of (InfoAnnotation backup)) PGBackrestAnnotationBackupName \<noteq> Name (b_meta pgBackup)))
      in find (\<lambda>(name, backup). matches backup)
           (concat (map (\<lambda>stanza. map (\<lambda>b. (StanzaName stanza, b)) (StanzaBackups stanza)) infoOutput)))"

definition updatePGBackrestInfo :: "'w env \<Rightarrow> Pod \<Rightarrow> PerconaPGBackup \<Rightarrow> ('w, unit) io" where
  "updatePGBackrestInfo E pod pgBackup =
     must ''get pgBackRest info'' (GetInfo E pod (deref (SpecRepoName (b_spec pgBackup)) []))
       (\<lambda>infoOutput. case findBackupInPGBackrestInfo infoOutput pgBackup of
          None \<Rightarrow> ret ()
        | Some (stanzaName, backup) \<Rightarrow>
            let st = b_status pgBackup;
                annotate = must ''set annotations to backup''
                  (SetAnnotationsToBackup E pod stanzaName (InfoLabel backup)
                     (deref (SpecRepoName (b_spec pgBackup)) [])
                     [(PGBackrestAnnotationJobName, JobName st)]) ret
            in if BackupName st \<noteq> InfoLabel backup \<or> BackupType st \<noteq> InfoType backup \<or>
                  BackupSize st \<noteq> InfoDelta backup
               then must ''update PGBackup status''
                 (UpdateStatus E pgBackup (\<lambda>s. s\<lparr>BackupName := InfoLabel backup,
                    BackupType := InfoType backup, BackupSize := InfoDelta backup\<rparr>))
                 (\<lambda>_. annotate)
               else annotate)"

text \<open>
  The closure \<open>deleteAnnotation\<close> of \<open>finishBackup\<close>: true once the crunchy
  cluster no longer has the annotation, else it deletes it from the Percona cluster.
\<close>

definition deleteAnnotation :: "'w env \<Rightarrow> key \<Rightarrow> string \<Rightarrow> ('w, bool) io" where
  "deleteAnnotation E clusterKey annotation =
     must ''get PostgresCluster'' (Get_Crunchy E clusterKey) (\<lambda>pgCluster.
       if Annotations (cc_meta pgCluster) (ToCrunchyAnnotation annotation) = None then ret True
       else plain (RetryOnConflict E
         (must ''get PerconaPGCluster'' (Get_Cluster E clusterKey) (\<lambda>pg.
            if Annotations (pg_meta pg) annotation = None then ret ()
            else Update_Cluster E (pg\<lparr>pg_meta := (pg_meta pg)
                   \<lparr>Annotations := (Annotations (pg_meta pg))(annotation := None)\<rparr>\<rparr>))))
         (\<lambda>_. ret False))"

definition finishBackup :: "'w env \<Rightarrow> PerconaPGBackup \<Rightarrow> Job option \<Rightarrow> ('w, int option) io" where
  "finishBackup E pgBackup job =
     (let clusterKey = (Namespace (b_meta pgBackup), SpecPGCluster (b_spec pgBackup));
          clearing = (\<lambda>_.
            must (''delete '' @ PGBackRestBackup @ '' annotation'') (deleteAnnotation E clusterKey PGBackRestBackup)
            (\<lambda>deleted. if \<not> deleted then ret (Some 5) else
              let clearStatus = (\<lambda>_.
                    must ''update postgrescluster'' (RetryOnConflict E
                      (must ''get PostgresCluster'' (Get_Crunchy E clusterKey) (\<lambda>cc.
                         case cc_PGBackRest cc of
                           None \<Rightarrow> throw (Panic ''nil pointer dereference'')
                         | Some st \<Rightarrow> StatusUpdate_Crunchy E
                             (cc\<lparr>cc_PGBackRest := Some (st\<lparr>ManualBackupStatus := None\<rparr>)\<rparr>))))
                    (\<lambda>_. must (''delete '' @ AnnotationBackupInProgress @ '' annotation'')
                       (deleteAnnotation E clusterKey AnnotationBackupInProgress)
                       (\<lambda>_. ret (Some 5))))
              in case job of
                   None \<Rightarrow> clearStatus ()
                 | Some jb \<Rightarrow>
                     must ''update backup job labels'' (RetryOnConflict E
                       (must ''get job'' (Get_Job E (object_key (j_meta jb))) (\<lambda>j.
                          Update_Job E (j\<lparr>j_meta := (j_meta j)\<lparr>Labels :=
                            (\<lambda>l. if PGBackRestLabels (SpecPGCluster (b_spec pgBackup)) l \<noteq> None
                                 then None else Labels (j_meta j) l)\<rparr>\<rparr>))))
                     clearStatus));
          finish = (\<lambda>_.
            if (case job of Some jb \<Rightarrow> str_at (Labels (j_meta jb)) LabelPGBackRestBackup \<noteq> BackupManual
                | None \<Rightarrow> False)
            then ret None
            else must ''get backup in progress''
              (getBackupInProgress E (SpecPGCluster (b_spec pgBackup)) (Namespace (b_meta pgBackup)))
              (\<lambda>runningBackup. if runningBackup \<noteq> Name (b_meta pgBackup) then ret None
                 else clearing ()))
      in if (case job of Some jb \<Rightarrow> checkBackupJob jb = BackupSucceeded | None \<Rightarrow> False)
         then must ''get ready instance pod''
           (GetReadyInstancePod E (SpecPGCluster (b_spec pgBackup)) (Namespace (b_meta pgBackup)))
           (\<lambda>readyPod. must ''update pgbackrest info'' (updatePGBackrestInfo E readyPod pgBackup) finish)
         else finish ())"

section \<open>Finalizers\<close>

definition find_job_opt :: "'w env \<Rightarrow> merge_fn \<Rightarrow> PerconaPGBackup \<Rightarrow> ('w, Job option) io" where
  "find_job_opt E mrg pgBackup =
     attempt (findBackupJob E mrg pgBackup)
       (\<lambda>e. if error_is e ErrBackupJobNotFound \<or> IsNotFound e then ret None
            else throw (Wrap ''find backup job'' e))
       (\<lambda>job. ret (Some job))"

definition deleteBackupFinalizer ::
    "'w env \<Rightarrow> merge_fn \<Rightarrow> PerconaPGCluster option \<Rightarrow> PerconaPGBackup \<Rightarrow> ('w, unit) io" where
  "deleteBackupFinalizer E mrg pg pgBackup =
     (let pending = throw (Sentinel ErrFinalizerPending);
          drop_job = (\<lambda>job k. must ''remove keep-job finalizer'' (RemoveKeepJobFinalizer E job) k)
      in if pg = None
         then plain (find_job_opt E mrg pgBackup)
           (\<lambda>found. case found of
              None \<Rightarrow> ret ()
            | Some job \<Rightarrow>
                if DeletionTimestamp (j_meta job) = None
                then must ''delete backup job'' (ignore_not_found (Delete_Job E job))
                       (\<lambda>_. drop_job job (\<lambda>_. pending))
                else drop_job job (\<lambda>_. pending))
         else plain (find_job_opt E mrg pgBackup)
           (\<lambda>job.
              if job \<noteq> None \<and> JobName (b_status pgBackup) = []
              then must ''update backup job name''
                     (UpdateStatus E pgBackup (\<lambda>s. s\<lparr>JobName := Name (j_meta (the job))\<rparr>))
                     (\<lambda>_. pending)
              else must ''failed to finish backup'' (finishBackup E pgBackup job)
                (\<lambda>rr. if rr \<noteq> None \<and> the rr \<noteq> 0 then pending
                   else if DeletionTimestamp (b_meta pgBackup) \<noteq> None \<and> job \<noteq> None
                   then must ''delete backup job'' (ignore_not_found (Delete_Job E (the job)))
                          (\<lambda>_. drop_job (the job) ret)
                   else ret ())))"

definition snapshotInProgressFinalizer :: "PerconaPGCluster option \<Rightarrow> PerconaPGBackup \<Rightarrow> ('w, unit) io" where
  "snapshotInProgressFinalizer pg pgBackup =
     (if pg \<noteq> None then throw (Sentinel ErrFinalizerPending) else ret ())"

text \<open>
  Go iterates the map of finalizers in an unspecified order: \<open>swap\<close> chooses it.
\<close>

fun finalizer_loop ::
    "'w env \<Rightarrow> (string \<times> (PerconaPGBackup \<Rightarrow> ('w, unit) io)) list \<Rightarrow> PerconaPGBackup \<Rightarrow> bool \<Rightarrow>
     ('w, bool) io" where
  "finalizer_loop E [] pgBackup finished = ret finished"
| "finalizer_loop E ((finalizer, f) # fs) pgBackup finished =
     must (''run finalizer '' @ finalizer) (RunBackupFinalizer E pgBackup finalizer f)
       (\<lambda>(done, pgBackup'). finalizer_loop E fs pgBackup' (finished \<and> done))"

definition runFinalizers :: "'w env \<Rightarrow> merge_fn \<Rightarrow> bool \<Rightarrow> PerconaPGBackup \<Rightarrow> ('w, bool) io" where
  "runFinalizers E mrg swap pgBackup =
     (let run = (\<lambda>pg. let fs = [(FinalizerDeleteBackup, deleteBackupFinalizer E mrg pg),
                       (FinalizerSnapshotInProgress, snapshotInProgressFinalizer pg)]
            in finalizer_loop E (if swap then rev fs else fs) pgBackup True)
      in attempt (Get_Cluster E (Namespace (b_meta pgBackup), SpecPGCluster (b_spec pgBackup)))
           (\<lambda>e. if IsNotFound e then run None else throw (Wrap ''get PostgresCluster'' e))
           (\<lambda>pg. if DeletionTimestamp (pg_meta pg) \<noteq> None then run None else run (Some pg)))"

section \<open>The lease\<close>

definition backupLeaseName :: "string \<Rightarrow> string" where
  "backupLeaseName clusterName = ''pg-'' @ clusterName @ ''-backup-lock''"

definition backupLeaseHolder :: "PerconaPGBackup \<Rightarrow> string" where
  "backupLeaseHolder backup = Name (b_meta backup) @ ''|'' @ UID (b_meta backup)"

definition parseBackupLeaseHolder :: "string \<Rightarrow> string \<times> string" where
  "parseBackupLeaseHolder holder =
     (case str_split (CHR ''|'') holder of [n, u] \<Rightarrow> (n, u) | _ \<Rightarrow> ([], []))"

definition ConditionBackupLeaseAcquired :: string where
  "ConditionBackupLeaseAcquired = ''BackupLeaseAcquired''"

text \<open>The closure \<open>checkStale\<close> of \<open>tryAcquireLease\<close>.\<close>

definition checkStale :: "'w env \<Rightarrow> PerconaPGBackup \<Rightarrow> string \<Rightarrow> ('w, bool) io" where
  "checkStale E backup currentHolder =
     (case parseBackupLeaseHolder currentHolder of
        (backupName, backupUID) \<Rightarrow>
          if backupName = [] \<or> backupUID = [] then ret True
          else attempt (Get_Backup E (Namespace (b_meta backup), backupName))
            (\<lambda>e. if IsNotFound e then ret True else throw (Wrap ''failed to get backup'' e))
            (\<lambda>holderBackup.
               if UID (b_meta holderBackup) \<noteq> backupUID then ret True
               else ret (IsTerminal (State (b_status holderBackup)) \<and>
                 \<not> ContainsFinalizer E (Finalizers (b_meta holderBackup)) FinalizerSnapshotInProgress)))"

definition lease_condition :: "PerconaPGBackup \<Rightarrow> bool \<Rightarrow> Condition" where
  "lease_condition backup acquired =
     \<lparr>ConditionType = ConditionBackupLeaseAcquired,
      ConditionStatus = (if acquired then ConditionTrue else ConditionFalse),
      ConditionReason = (if acquired then ''LeaseAcquired'' else ''LeaseAlreadyHeld''),
      ObservedGeneration = Generation (b_meta backup), LastTransitionTime = 0\<rparr>"

text \<open>The second half of \<open>tryAcquireLease\<close>: the condition that records the outcome.\<close>

definition record_lease :: "'w env \<Rightarrow> PerconaPGBackup \<Rightarrow> bool \<Rightarrow> ('w, bool) io" where
  "record_lease E backup acquired =
     (let cond = lease_condition backup acquired in
      if \<not> IsStatusConditionPresentAndEqual E (Conditions (b_status backup))
             ConditionBackupLeaseAcquired (ConditionStatus cond)
      then must ''failed to update backup status''
        (UpdateStatus E backup (\<lambda>s. s\<lparr>Conditions := SetStatusCondition E (Conditions s) cond\<rparr>))
        (\<lambda>_. ret acquired)
      else ret acquired)"

definition tryAcquireLease :: "'w env \<Rightarrow> PerconaPGBackup \<Rightarrow> ('w, bool) io" where
  "tryAcquireLease E backup =
     attempt (AcquireLease E (backupLeaseName (SpecPGCluster (b_spec backup))) (backupLeaseHolder backup)
              (Namespace (b_meta backup)) (Some (checkStale E backup)))
       (\<lambda>e. if error_is e ErrLeaseAlreadyHeld \<or> IsAlreadyExists e \<or> IsConflict e
            then record_lease E backup False
            else throw (Wrap ''failed to acquire lease'' e))
       (\<lambda>_. record_lease E backup True)"

definition releaseLeaseIfNeeded :: "'w env \<Rightarrow> PerconaPGBackup \<Rightarrow> ('w, unit) io" where
  "releaseLeaseIfNeeded E backup =
     (if \<not> IsStatusConditionPresentAndEqual E (Conditions (b_status backup))
            ConditionBackupLeaseAcquired ConditionTrue
      then ret ()
      else must ''failed to release lease''
        (ReleaseLease E (backupLeaseName (SpecPGCluster (b_spec backup))) (backupLeaseHolder backup)
           (Namespace (b_meta backup)))
        (\<lambda>_. must ''failed to update backup status''
           (UpdateStatus E backup (\<lambda>s. s\<lparr>Conditions :=
              RemoveStatusCondition E (Conditions s) ConditionBackupLeaseAcquired\<rparr>)) ret))"

definition handleLease :: "'w env \<Rightarrow> PerconaPGCluster option \<Rightarrow> PerconaPGBackup \<Rightarrow> ('w, bool) io" where
  "handleLease E cluster backup =
     (if (IsTerminal (State (b_status backup)) \<or> DeletionTimestamp (b_meta backup) \<noteq> None) \<and>
         (cluster = None \<or>
          \<not> ContainsFinalizer E (Finalizers (b_meta backup)) FinalizerSnapshotInProgress)
      then must ''failed to release lease'' (releaseLeaseIfNeeded E backup) (\<lambda>_. ret True)
      else must ''failed to acquire lease'' (tryAcquireLease E backup) ret)"

section \<open>Reconcile\<close>

definition failIfClusterIsNotReady ::
    "'w env \<Rightarrow> PerconaPGCluster \<Rightarrow> PerconaPGBackup \<Rightarrow> ('w, unit) io" where
  "failIfClusterIsNotReady E pgCluster pgBackup =
     (case FindStatusCondition E (ClusterConditions pgCluster) ConditionClusterIsReadyForBackup of
        None \<Rightarrow> ret ()
      | Some condition \<Rightarrow> look (time_Now E) (\<lambda>now.
          if ConditionStatus condition = ConditionTrue \<or> now < LastTransitionTime condition + 2 * 60 * Second
          then ret ()
          else must ''get PostgresCluster'' (Get_Crunchy E (object_key (pg_meta pgCluster))) (\<lambda>crunchyCluster.
            if Annotations (cc_meta crunchyCluster) (ToCrunchyAnnotation PGBackRestBackup) = None \<or>
               Annotations (cc_meta crunchyCluster) (ToCrunchyAnnotation AnnotationBackupInProgress) = None
            then ret ()
            else must ''update PGBackup status''
              (UpdateStatus E pgBackup (\<lambda>s. s\<lparr>State := BackupFailed\<rparr>)) ret)))"

text \<open>The cases of the switch on the state of a backup in \<open>Reconcile\<close>.\<close>

definition cluster_not_found :: "PerconaPGBackup \<Rightarrow> ('w, int) io" where
  "cluster_not_found pgBackup =
     throw (Errorf (''PostgresCluster '' @ SpecPGCluster (b_spec pgBackup) @ '' is not found''))"

definition start_status :: "PerconaPGCluster \<Rightarrow> PerconaPGBackup \<Rightarrow> PGBackRestRepo \<Rightarrow>
    PerconaPGBackupStatus \<Rightarrow> PerconaPGBackupStatus" where
  "start_status pgCluster pgBackup repo s = s\<lparr>
     Destination := getDestination pgCluster pgBackup,
     StatusImage := BackRestImage (BackupsOf pgCluster),
     StatusRepo := Some repo, StatusCRVersion := CRVersion pgCluster,
     StorageType := storageType repo, State := BackupStarting\<rparr>"

definition reconcile_new ::
    "'w env \<Rightarrow> merge_fn \<Rightarrow> PerconaPGCluster option \<Rightarrow> PerconaPGBackup \<Rightarrow> ('w, int) io" where
  "reconcile_new E mrg cluster pgBackup =
     (case cluster of
        None \<Rightarrow> cluster_not_found pgBackup
      | Some pgCluster \<Rightarrow>
          if \<not> BackupsIsEnabled (BackupsOf pgCluster)
          then must ''update PGBackup status''
            (failBackup E pgBackup ''Backups are not enabled in the PerconaPGCluster configuration'')
            (\<lambda>_. ret 0)
          else if deref (Pause pgCluster) False then ret 5
          else
            let started = (case getRepo pgCluster pgBackup of
                  None \<Rightarrow> throw (Errorf ([CHR 0x27] @ deref (SpecRepoName (b_spec pgBackup)) [] @
                            [CHR 0x27] @ '' repo not defined''))
                | Some repo \<Rightarrow> must ''update PGBackup status''
                    (UpdateStatus E pgBackup (start_status pgCluster pgBackup repo)) (\<lambda>_. ret 0))
            in attempt (findBackupJob E mrg pgBackup)
              (\<lambda>e. if \<not> error_is e ErrBackupJobNotFound then throw (Wrap ''find backup job'' e)
                   else must ''failed to start backup'' (startBackup E pgBackup) (\<lambda>_. started))
              (\<lambda>_. started))"

definition annotate_job_type :: "'w env \<Rightarrow> Job \<Rightarrow> PerconaPGBackup \<Rightarrow> ('w, unit) io" where
  "annotate_job_type E job pgBackup = RetryOnConflict E
     (must ''get PGBackup'' (Get_Backup E (Namespace (b_meta pgBackup), Name (b_meta pgBackup))) (\<lambda>bcp.
        let jobType = str_at (Labels (j_meta job)) LabelPGBackRestBackup in
        if jobType = BackupReplicaCreate \<or> jobType = BackupManual
        then Update_Backup E (set_backup_annotations
               ((Annotations (b_meta bcp))(AnnotationPGBackrestBackupJobType \<mapsto> jobType)) bcp)
        else throw (Errorf (''unknown value for '' @ LabelPGBackRestBackup @ '' label: '' @ jobType))))"

definition reconcile_starting ::
    "'w env \<Rightarrow> merge_fn \<Rightarrow> PerconaPGCluster option \<Rightarrow> PerconaPGBackup \<Rightarrow> ('w, int) io" where
  "reconcile_starting E mrg cluster pgBackup =
     (case cluster of
        None \<Rightarrow> cluster_not_found pgBackup
      | Some pgCluster \<Rightarrow>
          attempt (findBackupJob E mrg pgBackup)
            (\<lambda>e. if error_is e ErrBackupJobNotFound
                 then must ''fail if cluster is not ready for backup''
                   (failIfClusterIsNotReady E pgCluster pgBackup) (\<lambda>_. ret 5)
                 else throw (Wrap ''find backup job'' e))
            (\<lambda>job. must ''update PGBackup'' (annotate_job_type E job pgBackup) (\<lambda>_.
               must ''update PGBackup status''
                 (UpdateStatus E pgBackup (\<lambda>s. s\<lparr>State := BackupRunning, JobName := Name (j_meta job)\<rparr>))
                 (\<lambda>_. ret 0))))"

definition reconcile_running ::
    "'w env \<Rightarrow> merge_fn \<Rightarrow> PerconaPGCluster option \<Rightarrow> PerconaPGBackup \<Rightarrow> ('w, int) io" where
  "reconcile_running E mrg cluster pgBackup =
     attempt (Get_Job E (Namespace (b_meta pgBackup), JobName (b_status pgBackup)))
       (\<lambda>e. if IsNotFound e
            then must ''update PGBackup status''
              (UpdateStatus E pgBackup (\<lambda>s. s\<lparr>State := BackupFailed\<rparr>)) (\<lambda>_. ret 0)
            else throw (Wrap ''get backup job'' e))
       (\<lambda>job.
          let status = checkBackupJob job in
          if \<not> (status = BackupFailed \<or> status = BackupSucceeded) then ret 5
          else must ''failed to run delete-backup finalizer''
            (RunBackupFinalizer E pgBackup FinalizerDeleteBackup (deleteBackupFinalizer E mrg cluster))
            (\<lambda>(done, pgBackup').
               if \<not> done then ret 5
               else must ''update PGBackup status''
                 (UpdateStatus E pgBackup' (\<lambda>s. s\<lparr>CompletedAt := JobCompletionTime job, State := status\<rparr>))
                 (\<lambda>_. ret 0)))"

definition reconcile_succeeded ::
    "'w env \<Rightarrow> merge_fn \<Rightarrow> PerconaPGCluster option \<Rightarrow> PerconaPGBackup \<Rightarrow> ('w, int) io" where
  "reconcile_succeeded E mrg cluster pgBackup =
     (let rest = (\<lambda>_. case cluster of
            None \<Rightarrow> ret 0
          | Some pgCluster \<Rightarrow>
              must ''get latest backup'' (GetLatestBackup E pgCluster) (\<lambda>latestBackup.
                if object_key (b_meta latestBackup) \<noteq> object_key (b_meta pgBackup) then ret 0
                else attempt (LatestCommitGetter E pgCluster pgBackup) (\<lambda>_. ret 0)
                  (\<lambda>latest. must ''update PGBackup status''
                     (UpdateStatus E pgBackup (\<lambda>s. s\<lparr>LatestRestorableTime := latest\<rparr>)) (\<lambda>_. ret 0))))
      in attempt (findBackupJob E mrg pgBackup) (\<lambda>_. rest ())
           (\<lambda>job. if ContainsFinalizer E (Finalizers (j_meta job)) FinalizerKeepJob
              then must ''remove keep-job finalizer'' (RemoveKeepJobFinalizer E job) rest
              else rest ()))"

definition reconcile_state ::
    "'w env \<Rightarrow> merge_fn \<Rightarrow> PerconaPGCluster option \<Rightarrow> PerconaPGBackup \<Rightarrow> ('w, int) io" where
  "reconcile_state E mrg cluster pgBackup =
     (case State (b_status pgBackup) of
        BackupNew \<Rightarrow> reconcile_new E mrg cluster pgBackup
      | BackupStarting \<Rightarrow> reconcile_starting E mrg cluster pgBackup
      | BackupRunning \<Rightarrow> reconcile_running E mrg cluster pgBackup
      | BackupSucceeded \<Rightarrow> reconcile_succeeded E mrg cluster pgBackup
      | _ \<Rightarrow> ret 0)"

text \<open>\<open>Reconcile\<close> from the backup that was read and the cluster, nil when it is gone.\<close>

definition reconcile_repo ::
    "'w env \<Rightarrow> merge_fn \<Rightarrow> PerconaPGCluster option \<Rightarrow> PerconaPGBackup \<Rightarrow> ('w, int) io" where
  "reconcile_repo E mrg cluster pgBackup =
     (if deref (SpecRepoName (b_spec pgBackup)) [] = []
      then must ''failed to update backup status''
        (failBackup E pgBackup (''repoName is required when method is '' @ [CHR 0x27] @
           ''pgbackrest'' @ [CHR 0x27]))
        (\<lambda>_. throw (Errorf ([CHR 0x27] @ ''repoName'' @ [CHR 0x27] @
           '' is required when method is '' @ [CHR 0x27] @ ''pgbackrest'' @ [CHR 0x27])))
      else reconcile_state E mrg cluster pgBackup)"

definition reconcile_pgbackrest ::
    "'w env \<Rightarrow> merge_fn \<Rightarrow> bool \<Rightarrow> PerconaPGCluster option \<Rightarrow> PerconaPGBackup \<Rightarrow> ('w, int) io" where
  "reconcile_pgbackrest E mrg swap cluster pgBackup =
     (if DeletionTimestamp (b_meta pgBackup) \<noteq> None \<or> State (b_status pgBackup) = BackupFailed
      then must ''failed to run finalizers'' (runFinalizers E mrg swap pgBackup) (\<lambda>_. ret 5)
      else if \<not> IsTerminal (State (b_status pgBackup))
      then must ''ensure finalizers'' (ensureFinalizers E pgBackup) (reconcile_repo E mrg cluster)
      else reconcile_repo E mrg cluster pgBackup)"

definition reconcile_leased ::
    "'w env \<Rightarrow> merge_fn \<Rightarrow> bool \<Rightarrow> ((string \<times> string) list \<Rightarrow> (string \<times> string) list) \<Rightarrow>
     PerconaPGCluster option \<Rightarrow> PerconaPGBackup \<Rightarrow> ('w, int) io" where
  "reconcile_leased E mrg swap order cluster pgBackup =
     must ''failed to process lease'' (handleLease E cluster pgBackup) (\<lambda>ok.
       if \<not> ok then ret 10
       else case cluster of
           Some pgCluster \<Rightarrow>
             if SpecMethod (b_spec pgBackup) = Some BackupMethodVolumeSnapshot
             then snapshots_Reconcile E order pgBackup pgCluster
             else reconcile_pgbackrest E mrg swap cluster pgBackup
         | None \<Rightarrow> reconcile_pgbackrest E mrg swap cluster pgBackup)"

definition reconcile_backup ::
    "'w env \<Rightarrow> merge_fn \<Rightarrow> bool \<Rightarrow> ((string \<times> string) list \<Rightarrow> (string \<times> string) list) \<Rightarrow>
     PerconaPGBackup \<Rightarrow> PerconaPGCluster option \<Rightarrow> ('w, int) io" where
  "reconcile_backup E mrg swap order pgBackup found =
     (if (case found of None \<Rightarrow> False | Some c \<Rightarrow> deref (Unmanaged c) False) \<and>
         DeletionTimestamp (b_meta pgBackup) = None
      then ret 0
      else if (case found of None \<Rightarrow> True | Some c \<Rightarrow> DeletionTimestamp (pg_meta c) \<noteq> None)
      then
        (if State (b_status pgBackup) = BackupStarting \<or> State (b_status pgBackup) = BackupRunning
         then must ''update backup status''
           (failBackup E pgBackup (''PerconaPGCluster '' @ SpecPGCluster (b_spec pgBackup) @
              (if found = None then '' is not found'' else '' is being deleted'')))
           (reconcile_leased E mrg swap order None)
         else reconcile_leased E mrg swap order None pgBackup)
      else reconcile_leased E mrg swap order found pgBackup)"

definition Reconcile ::
    "'w env \<Rightarrow> merge_fn \<Rightarrow> bool \<Rightarrow> ((string \<times> string) list \<Rightarrow> (string \<times> string) list) \<Rightarrow>
     key \<Rightarrow> ('w, int) io" where
  "Reconcile E mrg swap order request =
     attempt (Get_Backup E request)
       (\<lambda>e. if IsNotFound e then ret 0 else throw e)
       (\<lambda>b. let pgBackup = BackupDefault b in
          attempt (Get_Cluster E (fst request, SpecPGCluster (b_spec pgBackup)))
            (\<lambda>e. if \<not> IsNotFound e then throw (Wrap ''get PerconaPGCluster'' e)
                 else reconcile_backup E mrg swap order pgBackup None)
            (\<lambda>c. reconcile_backup E mrg swap order pgBackup (Some c)))"

section \<open>Frames\<close>

lemma frame_jobs:
  assumes F: "frame_of E I"
  shows "keeps I (findBackupJob E mrg b)" and "keeps I (find_job_opt E mrg b)"
    and "keeps I (startBackup E b)" and "keeps I (getBackupInProgress E c n)"
    and "keeps I (deleteAnnotation E ck a)" and "keeps I (ensureFinalizers E b)"
    and "keeps I (annotate_job_type E job b)" and "keeps I (checkStale E b h)"
    and "keeps I (snapshotInProgressFinalizer pg b)"
proof -
  show job: "keeps I (findBackupJob E mrg b)"
    unfolding findBackupJob_def Let_def by (intro frame_intros frameD [OF F])
  show "keeps I (find_job_opt E mrg b)"
    unfolding find_job_opt_def by (intro frame_intros job)
  show "keeps I (startBackup E b)"
    unfolding startBackup_def start_once_def Let_def by (intro frame_intros frameD [OF F])
  show "keeps I (getBackupInProgress E c n)"
    unfolding getBackupInProgress_def Let_def by (intro frame_intros frameD [OF F])
  show "keeps I (deleteAnnotation E ck a)"
    unfolding deleteAnnotation_def by (intro frame_intros frameD [OF F])
  show "keeps I (ensureFinalizers E b)"
    unfolding ensureFinalizers_def Let_def by (intro frame_intros frameD [OF F])
  show "keeps I (annotate_job_type E job b)"
    unfolding annotate_job_type_def Let_def by (intro frame_intros frameD [OF F])
  show "keeps I (checkStale E b h)"
    unfolding checkStale_def by (intro frame_intros frameD [OF F])
  show "keeps I (snapshotInProgressFinalizer pg b)"
    unfolding snapshotInProgressFinalizer_def by (intro frame_intros)
qed

lemma frame_finishing:
  assumes st: "backup_store E st"
  shows "keeps (in_states st k S) (updatePGBackrestInfo E pod b)"
    and "keeps (in_states st k S) (finishBackup E b job)"
    and "keeps (in_states st k S) (deleteBackupFinalizer E mrg pg b)"
proof -
  note F = backup_store_frame [OF st]
  show info: "keeps (in_states st k S) (updatePGBackrestInfo E pod b)" for pod b
    unfolding updatePGBackrestInfo_def Let_def
    by (intro frame_intros frame_helpers [OF F] keeps_UpdateStatus [OF st]) simp
  show finish: "keeps (in_states st k S) (finishBackup E b job)" for b job
    unfolding finishBackup_def Let_def
    by (intro frame_intros frame_helpers [OF F] frameD [OF F] frame_jobs [OF F] info)
  show "keeps (in_states st k S) (deleteBackupFinalizer E mrg pg b)"
    unfolding deleteBackupFinalizer_def Let_def
    by (intro frame_intros frame_helpers [OF F] frameD [OF F] frame_jobs [OF F] finish
          keeps_UpdateStatus [OF st]) simp
qed

lemma frame_finalizers:
  assumes st: "backup_store E st"
  shows "keeps (in_states st k S)
      (RunBackupFinalizer E b fin (deleteBackupFinalizer E mrg pg))"
    and "keeps (in_states st k S) (runFinalizers E mrg swap b)"
proof -
  note F = backup_store_frame [OF st]
  have run: "keeps (in_states st k S) (RunBackupFinalizer E b fin f)"
    if "\<And>b. keeps (in_states st k S) (f b)" for b fin f
    unfolding RunBackupFinalizer_def by (intro frame_RunFinalizer frameD [OF F] that)
  show "keeps (in_states st k S) (RunBackupFinalizer E b fin (deleteBackupFinalizer E mrg pg))"
    by (intro run frame_finishing [OF st])
  have loop: "keeps (in_states st k S) (finalizer_loop E fs b d)"
    if "list_all (\<lambda>ff. \<forall>b. keeps (in_states st k S) (snd ff b)) fs" for fs b d
    using that
    by (induction fs arbitrary: b d) (auto intro!: keeps_ret keeps_must keeps_prod run)
  have "keeps (in_states st k S) (finalizer_loop E
      (if swap then rev fs else fs) b True)"
    if "fs = [(FinalizerDeleteBackup, deleteBackupFinalizer E mrg pg),
       (FinalizerSnapshotInProgress, snapshotInProgressFinalizer pg)]" for fs pg
    using that by (intro loop) (auto intro: frame_finishing [OF st] frame_jobs [OF F])
  then show "keeps (in_states st k S) (runFinalizers E mrg swap b)"
    unfolding runFinalizers_def Let_def by (intro frame_intros frameD [OF F]) auto
qed

lemma frame_lease:
  assumes st: "backup_store E st"
  shows "keeps (in_states st k S) (handleLease E cluster b)"
proof -
  note F = backup_store_frame [OF st]
  have "keeps (in_states st k S) (tryAcquireLease E b)"
    unfolding tryAcquireLease_def record_lease_def Let_def
    by (intro frame_intros frame_AcquireLease [OF F] frame_jobs [OF F] keeps_UpdateStatus [OF st]) simp_all
  moreover have "keeps (in_states st k S) (releaseLeaseIfNeeded E b)"
    unfolding releaseLeaseIfNeeded_def
    by (intro frame_intros frame_helpers [OF F] keeps_UpdateStatus [OF st]) simp_all
  ultimately show ?thesis
    unfolding handleLease_def by (intro frame_intros)
qed

section \<open>The life of a backup\<close>

lemma keeps_failBackup:
  assumes "backup_store E st" and "BackupFailed \<in> S"
  shows "keeps (in_states st k S) (failBackup E b reason)"
  unfolding failBackup_def
  by (intro frame_intros keeps_UpdateStatus [OF assms(1)]) (simp add: assms(2))

lemma keeps_failIfClusterIsNotReady:
  assumes "backup_store E st" and "BackupFailed \<in> S"
  shows "keeps (in_states st k S) (failIfClusterIsNotReady E c b)"
  unfolding failIfClusterIsNotReady_def
  by (intro frame_intros frameD [OF backup_store_frame [OF assms(1)]] keeps_UpdateStatus [OF assms(1)])
    (simp add: assms(2))

lemma keeps_reconcile_new:
  assumes st: "backup_store E st" and "BackupFailed \<in> S" "BackupStarting \<in> S"
  shows "keeps (in_states st k S) (reconcile_new E mrg cluster b)"
  unfolding reconcile_new_def cluster_not_found_def Let_def
  by (intro frame_intros frame_jobs [OF backup_store_frame [OF st]] keeps_failBackup [OF st]
        keeps_UpdateStatus [OF st]) (simp_all add: assms start_status_def)

lemma keeps_reconcile_starting:
  assumes st: "backup_store E st" and "BackupFailed \<in> S" "BackupRunning \<in> S"
  shows "keeps (in_states st k S) (reconcile_starting E mrg cluster b)"
  unfolding reconcile_starting_def cluster_not_found_def
  by (intro frame_intros frame_jobs [OF backup_store_frame [OF st]]
        keeps_failIfClusterIsNotReady [OF st] keeps_UpdateStatus [OF st]) (simp_all add: assms)

lemma keeps_reconcile_running:
  assumes st: "backup_store E st" and S: "BackupFailed \<in> S" "BackupSucceeded \<in> S"
  shows "keeps (in_states st k S) (reconcile_running E mrg cluster b)"
  unfolding reconcile_running_def Let_def
  by (intro frame_intros frameD [OF backup_store_frame [OF st]] frame_finalizers [OF st]
        keeps_UpdateStatus [OF st]) (auto simp: S)

lemma keeps_reconcile_succeeded:
  assumes st: "backup_store E st"
  shows "keeps (in_states st k S) (reconcile_succeeded E mrg cluster b)"
  unfolding reconcile_succeeded_def Let_def
  by (intro frame_intros frameD [OF backup_store_frame [OF st]] frame_jobs [OF backup_store_frame [OF st]]
        frame_helpers [OF backup_store_frame [OF st]] keeps_UpdateStatus [OF st]) simp_all

lemma keeps_reconcile_state:
  assumes st: "backup_store E st" and S: "next_states spec (State (b_status b)) \<subseteq> S"
  shows "keeps (in_states st k S) (reconcile_state E mrg cluster b)"
proof -
  have step: "s' \<in> S" if "backup_step spec (State (b_status b)) s'" for s'
    using S that by blast
  show ?thesis
    unfolding reconcile_state_def
    by (cases "State (b_status b)")
      (use step in \<open>auto intro!: keeps_reconcile_new [OF st] keeps_reconcile_starting [OF st]
        keeps_reconcile_running [OF st] keeps_reconcile_succeeded [OF st] keeps_ret
        intro: backup_steps\<close>)
qed

lemma ensureFinalizers_result:
  "ensureFinalizers E b w = (Inr b', w') \<Longrightarrow>
   b_status b' = b_status b \<and> b_spec b' = b_spec b \<and> object_key (b_meta b') = object_key (b_meta b)"
  by (auto simp: ensureFinalizers_def set_backup_finalizers_def Let_def object_key_def io_defs
      split: prod.splits sum.splits if_splits)

lemma failBackup_result:
  "failBackup E b reason w = (Inr b', w') \<Longrightarrow> State (b_status b') = BackupFailed"
  by (auto simp: failBackup_def io_defs split: prod.splits sum.splits if_splits)

text \<open>
  What a reconciliation keeps, from what the case of the switch keeps: the steps around the
  switch write no state but the failed one.
\<close>

lemma keeps_reconcile_pgbackrest:
  assumes st: "backup_store E st"
    and failed: "deref (SpecRepoName (b_spec b)) [] = [] \<Longrightarrow> BackupFailed \<in> S"
    and switch: "\<And>b'. b_status b' = b_status b \<Longrightarrow> b_spec b' = b_spec b \<Longrightarrow>
      object_key (b_meta b') = object_key (b_meta b) \<Longrightarrow>
      keeps (in_states st k S) (reconcile_state E mrg cluster b')"
  shows "keeps (in_states st k S) (reconcile_pgbackrest E mrg swap cluster b)"
proof -
  have repo: "keeps (in_states st k S) (reconcile_repo E mrg cluster b')"
    if "b_status b' = b_status b \<and> b_spec b' = b_spec b \<and> object_key (b_meta b') = object_key (b_meta b)"
    for b' :: PerconaPGBackup
    unfolding reconcile_repo_def using that failed
    by (intro frame_intros keeps_failBackup [OF st] switch) auto
  show ?thesis
    unfolding reconcile_pgbackrest_def
    by (intro keeps_if keeps_must [OF frame_finalizers(2) [OF st]] keeps_ret repo
          keeps_must_result [OF frame_jobs(6) [OF backup_store_frame [OF st]]])
      (auto dest: ensureFinalizers_result)
qed

lemma keeps_reconcile_failed:
  assumes st: "backup_store E st" and "State (b_status b) = BackupFailed"
  shows "keeps (in_states st k S) (reconcile_leased E mrg swap order None b)"
  using assms(2) unfolding reconcile_leased_def reconcile_pgbackrest_def option.case
  by (simp, intro keeps_must [OF frame_lease [OF st]] keeps_if keeps_ret
        keeps_must [OF frame_finalizers(2) [OF st]])

lemma keeps_reconcile_backup:
  assumes st: "backup_store E st"
    and failed: "State (b_status b) = BackupStarting \<or> State (b_status b) = BackupRunning \<or>
      deref (SpecRepoName (b_spec b)) [] = [] \<Longrightarrow> BackupFailed \<in> S"
    and switch: "\<And>b' cluster. b_status b' = b_status b \<Longrightarrow> b_spec b' = b_spec b \<Longrightarrow>
      object_key (b_meta b') = object_key (b_meta b) \<Longrightarrow>
      keeps (in_states st k S) (reconcile_state E mrg cluster b')"
    and snapshot: "\<And>c. SpecMethod (b_spec b) = Some BackupMethodVolumeSnapshot \<Longrightarrow>
      keeps (in_states st k S) (snapshots_Reconcile E order b c)"
  shows "keeps (in_states st k S) (reconcile_backup E mrg swap order b found)"
proof -
  have leased: "keeps (in_states st k S) (reconcile_leased E mrg swap order cluster b)" for cluster
    unfolding reconcile_leased_def
    by (intro keeps_must [OF frame_lease [OF st]] keeps_if keeps_ret keeps_option
          keeps_reconcile_pgbackrest [OF st] switch snapshot) (use failed in auto)
  have "keeps (in_states st k S) (must msg (failBackup E b reason) (reconcile_leased E mrg swap order None))"
    if "State (b_status b) = BackupStarting \<or> State (b_status b) = BackupRunning" for msg reason
    using that failed
    by (intro keeps_must_result keeps_failBackup [OF st] keeps_reconcile_failed [OF st])
      (auto dest: failBackup_result)
  then show ?thesis
    unfolding reconcile_backup_def by (intro keeps_if keeps_ret leased)
qed

lemma BackupDefault_simps [simp]:
  "b_status (BackupDefault b) = b_status b" "b_meta (BackupDefault b) = b_meta b"
  "SpecRepoName (b_spec (BackupDefault b)) = SpecRepoName (b_spec b)"
  "SpecPGCluster (b_spec (BackupDefault b)) = SpecPGCluster (b_spec b)"
  "SpecMethod (b_spec (BackupDefault b)) = Some (deref (SpecMethod (b_spec b)) BackupMethodPGBackrest)"
  by (auto simp: BackupDefault_def Let_def)

lemma in_states_Reconcile:
  assumes st: "backup_store E st" and get: "Get_Backup E k w = (Inr b, w')" and S: "State (b_status b) \<in> S"
    and keep: "\<And>found. keeps (in_states st k S) (reconcile_backup E mrg swap order (BackupDefault b) found)"
  shows "in_states st k S (snd (Reconcile E mrg swap order k w))"
proof -
  from backup_store_Get [OF st get] S have I: "in_states st k S w'" by (simp add: in_states_def)
  have "keeps (in_states st k S)
     (let pgBackup = BackupDefault b in
          attempt (Get_Cluster E (fst k, SpecPGCluster (b_spec pgBackup)))
            (\<lambda>e. if \<not> IsNotFound e then throw (Wrap ''get PerconaPGCluster'' e)
                 else reconcile_backup E mrg swap order pgBackup None)
            (\<lambda>c. reconcile_backup E mrg swap order pgBackup (Some c)))"
    unfolding Let_def by (intro frame_intros frameD [OF backup_store_frame [OF st]] keep)
  from keepsD [OF this I] show ?thesis by (simp add: Reconcile_def attempt_def get)
qed

lemma Reconcile_next_states:
  assumes st: "backup_store E st" and get: "Get_Backup E k w = (Inr b, w')"
  shows "in_states st k (next_states (b_spec b) (State (b_status b)))
    (snd (Reconcile E mrg swap order k w))"
proof (rule in_states_Reconcile [OF st get])
  fix found
  let ?b = "BackupDefault b" and ?S = "next_states (b_spec b) (State (b_status b))"
  have failed: "BackupFailed \<in> ?S"
    if "State (b_status b) = BackupStarting \<or> State (b_status b) = BackupRunning \<or>
      deref (SpecRepoName (b_spec b)) [] = []"
    using that by (cases "State (b_status b)") (auto simp: next_states_def intro: backup_steps)
  have snapshot: "keeps (in_states st k ?S) (snapshots_Reconcile E order ?b c)"
    if "SpecMethod (b_spec b) = Some BackupMethodVolumeSnapshot" for c
    using keeps_snapshots_Reconcile [OF st that, of k ?b order c] by simp
  show "keeps (in_states st k ?S) (reconcile_backup E mrg swap order ?b found)"
    by (intro keeps_reconcile_backup [OF st] failed keeps_reconcile_state [OF st, of "b_spec b"] snapshot) auto
qed simp

text \<open>
  C1: One call of \<open>Reconcile\<close> moves the stored state of the backup along at most one
  step of its life: new to starting, starting to running, running to succeeded, any state that is
  not final to failed, and succeeded to failed only for a volume snapshot or a backup without
  repository. \<open>backup_store\<close> says what the API server does with a backup's state.
\<close>

theorem Reconcile_follows_life:
  assumes "backup_store E st" and "Get_Backup E k w = (Inr b, w')"
    and "st (snd (Reconcile E mrg swap order k w)) k = Some s'"
  shows "s' = State (b_status b) \<or> backup_step (b_spec b) (State (b_status b)) s'"
  using Reconcile_next_states [OF assms(1,2)] assms(3) by (auto simp: in_states_def next_states_def)

theorem Reconcile_follows_life_witness:
  "BackupStarting = State (b_status (sample_backup ''b1'' BackupNew)) \<or>
   backup_step (b_spec (sample_backup ''b1'' BackupNew)) (State (b_status (sample_backup ''b1'' BackupNew)))
     BackupStarting"
proof (rule Reconcile_follows_life [OF memory_backup_store])
  show "Get_Backup memory (''ns'', ''b1'') (sample_world [sample_backup ''b1'' BackupNew]) =
      (Inr (sample_backup ''b1'' BackupNew), sample_world [sample_backup ''b1'' BackupNew])"
    by (rule sample_get)
  show "mem_state (snd (Reconcile memory (++) False (\<lambda>x. x) (''ns'', ''b1'')
      (sample_world [sample_backup ''b1'' BackupNew]))) (''ns'', ''b1'') = Some BackupStarting"
    by code_simp
qed

text \<open>
  A history of one backup: reconciliations of it, with any order of map iterations, interleaved
  with steps of others, which may delete the backup but do not write its state. The
  specification of a backup that is read satisfies \<open>P\<close>.
\<close>

inductive history ::
    "'w env \<Rightarrow> merge_fn \<Rightarrow> ('w \<Rightarrow> key \<Rightarrow> PGBackupState option) \<Rightarrow> key \<Rightarrow> (PerconaPGBackupSpec \<Rightarrow> bool) \<Rightarrow>
     'w \<Rightarrow> 'w \<Rightarrow> bool"
  for E mrg st k P where
  history_start: "history E mrg st k P w w"
| history_reconcile: "history E mrg st k P w w' \<Longrightarrow>
    (\<And>b w1. Get_Backup E k w' = (Inr b, w1) \<Longrightarrow> P (b_spec b)) \<Longrightarrow>
    history E mrg st k P w (snd (Reconcile E mrg swap order k w'))"
| history_others: "history E mrg st k P w w' \<Longrightarrow> st w'' k = st w' k \<or> st w'' k = None \<Longrightarrow>
    history E mrg st k P w w''"

definition to_repo :: "PerconaPGBackupSpec \<Rightarrow> bool" where
  "to_repo spec \<longleftrightarrow> SpecMethod spec \<noteq> Some BackupMethodVolumeSnapshot \<and> deref (SpecRepoName spec) [] \<noteq> []"

lemma final_next_states: "IsTerminal s \<Longrightarrow> to_repo spec \<Longrightarrow> next_states spec s = {s}"
  by (auto simp: IsTerminal_def to_repo_def next_states_def
      elim: backup_step_FailedE backup_step_SucceededE)

lemma Reconcile_final:
  assumes st: "backup_store E st" and "IsTerminal s" and I: "in_states st k {s} w"
    and spec: "\<And>b w'. Get_Backup E k w = (Inr b, w') \<Longrightarrow> to_repo (b_spec b)"
  shows "in_states st k {s} (snd (Reconcile E mrg swap order k w))"
proof -
  obtain r w' where get: "Get_Backup E k w = (r, w')" by fastforce
  from keeps_run [OF frameD(3) [OF backup_store_frame [OF st]] I get] have I': "in_states st k {s} w'" .
  show ?thesis
  proof (cases r)
    case (Inl e)
    with get I' show ?thesis by (auto simp: Reconcile_def attempt_def ret_def throw_def)
  next
    case (Inr b)
    with get have get: "Get_Backup E k w = (Inr b, w')" by simp
    from backup_store_Get [OF st get] I' have "State (b_status b) = s" by (simp add: in_states_def)
    with Reconcile_next_states [OF st get] final_next_states [OF assms(2) spec [OF get]]
    show ?thesis by simp
  qed
qed

text \<open>
  C2: A backup taken with pgBackRest to a named repository keeps its final state: once it has
  failed or succeeded, every history of reconciliations and of steps of others leaves it in that
  state or deleted.
\<close>

theorem final_states_stay:
  assumes "backup_store E st" and "history E mrg st k to_repo w w'"
    and "st w k = Some s" and "IsTerminal s"
  shows "st w' k = Some s \<or> st w' k = None"
proof -
  from assms(2,3) have "in_states st k {s} w'"
  proof (induction rule: history.induct)
    case (history_start w)
    then show ?case by (simp add: in_states_def)
  next
    case (history_reconcile w w' swap order)
    from history_reconcile.prems have "in_states st k {s} w'" by (rule history_reconcile.IH)
    from assms(1,4) this history_reconcile.hyps(2) show ?case by (rule Reconcile_final)
  next
    case (history_others w w' w'')
    then show ?case by (auto simp: in_states_def)
  qed
  then show ?thesis by (cases "st w' k") (auto simp: in_states_def)
qed

lemma sample_to_repo [simp]: "to_repo (b_spec (sample_backup n s))"
  by (simp add: to_repo_def sample_backup_def)

theorem final_states_stay_witness:
  "mem_state (snd (Reconcile memory (++) False (\<lambda>x. x) (''ns'', ''b1'')
      (sample_world [sample_backup ''b1'' BackupSucceeded]))) (''ns'', ''b1'') = Some BackupSucceeded"
proof -
  let ?w = "sample_world [sample_backup ''b1'' BackupSucceeded]" and ?k = "(''ns'', ''b1'')"
  define v where "v = snd (Reconcile memory (++) False (\<lambda>x. x) ?k ?w)"
  have run: "history memory (++) mem_state ?k to_repo ?w v"
    unfolding v_def by (rule history_reconcile [OF history_start]) (auto simp: sample_get)
  have now: "mem_state ?w ?k = Some BackupSucceeded" by code_simp
  have there: "mem_state v ?k \<noteq> None" unfolding v_def by code_simp
  from final_states_stay [OF memory_backup_store, OF run, OF now, OF IsTerminal_simps(2)] there
  have "mem_state v ?k = Some BackupSucceeded" by blast
  then show ?thesis by (simp only: v_def)
qed

text \<open>
  C4: While a backup runs, its state follows its Job: a reconciliation of a running backup
  leaves the stored state as it is or writes the verdict on the Job it read, which is succeeded
  only for a completed Job and failed only for one that is not completed and has failed.
\<close>

theorem running_follows_job:
  assumes "backup_store E st"
    and "Get_Job E (Namespace (b_meta b), JobName (b_status b)) w = (Inr job, w1)"
    and "st w1 k = Some s" and "st (snd (reconcile_running E mrg cluster b w)) k = Some s'"
  shows "s' = s \<or> s' = BackupSucceeded \<and> JobCompleted job \<or>
    s' = BackupFailed \<and> \<not> JobCompleted job \<and> JobFailed job"
proof -
  let ?v = "checkBackupJob job"
  define rest where "rest = (if \<not> (?v = BackupFailed \<or> ?v = BackupSucceeded) then ret (5 :: int)
      else must ''failed to run delete-backup finalizer''
            (RunBackupFinalizer E b FinalizerDeleteBackup (deleteBackupFinalizer E mrg cluster))
            (\<lambda>(done, pgBackup').
               if \<not> done then ret 5
               else must ''update PGBackup status''
                 (UpdateStatus E pgBackup' (\<lambda>s. s\<lparr>CompletedAt := JobCompletionTime job, State := ?v\<rparr>))
                 (\<lambda>_. ret 0)))"
  have "keeps (in_states st k (if IsTerminal ?v then {s, ?v} else {s})) rest"
    unfolding rest_def IsTerminal_def
    by (intro frame_intros frame_finalizers [OF assms(1)] keeps_UpdateStatus [OF assms(1)]) auto
  moreover have "in_states st k (if IsTerminal ?v then {s, ?v} else {s}) w1"
    using assms(3) by (simp add: in_states_def)
  ultimately have "in_states st k (if IsTerminal ?v then {s, ?v} else {s}) (snd (rest w1))"
    by (rule keepsD)
  moreover have "reconcile_running E mrg cluster b w = rest w1"
    by (simp add: reconcile_running_def attempt_def assms(2) rest_def Let_def)
  ultimately show ?thesis
    using assms(4) by (auto simp: in_states_def checkBackupJob_def split: if_splits)
qed

theorem running_follows_job_witness:
  "mem_state (snd (reconcile_running memory (++) (Some sample_cluster) sample_running
      (sample_world [sample_running]\<lparr>m_jobs := [sample_job ''job'' ''Complete'']\<rparr>))) (''ns'', ''b1'') =
     Some BackupSucceeded \<and> JobCompleted (sample_job ''job'' ''Complete'')"
proof -
  let ?w = "sample_world [sample_running]\<lparr>m_jobs := [sample_job ''job'' ''Complete'']\<rparr>"
  let ?j = "sample_job ''job'' ''Complete''"
  have job: "Get_Job memory (Namespace (b_meta sample_running), JobName (b_status sample_running)) ?w = (Inr ?j, ?w)"
    by (simp add: memory_def mem_get_def lookup_def sample_world_def sample_running_def sample_backup_def
        sample_status_def sample_job_def sample_meta_def object_key_def)
  have now: "mem_state ?w (''ns'', ''b1'') = Some BackupRunning" by code_simp
  have after: "mem_state (snd (reconcile_running memory (++) (Some sample_cluster) sample_running ?w)) (''ns'', ''b1'') =
     Some BackupSucceeded"
    by code_simp
  from running_follows_job [OF memory_backup_store, OF job, OF now, OF after] after show ?thesis by simp
qed

section \<open>The lease protects a running backup\<close>

lemma parse_backupLeaseHolder:
  assumes "CHR ''|'' \<notin> set (Name (b_meta b))" and "CHR ''|'' \<notin> set (UID (b_meta b))"
  shows "parseBackupLeaseHolder (backupLeaseHolder b) = (Name (b_meta b), UID (b_meta b))"
  using assms by (simp add: parseBackupLeaseHolder_def backupLeaseHolder_def str_split_append str_split_no_sep)

text \<open>
  The identity a backup writes into the lease reads back as its name and UID, as Kubernetes
  names and UIDs have no vertical bar, so two backups with one identity are the same object.
\<close>

theorem backupLeaseHolder_roundtrip:
  assumes "CHR ''|'' \<notin> set (Name (b_meta b))" and "CHR ''|'' \<notin> set (UID (b_meta b))"
  shows "parseBackupLeaseHolder (backupLeaseHolder b) = (Name (b_meta b), UID (b_meta b)) \<and>
    (\<forall>c. backupLeaseHolder c = backupLeaseHolder b \<and> CHR ''|'' \<notin> set (Name (b_meta c)) \<longrightarrow>
       Name (b_meta c) = Name (b_meta b) \<and> UID (b_meta c) = UID (b_meta b))"
proof (intro conjI allI impI)
  show parse: "parseBackupLeaseHolder (backupLeaseHolder b) = (Name (b_meta b), UID (b_meta b))"
    by (rule parse_backupLeaseHolder [OF assms])
  fix c assume c: "backupLeaseHolder c = backupLeaseHolder b \<and> CHR ''|'' \<notin> set (Name (b_meta c))"
  then have "Name (b_meta c) @ CHR ''|'' # UID (b_meta c) = Name (b_meta b) @ CHR ''|'' # UID (b_meta b)"
    by (simp add: backupLeaseHolder_def)
  then have "str_split (CHR ''|'') (Name (b_meta c) @ CHR ''|'' # UID (b_meta c)) =
      str_split (CHR ''|'') (Name (b_meta b) @ CHR ''|'' # UID (b_meta b))" by simp
  with c assms(1) have "Name (b_meta c) = Name (b_meta b)" by (simp add: str_split_append)
  with c show "Name (b_meta c) = Name (b_meta b)" and "UID (b_meta c) = UID (b_meta b)"
    by (simp_all add: backupLeaseHolder_def)
qed

theorem backupLeaseHolder_roundtrip_witness:
  "parseBackupLeaseHolder (backupLeaseHolder (sample_backup ''b1'' BackupNew)) = (''b1'', ''b1-uid'')"
  using backupLeaseHolder_roundtrip [of "sample_backup ''b1'' BackupNew"]
  by (simp add: sample_backup_def sample_meta_def)

lemma lease_frame_record:
  assumes L: "lease_store E hd_of"
  shows "keeps (\<lambda>w. hd_of w k = x) (record_lease E b acquired)"
  unfolding record_lease_def Let_def UpdateStatus_def UpdateStatusAt_def UpdateStatusP_def
  by (intro frame_intros keeps_RetryOnConflict lease_store_frame [OF L])

lemma record_lease_result: "record_lease E b a w = (Inr x, w') \<Longrightarrow> x = a"
  by (auto simp: record_lease_def Let_def io_defs split: prod.splits sum.splits if_splits)

lemma AcquireLease_held:
  assumes L: "lease_store E hd_of" and ok: "AcquireLease E l h n stale w = (Inr (), w')"
  shows "hd_of w' (n, l) = Some h"
proof -
  have "HolderIdentity l' = Some h" if "acquire_mutate E h stale le v = (Inr l', v')" for le l' v v'
    using that by (auto simp: acquire_mutate_def Let_def io_defs
        split: option.splits if_splits prod.splits sum.splits)
  moreover from ok have "CreateOrUpdate_Lease E (n, l) (acquire_mutate E h stale) w = (Inr (), w')"
    by (auto simp: AcquireLease_def io_defs split: prod.splits sum.splits if_splits)
  ultimately show ?thesis
    using lease_store_ok [OF L] by fastforce
qed

text \<open>
  A backup goes on past the lease only as its holder: when \<open>tryAcquireLease\<close>
  reports success the lease of the backup's cluster names this backup.
\<close>

theorem acquired_lease_is_held:
  assumes "lease_store E hd_of" and "tryAcquireLease E b w = (Inr True, w')"
  shows "hd_of w' (Namespace (b_meta b), backupLeaseName (SpecPGCluster (b_spec b))) =
    Some (backupLeaseHolder b)"
proof -
  let ?n = "Namespace (b_meta b)" and ?l = "backupLeaseName (SpecPGCluster (b_spec b))"
  obtain w1 where acq: "AcquireLease E ?l (backupLeaseHolder b) ?n (Some (checkStale E b)) w = (Inr (), w1)"
    and w': "record_lease E b True w1 = (Inr True, w')"
    using assms(2)
    by (auto simp: tryAcquireLease_def attempt_def throw_def dest: record_lease_result
        split: prod.splits sum.splits if_splits)
  from keeps_run [OF lease_frame_record [OF assms(1)] AcquireLease_held [OF assms(1) acq] w']
  show ?thesis .
qed

lemma live_holder_refused:
  assumes L: "lease_store E hd_of" and held: "hd_of w (n, l) = Some h" and "h \<noteq> holder"
    and live: "check h w = (Inr False, w1)" and same: "hd_of w1 (n, l) = Some h"
  shows "\<exists>e w'. AcquireLease E l holder n (Some check) w = (Inl e, w') \<and> hd_of w' (n, l) = Some h"
proof -
  have mutate: "acquire_mutate E holder (Some check) le w = (Inl (Sentinel ErrLeaseAlreadyHeld), w1)"
    if "HolderIdentity le = Some h" for le
    using that assms(3) live by (simp add: acquire_mutate_def io_defs)
  obtain r w' where cu: "CreateOrUpdate_Lease E (n, l) (acquire_mutate E holder (Some check)) w = (r, w')"
    by fastforce
  from L cu show ?thesis
  proof (cases rule: lease_store_cases)
    case (unread e)
    with cu held show ?thesis by (simp add: AcquireLease_def plain_def attempt_def throw_def)
  next
    case (mutated le fr w2)
    with mutate held have "r = Inl (Sentinel ErrLeaseAlreadyHeld)" and "w' = w1" by auto
    with cu same show ?thesis by (simp add: AcquireLease_def plain_def attempt_def throw_def)
  qed
qed

lemma checkStale_live:
  assumes "finalizer_laws E" and "CHR ''|'' \<notin> set (Name (b_meta hb))" and "CHR ''|'' \<notin> set (UID (b_meta hb))"
    and "Name (b_meta hb) \<noteq> []" and "UID (b_meta hb) \<noteq> []"
    and "Get_Backup E (Namespace (b_meta b), Name (b_meta hb)) w = (Inr hb, w1)"
    and "\<not> IsTerminal (State (b_status hb)) \<or> FinalizerSnapshotInProgress \<in> set (Finalizers (b_meta hb))"
  shows "checkStale E b (backupLeaseHolder hb) w = (Inr False, w1)"
  using assms by (auto simp: checkStale_def parse_backupLeaseHolder finalizer_laws_def attempt_def ret_def)

text \<open>
  C3: A backup that holds the lease of its cluster and has not finished, or still has the
  snapshot finalizer, cannot lose the lease to another backup: the other's
  \<open>tryAcquireLease\<close> does not succeed and the lease still names the holder.
\<close>

theorem live_backup_keeps_lease:
  assumes "lease_store E hd_of" and "finalizer_laws E"
    and "hd_of w (Namespace (b_meta b), backupLeaseName (SpecPGCluster (b_spec b))) = Some (backupLeaseHolder hb)"
    and "backupLeaseHolder hb \<noteq> backupLeaseHolder b"
    and "CHR ''|'' \<notin> set (Name (b_meta hb))" and "CHR ''|'' \<notin> set (UID (b_meta hb))"
    and "Name (b_meta hb) \<noteq> []" and "UID (b_meta hb) \<noteq> []"
    and "Get_Backup E (Namespace (b_meta b), Name (b_meta hb)) w = (Inr hb, w1)"
    and "\<not> IsTerminal (State (b_status hb)) \<or> FinalizerSnapshotInProgress \<in> set (Finalizers (b_meta hb))"
  shows "fst (tryAcquireLease E b w) \<noteq> Inr True \<and>
    hd_of (snd (tryAcquireLease E b w)) (Namespace (b_meta b), backupLeaseName (SpecPGCluster (b_spec b))) =
      Some (backupLeaseHolder hb)"
proof -
  let ?k = "(Namespace (b_meta b), backupLeaseName (SpecPGCluster (b_spec b)))"
  note live = checkStale_live [OF assms(2,5-10)]
  from keeps_run [OF lease_store_frame(1) [OF assms(1)] assms(3) assms(9)]
  have "hd_of w1 ?k = Some (backupLeaseHolder hb)" .
  from live_holder_refused [where check = "checkStale E b", OF assms(1,3,4) live this]
  obtain e w' where acq: "AcquireLease E (snd ?k) (backupLeaseHolder b) (fst ?k) (Some (checkStale E b)) w = (Inl e, w')"
    and held: "hd_of w' ?k = Some (backupLeaseHolder hb)" by auto
  from keepsD [OF lease_frame_record [OF assms(1)] held, of b False] acq held
  show ?thesis
    by (cases "record_lease E b False w'")
      (auto simp: tryAcquireLease_def attempt_def throw_def dest: record_lease_result)
qed

definition leased_world :: mem where
  "leased_world = (sample_world [sample_backup ''b1'' BackupRunning, sample_backup ''b2'' BackupNew])
     \<lparr>m_leases := [(new_lease (''ns'', backupLeaseName ''pg''))
        \<lparr>HolderIdentity := Some (backupLeaseHolder (sample_backup ''b1'' BackupRunning))\<rparr>]\<rparr>"

theorem live_backup_keeps_lease_witness:
  "mem_holder (snd (tryAcquireLease memory (sample_backup ''b2'' BackupNew) leased_world))
     (''ns'', backupLeaseName ''pg'') = Some ''b1|b1-uid''"
  using live_backup_keeps_lease [OF memory_lease_store memory_finalizers, of leased_world
      "sample_backup ''b2'' BackupNew" "sample_backup ''b1'' BackupRunning" leased_world]
  by (simp add: leased_world_def sample_backup_def sample_meta_def sample_status_def sample_world_def
      backupLeaseHolder_def mem_holder_def lookup_def new_lease_def object_key_def backupLeaseName_def
      memory_def mem_get_def)

theorem acquired_lease_is_held_witness:
  "mem_holder (snd (tryAcquireLease memory (sample_backup ''b1'' BackupNew)
      (sample_world [sample_backup ''b1'' BackupNew]))) (''ns'', backupLeaseName ''pg'') = Some ''b1|b1-uid''"
proof -
  let ?b = "sample_backup ''b1'' BackupNew" and ?w = "sample_world [sample_backup ''b1'' BackupNew]"
  define v where "v = snd (tryAcquireLease memory ?b ?w)"
  have "fst (tryAcquireLease memory ?b ?w) = Inr True" by code_simp
  then have "tryAcquireLease memory ?b ?w = (Inr True, v)" by (simp add: v_def prod_eq_iff)
  from acquired_lease_is_held [OF memory_lease_store, OF this] show ?thesis
    unfolding v_def by (simp add: backupLeaseHolder_def sample_backup_def sample_meta_def)
qed

section \<open>The latest backup\<close>

text \<open>
  When every succeeded pgBackRest backup of a cluster has its completion time,
  \<open>GetLatestBackup\<close> chooses a succeeded pgBackRest backup that none of the others
  completed after, and finds one whenever there is one; otherwise it reports that backups are
  running exactly when one is active.
\<close>

theorem select_latest_correct:
  assumes "\<forall>b \<in> set bs. has_succeeded b \<longrightarrow> CompletedAt (b_status b) \<noteq> None"
  shows "case select_latest bs of
      Inr b \<Rightarrow> b \<in> set bs \<and> has_succeeded b \<and> (\<forall>c \<in> set bs. has_succeeded c \<longrightarrow> completion c \<le> completion b)
    | Inl e \<Rightarrow> \<not> (\<exists>b \<in> set bs. has_succeeded b) \<and> (error_is e ErrRunningBackup \<longleftrightarrow> (\<exists>b \<in> set bs. is_active b))"
proof -
  obtain l r where loop: "latest_loop bs None False = (l, r)" by fastforce
  note spec = latest_loop_spec [OF assms _ loop]
  show ?thesis
  proof (cases l)
    case None
    with spec loop show ?thesis by (auto simp: select_latest_def ErrRunningBackup_def ErrNoBackups_def)
  next
    case (Some x)
    with spec have "x \<in> set bs \<and> has_succeeded x \<and> CompletedAt (b_status x) \<noteq> None \<and>
        (\<forall>y \<in> set bs. has_succeeded y \<longrightarrow> completion y \<le> completion x)" by auto
    with Some loop show ?thesis by (auto simp: select_latest_def)
  qed
qed

definition completed_backup :: "string \<Rightarrow> time option \<Rightarrow> PerconaPGBackup" where
  "completed_backup n t = (sample_backup n BackupSucceeded)
     \<lparr>b_status := (sample_status BackupSucceeded)\<lparr>CompletedAt := t\<rparr>\<rparr>"

theorem select_latest_correct_witness:
  "case select_latest [completed_backup ''a'' (Some 5), completed_backup ''b'' (Some 7), sample_backup ''c'' BackupNew] of
      Inr b \<Rightarrow> Name (b_meta b) = ''b'' \<and> completion b = 7 | Inl e \<Rightarrow> False"
proof -
  let ?bs = "[completed_backup ''a'' (Some 5), completed_backup ''b'' (Some 7), sample_backup ''c'' BackupNew]"
  have "\<forall>b \<in> set ?bs. has_succeeded b \<longrightarrow> CompletedAt (b_status b) \<noteq> None"
    by (simp add: completed_backup_def sample_backup_def sample_status_def has_succeeded_def)
  from select_latest_correct [OF this] show ?thesis
    by (auto simp: completed_backup_def sample_backup_def sample_status_def sample_meta_def has_succeeded_def
        pgbackrest_backup_def completion_def split: sum.splits)
qed

text \<open>
  A succeeded backup without a completion time that was created later hides every completed
  one: \<open>GetLatestBackup\<close> then reports that there is no completed backup.
\<close>

theorem select_latest_hides_completed:
  "select_latest [completed_backup ''a'' (Some 5), completed_backup ''b'' None] =
     Inl (Errorf ''no completed backups found'')"
  by (simp add: select_latest_def latest_completed_def completed_backup_def sample_backup_def
      sample_status_def sample_meta_def)

section \<open>Claiming the cluster\<close>

lemma conflict_runs_other:
  assumes "conflict_runs f w r" and "f w = (Inl e, w1)" and "\<not> IsConflict e"
  shows "r = (Inl e, w1)"
  using assms by (cases rule: conflict_runs.cases) auto

text \<open>
  \<open>startBackup\<close> does not take a cluster away from another backup: when the cluster it
  reads names another backup in progress it fails with that backup's name and changes nothing.
\<close>

theorem startBackup_refuses:
  assumes "retry_law E" and "Get_Cluster E (Namespace (b_meta pb), SpecPGCluster (b_spec pb)) w = (Inr pg, w1)"
    and "str_at (Annotations (pg_meta pg)) AnnotationBackupInProgress \<notin> {[], Name (b_meta pb)}"
  shows "startBackup E pb w = (Inl (Wrap ''update PostgresCluster'' (Errorf (''backup '' @
    str_at (Annotations (pg_meta pg)) AnnotationBackupInProgress @ '' already in progress''))), w1)"
proof -
  let ?e = "Errorf (''backup '' @ str_at (Annotations (pg_meta pg)) AnnotationBackupInProgress @
    '' already in progress'')"
  have once: "start_once E pb w = (Inl ?e, w1)"
    using assms(2,3) by (simp add: start_once_def Let_def plain_def attempt_def throw_def)
  from assms(1) have "conflict_runs (start_once E pb) w (RetryOnConflict E (start_once E pb) w)"
    by (simp add: retry_law_def)
  from conflict_runs_other [OF this once] have "RetryOnConflict E (start_once E pb) w = (Inl ?e, w1)" by simp
  then show ?thesis
    by (simp add: startBackup_def must_def attempt_def throw_def)
qed

definition claimed_world :: mem where
  "claimed_world = (sample_world [])\<lparr>m_clusters := [claim_cluster (sample_backup ''b1'' BackupNew) sample_cluster]\<rparr>"

theorem startBackup_refuses_witness:
  "startBackup memory (sample_backup ''b2'' BackupNew) claimed_world =
     (Inl (Wrap ''update PostgresCluster'' (Errorf ''backup b1 already in progress'')), claimed_world)"
  using startBackup_refuses [OF memory_retry, of "sample_backup ''b2'' BackupNew" claimed_world
      "claim_cluster (sample_backup ''b1'' BackupNew) sample_cluster" claimed_world]
  by (simp add: claimed_world_def claim_cluster_def sample_backup_def sample_meta_def sample_world_def
      sample_cluster_def memory_def mem_get_def lookup_def object_key_def str_at_def Let_def)

lemma claim_cluster_written:
  "str_at (Annotations (pg_meta (claim_cluster pb pg))) AnnotationBackupInProgress = Name (b_meta pb)"
  "str_at (Annotations (pg_meta (claim_cluster pb pg))) PGBackRestBackup = Name (b_meta pb)"
  "\<exists>m. BackupsOf (claim_cluster pb pg) = (BackupsOf pg)\<lparr>BackRestManual := Some m\<rparr> \<and>
    ManualRepoName m = deref (SpecRepoName (b_spec pb)) [] \<and> ManualOptions m = SpecOptions (b_spec pb)"
proof -
  have "PGBackRestBackup \<noteq> AnnotationBackupInProgress" by code_simp
  then show "str_at (Annotations (pg_meta (claim_cluster pb pg))) AnnotationBackupInProgress = Name (b_meta pb)"
    and "str_at (Annotations (pg_meta (claim_cluster pb pg))) PGBackRestBackup = Name (b_meta pb)"
    and "\<exists>m. BackupsOf (claim_cluster pb pg) = (BackupsOf pg)\<lparr>BackRestManual := Some m\<rparr> \<and>
      ManualRepoName m = deref (SpecRepoName (b_spec pb)) [] \<and> ManualOptions m = SpecOptions (b_spec pb)"
    by (auto simp: claim_cluster_def Let_def str_at_def)
qed

text \<open>
  A successful \<open>startBackup\<close> ends with the update of the cluster it read, which named no
  other backup in progress; the written cluster names this backup in both annotations, its manual
  backup has this backup's repository, options and environment, and the rest of its backup
  configuration is as read.
\<close>

theorem startBackup_claims:
  assumes "retry_law E" and "startBackup E pb w = (Inr (), w')"
  shows "\<exists>w0 w1 pg m. Get_Cluster E (Namespace (b_meta pb), SpecPGCluster (b_spec pb)) w0 = (Inr pg, w1) \<and>
    str_at (Annotations (pg_meta pg)) AnnotationBackupInProgress \<in> {[], Name (b_meta pb)} \<and>
    Update_Cluster E (claim_cluster pb pg) w1 = (Inr (), w') \<and>
    str_at (Annotations (pg_meta (claim_cluster pb pg))) AnnotationBackupInProgress = Name (b_meta pb) \<and>
    str_at (Annotations (pg_meta (claim_cluster pb pg))) PGBackRestBackup = Name (b_meta pb) \<and>
    BackupsOf (claim_cluster pb pg) = (BackupsOf pg)\<lparr>BackRestManual := Some m\<rparr> \<and>
    ManualRepoName m = deref (SpecRepoName (b_spec pb)) [] \<and> ManualOptions m = SpecOptions (b_spec pb)"
proof -
  from assms(2) have "RetryOnConflict E (start_once E pb) w = (Inr (), w')"
    by (auto simp: startBackup_def io_defs split: prod.splits sum.splits if_splits)
  with assms(1) have "conflict_runs (start_once E pb) w (Inr (), w')" by (metis retry_law_def)
  from conflict_runs_inv [OF this, of "\<lambda>_. True"]
  obtain w0 where run: "start_once E pb w0 = (Inr (), w')" by (auto simp: keeps_def)
  then obtain pg w1 where get: "Get_Cluster E (Namespace (b_meta pb), SpecPGCluster (b_spec pb)) w0 = (Inr pg, w1)"
    and free: "str_at (Annotations (pg_meta pg)) AnnotationBackupInProgress \<in> {[], Name (b_meta pb)}"
    and upd: "Update_Cluster E (claim_cluster pb pg) w1 = (Inr (), w')"
    by (auto simp: start_once_def Let_def io_defs split: prod.splits sum.splits if_splits)
  from get free upd claim_cluster_written [of pb pg] show ?thesis by blast
qed

theorem startBackup_claims_witness:
  "\<exists>w0 w1 pg m. Get_Cluster memory (''ns'', ''pg'') w0 = (Inr pg, w1) \<and>
    str_at (Annotations (pg_meta pg)) AnnotationBackupInProgress \<in> {[], ''b1''} \<and>
    Update_Cluster memory (claim_cluster (sample_backup ''b1'' BackupNew) pg) w1 =
      (Inr (), snd (startBackup memory (sample_backup ''b1'' BackupNew) (sample_world []))) \<and>
    BackupsOf (claim_cluster (sample_backup ''b1'' BackupNew) pg) = (BackupsOf pg)\<lparr>BackRestManual := Some m\<rparr> \<and>
    ManualRepoName m = ''repo1''"
proof -
  let ?b = "sample_backup ''b1'' BackupNew"
  have "fst (startBackup memory ?b (sample_world [])) = Inr ()" by code_simp
  then have "startBackup memory ?b (sample_world []) = (Inr (), snd (startBackup memory ?b (sample_world [])))"
    by (simp add: prod_eq_iff)
  from startBackup_claims [OF memory_retry this] show ?thesis
    by (simp add: sample_backup_def sample_meta_def) blast
qed

section \<open>Finishing\<close>

text \<open>
  \<open>finishBackup\<close> reports that nothing is left to do, so that the finalizer may be
  removed, only at its exit points: for a Job that is not a manual backup, or after reading that
  the cluster's backup in progress is not this one. While the cluster still names the backup every
  successful run asks to be called again.
\<close>

theorem finishBackup_done:
  assumes "finishBackup E b job w = (Inr None, w')"
  shows "(\<exists>jb. job = Some jb \<and> str_at (Labels (j_meta jb)) LabelPGBackRestBackup \<noteq> BackupManual) \<or>
    (\<exists>w0 other. getBackupInProgress E (SpecPGCluster (b_spec b)) (Namespace (b_meta b)) w0 = (Inr other, w') \<and>
       other \<noteq> Name (b_meta b))"
proof (rule ccontr)
  assume no: "\<not> ?thesis"
  then have manual: "\<not> (case job of Some jb \<Rightarrow> str_at (Labels (j_meta jb)) LabelPGBackRestBackup \<noteq> BackupManual
      | None \<Rightarrow> False)" by (auto split: option.splits)
  from no have own: "other = Name (b_meta b)"
    if "getBackupInProgress E (SpecPGCluster (b_spec b)) (Namespace (b_meta b)) w0 = (Inr other, w')" for w0 other
    using that by blast
  from assms show False
    unfolding finishBackup_def Let_def
    by (auto simp: must_Inr ret_def manual split: if_splits option.splits dest: own)
qed

theorem finishBackup_done_witness:
  "getBackupInProgress memory ''pg'' ''ns'' (sample_world []) = (Inr [], sample_world []) \<and>
   (\<exists>w0 other. getBackupInProgress memory ''pg'' ''ns'' w0 = (Inr other, sample_world []) \<and> other \<noteq> ''b1'')"
proof
  show run: "getBackupInProgress memory ''pg'' ''ns'' (sample_world []) = (Inr [], sample_world [])"
    by (simp add: getBackupInProgress_def must_def attempt_def ret_def memory_def mem_get_def lookup_def
        sample_world_def sample_cluster_def sample_crunchy_def sample_meta_def object_key_def str_at_def Let_def)
  then have "finishBackup memory (sample_backup ''b1'' BackupFailed) None (sample_world []) =
      (Inr None, sample_world [])"
    by (simp add: finishBackup_def Let_def must_def attempt_def ret_def sample_backup_def sample_meta_def)
  from finishBackup_done [OF this]
  show "\<exists>w0 other. getBackupInProgress memory ''pg'' ''ns'' w0 = (Inr other, sample_world []) \<and> other \<noteq> ''b1''"
    by (simp add: sample_backup_def sample_meta_def)
qed

section \<open>A success that is taken back\<close>

definition snapshot_backup :: PerconaPGBackup where
  "snapshot_backup = (sample_backup ''b1'' BackupSucceeded)\<lparr>b_spec := (b_spec (sample_backup ''b1'' BackupSucceeded))
     \<lparr>SpecMethod := Some BackupMethodVolumeSnapshot, SpecRepoName := None\<rparr>\<rparr>"

text \<open>
  A volume snapshot backup that has succeeded is marked failed when its cluster is gone: the
  reconciliation falls through to the pgBackRest branch, which requires a repository name.
\<close>

theorem succeeded_snapshot_fails_without_cluster:
  "mem_state (snd (Reconcile memory (++) False (\<lambda>x. x) (''ns'', ''b1'')
      ((sample_world [snapshot_backup])\<lparr>m_clusters := []\<rparr>))) (''ns'', ''b1'') = Some BackupFailed"
  by code_simp

end
