(* ===== verification/PGRestore.thy ===== *)
theory PGRestore
  imports Memory
begin

text \<open>
  The controller of PerconaPGRestore: \<open>percona/controller/pgrestore/controller.go\<close> and the
  restorer it uses, \<open>percona/controller/pgrestore/utils/pgbackrest.go\<close>. A restore is
  requested through the annotation and the restore section of the cluster. The restore from volume
  snapshots, \<open>pgrestore/snapshot\<close>, is an argument of \<open>restore_Reconcile\<close>.
\<close>

section \<open>The restorer\<close>

record PGBackRestRestorer =
  rs_cluster :: PerconaPGCluster
  rs_restore :: PerconaPGRestore

definition NewPGBackRestRestore :: "PerconaPGCluster \<Rightarrow> PerconaPGRestore \<Rightarrow> PGBackRestRestorer" where
  "NewPGBackRestRestore pgCluster pgRestore = \<lparr>rs_cluster = pgCluster, rs_restore = pgRestore\<rparr>"

definition empty_source :: PostgresClusterDataSource where
  "empty_source = \<lparr>SourceClusterName = [], SourceClusterNamespace = [], SourceRepoName = [],
     SourceOptions = [], SourceTolerations = None, SourceEnv = [], SourceEnvFrom = []\<rparr>"

definition empty_job_status :: PGBackRestJobStatus where
  "empty_job_status = \<lparr>JobStatusID = [], JobFinished = False, JobStatusCompletionTime = None,
     JobSucceededCount = 0, JobFailedCount = 0\<rparr>"

text \<open>The restore section as \<open>Start\<close> writes it.\<close>

definition start_section :: "PGBackRestRestorer \<Rightarrow> PGBackRestRestoreSpec" where
  "start_section r =
     (let backups = BackupsOf (rs_cluster r);
          restore = deref (BackRestRestore backups) \<lparr>RestoreEnabled = None, RestoreDataSource = Some empty_source\<rparr>;
          source = deref (RestoreDataSource restore) empty_source;
          source = (if SourceTolerations source = None
             then (case BackRestJobTolerations backups of
                 None \<Rightarrow> source
               | Some t \<Rightarrow> source\<lparr>SourceTolerations := t\<rparr>)
             else source);
          source = source\<lparr>SourceRepoName := deref (RestoreRepoName (rs_restore r)) [],
             SourceOptions := RestoreOptions (rs_restore r), SourceEnv := RestoreEnv (rs_restore r),
             SourceEnvFrom := RestoreEnvFrom (rs_restore r)\<rparr>
      in restore\<lparr>RestoreEnabled := Some True, RestoreDataSource := Some source\<rparr>)"

definition set_cluster :: "strmap \<Rightarrow> PGBackRestRestoreSpec \<Rightarrow> PerconaPGCluster \<Rightarrow> PerconaPGCluster" where
  "set_cluster a restore pg = pg\<lparr>pg_meta := (pg_meta pg)\<lparr>Annotations := a\<rparr>,
     BackupsOf := (BackupsOf pg)\<lparr>BackRestRestore := Some restore\<rparr>\<rparr>"

definition Start :: "'w env \<Rightarrow> PGBackRestRestorer \<Rightarrow> ('w, unit) io" where
  "Start E r =
     (let orig = rs_cluster r; name = Name (r_meta (rs_restore r)) in
      if Annotations (pg_meta orig) PGBackRestRestore = Some name then ret ()
      else must ''get PostgresCluster'' (Get_Crunchy E (object_key (pg_meta orig))) (\<lambda>postgresCluster.
        let status = deref (cc_PGBackRest postgresCluster) \<lparr>ManualBackupStatus = None, RestoreStatus = None\<rparr> in
        must ''patch PostgresCluster status failed trying to initialize PGBackRest restore status''
          (StatusPatch_Crunchy E postgresCluster
             (postgresCluster\<lparr>cc_PGBackRest := Some (status\<lparr>RestoreStatus := Some empty_job_status\<rparr>)\<rparr>)) (\<lambda>_.
        must ''patch PostgresCluster status failed trying to start restore''
          (Patch_Cluster E orig
             (set_cluster ((Annotations (pg_meta orig))(PGBackRestRestore \<mapsto> name)) (start_section r) orig))
          (\<lambda>_. ret ()))))"

definition DisableRestore :: "'w env \<Rightarrow> PGBackRestRestorer \<Rightarrow> ('w, unit) io" where
  "DisableRestore E r =
     (if RestoreState (rs_restore r) = RestoreSucceeded \<or> RestoreState (rs_restore r) = RestoreFailed then ret ()
      else
        let orig = rs_cluster r;
            restore = deref (BackRestRestore (BackupsOf orig))
              \<lparr>RestoreEnabled = None, RestoreDataSource = Some empty_source\<rparr>
        in must ''patch PGCluster'' (Patch_Cluster E orig
             (set_cluster ((Annotations (pg_meta orig))(PGBackRestRestore := None))
                (restore\<lparr>RestoreEnabled := Some False\<rparr>) orig))
             (\<lambda>_. ret ()))"

text \<open>What \<open>ObserveStatus\<close> reports for the status of the cluster it reads.\<close>

definition restore_verdict :: "PGBackRestStatus option \<Rightarrow> PGRestoreState \<times> time option" where
  "restore_verdict status =
     (case Option.bind status RestoreStatus of
        None \<Rightarrow> (RestoreStarting, None)
      | Some st \<Rightarrow>
          if JobFinished st \<and> JobSucceededCount st > 0 then (RestoreSucceeded, JobStatusCompletionTime st)
          else if JobFinished st \<and> JobFailedCount st > 0 then (RestoreFailed, None)
          else (RestoreRunning, None))"

definition ObserveStatus :: "'w env \<Rightarrow> PGBackRestRestorer \<Rightarrow> ('w, PGRestoreState \<times> time option) io" where
  "ObserveStatus E r =
     must ''get PerconaPGCluster'' (Get_Cluster E (object_key (pg_meta (rs_cluster r))))
       (\<lambda>cluster. ret (restore_verdict (pg_PGBackRest cluster)))"

section \<open>Finalizers\<close>

definition set_restore_finalizers :: "string list \<Rightarrow> PerconaPGRestore \<Rightarrow> PerconaPGRestore" where
  "set_restore_finalizers fs r = r\<lparr>r_meta := (r_meta r)\<lparr>Finalizers := fs\<rparr>\<rparr>"

definition restore_runFinalizers :: "'w env \<Rightarrow> PerconaPGRestore \<Rightarrow> ('w, unit) io" where
  "restore_runFinalizers E pr =
     (let run = (\<lambda>pg. must (''run finalizer '' @ FinalizerDeleteRestore)
            (RunFinalizer E (\<lambda>r. Finalizers (r_meta r)) set_restore_finalizers (Patch_Restore E) pr
               FinalizerDeleteRestore
               (\<lambda>pr. case pg of None \<Rightarrow> ret () | Some c \<Rightarrow> DisableRestore E (NewPGBackRestRestore c pr)))
            (\<lambda>_. ret ()))
      in attempt (Get_Cluster E (Namespace (r_meta pr), RestorePGCluster pr))
           (\<lambda>e. if IsNotFound e then run None else throw (Wrap ''get PerconaPGCluster'' e))
           (\<lambda>pg. run (Some pg)))"

text \<open>The patch overwrites the caller's object with the server's answer.\<close>

definition restore_ensureFinalizers :: "'w env \<Rightarrow> PerconaPGRestore \<Rightarrow> ('w, PerconaPGRestore) io" where
  "restore_ensureFinalizers E pr =
     (case AddFinalizer E (Finalizers (r_meta pr)) FinalizerDeleteRestore of
        (fs, changed) \<Rightarrow>
          let pr' = set_restore_finalizers fs pr in
          if \<not> changed then ret pr' else must ''remove finalizers'' (Patch_Restore E pr pr') ret)"

section \<open>Reconcile\<close>

definition write_restore_state :: "'w env \<Rightarrow> string \<Rightarrow> PGRestoreState \<Rightarrow> PerconaPGRestore \<Rightarrow> ('w, int) io" where
  "write_restore_state E msg s pr = must msg (StatusUpdate_Restore E (pr\<lparr>RestoreState := s\<rparr>)) (\<lambda>_. ret 0)"

definition restore_new :: "'w env \<Rightarrow> PerconaPGCluster \<Rightarrow> PerconaPGRestore \<Rightarrow> ('w, int) io" where
  "restore_new E pgCluster pgRestore =
     (let restorer = NewPGBackRestRestore pgCluster pgRestore;
          start = (if Annotations (r_meta pgRestore) AnnotationClusterBootstrapRestore = None
            then must ''start restore'' (Start E restorer) (\<lambda>_.
              must ''ensure finalizers'' (restore_ensureFinalizers E pgRestore)
                (write_restore_state E ''update PGRestore status'' RestoreStarting))
            else write_restore_state E ''update PGRestore status'' RestoreStarting pgRestore)
      in case BackRestRestore (BackupsOf pgCluster) of
           None \<Rightarrow> start
         | Some restore \<Rightarrow>
             (case RestoreEnabled restore of
                None \<Rightarrow> throw (Panic ''nil pointer dereference'')
              | Some enabled \<Rightarrow> if enabled then ret 5 else start))"

definition restore_starting :: "'w env \<Rightarrow> PerconaPGCluster \<Rightarrow> PerconaPGRestore \<Rightarrow> ('w, int) io" where
  "restore_starting E pgCluster pgRestore =
     attempt (Get_Job E (Namespace (pg_meta pgCluster), Name (pg_meta pgCluster) @ ''-pgbackrest-restore''))
       (\<lambda>e. if IsNotFound e then ret 5 else throw (Wrap ''get restore job'' e))
       (\<lambda>_. write_restore_state E ''update PGRestore status'' RestoreRunning pgRestore)"

text \<open>The end of the case for a running restore, once its status is observed.\<close>

definition restore_finish ::
    "'w env \<Rightarrow> PerconaPGCluster \<Rightarrow> PerconaPGRestore \<Rightarrow> PGRestoreState \<Rightarrow> time option \<Rightarrow> ('w, int) io" where
  "restore_finish E pgCluster pgRestore status completedAt =
     (if \<not> (status = RestoreFailed \<or> status = RestoreSucceeded) then ret 5
      else
        let pgRestore = (if status = RestoreSucceeded
              then pgRestore\<lparr>RestoreCompletedAt := completedAt\<rparr> else pgRestore);
            finish = write_restore_state E ''update pgRestore status'' status pgRestore
        in if Annotations (r_meta pgRestore) AnnotationClusterBootstrapRestore = None
           then must ''disable restore'' (DisableRestore E (NewPGBackRestRestore pgCluster pgRestore)) (\<lambda>_. finish)
           else finish)"

definition restore_running :: "'w env \<Rightarrow> PerconaPGCluster \<Rightarrow> PerconaPGRestore \<Rightarrow> ('w, int) io" where
  "restore_running E pgCluster pgRestore =
     must ''observe restore status'' (ObserveStatus E (NewPGBackRestRestore pgCluster pgRestore))
       (\<lambda>(status, completedAt). restore_finish E pgCluster pgRestore status completedAt)"

definition reconcile_restore :: "'w env \<Rightarrow> PerconaPGCluster \<Rightarrow> PerconaPGRestore \<Rightarrow> ('w, int) io" where
  "reconcile_restore E pgCluster pgRestore =
     (if DeletionTimestamp (r_meta pgRestore) \<noteq> None
      then must ''failed to run finalizers'' (restore_runFinalizers E pgRestore) (\<lambda>_. ret 0)
      else case RestoreState pgRestore of
          RestoreNew \<Rightarrow> restore_new E pgCluster pgRestore
        | RestoreStarting \<Rightarrow> restore_starting E pgCluster pgRestore
        | RestoreRunning \<Rightarrow> restore_running E pgCluster pgRestore
        | _ \<Rightarrow> ret 0)"

definition restore_Reconcile ::
    "'w env \<Rightarrow> (PerconaPGCluster \<Rightarrow> PerconaPGRestore \<Rightarrow> ('w, int) io) \<Rightarrow> key \<Rightarrow> ('w, int) io" where
  "restore_Reconcile E snapshot_Reconcile request =
     attempt (Get_Restore E request)
       (\<lambda>e. if IsNotFound e then ret 0 else throw e)
       (\<lambda>pgRestore. must ''get PerconaPGCluster'' (Get_Cluster E (fst request, RestorePGCluster pgRestore)) (\<lambda>pgCluster.
          if deref (Unmanaged pgCluster) False \<and> DeletionTimestamp (r_meta pgRestore) = None then ret 0
          else if VolumeSnapshotBackupName pgRestore \<noteq> [] then snapshot_Reconcile pgCluster pgRestore
          else reconcile_restore E pgCluster pgRestore))"

section \<open>The life of a restore\<close>

inductive restore_step :: "PGRestoreState \<Rightarrow> PGRestoreState \<Rightarrow> bool" where
  "restore_step RestoreNew RestoreStarting"
| "restore_step RestoreStarting RestoreRunning"
| "restore_step RestoreRunning RestoreSucceeded"
| "restore_step RestoreRunning RestoreFailed"

inductive_simps restore_step_simps [simp]:
  "restore_step RestoreNew s" "restore_step RestoreStarting s" "restore_step RestoreRunning s"
  "restore_step RestoreFailed s" "restore_step RestoreSucceeded s" "restore_step (RestoreStateOther x) s"

lemma frame_restorer:
  assumes F: "frame_of E I"
  shows "keeps I (Start E r)" and "keeps I (DisableRestore E r)" and "keeps I (ObserveStatus E r)"
    and "keeps I (restore_ensureFinalizers E pr)" and "keeps I (restore_runFinalizers E pr)"
proof -
  show "keeps I (Start E r)"
    unfolding Start_def Let_def by (intro frame_intros frameD [OF F])
  show disable: "keeps I (DisableRestore E r)" for r
    unfolding DisableRestore_def Let_def by (intro frame_intros frameD [OF F])
  show "keeps I (ObserveStatus E r)"
    unfolding ObserveStatus_def by (intro frame_intros frameD [OF F])
  show "keeps I (restore_ensureFinalizers E pr)"
    unfolding restore_ensureFinalizers_def Let_def by (intro frame_intros frameD [OF F])
  show "keeps I (restore_runFinalizers E pr)"
    unfolding restore_runFinalizers_def Let_def
    by (intro frame_intros frameD [OF F] frame_RunFinalizer disable)
qed

lemma keeps_write_restore_state:
  assumes "restore_store E st" and "s \<in> S"
  shows "keeps (in_states st k S) (write_restore_state E msg s pr)"
  unfolding write_restore_state_def using assms
  by (intro frame_intros restores.keeps_put) simp_all

lemma keeps_reconcile_restore:
  assumes st: "restore_store E st"
    and S: "\<And>s. s = RestoreState pr \<or> restore_step (RestoreState pr) s \<Longrightarrow> s \<in> S"
  shows "keeps (in_states st k S) (reconcile_restore E c pr)"
proof -
  note F = restores.frame_law [OF st]
  have new: "keeps (in_states st k S) (restore_new E c pr)" if "RestoreState pr = RestoreNew"
    unfolding restore_new_def Let_def
    by (intro frame_intros frame_restorer [OF F] keeps_write_restore_state [OF st] S) (simp_all add: that)
  have starting: "keeps (in_states st k S) (restore_starting E c pr)" if "RestoreState pr = RestoreStarting"
    unfolding restore_starting_def
    by (intro frame_intros frameD [OF F] keeps_write_restore_state [OF st] S) (simp add: that)
  have running: "keeps (in_states st k S) (restore_running E c pr)" if "RestoreState pr = RestoreRunning"
    unfolding restore_running_def restore_finish_def Let_def
    by (intro frame_intros frame_restorer [OF F] keeps_write_restore_state [OF st] S) (auto simp: that)
  show ?thesis
    unfolding reconcile_restore_def
    by (auto split: PGRestoreState.split
        intro!: keeps_if keeps_must [OF frame_restorer(5) [OF F]] keeps_ret new starting running)
qed

definition restore_world :: "PGRestoreState \<Rightarrow> mem" where
  "restore_world s = (sample_world [])\<lparr>m_restores := [sample_restore s]\<rparr>"

lemma restore_world_get:
  "Get_Restore memory (''ns'', ''r1'') (restore_world s) = (Inr (sample_restore s), restore_world s)"
  by (simp add: memory_def mem_get_def lookup_def restore_world_def sample_world_def sample_restore_def
      sample_meta_def object_key_def)

text \<open>
  A running restore ends as the cluster's status says: the reconciliation leaves the stored
  state as it is, or writes succeeded when the restore job it read has finished with a success, or
  failed when it has finished with failures and no success.
\<close>

theorem restore_ends_as_observed:
  assumes "restore_store E st" and "Get_Cluster E (object_key (pg_meta c)) w = (Inr cl, w1)"
    and "st w1 k = Some s" and "st (snd (restore_running E c pr w)) k = Some s'"
  shows "s' = s \<or> (\<exists>b j. pg_PGBackRest cl = Some b \<and> RestoreStatus b = Some j \<and> JobFinished j \<and>
    (s' = RestoreSucceeded \<and> JobSucceededCount j > 0 \<or>
     s' = RestoreFailed \<and> \<not> JobSucceededCount j > 0 \<and> JobFailedCount j > 0))"
proof -
  note F = restores.frame_law [OF assms(1)]
  obtain v t where v: "restore_verdict (pg_PGBackRest cl) = (v, t)" by fastforce
  let ?S = "if v = RestoreSucceeded \<or> v = RestoreFailed then {s, v} else {s}"
  have "keeps (in_states st k ?S) (restore_finish E c pr v t)"
    unfolding restore_finish_def Let_def
    by (intro frame_intros frame_restorer [OF F] keeps_write_restore_state [OF assms(1)]) auto
  moreover have "in_states st k ?S w1" using assms(3) by (simp add: in_states_def)
  ultimately have "in_states st k ?S (snd (restore_finish E c pr v t w1))" by (rule keepsD)
  moreover have "restore_running E c pr w = restore_finish E c pr v t w1"
    by (simp add: restore_running_def ObserveStatus_def NewPGBackRestRestore_def must_def attempt_def
        ret_def assms(2) v)
  ultimately show ?thesis
    using assms(4) v
    by (auto simp: in_states_def restore_verdict_def bind_eq_Some_conv split: if_splits option.splits)
qed

definition finished_cluster :: PerconaPGCluster where
  "finished_cluster = sample_cluster\<lparr>pg_PGBackRest := Some \<lparr>ManualBackupStatus = None,
     RestoreStatus = Some (empty_job_status\<lparr>JobFinished := True, JobSucceededCount := 1\<rparr>)\<rparr>\<rparr>"

theorem restore_ends_as_observed_witness:
  "mem_restore_state (snd (restore_running memory finished_cluster (sample_restore RestoreRunning)
      ((restore_world RestoreRunning)\<lparr>m_clusters := [finished_cluster]\<rparr>))) (''ns'', ''r1'') = Some RestoreSucceeded \<and>
   (\<exists>b j. pg_PGBackRest finished_cluster = Some b \<and> RestoreStatus b = Some j \<and> JobFinished j)"
proof -
  let ?w = "(restore_world RestoreRunning)\<lparr>m_clusters := [finished_cluster]\<rparr>"
  have get: "Get_Cluster memory (object_key (pg_meta finished_cluster)) ?w = (Inr finished_cluster, ?w)"
    by (simp add: memory_def mem_get_def lookup_def)
  have now: "mem_restore_state ?w (''ns'', ''r1'') = Some RestoreRunning" by code_simp
  have after: "mem_restore_state (snd (restore_running memory finished_cluster (sample_restore RestoreRunning) ?w))
      (''ns'', ''r1'') = Some RestoreSucceeded" by code_simp
  from restore_ends_as_observed [OF memory_restore_store, OF get, OF now, OF after] after show ?thesis by auto
qed

section \<open>Requesting and withdrawing a restore\<close>

lemma start_section_spec:
  "\<exists>src. start_section r = (deref (BackRestRestore (BackupsOf (rs_cluster r)))
        \<lparr>RestoreEnabled = None, RestoreDataSource = None\<rparr>)\<lparr>RestoreEnabled := Some True, RestoreDataSource := Some src\<rparr> \<and>
     SourceRepoName src = deref (RestoreRepoName (rs_restore r)) [] \<and>
     SourceOptions src = RestoreOptions (rs_restore r) \<and>
     (\<forall>old t. Option.bind (BackRestRestore (BackupsOf (rs_cluster r))) RestoreDataSource = Some old \<and>
        SourceTolerations old = Some t \<longrightarrow> SourceTolerations src = Some t)"
  by (cases "BackRestRestore (BackupsOf (rs_cluster r))"; cases "BackRestJobTolerations (BackupsOf (rs_cluster r))";
      cases "RestoreDataSource (the (BackRestRestore (BackupsOf (rs_cluster r))))")
    (auto simp: start_section_def Let_def)

text \<open>
  A successful \<open>Start\<close> either finds the cluster already annotated with the restore and
  does nothing, or ends with the patch of the cluster that adds the annotation and enables a
  restore with the repository and options of the PerconaPGRestore; tolerations the cluster's
  restore section already has are kept.
\<close>

theorem Start_requests_restore:
  assumes "Start E r w = (Inr (), w')"
  shows "Annotations (pg_meta (rs_cluster r)) PGBackRestRestore = Some (Name (r_meta (rs_restore r))) \<and> w' = w \<or>
    (\<exists>sec src c' w1. Patch_Cluster E (rs_cluster r) (set_cluster ((Annotations (pg_meta (rs_cluster r)))
         (PGBackRestRestore \<mapsto> Name (r_meta (rs_restore r)))) sec (rs_cluster r)) w1 = (Inr c', w') \<and>
       RestoreEnabled sec = Some True \<and> RestoreDataSource sec = Some src \<and>
       SourceRepoName src = deref (RestoreRepoName (rs_restore r)) [] \<and>
       SourceOptions src = RestoreOptions (rs_restore r) \<and>
       (\<forall>old t. Option.bind (BackRestRestore (BackupsOf (rs_cluster r))) RestoreDataSource = Some old \<and>
          SourceTolerations old = Some t \<longrightarrow> SourceTolerations src = Some t))"
proof (cases "Annotations (pg_meta (rs_cluster r)) PGBackRestRestore = Some (Name (r_meta (rs_restore r)))")
  case True
  with assms show ?thesis by (simp add: Start_def)
next
  case False
  with assms obtain c' w1 where patch: "Patch_Cluster E (rs_cluster r) (set_cluster ((Annotations (pg_meta (rs_cluster r)))
         (PGBackRestRestore \<mapsto> Name (r_meta (rs_restore r)))) (start_section r) (rs_cluster r)) w1 = (Inr c', w')"
    by (auto simp: Start_def Let_def must_Inr)
  obtain src where src: "start_section r = (deref (BackRestRestore (BackupsOf (rs_cluster r)))
        \<lparr>RestoreEnabled = None, RestoreDataSource = None\<rparr>)\<lparr>RestoreEnabled := Some True, RestoreDataSource := Some src\<rparr>"
    and rest: "SourceRepoName src = deref (RestoreRepoName (rs_restore r)) []"
      "SourceOptions src = RestoreOptions (rs_restore r)"
      "\<forall>old t. Option.bind (BackRestRestore (BackupsOf (rs_cluster r))) RestoreDataSource = Some old \<and>
          SourceTolerations old = Some t \<longrightarrow> SourceTolerations src = Some t"
    using start_section_spec by blast
  from src have "RestoreEnabled (start_section r) = Some True" "RestoreDataSource (start_section r) = Some src"
    by simp_all
  with patch rest show ?thesis by blast
qed

theorem Start_requests_restore_witness:
  "\<exists>sec c' w1. Patch_Cluster memory sample_cluster (set_cluster ((Annotations (pg_meta sample_cluster))
       (PGBackRestRestore \<mapsto> ''r1'')) sec sample_cluster) w1 =
     (Inr c', snd (Start memory (NewPGBackRestRestore sample_cluster (sample_restore RestoreNew)) (restore_world RestoreNew))) \<and>
     RestoreEnabled sec = Some True"
proof -
  let ?r = "NewPGBackRestRestore sample_cluster (sample_restore RestoreNew)"
  have "fst (Start memory ?r (restore_world RestoreNew)) = Inr ()" by code_simp
  then have "Start memory ?r (restore_world RestoreNew) = (Inr (), snd (Start memory ?r (restore_world RestoreNew)))"
    by (simp add: prod_eq_iff)
  from Start_requests_restore [OF this] show ?thesis
    by (auto simp: NewPGBackRestRestore_def sample_restore_def sample_cluster_def sample_meta_def)
qed

text \<open>
  A new restore waits, without any call, while the cluster's restore section is enabled, and
  its reconciliation panics when the section exists but its \<open>enabled\<close> field is absent.
\<close>

theorem restore_new_guard:
  assumes "BackRestRestore (BackupsOf c) = Some sec"
  shows "(RestoreEnabled sec = Some True \<longrightarrow> restore_new E c pr w = (Inr 5, w)) \<and>
    (RestoreEnabled sec = None \<longrightarrow> restore_new E c pr w = (Inl (Panic ''nil pointer dereference''), w))"
  using assms by (simp add: restore_new_def Let_def ret_def throw_def)

theorem restore_new_guard_witness:
  "restore_new memory (sample_cluster\<lparr>BackupsOf := (BackupsOf sample_cluster)\<lparr>BackRestRestore :=
       Some \<lparr>RestoreEnabled = None, RestoreDataSource = None\<rparr>\<rparr>\<rparr>) (sample_restore RestoreNew) (restore_world RestoreNew) =
     (Inl (Panic ''nil pointer dereference''), restore_world RestoreNew)"
  using restore_new_guard [of "sample_cluster\<lparr>BackupsOf := (BackupsOf sample_cluster)\<lparr>BackRestRestore :=
       Some \<lparr>RestoreEnabled = None, RestoreDataSource = None\<rparr>\<rparr>\<rparr>"
      "\<lparr>RestoreEnabled = None, RestoreDataSource = None\<rparr>" memory "sample_restore RestoreNew" "restore_world RestoreNew"]
  by simp

end
