(* ===== verification/Snapshot_Restore.thy ===== *)
theory Snapshot_Restore
  imports PGRestore Snapshots
begin

text \<open>
  Restores from volume snapshots, \<open>percona/controller/pgrestore/snapshot/reconcile.go\<close>:
  suspend every instance, replace its volume claims by claims filled from the snapshots, prepare
  the new volumes with a job, replay write-ahead log when a repository is named, and resume the
  instances. The methods of the Go type \<open>snapshotRestorer\<close> have the prefix
  \<open>restorer_\<close> where their name is taken. Requeue delays are in seconds, 0 for none.
\<close>

section \<open>The restore resource\<close>

definition restore_IsCompleted :: "PerconaPGRestore \<Rightarrow> bool" where
  "restore_IsCompleted r \<longleftrightarrow> RestoreState r = RestoreSucceeded \<or> RestoreState r = RestoreFailed"

definition restore_UpdateStatus ::
    "'w env \<Rightarrow> PerconaPGRestore \<Rightarrow> (time \<Rightarrow> PerconaPGRestore \<Rightarrow> PerconaPGRestore) \<Rightarrow> ('w, unit) io" where
  "restore_UpdateStatus E pgRestore updateFunc = RetryOnConflict E
     (must ''get PGRestore'' (Get_Restore E (object_key (r_meta pgRestore))) (\<lambda>restore.
        look (time_Now E) (\<lambda>now. StatusUpdate_Restore E (updateFunc now restore))))"

definition set_restore_state :: "PGRestoreState \<Rightarrow> time \<Rightarrow> PerconaPGRestore \<Rightarrow> PerconaPGRestore" where
  "set_restore_state s now r = r\<lparr>RestoreState := s\<rparr>"

section \<open>The restorer\<close>

record snapshotRestorer =
  nr_cluster :: PerconaPGCluster
  nr_backup :: PerconaPGBackup
  nr_restore :: PerconaPGRestore

definition newSnapshotRestorer ::
    "PerconaPGCluster \<Rightarrow> PerconaPGBackup \<Rightarrow> PerconaPGRestore \<Rightarrow> snapshotRestorer" where
  "newSnapshotRestorer cluster backup restore =
     \<lparr>nr_cluster = cluster, nr_backup = backup, nr_restore = restore\<rparr>"

text \<open>
  The loops over instances and volumes all have one shape: stop at the first error, and report
  whether every element was done.
\<close>

fun each_done :: "string \<Rightarrow> ('a \<Rightarrow> ('w, bool) io) \<Rightarrow> 'a list \<Rightarrow> bool \<Rightarrow> ('w, bool) io" where
  "each_done msg f [] done = ret done"
| "each_done msg f (x # xs) done = must msg (f x) (\<lambda>ok. each_done msg f xs (done \<and> ok))"

definition list_instances :: "'w env \<Rightarrow> snapshotRestorer \<Rightarrow> ('w, StatefulSet list) io" where
  "list_instances E r = List_StatefulSets E (Namespace (pg_meta (nr_cluster r)))
     [LabelCluster \<mapsto> Name (pg_meta (nr_cluster r)), LabelData \<mapsto> DataPostgres]"

definition suspendAllInstances :: "'w env \<Rightarrow> snapshotRestorer \<Rightarrow> ('w, bool) io" where
  "suspendAllInstances E r =
     must ''list instances'' (list_instances E r) (\<lambda>instances.
       each_done ''suspend instance'' (\<lambda>i. SuspendInstance E (object_key (s_meta i))) instances True)"

definition unsuspendAllInstances :: "'w env \<Rightarrow> snapshotRestorer \<Rightarrow> ('w, bool) io" where
  "unsuspendAllInstances E r =
     must ''list instances'' (list_instances E r) (\<lambda>instances.
       each_done ''unsuspend instance'' (\<lambda>i. UnsuspendInstance E (object_key (s_meta i))) instances True)"

subsection \<open>Volume claims\<close>

record volumeContextInfo =
  vi_role :: string
  vi_tablespaceName :: string

definition pvcSpecFromDataSource ::
    "snapshotRestorer \<Rightarrow> volumeContextInfo \<Rightarrow> string \<Rightarrow> TypedLocalObjectReference \<Rightarrow> error + PVCSpec" where
  "pvcSpecFromDataSource r volCtxInfo instanceSetName dataSource =
     (case find (\<lambda>s. SetName s = instanceSetName) (pg_InstanceSets (nr_cluster r)) of
        None \<Rightarrow> Inl (Errorf ''instance set not found'')
      | Some instanceSet \<Rightarrow>
          let use = (\<lambda>volSpec. case volSpec of
                  None \<Rightarrow> Inl (Errorf ''volume spec not found in instance spec'')
                | Some v \<Rightarrow> Inr (v\<lparr>DataSource := Some dataSource\<rparr>))
          in if vi_role volCtxInfo = RolePostgresData then use (Some (SetDataVolumeClaimSpec instanceSet))
             else if vi_role volCtxInfo = RolePostgresWAL then use (SetWALVolumeClaimSpec instanceSet)
             else if vi_role volCtxInfo = RoleTablespace then
               (case find (\<lambda>ts. TablespaceName ts = vi_tablespaceName volCtxInfo) (SetTablespaceVolumes instanceSet) of
                  None \<Rightarrow> Inl (Errorf ''tablespace not found'')
                | Some ts \<Rightarrow> use (Some (TablespaceClaimSpec ts)))
             else use None)"

definition createPVCFromSnapshot ::
    "'w env \<Rightarrow> snapshotRestorer \<Rightarrow> volumeContextInfo \<Rightarrow> ObjectMeta \<Rightarrow> StatefulSet \<Rightarrow> string \<Rightarrow> ('w, unit) io" where
  "createPVCFromSnapshot E r volCtxInfo pvc instance snapshotName =
     (let instanceSetName = str_at (Labels (s_meta instance)) LabelInstanceSet;
          dataSource = \<lparr>APIGroup = Some (volumesnapshot_GroupName E), RefKind = KindVolumeSnapshot,
            RefName = snapshotName\<rparr>
      in if instanceSetName = [] then throw (Errorf ''instance set name is not known'')
         else case pvcSpecFromDataSource r volCtxInfo instanceSetName dataSource of
             Inl e \<Rightarrow> throw (Wrap ''get PVC spec from data source'' e)
           | Inr spec \<Rightarrow> must ''create PVC'' (Create_PVC E
               \<lparr>v_meta = pvc\<lparr>Annotations := [AnnotationSnapshotRestore \<mapsto> Name (r_meta (nr_restore r))]\<rparr>,
                v_spec = spec\<rparr>) ret)"

definition reconcileInstancePVC ::
    "'w env \<Rightarrow> snapshotRestorer \<Rightarrow> volumeContextInfo \<Rightarrow> ObjectMeta \<Rightarrow> StatefulSet \<Rightarrow> string \<Rightarrow> ('w, bool) io" where
  "reconcileInstancePVC E r volCtxInfo pvc instance snapshotName =
     attempt (Get_PVC E (object_key pvc))
       (\<lambda>e. if IsNotFound e
          then must ''create PVC from data source'' (createPVCFromSnapshot E r volCtxInfo pvc instance snapshotName)
                 (\<lambda>_. ret True)
          else throw (Wrap ''get observed PVC'' e))
       (\<lambda>observedPVC.
          if str_at (Annotations (v_meta observedPVC)) AnnotationSnapshotRestore = Name (r_meta (nr_restore r))
          then ret True
          else if \<not> time_IsZero (DeletionTimestamp (v_meta observedPVC)) then ret False
          else must ''delete PVC'' (Delete_PVC E observedPVC) (\<lambda>_. ret False))"

definition reconcileDataVolume :: "'w env \<Rightarrow> snapshotRestorer \<Rightarrow> StatefulSet \<Rightarrow> ('w, bool) io" where
  "reconcileDataVolume E r instance =
     (case Option.bind (Snapshot (b_status (nr_backup r))) DataVolumeSnapshotRef of
        None \<Rightarrow> throw (Errorf ''data volume snapshot not known'')
      | Some snapshotName \<Rightarrow> reconcileInstancePVC E r \<lparr>vi_role = RolePostgresData, vi_tablespaceName = []\<rparr>
          (InstancePostgresDataVolume (s_meta instance)) instance snapshotName)"

definition reconcileWALVolume :: "'w env \<Rightarrow> snapshotRestorer \<Rightarrow> StatefulSet \<Rightarrow> ('w, bool) io" where
  "reconcileWALVolume E r instance =
     (case Option.bind (Snapshot (b_status (nr_backup r))) WALVolumeSnapshotRef of
        None \<Rightarrow> ret True
      | Some snapshotName \<Rightarrow> reconcileInstancePVC E r \<lparr>vi_role = RolePostgresWAL, vi_tablespaceName = []\<rparr>
          (InstancePostgresWALVolume (s_meta instance)) instance snapshotName)"

definition reconcileTablespaceVolumes :: "'w env \<Rightarrow> snapshotRestorer \<Rightarrow> StatefulSet \<Rightarrow> ('w, bool) io" where
  "reconcileTablespaceVolumes E r instance =
     (case Snapshot (b_status (nr_backup r)) of
        None \<Rightarrow> ret True
      | Some snap \<Rightarrow> each_done ''reconcile tablespace volume'' (\<lambda>(tsName, snapshotName).
          reconcileInstancePVC E r \<lparr>vi_role = RoleTablespace, vi_tablespaceName = tsName\<rparr>
            (InstanceTablespaceDataVolume (s_meta instance) tsName) instance snapshotName)
          (TablespaceVolumeSnapshotRefs snap) True)"

definition reconcileInstance :: "'w env \<Rightarrow> snapshotRestorer \<Rightarrow> StatefulSet \<Rightarrow> ('w, bool) io" where
  "reconcileInstance E r instance =
     must ''reconcile data volume'' (reconcileDataVolume E r instance) (\<lambda>dataOk.
     must ''reconcile WAL volume'' (reconcileWALVolume E r instance) (\<lambda>walOk.
     must ''reconcile tablespace volumes'' (reconcileTablespaceVolumes E r instance) (\<lambda>tablespaceOk.
     ret (dataOk \<and> walOk \<and> tablespaceOk))))"

definition reconcileInstances :: "'w env \<Rightarrow> snapshotRestorer \<Rightarrow> StatefulSet list \<Rightarrow> ('w, bool) io" where
  "reconcileInstances E r instances = each_done ''reconcile instance'' (reconcileInstance E r) instances True"

subsection \<open>The prepare job\<close>

definition instanceSetSpecForName :: "PerconaPGCluster \<Rightarrow> string \<Rightarrow> PGInstanceSetSpec option" where
  "instanceSetSpecForName cluster name = find (\<lambda>s. SetName s = name) (pg_InstanceSets cluster)"

record instancePrepareInfo =
  pi_dataMountPath :: string
  pi_walMountPath :: string

definition appendDataVolume ::
    "JobVolume list \<times> JobVolumeMount list \<Rightarrow> StatefulSet \<Rightarrow> string \<Rightarrow> JobVolume list \<times> JobVolumeMount list" where
  "appendDataVolume vm instance mountPath =
     (let name = Name (s_meta instance) @ ''-pgdata'' in
      (fst vm @ [\<lparr>JobVolumeName = name, JobClaimName = Name (InstancePostgresDataVolume (s_meta instance))\<rparr>],
       snd vm @ [\<lparr>JobMountName = name, JobMountPath = mountPath\<rparr>]))"

definition appendWALVolume ::
    "JobVolume list \<times> JobVolumeMount list \<Rightarrow> StatefulSet \<Rightarrow> string \<Rightarrow> JobVolume list \<times> JobVolumeMount list" where
  "appendWALVolume vm instance mountPath =
     (let name = Name (s_meta instance) @ ''-pgwal'' in
      (fst vm @ [\<lparr>JobVolumeName = name, JobClaimName = Name (InstancePostgresWALVolume (s_meta instance))\<rparr>],
       snd vm @ [\<lparr>JobMountName = name, JobMountPath = mountPath\<rparr>]))"

definition has_wal_volume :: "PerconaPGCluster \<Rightarrow> StatefulSet \<Rightarrow> bool" where
  "has_wal_volume cluster instance =
     (case instanceSetSpecForName cluster (str_at (Labels (s_meta instance)) LabelInstanceSet) of
        None \<Rightarrow> False | Some spec \<Rightarrow> SetWALVolumeClaimSpec spec \<noteq> None)"

fun prepare_volumes_loop ::
    "PerconaPGCluster \<Rightarrow> bool \<Rightarrow> StatefulSet list \<Rightarrow> JobVolume list \<times> JobVolumeMount list \<Rightarrow>
     instancePrepareInfo list \<Rightarrow> (JobVolume list \<times> JobVolumeMount list) \<times> instancePrepareInfo list" where
  "prepare_volumes_loop cluster pitrEnabled [] vm infos = (vm, infos)"
| "prepare_volumes_loop cluster pitrEnabled (instance # rest) vm infos =
     (let hasWALVolume = has_wal_volume cluster instance;
          needDataVolume = (\<not> pitrEnabled \<or> \<not> hasWALVolume);
          dataMountPath = (if needDataVolume then path_join [''/'', Name (s_meta instance), ''pgdata''] else []);
          walMountPath = (if hasWALVolume then path_join [''/'', Name (s_meta instance), ''pgwal''] else []);
          vm = (if needDataVolume then appendDataVolume vm instance dataMountPath else vm);
          vm = (if hasWALVolume then appendWALVolume vm instance walMountPath else vm)
      in prepare_volumes_loop cluster pitrEnabled rest vm
           (infos @ [\<lparr>pi_dataMountPath = dataMountPath, pi_walMountPath = walMountPath\<rparr>]))"

definition buildPrepareJobVolumes ::
    "StatefulSet list \<Rightarrow> PerconaPGCluster \<Rightarrow> bool \<Rightarrow> (JobVolume list \<times> JobVolumeMount list) \<times> instancePrepareInfo list" where
  "buildPrepareJobVolumes instances cluster pitrEnabled = prepare_volumes_loop cluster pitrEnabled instances ([], []) []"

text \<open>The path the script works on for one instance, and its line.\<close>

definition prepare_path :: "int \<Rightarrow> bool \<Rightarrow> instancePrepareInfo \<Rightarrow> string" where
  "prepare_path pgVersion pitrEnabled info =
     (if pitrEnabled then
        path_join [if pi_walMountPath info \<noteq> [] then pi_walMountPath info else pi_dataMountPath info,
                   ''pg'' @ sprint_int pgVersion @ ''_wal'']
      else path_join [path_join [pi_dataMountPath info, ''pg'' @ sprint_int pgVersion], ''skip-wal-recovery''])"

definition prepare_line :: "int \<Rightarrow> bool \<Rightarrow> instancePrepareInfo \<Rightarrow> string" where
  "prepare_line pgVersion pitrEnabled info =
     (if pitrEnabled then ''find '' @ go_quote (prepare_path pgVersion pitrEnabled info) @ '' -mindepth 1 -delete''
      else ''touch '' @ go_quote (prepare_path pgVersion pitrEnabled info))"

definition buildPrepareJobScript :: "instancePrepareInfo list \<Rightarrow> int \<Rightarrow> bool \<Rightarrow> string" where
  "buildPrepareJobScript instanceInfos pgVersion pitrEnabled =
     str_join [CHR 0x0A] (''set -e'' # map (prepare_line pgVersion pitrEnabled) instanceInfos)"

definition generatePrepareJob ::
    "Job \<Rightarrow> StatefulSet list \<Rightarrow> PerconaPGCluster \<Rightarrow> PerconaPGRestore \<Rightarrow> Job" where
  "generatePrepareJob job instances cluster restore =
     (let pitrEnabled = (RestoreRepoName restore \<noteq> None \<and> VolumeSnapshotBackupName restore \<noteq> []);
          ((volumes, volumeMounts), instanceInfos) = buildPrepareJobVolumes instances cluster pitrEnabled;
          script = buildPrepareJobScript instanceInfos (pg_PostgresVersion cluster) pitrEnabled;
          containerName = ''snapshot-prepare'';
          resources = [(''cpu'', ''50m''), (''memory'', ''32Mi'')]
      in job\<lparr>JobTemplate := Some \<lparr>JobTemplateAnnotations = [(DefaultContainerAnnotation, containerName)],
           JobContainerName = containerName, JobContainerImage = pg_Image cluster,
           JobContainerCommand = [''bash'', ''-c'', script],
           JobContainerRequests = resources, JobContainerLimits = resources,
           JobContainerMounts = volumeMounts, JobPodVolumes = volumes, JobRestartPolicy = ''Never'',
           JobTolerations = (case VolumeSnapshotsOf (BackupsOf cluster) of
               None \<Rightarrow> []
             | Some vs \<Rightarrow> deref (SnapshotJobs vs) [])\<rparr>\<rparr>)"

definition empty_job :: "ObjectMeta \<Rightarrow> Job" where
  "empty_job meta = \<lparr>j_meta = meta, JobConditions = [], JobCompletionTime = None, JobSucceededPods = 0,
     JobFailedPods = 0, JobTemplate = None\<rparr>"

definition runPrepareJob :: "'w env \<Rightarrow> snapshotRestorer \<Rightarrow> StatefulSet list \<Rightarrow> ('w, bool) io" where
  "runPrepareJob E r instances =
     (let restore = nr_restore r;
          job = empty_job (mk_meta (Namespace (pg_meta (nr_cluster r))) (Name (r_meta restore) @ ''-prepare''))
      in if Annotations (r_meta restore) AnnotationPVCsPreparedAt \<noteq> None
         then plain (ignore_not_found (DeleteForeground_Job E (object_key (j_meta job)))) (\<lambda>_. ret True)
         else attempt (Get_Job E (object_key (j_meta job)))
           (\<lambda>e. if IsNotFound e then
                (case SetControllerReference_Job E restore (generatePrepareJob job instances (nr_cluster r) restore) of
                   Inl e \<Rightarrow> throw (Wrap ''set controller reference'' e)
                 | Inr owned \<Rightarrow> must ''create prepare job'' (Create_Job E owned) (\<lambda>_. ret False))
              else throw (Wrap ''get prepare job'' e))
           (\<lambda>job. if \<not> time_IsZero (JobCompletionTime job) \<and> JobSucceededPods job > 0 then ret True
              else if JobFailedPods job > 0
              then must ''update restore status'' (restore_UpdateStatus E restore (set_restore_state RestoreFailed))
                     (\<lambda>_. ret True)
              else ret False))"

definition reconcilePrepareJobAnnotation :: "'w env \<Rightarrow> snapshotRestorer \<Rightarrow> ('w, snapshotRestorer) io" where
  "reconcilePrepareJobAnnotation E r =
     (let orig = nr_restore r in
      if Annotations (r_meta orig) AnnotationPVCsPreparedAt \<noteq> None then ret r
      else look (time_Now E) (\<lambda>now.
        let restore = orig\<lparr>r_meta := (r_meta orig)\<lparr>Annotations :=
              (Annotations (r_meta orig))(AnnotationPVCsPreparedAt \<mapsto> time_RFC3339 E now)\<rparr>\<rparr>
        in must ''patch restore annotations'' (Patch_Restore E orig restore)
             (\<lambda>_. ret (r\<lparr>nr_restore := restore\<rparr>))))"

subsection \<open>Recovery, leader and clean up\<close>

definition restorePITR :: "'w env \<Rightarrow> snapshotRestorer \<Rightarrow> ('w, bool) io" where
  "restorePITR E r =
     (if RestoreRepoName (nr_restore r) = None then ret True
      else
        let pgbackrestRestore = NewPGBackRestRestore (nr_cluster r) (nr_restore r)
        in must ''observe PITR status'' (ObserveStatus E pgbackrestRestore) (\<lambda>(status, _).
             case status of
               RestoreStarting \<Rightarrow> plain (Start E pgbackrestRestore) (\<lambda>_. ret False)
             | RestoreSucceeded \<Rightarrow> plain (DisableRestore E pgbackrestRestore) (\<lambda>_. ret True)
             | RestoreFailed \<Rightarrow> must ''update restore status''
                 (restore_UpdateStatus E (nr_restore r) (set_restore_state RestoreFailed)) (\<lambda>_. ret True)
             | _ \<Rightarrow> ret False))"

definition reconcileLeaderEndpoints :: "'w env \<Rightarrow> snapshotRestorer \<Rightarrow> ('w, unit) io" where
  "reconcileLeaderEndpoints E r =
     (let postgresCluster = \<lparr>cc_meta = mk_meta (Namespace (pg_meta (nr_cluster r))) (Name (pg_meta (nr_cluster r))),
            cc_PGBackRest = None\<rparr>
      in attempt (Get_Endpoints E (object_key (PatroniLeaderEndpoints postgresCluster)))
           (\<lambda>e. if IsNotFound e then ret () else throw e)
           (\<lambda>leaderEp. if EndpointSubsets leaderEp \<noteq> [] then ret ()
              else attempt (Delete_Endpoints E leaderEp)
                (\<lambda>e. if IsNotFound e then ret () else throw (Wrap ''delete leader endpoints'' e)) ret))"

fun exec_pods :: "'w env \<Rightarrow> string \<Rightarrow> Pod list \<Rightarrow> ('w, unit) io" where
  "exec_pods E ns [] = ret ()"
| "exec_pods E ns (pod # pods) =
     plain (PodExec E ns (Name (p_meta pod)) ContainerDatabase []
              [''sh'', ''-c'', ''rm -f '' @ [CHR 0x22] @ ''${PGDATA}/skip-wal-recovery'' @ [CHR 0x22]])
       (\<lambda>(err, _). case err of Some e \<Rightarrow> throw e | None \<Rightarrow> exec_pods E ns pods)"

definition cleanupSkipRecoveryFile :: "'w env \<Rightarrow> snapshotRestorer \<Rightarrow> ('w, unit) io" where
  "cleanupSkipRecoveryFile E r =
     (if RestoreRepoName (nr_restore r) \<noteq> None then ret ()
      else must ''list pods'' (List_Pods E (Namespace (pg_meta (nr_cluster r)))
             [LabelCluster \<mapsto> Name (pg_meta (nr_cluster r)), LabelData \<mapsto> DataPostgres])
             (exec_pods E (Namespace (pg_meta (nr_cluster r)))))"

subsection \<open>Finalizers\<close>

definition restorer_ensureFinalizers :: "'w env \<Rightarrow> snapshotRestorer \<Rightarrow> ('w, snapshotRestorer) io" where
  "restorer_ensureFinalizers E r =
     (case AddFinalizer E (Finalizers (r_meta (nr_restore r))) FinalizerSnapshotRestore of
        (fs, finalizersChanged) \<Rightarrow>
          let restore = set_restore_finalizers fs (nr_restore r); r' = r\<lparr>nr_restore := restore\<rparr> in
          if \<not> finalizersChanged then ret r'
          else must ''patch finalizers'' (Patch_Restore E (nr_restore r) restore) (\<lambda>_. ret r'))"

definition finalizeSnapshotRestore :: "'w env \<Rightarrow> snapshotRestorer \<Rightarrow> ('w, unit) io" where
  "finalizeSnapshotRestore E r =
     must ''resume cluster'' (unsuspendAllInstances E r) (\<lambda>ok.
       if \<not> ok then throw (Sentinel ErrFinalizerPending)
       else must ''cleanup'' (cleanupSkipRecoveryFile E r) ret)"

definition restorer_runFinalizers :: "'w env \<Rightarrow> snapshotRestorer \<Rightarrow> ('w, bool) io" where
  "restorer_runFinalizers E r =
     must (''run finalizer '' @ FinalizerSnapshotRestore)
       (RunFinalizer E (\<lambda>r. Finalizers (r_meta r)) set_restore_finalizers (Patch_Restore E) (nr_restore r)
          FinalizerSnapshotRestore (\<lambda>_. finalizeSnapshotRestore E r))
       (\<lambda>(finished, _). ret finished)"

section \<open>Reconcile\<close>

definition blocks_restore :: "snapshotRestorer \<Rightarrow> PerconaPGRestore \<Rightarrow> bool" where
  "blocks_restore r other \<longleftrightarrow> \<not> (RestorePGCluster other \<noteq> Name (pg_meta (nr_cluster r)) \<or>
     restore_IsCompleted other \<or> Name (r_meta other) = Name (r_meta (nr_restore r)))"

definition restorer_reconcileNew :: "'w env \<Rightarrow> snapshotRestorer \<Rightarrow> ('w, int) io" where
  "restorer_reconcileNew E r =
     (if Option.bind (BackRestRestore (BackupsOf (nr_cluster r))) RestoreEnabled = Some True then ret 5
      else must ''list restores'' (List_Restores E (Namespace (pg_meta (nr_cluster r)))) (\<lambda>restores.
        if list_ex (blocks_restore r) restores then ret 5
        else must ''update restore status''
          (restore_UpdateStatus E (nr_restore r) (set_restore_state RestoreStarting)) (\<lambda>_. ret 0)))"

definition restorer_reconcileStarting :: "'w env \<Rightarrow> snapshotRestorer \<Rightarrow> ('w, int) io" where
  "restorer_reconcileStarting E r =
     must ''shutdown cluster'' (suspendAllInstances E r) (\<lambda>ok.
       if \<not> ok then ret 5
       else must ''ensure finalizers'' (restorer_ensureFinalizers E r) (\<lambda>r.
         must ''update restore status''
           (restore_UpdateStatus E (nr_restore r) (set_restore_state RestoreRunning)) (\<lambda>_. ret 0)))"

text \<open>The part of \<open>reconcileRunning\<close> after the volume claims are in place.\<close>

definition finish_restore :: "'w env \<Rightarrow> snapshotRestorer \<Rightarrow> StatefulSet list \<Rightarrow> ('w, int) io" where
  "finish_restore E r instances =
     must ''run prepare job'' (runPrepareJob E r instances) (\<lambda>ok.
       if \<not> ok then ret 5
       else must ''reconcile prepare job annotation'' (reconcilePrepareJobAnnotation E r) (\<lambda>r.
       must ''restore PITR'' (restorePITR E r) (\<lambda>ok.
       if \<not> ok then ret 5
       else must ''reconcile leader endpoints'' (reconcileLeaderEndpoints E r) (\<lambda>_.
       must ''resume cluster'' (unsuspendAllInstances E r) (\<lambda>ok.
       if \<not> ok then ret 5
       else must ''update restore status''
         (restore_UpdateStatus E (nr_restore r) (\<lambda>now restore. restore\<lparr>RestoreState := RestoreSucceeded,
            RestoreCompletedAt := Some now\<rparr>)) (\<lambda>_. ret 0))))))"

definition restorer_reconcileRunning :: "'w env \<Rightarrow> snapshotRestorer \<Rightarrow> ('w, int) io" where
  "restorer_reconcileRunning E r =
     must ''list instances'' (list_instances E r) (\<lambda>instances.
     must ''reconcile instances'' (reconcileInstances E r instances) (\<lambda>ok.
       if \<not> ok then ret 5 else finish_restore E r instances))"

definition restorer_finalize :: "'w env \<Rightarrow> snapshotRestorer \<Rightarrow> ('w, int) io" where
  "restorer_finalize E r =
     must ''run finalizers'' (restorer_runFinalizers E r) (\<lambda>ok. ret (if ok then 0 else 5))"

definition snapshot_restore_Reconcile ::
    "'w env \<Rightarrow> PerconaPGCluster \<Rightarrow> PerconaPGRestore \<Rightarrow> ('w, int) io" where
  "snapshot_restore_Reconcile E pg restore =
     (if \<not> feature_Enabled E ''BackupSnapshots'' then ret 0
      else must ''get backup'' (Get_Backup E (Namespace (pg_meta pg), VolumeSnapshotBackupName restore)) (\<lambda>backup.
        let r = newSnapshotRestorer pg backup restore in
        if \<not> time_IsZero (DeletionTimestamp (r_meta restore)) then restorer_finalize E r
        else case RestoreState restore of
            RestoreNew \<Rightarrow> restorer_reconcileNew E r
          | RestoreStarting \<Rightarrow> restorer_reconcileStarting E r
          | RestoreRunning \<Rightarrow> restorer_reconcileRunning E r
          | RestoreSucceeded \<Rightarrow> restorer_finalize E r
          | RestoreFailed \<Rightarrow> restorer_finalize E r
          | RestoreStateOther x \<Rightarrow> ret 0))"

section \<open>What the operations keep\<close>

lemma keeps_each_done:
  "(\<And>x. keeps I (f x)) \<Longrightarrow> keeps I (each_done msg f xs d)"
  by (induction xs arbitrary: d) (auto intro!: frame_intros)

lemma each_done_observed:
  assumes "each_done msg f xs d w = (Inr True, w')" and "x \<in> set xs"
  shows "\<exists>w1 w2. f x w1 = (Inr True, w2)"
proof -
  have "d \<and> (\<forall>x \<in> set xs. \<exists>w1 w2. f x w1 = (Inr True, w2))"
    using assms(1)
    by (induction xs arbitrary: d w) (fastforce simp: must_Inr)+
  with assms(2) show ?thesis by blast
qed

lemma each_done_establishes:
  assumes "\<And>x w w'. f x w = (Inr True, w') \<Longrightarrow> P x w'" and "\<And>x y. keeps (P y) (f x)"
    and "each_done msg f xs d w = (Inr True, w')" and "x \<in> set xs"
  shows "P x w'"
proof -
  have "d \<and> (\<forall>x \<in> set xs. P x w')"
    using assms(3)
  proof (induction xs arbitrary: d w)
    case (Cons y ys)
    then obtain ok w1 where y: "f y w = (Inr ok, w1)"
      and ys: "each_done msg f ys (d \<and> ok) w1 = (Inr True, w')" by (auto simp: must_Inr)
    from Cons.IH [OF ys] have ok: "d" "ok" and rest: "\<forall>x \<in> set ys. P x w'" by auto
    from assms(1) y ok have "P y w1" by simp
    moreover have "keeps (P y) (each_done msg f ys (d \<and> ok))" by (intro keeps_each_done assms(2))
    ultimately have "P y w'" using ys keeps_run by metis
    with ok rest show ?case by simp
  qed simp
  with assms(4) show ?thesis by blast
qed

lemma frame_exec_pods:
  assumes F: "frame_of E I"
  shows "keeps I (exec_pods E ns pods)"
  by (induction pods) (auto intro!: frame_intros frameD [OF F])

lemma frame_suspension:
  assumes F: "frame_of E I"
  shows "keeps I (list_instances E r)" and "keeps I (suspendAllInstances E r)"
    and "keeps I (unsuspendAllInstances E r)"
  unfolding list_instances_def suspendAllInstances_def unsuspendAllInstances_def
  by (intro frame_intros frameD [OF F] keeps_each_done frame_instances [OF F])+

lemma frame_snapshot_restore:
  assumes F: "frame_of E I"
  shows "keeps I (restorer_finalize E r)" and "keeps I (restorer_ensureFinalizers E r)"
    and "keeps I (reconcilePrepareJobAnnotation E r)" and "keeps I (reconcileLeaderEndpoints E r)"
proof -
  have "keeps I (finalizeSnapshotRestore E r)"
    unfolding finalizeSnapshotRestore_def cleanupSkipRecoveryFile_def
    by (intro frame_intros frameD [OF F] frame_suspension [OF F] frame_exec_pods [OF F])
  then show "keeps I (restorer_finalize E r)"
    unfolding restorer_finalize_def restorer_runFinalizers_def
    by (intro frame_intros frame_RunFinalizer frameD [OF F])
  show "keeps I (restorer_ensureFinalizers E r)"
    unfolding restorer_ensureFinalizers_def Let_def by (intro frame_intros frameD [OF F])
  show "keeps I (reconcilePrepareJobAnnotation E r)"
    unfolding reconcilePrepareJobAnnotation_def Let_def by (intro frame_intros frameD [OF F])
  show "keeps I (reconcileLeaderEndpoints E r)"
    unfolding reconcileLeaderEndpoints_def Let_def by (intro frame_intros frameD [OF F])
qed

text \<open>
  The operations that write the status of the restore keep what the write keeps, and the ones on
  claims keep what the deletion of a claim keeps.
\<close>

lemma frame_writes:
  assumes F: "frame_of E I"
    and fail: "\<And>x. keeps I (restore_UpdateStatus E x (set_restore_state RestoreFailed))"
  shows "keeps I (runPrepareJob E r is)" and "keeps I (restorePITR E r)"
proof -
  show "keeps I (runPrepareJob E r is)"
    unfolding runPrepareJob_def Let_def by (intro frame_intros frameD [OF F] fail)
  have "keeps I (case status of
               RestoreStarting \<Rightarrow> plain (Start E p) (\<lambda>_. ret False)
             | RestoreSucceeded \<Rightarrow> plain (DisableRestore E p) (\<lambda>_. ret True)
             | RestoreFailed \<Rightarrow> must ''update restore status''
                 (restore_UpdateStatus E (nr_restore r) (set_restore_state RestoreFailed)) (\<lambda>_. ret True)
             | _ \<Rightarrow> ret False)" for status p
    by (cases status) (auto intro!: frame_intros frame_restorer [OF F] fail)
  then show "keeps I (restorePITR E r)"
    unfolding restorePITR_def Let_def by (intro frame_intros frame_restorer [OF F])
qed

lemma frame_claims:
  assumes pvc: "\<And>info m i s. keeps I (reconcileInstancePVC E r info m i s)"
  shows "keeps I (reconcileInstance E r i)" and "keeps I (reconcileInstances E r is)"
proof -
  show inst: "keeps I (reconcileInstance E r i)" for i
    unfolding reconcileInstance_def reconcileDataVolume_def reconcileWALVolume_def reconcileTablespaceVolumes_def
    by (intro frame_intros keeps_each_done pvc)
  then show "keeps I (reconcileInstances E r is)"
    unfolding reconcileInstances_def by (intro keeps_each_done)
qed

lemma frame_createPVC:
  assumes F: "frame_of E I"
  shows "keeps I (createPVCFromSnapshot E r info m i s)"
  unfolding createPVCFromSnapshot_def Let_def by (intro frame_intros frameD [OF F])

section \<open>The life of every restore\<close>

lemma keeps_restore_UpdateStatus:
  assumes st: "restore_store E st"
    and "\<And>now r. r_meta (upd now r) = r_meta r" and "\<And>now r. RestoreState r \<in> S \<Longrightarrow> RestoreState (upd now r) \<in> S"
  shows "keeps (in_states st k S) (restore_UpdateStatus E pr upd)"
  using restores.keeps_read_write [OF st, of "\<lambda>now r. Some (upd now r)" S k "''get PGRestore''"] assms(2,3)
  unfolding restore_UpdateStatus_def by simp

lemma keeps_write_state:
  assumes "restore_store E st" and "s \<in> S"
  shows "keeps (in_states st k S) (restore_UpdateStatus E pr (set_restore_state s))"
  by (rule keeps_restore_UpdateStatus [OF assms(1)]) (simp_all add: set_restore_state_def assms(2))

lemma keeps_finish_restore:
  assumes st: "restore_store E st" and "RestoreFailed \<in> S" and "RestoreSucceeded \<in> S"
  shows "keeps (in_states st k S) (finish_restore E r is)"
proof -
  note F = restores.frame_law [OF st]
  have "keeps (in_states st k S) (restore_UpdateStatus E x
      (\<lambda>now restore. restore\<lparr>RestoreState := RestoreSucceeded, RestoreCompletedAt := Some now\<rparr>))" for x
    by (rule keeps_restore_UpdateStatus [OF st]) (simp_all add: assms(3))
  then show ?thesis
    unfolding finish_restore_def
    by (intro frame_intros frame_writes [OF F] frame_snapshot_restore [OF F] frame_suspension [OF F]
          keeps_write_state [OF st assms(2)])
qed

lemma keeps_claims_state:
  assumes st: "restore_store E st"
  shows "keeps (in_states st k S) (reconcileInstances E r is)"
proof (rule frame_claims)
  note F = restores.frame_law [OF st]
  show "keeps (in_states st k S) (reconcileInstancePVC E r info m i s)" for info m i s
    unfolding reconcileInstancePVC_def
    by (intro frame_intros frameD [OF F] frame_createPVC [OF F] restores.claim_frame [OF st])
qed

lemma keeps_snapshot_restore:
  assumes st: "restore_store E st"
    and S: "\<And>s. s = RestoreState pr \<or> restore_step (RestoreState pr) s \<Longrightarrow> s \<in> S"
  shows "keeps (in_states st k S) (snapshot_restore_Reconcile E c pr)"
proof -
  note F = restores.frame_law [OF st]
  have new: "keeps (in_states st k S) (restorer_reconcileNew E r)" if "RestoreState pr = RestoreNew" for r
    unfolding restorer_reconcileNew_def
    by (intro frame_intros frameD [OF F] keeps_write_state [OF st] S) (simp_all add: that)
  have starting: "keeps (in_states st k S) (restorer_reconcileStarting E r)" if "RestoreState pr = RestoreStarting" for r
    unfolding restorer_reconcileStarting_def
    by (intro frame_intros frame_suspension [OF F] frame_snapshot_restore [OF F] keeps_write_state [OF st] S)
      (simp_all add: that)
  have running: "keeps (in_states st k S) (restorer_reconcileRunning E r)" if "RestoreState pr = RestoreRunning" for r
    unfolding restorer_reconcileRunning_def
    by (intro frame_intros frame_suspension [OF F] keeps_claims_state [OF st] keeps_finish_restore [OF st] S)
      (simp_all add: that)
  show ?thesis
    unfolding snapshot_restore_Reconcile_def Let_def
    by (intro frame_intros frameD [OF F] frame_snapshot_restore [OF F])
      (auto split: PGRestoreState.split intro!: new starting running frame_snapshot_restore [OF F] keeps_ret)
qed

text \<open>
  C21: One call of the restore controller's \<open>Reconcile\<close>, for a restore from pgBackRest
  as for a restore from volume snapshots, moves the stored state along at most one step: new to
  starting, starting to running, running to succeeded or failed. A restore that has succeeded or
  failed keeps its state.
\<close>

theorem every_restore_follows_life:
  assumes "restore_store E st" and "Get_Restore E k w = (Inr pr, w1)"
    and "st (snd (restore_Reconcile E (snapshot_restore_Reconcile E) k w)) k = Some s"
  shows "s = RestoreState pr \<or> restore_step (RestoreState pr) s"
proof -
  let ?S = "{s. s = RestoreState pr \<or> restore_step (RestoreState pr) s}"
  have "keeps (in_states st k ?S)
    (must ''get PerconaPGCluster'' (Get_Cluster E (fst k, RestorePGCluster pr)) (\<lambda>pgCluster.
          if deref (Unmanaged pgCluster) False \<and> DeletionTimestamp (r_meta pr) = None then ret 0
          else if VolumeSnapshotBackupName pr \<noteq> [] then snapshot_restore_Reconcile E pgCluster pr
          else reconcile_restore E pgCluster pr))"
    by (intro frame_intros frameD [OF restores.frame_law [OF assms(1)]]
          keeps_reconcile_restore [OF assms(1)] keeps_snapshot_restore [OF assms(1)]) auto
  moreover from restores.read_law [OF assms(1,2)] have "in_states st k ?S w1" by (simp add: in_states_def)
  ultimately have "in_states st k ?S (snd (restore_Reconcile E (snapshot_restore_Reconcile E) k w))"
    by (auto simp: restore_Reconcile_def attempt_def assms(2) dest: keepsD)
  with assms(3) show ?thesis by (simp add: in_states_def)
qed

section \<open>Instances are suspended first\<close>

text \<open>
  C24: A restore from volume snapshots becomes running only after every instance of the cluster that
  the reconciliation listed was observed suspended: annotated as such, with no replica wanted and
  none ready.
\<close>

theorem suspended_before_running:
  assumes "restore_store E st" and "st w k = Some RestoreStarting"
    and "st (snd (restorer_reconcileStarting E r w)) k = Some RestoreRunning"
  shows "\<exists>instances w0. list_instances E r w = (Inr instances, w0) \<and>
    (\<forall>i \<in> set instances. \<exists>sts w1 w2. Get_StatefulSet E (object_key (s_meta i)) w1 = (Inr sts, w2) \<and>
       Annotations (s_meta sts) AnnotationInstanceSuspended \<noteq> None \<and> StsReplicas sts = 0 \<and> StsReadyReplicas sts = 0)"
proof -
  have "keeps (in_states st k {RestoreStarting}) (suspendAllInstances E r)"
    by (rule frame_suspension [OF restores.frame_law [OF assms(1)]])
  moreover have "in_states st k {RestoreStarting} w" using assms(2) by (simp add: in_states_def)
  ultimately have "in_states st k {RestoreStarting} (snd (suspendAllInstances E r w))" by (rule keepsD)
  with assms(3) obtain w' where "suspendAllInstances E r w = (Inr True, w')"
    by (cases "suspendAllInstances E r w"; cases "fst (suspendAllInstances E r w)")
      (auto simp: restorer_reconcileStarting_def in_states_def io_defs split: if_splits)
  then obtain instances w0 where l: "list_instances E r w = (Inr instances, w0)"
    and s: "each_done ''suspend instance'' (\<lambda>i. SuspendInstance E (object_key (s_meta i))) instances True w0 = (Inr True, w')"
    by (auto simp: suspendAllInstances_def must_Inr)
  have "\<exists>sts w1 w2. Get_StatefulSet E (object_key (s_meta i)) w1 = (Inr sts, w2) \<and>
       Annotations (s_meta sts) AnnotationInstanceSuspended \<noteq> None \<and> StsReplicas sts = 0 \<and> StsReadyReplicas sts = 0"
    if "i \<in> set instances" for i
    using each_done_observed [OF s that] by (fastforce simp: SuspendInstance_def must_Inr split: if_splits)
  with l show ?thesis by blast
qed

section \<open>Claims\<close>

text \<open>
  \<open>claims\<close> reads the stored volume claim at a key. A claim is restored when it carries the
  annotation of the restore.
\<close>

definition restored :: "('w \<Rightarrow> key \<Rightarrow> PVC option) \<Rightarrow> string \<Rightarrow> key \<Rightarrow> 'w \<Rightarrow> bool" where
  "restored claims restore k w =
     (case claims w k of
        None \<Rightarrow> False
      | Some p \<Rightarrow> str_at (Annotations (v_meta p)) AnnotationSnapshotRestore = restore)"

text \<open>The claims of an instance that a restore of the backup replaces.\<close>

definition instance_claims :: "snapshotRestorer \<Rightarrow> StatefulSet \<Rightarrow> key list" where
  "instance_claims r i =
     (let snap = Snapshot (b_status (nr_backup r)) in
      object_key (InstancePostgresDataVolume (s_meta i)) #
      (case Option.bind snap WALVolumeSnapshotRef of
         None \<Rightarrow> [] | Some _ \<Rightarrow> [object_key (InstancePostgresWALVolume (s_meta i))]) @
      (case snap of
         None \<Rightarrow> []
       | Some s \<Rightarrow> map (\<lambda>(ts, _). object_key (InstanceTablespaceDataVolume (s_meta i) ts))
           (TablespaceVolumeSnapshotRefs s)))"

text \<open>
  What the API server promises about claims: a read gives the stored claim, a created claim is
  stored with its annotations, a deletion concerns the claim it names, and no other call of the
  operator, nor anything it waits for, takes a restored claim away.
\<close>

locale claim_store =
  fixes E :: "'w env" and claims :: "'w \<Rightarrow> key \<Rightarrow> PVC option"
  assumes read_claim: "Get_PVC E k w = (Inr p, w') \<Longrightarrow> claims w' k = Some p \<and> vkey p = k"
    and created_claim: "Create_PVC E p w = (Inr (), w') \<Longrightarrow>
      \<exists>p'. claims w' (vkey p) = Some p' \<and> Annotations (v_meta p') = Annotations (v_meta p)"
    and deleted_claim: "k \<noteq> vkey p \<Longrightarrow> keeps (restored claims n k) (Delete_PVC E p)"
    and claims_frame: "frame_of E (restored claims n k)"
    and claims_status: "keeps (restored claims n k) (StatusUpdate_Restore E x)"
begin

lemma keeps_restored_PVC:
  "keeps (restored claims (Name (r_meta (nr_restore r))) k) (reconcileInstancePVC E r info m i s)"
  unfolding reconcileInstancePVC_def
proof (rule keeps_attempt_yields)
  let ?I = "restored claims (Name (r_meta (nr_restore r))) k"
  have get: "keeps ?I (Get_PVC E (object_key m))" by (intro frameD [OF claims_frame])
  show "yields ?I (Get_PVC E (object_key m)) (\<lambda>p w. claims w (vkey p) = Some p)"
    unfolding yields_def using keepsD [OF get] read_claim by (metis prod.collapse)
  show "keeps ?I (if IsNotFound e then must ''create PVC from data source''
      (createPVCFromSnapshot E r info m i s) (\<lambda>_. ret True) else throw (Wrap ''get observed PVC'' e))" for e
    by (intro frame_intros frame_createPVC [OF claims_frame])
  fix p w assume p: "claims w (vkey p) = Some p" and I: "?I w"
  have "keeps ?I (must ''delete PVC'' (Delete_PVC E p) (\<lambda>_. ret False))"
    if "str_at (Annotations (v_meta p)) AnnotationSnapshotRestore \<noteq> Name (r_meta (nr_restore r))"
    using that p I by (intro frame_intros deleted_claim) (auto simp: restored_def)
  with I show "?I (snd ((if str_at (Annotations (v_meta p)) AnnotationSnapshotRestore = Name (r_meta (nr_restore r))
          then ret True
          else if \<not> time_IsZero (DeletionTimestamp (v_meta p)) then ret False
          else must ''delete PVC'' (Delete_PVC E p) (\<lambda>_. ret False)) w))"
    by (auto simp: ret_def dest: keepsD)
qed

lemma done_restored_PVC:
  assumes "reconcileInstancePVC E r info m i s w = (Inr True, w')"
  shows "restored claims (Name (r_meta (nr_restore r))) (object_key m) w'"
proof -
  obtain g w1 where get: "Get_PVC E (object_key m) w = (g, w1)" by fastforce
  show ?thesis
  proof (cases g)
    case (Inl e)
    with assms get have "createPVCFromSnapshot E r info m i s w1 = (Inr (), w')"
      by (auto simp: reconcileInstancePVC_def attempt_def must_Inr split: if_splits)
    then show ?thesis
      using created_claim
      by (fastforce simp: createPVCFromSnapshot_def Let_def must_Inr restored_def str_at_def object_key_def
          split: if_splits sum.splits)
  next
    case (Inr p)
    with assms get read_claim [of "object_key m" w p w1] show ?thesis
      by (auto simp: reconcileInstancePVC_def attempt_def must_Inr restored_def split: if_splits)
  qed
qed

lemma keeps_restored_instance:
  "keeps (restored claims (Name (r_meta (nr_restore r))) k) (reconcileInstance E r i)"
  by (intro frame_claims keeps_restored_PVC)

lemma done_restored_instance:
  assumes "reconcileInstance E r i w = (Inr True, w')" and "k \<in> set (instance_claims r i)"
  shows "restored claims (Name (r_meta (nr_restore r))) k w'"
proof -
  let ?P = "restored claims (Name (r_meta (nr_restore r)))"
  from assms(1) obtain w1 w2 where d: "reconcileDataVolume E r i w = (Inr True, w1)"
    and l: "reconcileWALVolume E r i w1 = (Inr True, w2)" and t: "reconcileTablespaceVolumes E r i w2 = (Inr True, w')"
    by (auto simp: reconcileInstance_def must_Inr)
  have keep_l: "keeps (?P k) (reconcileWALVolume E r i)" for k
    unfolding reconcileWALVolume_def by (intro frame_intros keeps_restored_PVC)
  have keep_t: "keeps (?P k) (reconcileTablespaceVolumes E r i)" for k
    unfolding reconcileTablespaceVolumes_def by (intro frame_intros keeps_each_done keeps_restored_PVC)
  have data: "?P (object_key (InstancePostgresDataVolume (s_meta i))) w1"
    using d done_restored_PVC by (auto simp: reconcileDataVolume_def split: option.splits)
  then have "?P (object_key (InstancePostgresDataVolume (s_meta i))) w'"
    using keeps_run [OF keep_l _ l] keeps_run [OF keep_t _ t] by blast
  moreover have "?P (object_key (InstancePostgresWALVolume (s_meta i))) w'"
    if "Option.bind (Snapshot (b_status (nr_backup r))) WALVolumeSnapshotRef = Some x" for x
    using l that done_restored_PVC keeps_run [OF keep_t _ t] by (auto simp: reconcileWALVolume_def)
  moreover have "?P (object_key (InstanceTablespaceDataVolume (s_meta i) (fst x))) w'"
    if "Snapshot (b_status (nr_backup r)) = Some sn" "x \<in> set (TablespaceVolumeSnapshotRefs sn)" for sn x
  proof (rule each_done_establishes [where P = "\<lambda>x. ?P (object_key (InstanceTablespaceDataVolume (s_meta i) (fst x)))"])
    show "each_done ''reconcile tablespace volume'' (\<lambda>(tsName, snapshotName).
          reconcileInstancePVC E r \<lparr>vi_role = RoleTablespace, vi_tablespaceName = tsName\<rparr>
            (InstanceTablespaceDataVolume (s_meta i) tsName) i snapshotName)
          (TablespaceVolumeSnapshotRefs sn) True w2 = (Inr True, w')"
      using t that(1) by (simp add: reconcileTablespaceVolumes_def)
  qed (use that(2) in \<open>auto intro: done_restored_PVC keeps_restored_PVC split: prod.splits\<close>)
  ultimately show ?thesis
    using assms(2) by (auto simp: instance_claims_def Let_def dest: sym split: option.splits)
qed

lemma done_restored_instances:
  assumes "reconcileInstances E r is w = (Inr True, w')" and "i \<in> set is" and "k \<in> set (instance_claims r i)"
  shows "restored claims (Name (r_meta (nr_restore r))) k w'"
proof -
  let ?P = "\<lambda>i w. \<forall>k \<in> set (instance_claims r i). restored claims (Name (r_meta (nr_restore r))) k w"
  have "?P i w'"
  proof (rule each_done_establishes [where P = ?P])
    show "each_done ''reconcile instance'' (reconcileInstance E r) is True w = (Inr True, w')"
      using assms(1) by (simp add: reconcileInstances_def)
    show "keeps (?P y) (reconcileInstance E r x)" for x y
      using keeps_restored_instance by (auto simp: keeps_def)
  qed (use done_restored_instance assms(2) in auto)
  with assms(3) show ?thesis by blast
qed

lemma keeps_restored_UpdateStatus:
  "keeps (restored claims n k) (restore_UpdateStatus E pr upd)"
  unfolding restore_UpdateStatus_def by (intro frame_intros frameD [OF claims_frame] claims_status)

lemma keeps_restored_finish:
  "keeps (restored claims n k) (finish_restore E r is)"
  unfolding finish_restore_def
  by (intro frame_intros frame_writes [OF claims_frame] frame_snapshot_restore [OF claims_frame]
        frame_suspension [OF claims_frame] keeps_restored_UpdateStatus)

end

text \<open>
  C22: A running restore from volume snapshots is recorded as succeeded only when, for every
  instance the reconciliation listed, the data claim, the WAL claim and the tablespace claims the
  backup has snapshots of are stored claims that carry this restore's annotation. In particular the
  reconciliation never deletes a claim it has restored.
\<close>

theorem restored_before_success:
  assumes "restore_store E st" and "claim_store E claims" and "st w k = Some RestoreRunning"
    and "st (snd (restorer_reconcileRunning E r w)) k = Some RestoreSucceeded"
  shows "\<exists>instances w0. list_instances E r w = (Inr instances, w0) \<and>
    (\<forall>i \<in> set instances. \<forall>c \<in> set (instance_claims r i).
       restored claims (Name (r_meta (nr_restore r))) c (snd (restorer_reconcileRunning E r w)))"
proof -
  let ?R = "in_states st k {RestoreRunning}" and ?w' = "snd (restorer_reconcileRunning E r w)"
  have R: "?R w" and not_R: "\<not> ?R ?w'" using assms(3,4) by (auto simp: in_states_def)
  have list: "keeps ?R (list_instances E r)" by (rule frame_suspension [OF restores.frame_law [OF assms(1)]])
  have claims: "keeps ?R (reconcileInstances E r is)" for "is" by (rule keeps_claims_state [OF assms(1)])
  obtain l w0 where l: "list_instances E r w = (l, w0)" by fastforce
  from list R l have R0: "?R w0" by (rule keeps_run)
  with not_R l obtain "is" where instances: "l = Inr is"
    by (cases l) (auto simp: restorer_reconcileRunning_def io_defs split: if_splits)
  obtain b w1 where b: "reconcileInstances E r is w0 = (b, w1)" by fastforce
  from claims R0 b have R1: "?R w1" by (rule keeps_run)
  with not_R l instances b have b_True: "b = Inr True" and w': "?w' = snd (finish_restore E r is w1)"
    by (cases b; auto simp: restorer_reconcileRunning_def io_defs split: if_splits)+
  have "restored claims (Name (r_meta (nr_restore r))) c ?w'" if "i \<in> set is" "c \<in> set (instance_claims r i)" for i c
    unfolding w'
    using claim_store.done_restored_instances [OF assms(2) b [unfolded b_True] that]
    by (rule keepsD [OF claim_store.keeps_restored_finish [OF assms(2)]])
  with l instances show ?thesis by blast
qed

section \<open>Replacing the claims ends\<close>

text \<open>
  A server on which creating and deleting a claim take effect at once. Nothing else is said about
  the other calls, since replacing the claims uses only these.
\<close>

locale prompt_claims =
  fixes E :: "'w env" and claims :: "'w \<Rightarrow> key \<Rightarrow> PVC option"
  assumes get_absent: "claims w k = None \<Longrightarrow> \<exists>e. Get_PVC E k w = (Inl e, w) \<and> IsNotFound e"
    and get_present: "claims w k = Some p \<Longrightarrow> Get_PVC E k w = (Inr p, w) \<and> vkey p = k"
    and create_now: "claims w (vkey p) = None \<Longrightarrow>
      \<exists>w'. Create_PVC E p w = (Inr (), w') \<and> claims w' = (claims w)(vkey p \<mapsto> p)"
    and delete_now: "claims w (vkey p) \<noteq> None \<Longrightarrow>
      \<exists>w'. Delete_PVC E p w = (Inr (), w') \<and> claims w' = (claims w)(vkey p := None)"

definition none_deleting :: "('w \<Rightarrow> key \<Rightarrow> PVC option) \<Rightarrow> 'w \<Rightarrow> bool" where
  "none_deleting claims w \<longleftrightarrow> (\<forall>k p. claims w k = Some p \<longrightarrow> time_IsZero (DeletionTimestamp (v_meta p)))"

text \<open>The specification of the claim for a volume can be found in the cluster.\<close>

definition claim_known :: "snapshotRestorer \<Rightarrow> StatefulSet \<Rightarrow> volumeContextInfo \<Rightarrow> bool" where
  "claim_known r i info \<longleftrightarrow> str_at (Labels (s_meta i)) LabelInstanceSet \<noteq> [] \<and>
     \<not> isl (pvcSpecFromDataSource r info (str_at (Labels (s_meta i)) LabelInstanceSet)
         \<lparr>APIGroup = None, RefKind = [], RefName = []\<rparr>)"

definition restorable :: "snapshotRestorer \<Rightarrow> StatefulSet \<Rightarrow> bool" where
  "restorable r i =
     (case Snapshot (b_status (nr_backup r)) of
        None \<Rightarrow> False
      | Some s \<Rightarrow> DataVolumeSnapshotRef s \<noteq> None \<and>
          claim_known r i \<lparr>vi_role = RolePostgresData, vi_tablespaceName = []\<rparr> \<and>
          (WALVolumeSnapshotRef s \<noteq> None \<longrightarrow> claim_known r i \<lparr>vi_role = RolePostgresWAL, vi_tablespaceName = []\<rparr>) \<and>
          list_all (\<lambda>(ts, _). claim_known r i \<lparr>vi_role = RoleTablespace, vi_tablespaceName = ts\<rparr>)
            (TablespaceVolumeSnapshotRefs s))"

lemma claim_known_spec:
  "claim_known r i info \<Longrightarrow>
   \<exists>spec. pvcSpecFromDataSource r info (str_at (Labels (s_meta i)) LabelInstanceSet) src = Inr spec"
  unfolding claim_known_def pvcSpecFromDataSource_def Let_def by (auto split: option.splits if_splits)

definition settled :: "('w \<Rightarrow> key \<Rightarrow> PVC option) \<Rightarrow> string \<Rightarrow> key \<Rightarrow> 'w \<Rightarrow> bool" where
  "settled claims n k w \<longleftrightarrow> claims w k = None \<or> restored claims n k w"

definition settles :: "('w \<Rightarrow> key \<Rightarrow> PVC option) \<Rightarrow> string \<Rightarrow> key set \<Rightarrow> ('w, bool) io \<Rightarrow> bool" where
  "settles claims n K f \<longleftrightarrow> (\<forall>w. none_deleting claims w \<longrightarrow> (\<exists>b w'. f w = (Inr b, w') \<and> none_deleting claims w' \<and>
     (\<forall>k \<in> K. settled claims n k w') \<and> (\<forall>k. settled claims n k w \<longrightarrow> settled claims n k w') \<and>
     ((\<forall>k \<in> K. settled claims n k w) \<longrightarrow> b)))"

lemma settlesE:
  assumes "settles claims n K f" and "none_deleting claims w"
  obtains b w' where "f w = (Inr b, w')" and "none_deleting claims w'" and "\<And>k. k \<in> K \<Longrightarrow> settled claims n k w'"
    and "\<And>k. settled claims n k w \<Longrightarrow> settled claims n k w'" and "(\<And>k. k \<in> K \<Longrightarrow> settled claims n k w) \<Longrightarrow> b"
  using assms unfolding settles_def by metis

lemma settles_ret: "settles claims n {} (ret True)"
  by (auto simp: settles_def ret_def)

lemma settles_must3:
  assumes f: "settles claims n K f" and g: "settles claims n L g" and h: "settles claims n M h"
  shows "settles claims n (K \<union> L \<union> M) (must s f (\<lambda>a. must t g (\<lambda>b. must u h (\<lambda>c. ret (a \<and> b \<and> c)))))"
  unfolding settles_def
proof (intro allI impI)
  fix w assume w: "none_deleting claims w"
  obtain a w1 where 1: "f w = (Inr a, w1)" "none_deleting claims w1" "\<And>k. k \<in> K \<Longrightarrow> settled claims n k w1"
    "\<And>k. settled claims n k w \<Longrightarrow> settled claims n k w1" "(\<And>k. k \<in> K \<Longrightarrow> settled claims n k w) \<Longrightarrow> a"
    using settlesE [OF f w] by metis
  obtain b w2 where 2: "g w1 = (Inr b, w2)" "none_deleting claims w2" "\<And>k. k \<in> L \<Longrightarrow> settled claims n k w2"
    "\<And>k. settled claims n k w1 \<Longrightarrow> settled claims n k w2" "(\<And>k. k \<in> L \<Longrightarrow> settled claims n k w1) \<Longrightarrow> b"
    using settlesE [OF g 1(2)] by metis
  obtain c w3 where 3: "h w2 = (Inr c, w3)" "none_deleting claims w3" "\<And>k. k \<in> M \<Longrightarrow> settled claims n k w3"
    "\<And>k. settled claims n k w2 \<Longrightarrow> settled claims n k w3" "(\<And>k. k \<in> M \<Longrightarrow> settled claims n k w2) \<Longrightarrow> c"
    using settlesE [OF h 2(2)] by metis
  show "\<exists>d w'. must s f (\<lambda>a. must t g (\<lambda>b. must u h (\<lambda>c. ret (a \<and> b \<and> c)))) w = (Inr d, w') \<and>
     none_deleting claims w' \<and> (\<forall>k \<in> K \<union> L \<union> M. settled claims n k w') \<and>
     (\<forall>k. settled claims n k w \<longrightarrow> settled claims n k w') \<and> ((\<forall>k \<in> K \<union> L \<union> M. settled claims n k w) \<longrightarrow> d)"
    using 1 2 3 by (intro exI [of _ "a \<and> b \<and> c"] exI [of _ w3]) (auto simp: io_defs)
qed

lemma settles_each:
  assumes "\<And>x. x \<in> set xs \<Longrightarrow> settles claims n (K x) (f x)"
  shows "settles claims n (\<Union>x \<in> set xs. K x) (each_done msg f xs True)"
proof -
  have "\<exists>b w'. each_done msg f xs d w = (Inr b, w') \<and> none_deleting claims w' \<and>
     (\<forall>x \<in> set xs. \<forall>k \<in> K x. settled claims n k w') \<and> (\<forall>k. settled claims n k w \<longrightarrow> settled claims n k w') \<and>
     (d \<and> (\<forall>x \<in> set xs. \<forall>k \<in> K x. settled claims n k w) \<longrightarrow> b)" if "none_deleting claims w" for d w
    using assms that
  proof (induction xs arbitrary: d w)
    case Nil
    then show ?case by (auto simp: ret_def)
  next
    case (Cons x xs)
    have x: "settles claims n (K x) (f x)" by (rule Cons.prems) simp
    obtain a w1 where 1: "f x w = (Inr a, w1)" "none_deleting claims w1" "\<And>k. k \<in> K x \<Longrightarrow> settled claims n k w1"
      "\<And>k. settled claims n k w \<Longrightarrow> settled claims n k w1" "(\<And>k. k \<in> K x \<Longrightarrow> settled claims n k w) \<Longrightarrow> a"
      using settlesE [OF x Cons.prems(2)] by metis
    from Cons.IH [OF Cons.prems(1) 1(2), of "d \<and> a"] obtain b w' where
      2: "each_done msg f xs (d \<and> a) w1 = (Inr b, w')" "none_deleting claims w'"
        "\<forall>x \<in> set xs. \<forall>k \<in> K x. settled claims n k w'" "\<forall>k. settled claims n k w1 \<longrightarrow> settled claims n k w'"
        "(d \<and> a) \<and> (\<forall>x \<in> set xs. \<forall>k \<in> K x. settled claims n k w1) \<longrightarrow> b" by auto
    then show ?case using 1 by (intro exI [of _ b] exI [of _ w']) (auto simp: io_defs)
  qed
  from this [where d = True] show ?thesis unfolding settles_def by simp
qed

context prompt_claims
begin

lemma settles_PVC:
  assumes known: "claim_known r i info" and fresh: "DeletionTimestamp m = None"
  shows "settles claims (Name (r_meta (nr_restore r))) {object_key m} (reconcileInstancePVC E r info m i s)"
  unfolding settles_def
proof (intro allI impI)
  let ?n = "Name (r_meta (nr_restore r))" and ?k = "object_key m"
  fix w assume w: "none_deleting claims w"
  have keep: "\<forall>k. settled claims ?n k w \<longrightarrow> settled claims ?n k w'"
    if "claims w' = (claims w)(?k := x)" "settled claims ?n ?k w'" for w' x
    using that by (auto simp: settled_def restored_def)
  show "\<exists>b w'. reconcileInstancePVC E r info m i s w = (Inr b, w') \<and> none_deleting claims w' \<and>
     (\<forall>k \<in> {?k}. settled claims ?n k w') \<and> (\<forall>k. settled claims ?n k w \<longrightarrow> settled claims ?n k w') \<and>
     ((\<forall>k \<in> {?k}. settled claims ?n k w) \<longrightarrow> b)"
  proof (cases "claims w ?k")
    case None
    obtain e where e: "Get_PVC E ?k w = (Inl e, w)" "IsNotFound e" using get_absent [OF None] by blast
    have "\<not> is_panic e" using e(2) by (cases e) auto
    obtain spec where spec: "pvcSpecFromDataSource r info (str_at (Labels (s_meta i)) LabelInstanceSet)
        \<lparr>APIGroup = Some (volumesnapshot_GroupName E), RefKind = KindVolumeSnapshot, RefName = s\<rparr> = Inr spec"
      using claim_known_spec [OF known] by blast
    let ?p = "\<lparr>v_meta = m\<lparr>Annotations := [AnnotationSnapshotRestore \<mapsto> ?n]\<rparr>, v_spec = spec\<rparr>"
    have key: "vkey ?p = ?k" by (simp add: object_key_def)
    obtain w' where w': "Create_PVC E ?p w = (Inr (), w')" "claims w' = (claims w)(?k \<mapsto> ?p)"
      using create_now [of w ?p] None unfolding key by blast
    have "reconcileInstancePVC E r info m i s w = (Inr True, w')"
      using e \<open>\<not> is_panic e\<close> spec w'(1) known
      by (simp add: reconcileInstancePVC_def createPVCFromSnapshot_def claim_known_def io_defs)
    moreover have "settled claims ?n ?k w'"
      using w'(2) by (simp add: settled_def restored_def str_at_def)
    moreover have "none_deleting claims w'"
      using w w'(2) fresh by (auto simp: none_deleting_def time_IsZero_def)
    ultimately show ?thesis using keep [OF w'(2)] by (intro exI [of _ True] exI [of _ w']) simp
  next
    case (Some p)
    note get = get_present [OF Some]
    show ?thesis
    proof (cases "str_at (Annotations (v_meta p)) AnnotationSnapshotRestore = ?n")
      case True
      with get have "reconcileInstancePVC E r info m i s w = (Inr True, w)"
        by (simp add: reconcileInstancePVC_def io_defs)
      with True Some w show ?thesis by (auto simp: settled_def restored_def)
    next
      case False
      obtain w' where w': "Delete_PVC E p w = (Inr (), w')" "claims w' = (claims w)(?k := None)"
        using delete_now [of w p] get Some by auto
      have "time_IsZero (DeletionTimestamp (v_meta p))" using w Some unfolding none_deleting_def by blast
      with get False w'(1) have "reconcileInstancePVC E r info m i s w = (Inr False, w')"
        by (simp add: reconcileInstancePVC_def io_defs)
      moreover have "settled claims ?n ?k w'" "\<not> settled claims ?n ?k w" "none_deleting claims w'"
        using w'(2) Some False w by (auto simp: settled_def restored_def none_deleting_def)
      ultimately show ?thesis using keep [OF w'(2)] by (intro exI [of _ False] exI [of _ w']) simp
    qed
  qed
qed

lemma settles_instance:
  assumes "restorable r i"
  shows "settles claims (Name (r_meta (nr_restore r))) (set (instance_claims r i)) (reconcileInstance E r i)"
proof -
  let ?n = "Name (r_meta (nr_restore r))"
  from assms obtain snap d where snap: "Snapshot (b_status (nr_backup r)) = Some snap" "DataVolumeSnapshotRef snap = Some d"
    and known: "claim_known r i \<lparr>vi_role = RolePostgresData, vi_tablespaceName = []\<rparr>"
      "WALVolumeSnapshotRef snap \<noteq> None \<Longrightarrow> claim_known r i \<lparr>vi_role = RolePostgresWAL, vi_tablespaceName = []\<rparr>"
      "\<And>ts s. (ts, s) \<in> set (TablespaceVolumeSnapshotRefs snap) \<Longrightarrow>
         claim_known r i \<lparr>vi_role = RoleTablespace, vi_tablespaceName = ts\<rparr>"
    by (fastforce simp: restorable_def list_all_iff split: option.splits)
  note metas = InstancePostgresDataVolume_def InstancePostgresWALVolume_def InstanceTablespaceDataVolume_def mk_meta_def
  let ?w = "case WALVolumeSnapshotRef snap of
      None \<Rightarrow> {} | Some _ \<Rightarrow> {object_key (InstancePostgresWALVolume (s_meta i))}"
  let ?t = "\<Union>x \<in> set (TablespaceVolumeSnapshotRefs snap). {object_key (InstanceTablespaceDataVolume (s_meta i) (fst x))}"
  have data: "settles claims ?n {object_key (InstancePostgresDataVolume (s_meta i))} (reconcileDataVolume E r i)"
    unfolding reconcileDataVolume_def using snap by (simp add: settles_PVC known(1) metas)
  have wal: "settles claims ?n ?w (reconcileWALVolume E r i)"
    unfolding reconcileWALVolume_def using snap known(2)
    by (cases "WALVolumeSnapshotRef snap") (simp_all add: settles_ret settles_PVC metas)
  have ts: "settles claims ?n ?t (reconcileTablespaceVolumes E r i)"
    unfolding reconcileTablespaceVolumes_def using snap known(3)
    by (auto intro!: settles_each settles_PVC simp: metas split: prod.splits)
  have "set (instance_claims r i) = {object_key (InstancePostgresDataVolume (s_meta i))} \<union> ?w \<union> ?t"
    using snap by (auto simp: instance_claims_def Let_def split: option.splits)
  with settles_must3 [OF data wal ts] show ?thesis by (simp add: reconcileInstance_def)
qed

lemma two_passes:
  assumes "\<And>i. i \<in> set is \<Longrightarrow> restorable r i" and "none_deleting claims w"
  shows "\<exists>b w1 w2. reconcileInstances E r is w = (Inr b, w1) \<and> reconcileInstances E r is w1 = (Inr True, w2)"
proof -
  let ?n = "Name (r_meta (nr_restore r))" and ?K = "\<Union>i \<in> set is. set (instance_claims r i)"
  have pass: "settles claims ?n ?K (reconcileInstances E r is)"
    unfolding reconcileInstances_def by (intro settles_each settles_instance assms(1))
  obtain b w1 where 1: "reconcileInstances E r is w = (Inr b, w1)" "none_deleting claims w1"
    "\<And>k. k \<in> ?K \<Longrightarrow> settled claims ?n k w1"
    using settlesE [OF pass assms(2)] by metis
  from settlesE [OF pass 1(2)] 1(3) obtain w2 where "reconcileInstances E r is w1 = (Inr True, w2)" by metis
  with 1(1) show ?thesis by blast
qed

end


section \<open>The claims of the server in memory\<close>

definition mem_claim :: "mem \<Rightarrow> key \<Rightarrow> PVC option" where
  "mem_claim w k = lookup vkey k (m_pvcs w)"

interpretation memory_claims: claim_store memory mem_claim
proof
  show "mem_claim w' k = Some p \<and> vkey p = k" if "Get_PVC memory k w = (Inr p, w')" for k w p w'
    using that by (auto simp: memory_def mem_get_def mem_claim_def dest: lookup_key split: option.splits)
  show "\<exists>p'. mem_claim w' (vkey p) = Some p' \<and> Annotations (v_meta p') = Annotations (v_meta p)"
    if "Create_PVC memory p w = (Inr (), w')" for p w w'
    using that by (auto simp: memory_def mem_new_def mem_claim_def lookup_Cons split: if_splits)
  show "keeps (restored mem_claim n k) (Delete_PVC memory p)" if "k \<noteq> vkey p" for n k p
    unfolding memory_def using that
    by (simp, intro keeps_mem_del) (simp add: restored_def mem_claim_def lookup_filter)
  have "calls_keep memory (restored mem_claim n k)" for n k
    by (rule memory_calls_keep) (auto simp: restored_def mem_claim_def lookup_Cons split: option.splits)
  then show "frame_of memory (restored mem_claim n k)" for n k
    using memory_retry memory_poll by (simp add: frame_of_def)
  show "keeps (restored mem_claim n k) (StatusUpdate_Restore memory x)" for n k x
    unfolding memory_def by (simp, intro frame_intros keeps_mem_put) (simp add: restored_def mem_claim_def)
qed

interpretation memory_prompt: prompt_claims memory mem_claim
proof
  show "\<exists>e. Get_PVC memory k w = (Inl e, w) \<and> IsNotFound e" if "mem_claim w k = None" for k w
    using that by (simp add: memory_def mem_get_def mem_claim_def not_found_def)
  show "Get_PVC memory k w = (Inr p, w) \<and> vkey p = k" if "mem_claim w k = Some p" for k w p
    using that lookup_key [of vkey k "m_pvcs w" p] by (simp add: memory_def mem_get_def mem_claim_def)
  show "\<exists>w'. Create_PVC memory p w = (Inr (), w') \<and> mem_claim w' = (mem_claim w)(vkey p \<mapsto> p)"
    if "mem_claim w (vkey p) = None" for p w
    using that by (auto simp: memory_def mem_new_def mem_claim_def lookup_Cons)
  show "\<exists>w'. Delete_PVC memory p w = (Inr (), w') \<and> mem_claim w' = (mem_claim w)(vkey p := None)"
    if "mem_claim w (vkey p) \<noteq> None" for p w
    using that by (auto simp: memory_def mem_del_def mem_claim_def lookup_filter split: option.splits)
qed

subsection \<open>A restore on it\<close>

definition snap_restore :: "PGRestoreState \<Rightarrow> PerconaPGRestore" where
  "snap_restore s = (sample_restore s)\<lparr>RestoreRepoName := None, VolumeSnapshotBackupName := ''b1''\<rparr>"

definition snap_backup :: PerconaPGBackup where
  "snap_backup = (sample_backup ''b1'' BackupSucceeded)\<lparr>b_status := (sample_status BackupSucceeded)\<lparr>
     Snapshot := Some \<lparr>DataVolumeSnapshotRef = Some ''b1-pgdata'', WALVolumeSnapshotRef = None,
       TablespaceVolumeSnapshotRefs = []\<rparr>\<rparr>\<rparr>"

definition snap_restorer :: "PGRestoreState \<Rightarrow> snapshotRestorer" where
  "snap_restorer s = newSnapshotRestorer sample_cluster snap_backup (snap_restore s)"

definition snap_instance :: "int \<Rightarrow> strmap \<Rightarrow> StatefulSet" where
  "snap_instance n a = \<lparr>s_meta = (sample_meta ''i1'')\<lparr>Annotations := a, Labels :=
     [LabelCluster \<mapsto> ''pg'', LabelData \<mapsto> DataPostgres, LabelInstanceSet \<mapsto> ''set1'']\<rparr>,
     StsReplicas = n, StsReadyReplicas = n\<rparr>"

definition snap_claim :: "strmap \<Rightarrow> PVC" where
  "snap_claim a = \<lparr>v_meta = (sample_meta ''i1-pgdata'')\<lparr>Annotations := a\<rparr>, v_spec = sample_claim\<rparr>"

definition prepare_job :: "int \<Rightarrow> int \<Rightarrow> Job" where
  "prepare_job succeeded failed = (empty_job (sample_meta ''r1-prepare''))\<lparr>
     JobCompletionTime := Some 900, JobSucceededPods := succeeded, JobFailedPods := failed\<rparr>"

definition snap_world :: "PGRestoreState \<Rightarrow> StatefulSet \<Rightarrow> PVC \<Rightarrow> Job list \<Rightarrow> mem" where
  "snap_world s i p js = (sample_world [snap_backup])\<lparr>m_restores := [snap_restore s], m_sts := [i],
     m_pvcs := [p], m_jobs := js\<rparr>"

theorem every_restore_follows_life_witness:
  "RestoreSucceeded = RestoreState (snap_restore RestoreRunning) \<or>
   restore_step (RestoreState (snap_restore RestoreRunning)) RestoreSucceeded"
proof -
  let ?w = "snap_world RestoreRunning (snap_instance 1 Map.empty)
    (snap_claim [AnnotationSnapshotRestore \<mapsto> ''r1'']) [prepare_job 1 0]"
  have get: "Get_Restore memory (''ns'', ''r1'') ?w = (Inr (snap_restore RestoreRunning), ?w)"
    by (simp add: memory_def mem_get_def lookup_def snap_world_def snap_restore_def sample_restore_def
        sample_meta_def object_key_def)
  have after: "mem_restore_state (snd (restore_Reconcile memory (snapshot_restore_Reconcile memory) (''ns'', ''r1'') ?w))
      (''ns'', ''r1'') = Some RestoreSucceeded" by code_simp
  show ?thesis by (rule every_restore_follows_life [OF memory_restore_store, OF get, OF after])
qed

theorem suspended_before_running_witness:
  "\<exists>instances w0. list_instances memory (snap_restorer RestoreStarting) (snap_world RestoreStarting
      (snap_instance 0 [AnnotationInstanceSuspended \<mapsto> []]) (snap_claim Map.empty) []) = (Inr instances, w0)"
proof -
  let ?w = "snap_world RestoreStarting (snap_instance 0 [AnnotationInstanceSuspended \<mapsto> []]) (snap_claim Map.empty) []"
  have "mem_restore_state ?w (''ns'', ''r1'') = Some RestoreStarting" by code_simp
  moreover have "mem_restore_state (snd (restorer_reconcileStarting memory (snap_restorer RestoreStarting) ?w))
      (''ns'', ''r1'') = Some RestoreRunning" by code_simp
  ultimately show ?thesis
    using suspended_before_running [OF memory_restore_store, of ?w "(''ns'', ''r1'')" "snap_restorer RestoreStarting"]
    by blast
qed

theorem restored_before_success_witness:
  "restored mem_claim ''r1'' (''ns'', ''i1-pgdata'') (snd (restorer_reconcileRunning memory (snap_restorer RestoreRunning)
     (snap_world RestoreRunning (snap_instance 1 Map.empty) (snap_claim [AnnotationSnapshotRestore \<mapsto> ''r1''])
        [prepare_job 1 0])))"
proof -
  let ?w = "snap_world RestoreRunning (snap_instance 1 Map.empty)
    (snap_claim [AnnotationSnapshotRestore \<mapsto> ''r1'']) [prepare_job 1 0]"
  have before: "mem_restore_state ?w (''ns'', ''r1'') = Some RestoreRunning" by code_simp
  have after: "mem_restore_state (snd (restorer_reconcileRunning memory (snap_restorer RestoreRunning) ?w))
      (''ns'', ''r1'') = Some RestoreSucceeded" by code_simp
  have labels: "LabelCluster \<noteq> LabelInstanceSet" "LabelData \<noteq> LabelInstanceSet" by code_simp+
  have l: "list_instances memory (snap_restorer RestoreRunning) ?w = (Inr [snap_instance 1 Map.empty], ?w)"
    by (simp add: list_instances_def memory_def mem_list_def match_labels_def snap_world_def snap_restorer_def
        newSnapshotRestorer_def snap_instance_def sample_cluster_def sample_meta_def
        labels labels [symmetric])
  have n: "Name (r_meta (nr_restore (snap_restorer RestoreRunning))) = ''r1''"
    and c: "(''ns'', ''i1-pgdata'') \<in> set (instance_claims (snap_restorer RestoreRunning) (snap_instance 1 Map.empty))"
    by code_simp+
  from restored_before_success [OF memory_restore_store memory_claims.claim_store_axioms, OF before after] l n c
  show ?thesis by auto
qed


section \<open>A failed preparation\<close>


section \<open>The paths and volumes of the prepare job\<close>

text \<open>What the job needs of one instance: its mounts and the path its line of the script uses.\<close>

definition prepare_volumes :: "PerconaPGCluster \<Rightarrow> bool \<Rightarrow> StatefulSet \<Rightarrow> (string \<times> string \<times> string) list" where
  "prepare_volumes c pitr i =
     (let n = Name (s_meta i); wal = has_wal_volume c i in
      (if \<not> pitr \<or> \<not> wal then [(n @ ''-pgdata'', Name (InstancePostgresDataVolume (s_meta i)), path_join [''/'', n, ''pgdata''])] else []) @
      (if wal then [(n @ ''-pgwal'', Name (InstancePostgresWALVolume (s_meta i)), path_join [''/'', n, ''pgwal''])] else []))"

definition prepare_info :: "PerconaPGCluster \<Rightarrow> bool \<Rightarrow> StatefulSet \<Rightarrow> instancePrepareInfo" where
  "prepare_info c pitr i =
     (let n = Name (s_meta i); wal = has_wal_volume c i in
      \<lparr>pi_dataMountPath = (if \<not> pitr \<or> \<not> wal then path_join [''/'', n, ''pgdata''] else []),
       pi_walMountPath = (if wal then path_join [''/'', n, ''pgwal''] else [])\<rparr>)"

lemma prepare_volumes_loop_eq:
  "prepare_volumes_loop c pitr is vm infos =
    ((fst vm @ map (\<lambda>(n, cl, p). \<lparr>JobVolumeName = n, JobClaimName = cl\<rparr>) (concat (map (prepare_volumes c pitr) is)),
      snd vm @ map (\<lambda>(n, cl, p). \<lparr>JobMountName = n, JobMountPath = p\<rparr>) (concat (map (prepare_volumes c pitr) is))),
     infos @ map (prepare_info c pitr) is)"
  by (induction "is" arbitrary: vm infos)
    (auto simp: prepare_volumes_def prepare_info_def appendDataVolume_def appendWALVolume_def Let_def)

lemma prepare_names:
  "map fst (prepare_volumes c pitr i) = map (\<lambda>s. Name (s_meta i) @ s)
     ((if \<not> pitr \<or> \<not> has_wal_volume c i then [''-pgdata''] else []) @ (if has_wal_volume c i then [''-pgwal''] else []))"
  by (simp add: prepare_volumes_def Let_def)

lemma suffix_names:
  assumes "x \<in> {''-pgdata'', ''-pgwal''}" and "y \<in> {''-pgdata'', ''-pgwal''}" and "a @ x = b @ (y :: string)"
  shows "a = b \<and> x = y"
proof -
  from assms(3) have "rev x @ rev a = rev y @ rev b" by (metis rev_append)
  with assms(1,2) show ?thesis by auto
qed

lemma distinct_prepare_names:
  assumes "distinct (map (\<lambda>i. Name (s_meta i)) is)"
  shows "distinct (map fst (concat (map (prepare_volumes c pitr) is)))"
  using assms
proof (induction "is")
  case (Cons i "is")
  have one: "distinct (map fst (prepare_volumes c pitr i))" by (auto simp: prepare_names)
  have "x \<notin> set (map fst (concat (map (prepare_volumes c pitr) is)))" if "x \<in> set (map fst (prepare_volumes c pitr i))" for x
  proof
    assume "x \<in> set (map fst (concat (map (prepare_volumes c pitr) is)))"
    then obtain j where j: "j \<in> set is" "x \<in> set (map fst (prepare_volumes c pitr j))" by auto
    with that obtain u v where "x = Name (s_meta i) @ u" "x = Name (s_meta j) @ v" "u \<in> {''-pgdata'', ''-pgwal''}"
      "v \<in> {''-pgdata'', ''-pgwal''}" unfolding prepare_names by (auto split: if_splits)
    with suffix_names have "Name (s_meta i) = Name (s_meta j)" by metis
    with Cons.prems j(1) show False by force
  qed
  with one Cons show ?case by auto
qed simp

lemma prepare_path_cases:
  assumes "plain_element (Name (s_meta i))"
  shows "prepare_path v pitr (prepare_info c pitr i) =
     path_join [''/'', Name (s_meta i), if pitr \<and> has_wal_volume c i then ''pgwal'' else ''pgdata''] @ ''/pg'' @ sprint_int v @
     (if pitr then ''_wal'' else ''/skip-wal-recovery'')"
proof -
  have e: "plain_element ''pgdata''" "plain_element ''pgwal''" "plain_element ''skip-wal-recovery''"
    "plain_element (''pg'' @ sprint_int v)" "plain_element (''pg'' @ sprint_int v @ ''_wal'')"
    by (simp_all add: plain_element_def sprint_plain)
  have "path_join [''/'' @ str_join ''/'' [Name (s_meta i), b, d], c] = ''/'' @ str_join ''/'' [Name (s_meta i), b, d, c]"
    if "plain_element b" "plain_element d" "plain_element c" for b c d
    using path_clean_rooted(1) [of "[Name (s_meta i), b, d, c]"] that assms
    by (auto simp: path_join_def Let_def plain_element_def)
  from this [OF e(1) e(4) e(3)] path_join_root [OF assms e(1)] path_join_root [OF assms e(2)]
    path_join_under [OF assms e(1) e(4)] path_join_under [OF assms e(1) e(5)] path_join_under [OF assms e(2) e(5)]
  show ?thesis by (simp add: prepare_path_def prepare_info_def Let_def)
qed

text \<open>
  The prepare job is well formed. When the instances have distinct names that are plain path
  elements, its volumes have distinct names and each is mounted once under the same name; the
  script has a line per instance, whose path lies on a mounted volume: on the instance's WAL claim
  when write-ahead log is to be fetched again and the instance has one, else on its data claim.
\<close>

theorem prepare_job_mounted:
  assumes "distinct (map (\<lambda>i. Name (s_meta i)) instances)"
    and "\<forall>i \<in> set instances. plain_element (Name (s_meta i))"
    and "buildPrepareJobVolumes instances cluster pitr = ((volumes, mounts), infos)"
  shows "distinct (map JobVolumeName volumes) \<and> map JobMountName mounts = map JobVolumeName volumes \<and>
    list_all2 (\<lambda>i info. \<exists>v \<in> set volumes. \<exists>m \<in> set mounts. JobMountName m = JobVolumeName v \<and>
       JobClaimName v = Name (if pitr \<and> has_wal_volume cluster i then InstancePostgresWALVolume (s_meta i)
                           else InstancePostgresDataVolume (s_meta i)) \<and>
       has_prefix (JobMountPath m @ ''/pg'' @ sprint_int version) (prepare_path version pitr info))
      instances infos"
proof -
  let ?all = "concat (map (prepare_volumes cluster pitr) instances)"
  from assms(3) have vs: "volumes = map (\<lambda>(n, cl, p). \<lparr>JobVolumeName = n, JobClaimName = cl\<rparr>) ?all"
    and ms: "mounts = map (\<lambda>(n, cl, p). \<lparr>JobMountName = n, JobMountPath = p\<rparr>) ?all"
    and infos: "infos = map (prepare_info cluster pitr) instances"
    by (simp_all add: buildPrepareJobVolumes_def prepare_volumes_loop_eq)
  have names: "map JobVolumeName volumes = map fst ?all" "map JobMountName mounts = map fst ?all"
    unfolding vs ms by (auto simp: comp_def case_prod_beta)
  have "\<exists>v \<in> set volumes. \<exists>m \<in> set mounts. JobMountName m = JobVolumeName v \<and>
       JobClaimName v = Name (if pitr \<and> has_wal_volume cluster i then InstancePostgresWALVolume (s_meta i)
                           else InstancePostgresDataVolume (s_meta i)) \<and>
       has_prefix (JobMountPath m @ ''/pg'' @ sprint_int version) (prepare_path version pitr (prepare_info cluster pitr i))"
    if i: "i \<in> set instances" for i
  proof -
    let ?wal = "pitr \<and> has_wal_volume cluster i"
    let ?n = "Name (s_meta i) @ (if ?wal then ''-pgwal'' else ''-pgdata'')"
      and ?c = "Name (if ?wal then InstancePostgresWALVolume (s_meta i) else InstancePostgresDataVolume (s_meta i))"
      and ?p = "path_join [''/'', Name (s_meta i), if ?wal then ''pgwal'' else ''pgdata'']"
    have "(?n, ?c, ?p) \<in> set (prepare_volumes cluster pitr i)" by (simp add: prepare_volumes_def Let_def)
    with i have "(?n, ?c, ?p) \<in> set ?all" by auto
    then have "\<lparr>JobVolumeName = ?n, JobClaimName = ?c\<rparr> \<in> set volumes" "\<lparr>JobMountName = ?n, JobMountPath = ?p\<rparr> \<in> set mounts"
      unfolding vs ms by force+
    moreover have "has_prefix (?p @ ''/pg'' @ sprint_int version) (prepare_path version pitr (prepare_info cluster pitr i))"
      using prepare_path_cases [of i version pitr cluster] assms(2) i by (auto simp: has_prefix_iff)
    ultimately show ?thesis by (metis (no_types, lifting) JobVolume.select_convs JobVolumeMount.select_convs)
  qed
  with names distinct_prepare_names [OF assms(1)] show ?thesis
    unfolding infos by (simp add: list_all2_map2 list_all2_same)
qed

theorem prepare_job_mounted_witness:
  "map JobMountPath (snd (fst (buildPrepareJobVolumes [snap_instance 0 Map.empty] sample_cluster False))) = [''/i1/pgdata''] \<and>
   distinct (map JobVolumeName (fst (fst (buildPrepareJobVolumes [snap_instance 0 Map.empty] sample_cluster False))))"
proof
  show "map JobMountPath (snd (fst (buildPrepareJobVolumes [snap_instance 0 Map.empty] sample_cluster False))) = [''/i1/pgdata'']"
    by code_simp
  have "\<forall>i \<in> set [snap_instance 0 Map.empty]. plain_element (Name (s_meta i))"
    by (simp add: snap_instance_def sample_meta_def plain_element_def)
  moreover obtain volumes mounts infos where
    "buildPrepareJobVolumes [snap_instance 0 Map.empty] sample_cluster False = ((volumes, mounts), infos)"
    by (metis prod.exhaust)
  ultimately show "distinct (map JobVolumeName (fst (fst
      (buildPrepareJobVolumes [snap_instance 0 Map.empty] sample_cluster False))))"
    using prepare_job_mounted [of "[snap_instance 0 Map.empty]" sample_cluster False volumes mounts infos] by simp
qed

end
