(* ===== verification/Postgres_Config.thy ===== *)
theory Postgres_Config
  imports Kube "HOL-Library.AList" "HOL-Library.Multiset" "HOL-Library.Char_ord"
    "HOL-Library.List_Lexorder"
begin

text \<open>
  The settings of PostgreSQL the operator generates: parameters
  (\<open>internal/postgres/parameters.go\<close>) and the lines of \<open>pg_hba.conf\<close>
  (\<open>internal/postgres/hba.go\<close>). A parameter set is an association list, the pairs of
  the Go map in the order they were first added; that the order does not matter is proved.
  \<open>parameter_set\<close> is the contract of the set. What PostgreSQL makes of the printed
  text is given by readers: one for the lines of \<open>postgresql.conf\<close>, and one that
  finds the first line of \<open>pg_hba.conf\<close> matching a connection.
\<close>

section \<open>Parameters\<close>

text \<open>
  \<open>strings.ToLower\<close>. The names are ASCII identifiers of PostgreSQL; a byte above 127 is
  left alone.
\<close>

definition lower_char :: "char \<Rightarrow> char" where
  "lower_char c = (if 65 \<le> (of_char c :: nat) \<and> (of_char c :: nat) \<le> 90
     then char_of ((of_char c :: nat) + 32) else c)"

definition ToLower :: "string \<Rightarrow> string" where
  "ToLower s = map lower_char s"

record ParameterSet =
  ps_values :: "(string \<times> string) list"

definition NewParameterSet :: ParameterSet where
  "NewParameterSet = \<lparr>ps_values = []\<rparr>"

definition AsMap :: "ParameterSet \<Rightarrow> (string \<times> string) list" where
  "AsMap ps = ps_values ps"

definition ps_DeepCopy :: "ParameterSet \<Rightarrow> ParameterSet" where
  "ps_DeepCopy ps = \<lparr>ps_values = AsMap ps\<rparr>"

definition normalize :: "string \<Rightarrow> string" where
  "normalize name = ToLower name"

definition ps_Add :: "string \<Rightarrow> string \<Rightarrow> ParameterSet \<Rightarrow> ParameterSet" where
  "ps_Add name value ps = ps\<lparr>ps_values := AList.update (normalize name) value (ps_values ps)\<rparr>"

definition ps_Get :: "ParameterSet \<Rightarrow> string \<Rightarrow> string option" where
  "ps_Get ps name = map_of (ps_values ps) (normalize name)"

definition ps_Has :: "ParameterSet \<Rightarrow> string \<Rightarrow> bool" where
  "ps_Has ps name = (ps_Get ps name \<noteq> None)"

definition ps_Value :: "ParameterSet \<Rightarrow> string \<Rightarrow> string" where
  "ps_Value ps name = (case ps_Get ps name of None \<Rightarrow> [] | Some v \<Rightarrow> v)"

definition AppendToList :: "string \<Rightarrow> string list \<Rightarrow> ParameterSet \<Rightarrow> ParameterSet" where
  "AppendToList name value ps =
     (let result = ps_Value ps name;
          result = (if value \<noteq> []
                    then if result \<noteq> [] then result @ '','' @ str_join '','' value
                         else str_join '','' value
                    else result)
      in ps_Add name result ps)"

definition escapeParameterQuotes :: "string \<Rightarrow> string" where
  "escapeParameterQuotes = replace_char (CHR 0x27) [CHR 0x27, CHR 0x27]"

definition parameter_line :: "string \<Rightarrow> string \<Rightarrow> string" where
  "parameter_line k v =
     k @ '' = '' @ [CHR 0x27] @ escapeParameterQuotes v @ [CHR 0x27, CHR 0x0A]"

definition ps_String :: "ParameterSet \<Rightarrow> string" where
  "ps_String ps =
     concat (map (\<lambda>k. parameter_line k (deref (map_of (ps_values ps) k) []))
       (sort (map fst (ps_values ps))))"

record Parameters =
  Mandatory :: ParameterSet
  Default :: ParameterSet

definition add_mandatory :: "string \<Rightarrow> string \<Rightarrow> Parameters \<Rightarrow> Parameters" where
  "add_mandatory k v ps = ps\<lparr>Mandatory := ps_Add k v (Mandatory ps)\<rparr>"

definition add_default :: "string \<Rightarrow> string \<Rightarrow> Parameters \<Rightarrow> Parameters" where
  "add_default k v ps = ps\<lparr>Default := ps_Add k v (Default ps)\<rparr>"

definition append_list :: "string \<Rightarrow> string list \<Rightarrow> Parameters \<Rightarrow> Parameters" where
  "append_list k vs ps = ps\<lparr>Mandatory := AppendToList k vs (Mandatory ps)\<rparr>"

lemma Parameters_simps [simp]:
  "Mandatory (add_mandatory k v ps) = ps_Add k v (Mandatory ps)" "Default (add_mandatory k v ps) = Default ps"
  "Mandatory (add_default k v ps) = Mandatory ps" "Default (add_default k v ps) = ps_Add k v (Default ps)"
  "Mandatory (append_list k vs ps) = AppendToList k vs (Mandatory ps)" "Default (append_list k vs ps) = Default ps"
  by (simp_all add: add_mandatory_def add_default_def append_list_def)

definition SocketDirectory :: string where
  "SocketDirectory = ''/tmp/postgres''"

definition NewParameters :: Parameters where
  "NewParameters =
     (add_default ''password_encryption'' ''scram-sha-256'' \<circ>
      add_default ''jit'' ''off'' \<circ>
      add_default ''wal_level'' ''logical'' \<circ>
      add_mandatory ''ssl_ca_file'' ''/pgconf/tls/ca.crt'' \<circ>
      add_mandatory ''ssl_key_file'' ''/pgconf/tls/tls.key'' \<circ>
      add_mandatory ''ssl_cert_file'' ''/pgconf/tls/tls.crt'' \<circ>
      add_mandatory ''ssl'' ''on'' \<circ>
      add_mandatory ''unix_socket_directories'' SocketDirectory)
     \<lparr>Mandatory = NewParameterSet, Default = NewParameterSet\<rparr>"

section \<open>Host based authentication\<close>

record HostBasedAuthentication =
  hba_origin :: string
  hba_database :: string
  hba_user :: string
  hba_address :: string
  hba_method :: string
  hba_options :: string

record HBAs =
  HbaMandatory :: "HostBasedAuthentication list"
  HbaDefault :: "HostBasedAuthentication list"

type_synonym hba_builder = "HostBasedAuthentication \<Rightarrow> HostBasedAuthentication"

definition AllDatabases :: hba_builder where
  "AllDatabases hba = hba\<lparr>hba_database := ''all''\<rparr>"

definition AllNetworks :: hba_builder where
  "AllNetworks hba = hba\<lparr>hba_address := ''all''\<rparr>"

definition AllUsers :: hba_builder where
  "AllUsers hba = hba\<lparr>hba_user := ''all''\<rparr>"

definition NewHBA :: HostBasedAuthentication where
  "NewHBA = AllUsers (AllNetworks (AllDatabases
     \<lparr>hba_origin = [], hba_database = [], hba_user = [], hba_address = [], hba_method = [],
      hba_options = []\<rparr>))"

definition hba_quote :: "string \<Rightarrow> string" where
  "hba_quote value = [CHR 0x22] @ replace_char (CHR 0x22) [CHR 0x22, CHR 0x22] value @ [CHR 0x22]"

text \<open>
  \<open>hbaRegexSpecialCharacters\<close> is \<open>[^\pL\pN_]\<close>. The classes are given for ASCII;
  a byte above 127 counts as part of a letter.
\<close>

definition hbaRegexSpecial :: "char \<Rightarrow> bool" where
  "hbaRegexSpecial c =
     (let n = (of_char c :: nat) in
      \<not> (48 \<le> n \<and> n \<le> 57 \<or> 65 \<le> n \<and> n \<le> 90 \<or> 97 \<le> n \<and> n \<le> 122 \<or> n = 95 \<or> 128 \<le> n))"

definition exact_regex :: "string \<Rightarrow> string" where
  "exact_regex name =
     concat (map (\<lambda>c. if hbaRegexSpecial c then ''['' @ [c] @ '']'' else [c]) name)"

definition slash_name :: "string \<Rightarrow> string" where
  "slash_name name =
     (if name \<noteq> [] \<and> hd name = CHR ''/'' then ''/^'' @ exact_regex name @ ''$'' else name)"

definition quoteDatabase :: "string \<Rightarrow> string" where
  "quoteDatabase name = hba_quote (slash_name name)"

definition quoteUser :: "string \<Rightarrow> string" where
  "quoteUser name = hba_quote (slash_name name)"

definition Databases :: "string \<Rightarrow> string list \<Rightarrow> hba_builder" where
  "Databases name names hba =
     hba\<lparr>hba_database := foldl (\<lambda>d n. d @ '','' @ quoteDatabase n) (quoteDatabase name) names\<rparr>"

definition Local :: hba_builder where
  "Local hba = hba\<lparr>hba_origin := ''local''\<rparr>"

definition Method :: "string \<Rightarrow> hba_builder" where
  "Method name hba = hba\<lparr>hba_method := name\<rparr>"

definition Origin :: "string \<Rightarrow> hba_builder" where
  "Origin name hba = hba\<lparr>hba_origin := hba_quote name\<rparr>"

definition Network :: "string \<Rightarrow> hba_builder" where
  "Network block hba = hba\<lparr>hba_address := hba_quote block\<rparr>"

definition NoSSL :: hba_builder where
  "NoSSL hba = hba\<lparr>hba_origin := ''hostnossl''\<rparr>"

definition hba_Options :: "(string \<times> string) list \<Rightarrow> hba_builder" where
  "hba_Options opts hba =
     hba\<lparr>hba_options := foldl (\<lambda>os k. os @ '' '' @ hba_quote k @ ''='' @ hba_quote (deref (map_of opts k) []))
       [] (sort (map fst opts))\<rparr>"

definition Replication :: hba_builder where
  "Replication hba = hba\<lparr>hba_database := ''replication''\<rparr>"

definition SameNetwork :: hba_builder where
  "SameNetwork hba = hba\<lparr>hba_address := ''samenet''\<rparr>"

definition hba_TLSOnly :: hba_builder where
  "hba_TLSOnly hba =
     (if hba_origin hba = ''host'' \<or> hba_origin hba = ''hostnossl''
      then hba\<lparr>hba_origin := ''hostssl''\<rparr> else hba)"

definition TLS :: hba_builder where
  "TLS hba = hba\<lparr>hba_origin := ''hostssl''\<rparr>"

definition TCP :: hba_builder where
  "TCP hba = hba\<lparr>hba_origin := ''host''\<rparr>"

definition Users :: "string \<Rightarrow> string list \<Rightarrow> hba_builder" where
  "Users name names hba =
     hba\<lparr>hba_user := foldl (\<lambda>u n. u @ '','' @ quoteUser n) (quoteUser name) names\<rparr>"

text \<open>\<open>strings.TrimFunc\<close>, and \<open>strings.TrimSpace\<close> on ASCII text.\<close>

definition trim_func :: "(char \<Rightarrow> bool) \<Rightarrow> string \<Rightarrow> string" where
  "trim_func f s = rev (dropWhile f (rev (dropWhile f s)))"

definition is_space :: "char \<Rightarrow> bool" where
  "is_space c \<longleftrightarrow> (of_char c :: nat) \<in> {9, 10, 11, 12, 13, 32}"

definition TrimSpace :: "string \<Rightarrow> string" where
  "TrimSpace = trim_func is_space"

definition hba_String :: "HostBasedAuthentication \<Rightarrow> string" where
  "hba_String hba =
     (if hba_origin hba = ''local''
      then TrimSpace (str_join '' '' [''local'', hba_database hba, hba_user hba, hba_method hba, hba_options hba])
      else TrimSpace (str_join '' '' [hba_origin hba, hba_database hba, hba_user hba, hba_address hba,
        hba_method hba, hba_options hba]))"

definition ReplicationUser :: string where
  "ReplicationUser = ''_crunchyrepl''"

definition NewHBAs :: HBAs where
  "NewHBAs = \<lparr>
     HbaMandatory = [
       Method ''peer'' (Users ''postgres'' [] (Local NewHBA)),
       Replication (Method ''cert'' (Users ReplicationUser [] (TLS NewHBA))),
       Databases ''postgres'' [] (Method ''cert'' (Users ReplicationUser [] (TLS NewHBA))),
       Method ''reject'' (Users ReplicationUser [] (TCP NewHBA))],
     HbaDefault = [Method ''scram-sha-256'' (TLS NewHBA)]\<rparr>"

subsection \<open>Ordered lines\<close>

type_synonym OrderedHBAs = "string list"

definition hbas_Append :: "HostBasedAuthentication option list \<Rightarrow> OrderedHBAs \<Rightarrow> OrderedHBAs" where
  "hbas_Append hbas o0 =
     foldl (\<lambda>o1 hba. case hba of None \<Rightarrow> o1 | Some h \<Rightarrow> o1 @ [hba_String h]) o0 hbas"

definition unstructured_trim :: "char \<Rightarrow> bool" where
  "unstructured_trim r \<longleftrightarrow> r > CHR 0x7E \<or> r < CHR 0x21 \<or> r = CHR 0x5C"

definition AppendUnstructured :: "string list \<Rightarrow> OrderedHBAs \<Rightarrow> OrderedHBAs" where
  "AppendUnstructured hbas o0 =
     foldl (\<lambda>o1 hba. let h = trim_func unstructured_trim hba in
       if h \<noteq> [] \<and> \<not> has_prefix ''include'' h then o1 @ [h] else o1) o0 hbas"

definition AsStrings :: "OrderedHBAs \<Rightarrow> string list" where
  "AsStrings o0 = o0"

definition hbas_Length :: "OrderedHBAs \<Rightarrow> nat" where
  "hbas_Length o0 = length o0"

section \<open>Lemmas on parameter sets\<close>

subsection \<open>The contract of a parameter set\<close>

locale parameter_set =
  fixes empty :: 's and add :: "string \<Rightarrow> string \<Rightarrow> 's \<Rightarrow> 's"
    and get :: "'s \<Rightarrow> string \<Rightarrow> string option" and norm :: "string \<Rightarrow> string"
  assumes get_empty: "get empty k = None"
    and get_add: "get (add k v s) k' = (if norm k = norm k' then Some v else get s k')"
begin

lemma get_adds:
  "get (fold (\<lambda>(k, v). add k v) kvs s) k' =
     (case map_of (rev (map (\<lambda>(k, v). (norm k, v)) kvs)) (norm k') of
        None \<Rightarrow> get s k' | Some v \<Rightarrow> Some v)"
proof (induction kvs arbitrary: s)
  case (Cons kv kvs)
  then show ?case by (cases kv) (auto simp: get_add map_add_def split: option.splits)
qed simp

lemma get_norm_cong: "norm k = norm k' \<Longrightarrow> get (add k v s) k'' = get (add k' v s) k''"
  by (simp add: get_add)

lemma last_add_wins: "get (add k v (add k w s)) k' = get (add k v s) k'"
  by (simp add: get_add)

lemma add_commute:
  "norm k \<noteq> norm l \<Longrightarrow> get (add k v (add l w s)) k' = get (add l w (add k v s)) k'"
  by (auto simp: get_add)

end

interpretation params: parameter_set NewParameterSet ps_Add ps_Get normalize
proof
qed (simp_all add: NewParameterSet_def ps_Get_def ps_Add_def update_conv')

lemma ps_Value_Add: "ps_Value (ps_Add k v ps) k' = (if normalize k = normalize k' then v else ps_Value ps k')"
  by (simp add: ps_Value_def params.get_add)

lemma ps_Get_AppendToList:
  "ps_Get (AppendToList name vs ps) k =
     (if normalize name = normalize k
      then Some (if vs = [] then ps_Value ps name
                 else if ps_Value ps name = [] then str_join '','' vs
                 else ps_Value ps name @ '','' @ str_join '','' vs)
      else ps_Get ps k)"
  by (simp add: AppendToList_def params.get_add Let_def)

subsection \<open>The invariant\<close>

definition ps_ok :: "ParameterSet \<Rightarrow> bool" where
  "ps_ok ps \<longleftrightarrow> distinct (map fst (ps_values ps)) \<and> (\<forall>k \<in> fst ` set (ps_values ps). normalize k = k)"

lemma lower_char_idem [simp]: "lower_char (lower_char c) = lower_char c"
proof (cases "65 \<le> (of_char c :: nat) \<and> (of_char c :: nat) \<le> 90")
  case True
  then have "(of_char (char_of ((of_char c :: nat) + 32) :: char) :: nat) = of_char c + 32"
    by (simp add: of_char_of)
  with True show ?thesis by (simp add: lower_char_def)
qed (auto simp: lower_char_def)

lemma normalize_idem [simp]: "normalize (normalize k) = normalize k"
  by (simp add: normalize_def ToLower_def)

lemma ps_ok_empty [simp]: "ps_ok NewParameterSet"
  by (simp add: ps_ok_def NewParameterSet_def)

lemma ps_ok_Add [simp]: "ps_ok ps \<Longrightarrow> ps_ok (ps_Add k v ps)"
  by (auto simp: ps_ok_def ps_Add_def distinct_update dom_update)

lemma ps_ok_AppendToList [simp]: "ps_ok ps \<Longrightarrow> ps_ok (AppendToList k vs ps)"
  by (simp add: AppendToList_def Let_def)

lemma ps_ok_map: "ps_ok ps \<Longrightarrow> normalize k = k \<Longrightarrow> ps_Get ps k = map_of (ps_values ps) k"
  by (simp add: ps_Get_def)

lemma ps_ok_outside: "ps_ok ps \<Longrightarrow> normalize k \<noteq> k \<Longrightarrow> map_of (ps_values ps) k = None"
  by (force simp: ps_ok_def map_of_eq_None_iff)

lemma ps_ok_ext:
  assumes "ps_ok a" and "ps_ok b" and "\<And>k. ps_Get a k = ps_Get b k"
  shows "map_of (ps_values a) = map_of (ps_values b)"
proof
  fix k show "map_of (ps_values a) k = map_of (ps_values b) k"
  proof (cases "normalize k = k")
    case True
    with assms show ?thesis by (metis ps_ok_map)
  next
    case False
    with assms(1,2) show ?thesis by (simp add: ps_ok_outside)
  qed
qed

lemma ps_keys_sorted_cong:
  assumes "ps_ok a" and "ps_ok b" and "map_of (ps_values a) = map_of (ps_values b)"
  shows "sort (map fst (ps_values a)) = sort (map fst (ps_values b))"
proof -
  have "fst ` set (ps_values a) = fst ` set (ps_values b)"
    using assms(3) by (metis dom_map_of_conv_image_fst)
  with assms(1,2) show ?thesis
    by (intro sorted_distinct_set_unique) (auto simp: ps_ok_def)
qed

text \<open>
  The text of a parameter set depends only on the values of its parameters: two sets in
  which every name, in whatever case it is asked for, has the same value print the same lines,
  whatever the order in which their parameters were added and Go's map is iterated.
\<close>

theorem ps_String_canonical:
  assumes "ps_ok a" and "ps_ok b" and "\<forall>k. ps_Get a k = ps_Get b k"
  shows "ps_String a = ps_String b"
proof -
  from assms have m: "map_of (ps_values a) = map_of (ps_values b)"
    by (intro ps_ok_ext) simp_all
  with ps_keys_sorted_cong [OF assms(1,2)] show ?thesis by (simp add: ps_String_def)
qed

theorem ps_String_canonical_witness:
  "ps_String (ps_Add ''SSL'' ''on'' (ps_Add ''jit'' ''off'' NewParameterSet)) =
   ps_String (ps_Add ''jit'' ''off'' (ps_Add ''ssl'' ''on'' NewParameterSet))"
proof (rule ps_String_canonical)
  have n: "normalize ''SSL'' = ''ssl''" "normalize ''ssl'' = ''ssl''" "normalize ''jit'' = ''jit''"
    by code_simp+
  show "\<forall>k. ps_Get (ps_Add ''SSL'' ''on'' (ps_Add ''jit'' ''off'' NewParameterSet)) k =
      ps_Get (ps_Add ''jit'' ''off'' (ps_Add ''ssl'' ''on'' NewParameterSet)) k"
    by (auto simp: params.get_add n dest: sym)
qed simp_all

subsection \<open>Reading the parameters back\<close>

text \<open>
  What PostgreSQL reads in a line \<open>name = 'value'\<close>: a doubled quote is one quote; a
  backslash would start an escape and a line break ends the line, so neither is accepted here.
\<close>

fun read_quoted :: "string \<Rightarrow> (string \<times> string) option" where
  "read_quoted [] = None"
| "read_quoted (c # cs) =
     (if c = CHR 0x27 then
        (case cs of
           [] \<Rightarrow> Some ([], [])
         | d # ds \<Rightarrow> if d = CHR 0x27 then map_option (apfst (Cons c)) (read_quoted ds) else Some ([], cs))
      else if c = CHR 0x5C \<or> c = CHR 0x0A then None
      else map_option (apfst (Cons c)) (read_quoted cs))"

definition read_line :: "string \<Rightarrow> (string \<times> string) option" where
  "read_line l =
     (let k = takeWhile (\<lambda>c. c \<noteq> CHR '' '') l; r = dropWhile (\<lambda>c. c \<noteq> CHR '' '') l in
      if has_prefix ('' = '' @ [CHR 0x27]) r
      then (case read_quoted (drop 4 r) of Some (v, []) \<Rightarrow> Some (k, v) | _ \<Rightarrow> None)
      else None)"

definition read_conf :: "string \<Rightarrow> (string \<times> string) list option" where
  "read_conf s = those (map read_line (butlast (str_split (CHR 0x0A) s)))"

lemma read_quoted_escape:
  "CHR 0x5C \<notin> set v \<Longrightarrow> CHR 0x0A \<notin> set v \<Longrightarrow>
   read_quoted (escapeParameterQuotes v @ [CHR 0x27]) = Some (v, [])"
  by (induction v) (auto simp: escapeParameterQuotes_def replace_char_def)

definition plain_setting :: "string \<times> string \<Rightarrow> bool" where
  "plain_setting kv \<longleftrightarrow> CHR '' '' \<notin> set (fst kv) \<and> CHR 0x0A \<notin> set (fst kv) \<and>
     CHR 0x5C \<notin> set (snd kv) \<and> CHR 0x0A \<notin> set (snd kv)"

lemma takeWhile_neq_all: "c \<notin> set xs \<Longrightarrow> takeWhile (\<lambda>x. x \<noteq> c) (xs @ c # ys) = xs"
  by (induction xs) auto

lemma dropWhile_neq_all: "c \<notin> set xs \<Longrightarrow> dropWhile (\<lambda>x. x \<noteq> c) (xs @ c # ys) = c # ys"
  by (induction xs) auto

lemma read_parameter_line:
  assumes "plain_setting (k, v)"
  shows "read_line (k @ '' = '' @ [CHR 0x27] @ escapeParameterQuotes v @ [CHR 0x27]) = Some (k, v)"
  using assms
  by (simp add: read_line_def plain_setting_def takeWhile_neq_all dropWhile_neq_all read_quoted_escape)

lemma escape_no_newline: "CHR 0x0A \<notin> set v \<Longrightarrow> CHR 0x0A \<notin> set (escapeParameterQuotes v)"
  by (auto simp: escapeParameterQuotes_def replace_char_def split: if_splits)

lemma split_parameter_line:
  assumes "plain_setting (k, v)"
  shows "str_split (CHR 0x0A) (parameter_line k v @ s) =
    (k @ '' = '' @ [CHR 0x27] @ escapeParameterQuotes v @ [CHR 0x27]) # str_split (CHR 0x0A) s"
proof -
  have "CHR 0x0A \<notin> set (k @ '' = '' @ [CHR 0x27] @ escapeParameterQuotes v @ [CHR 0x27])"
    using assms by (simp add: plain_setting_def escape_no_newline)
  from str_split_append [OF this, of s] show ?thesis by (simp add: parameter_line_def)
qed

lemma read_conf_Nil [simp]: "read_conf [] = Some []"
  by (simp add: read_conf_def)

lemma read_conf_Cons:
  "plain_setting (k, v) \<Longrightarrow>
   read_conf (parameter_line k v @ s) = map_option (Cons (k, v)) (read_conf s)"
  by (simp add: read_conf_def split_parameter_line read_parameter_line [simplified] del: append_assoc)

lemma read_conf_lines:
  "(\<And>k. k \<in> set ks \<Longrightarrow> plain_setting (k, f k)) \<Longrightarrow>
   read_conf (concat (map (\<lambda>k. parameter_line k (f k)) ks)) = Some (map (\<lambda>k. (k, f k)) ks)"
  by (induction ks) (simp_all add: read_conf_Cons)



section \<open>Reading \<open>pg_hba.conf\<close>\<close>

text \<open>
  PostgreSQL's reader of a line. Fields are separated by blanks, the tokens of a field by
  commas; a token that starts with a quote is not a keyword, a doubled quote stands for itself
  and \<open>#\<close> starts a comment. The arguments are the reader's flags (inside quotes, the
  last character closed a quote, the token began with a quote), the token so far in reverse and
  the field's tokens in reverse.
\<close>

type_synonym hba_token = "bool \<times> string"

definition end_token :: "bool \<Rightarrow> string \<Rightarrow> hba_token list \<Rightarrow> hba_token list" where
  "end_token iq buf toks = (if buf = [] \<and> \<not> iq then toks else (iq, rev buf) # toks)"

definition end_field :: "hba_token list \<Rightarrow> hba_token list list \<Rightarrow> hba_token list list" where
  "end_field toks fs = (if toks = [] then fs else rev toks # fs)"

fun scan :: "bool \<Rightarrow> bool \<Rightarrow> bool \<Rightarrow> string \<Rightarrow> hba_token list \<Rightarrow> string \<Rightarrow> hba_token list list" where
  "scan inq wq iq buf toks [] = end_field (end_token iq buf toks) []"
| "scan inq wq iq buf toks (c # cs) =
     (if \<not> inq \<and> is_space c then
        (if buf = [] \<and> \<not> iq then scan False False False [] toks cs
         else end_field (end_token iq buf toks) (scan False False False [] [] cs))
      else if \<not> inq \<and> c = CHR '','' then scan False False False [] (end_token iq buf toks) cs
      else if \<not> inq \<and> c = CHR ''#'' then end_field (end_token iq buf toks) []
      else let buf' = (if c \<noteq> CHR 0x22 \<or> wq then c # buf else buf) in
        scan (if c = CHR 0x22 then \<not> inq else inq)
             (inq \<and> c = CHR 0x22 \<and> \<not> wq)
             (iq \<or> c = CHR 0x22 \<and> buf' = []) buf' toks cs)"

definition hba_fields :: "string \<Rightarrow> hba_token list list" where
  "hba_fields line = scan False False False [] [] line"

lemma not_space [simp]: "\<not> is_space (CHR 0x22)" "\<not> is_space (CHR '','')"
  by (simp_all add: is_space_def)

lemma scan_escaped:
  "scan True False True buf toks (replace_char (CHR 0x22) [CHR 0x22, CHR 0x22] v @ CHR 0x22 # rest) =
   scan False True True (rev v @ buf) toks rest"
  by (induction v arbitrary: buf) (auto simp: replace_char_def Let_def)

lemma scan_quote:
  "scan False False False [] toks (hba_quote v @ rest) = scan False True True (rev v) toks rest"
  by (simp add: hba_quote_def Let_def scan_escaped [simplified])

lemma scan_quotes:
  "scan False False False [] toks (foldl (\<lambda>d n. d @ '','' @ hba_quote (f n)) (hba_quote v) ns) =
   [rev toks @ (True, v) # map (\<lambda>n. (True, f n)) ns]"
proof (induction ns arbitrary: toks v)
  case Nil
  show ?case using scan_quote [of toks v "[]"] by (simp add: end_token_def end_field_def)
next
  case (Cons n ns)
  have shift: "foldl (\<lambda>d n. d @ '','' @ hba_quote (f n)) (hba_quote v @ '','' @ hba_quote (f n)) ns =
      hba_quote v @ '','' @ foldl (\<lambda>d n. d @ '','' @ hba_quote (f n)) (hba_quote (f n)) ns"
    by (induction ns rule: rev_induct) simp_all
  have "scan False False False [] toks (hba_quote v @ CHR '','' # rest) =
      scan False False False [] ((True, v) # toks) rest" for rest
    by (simp add: scan_quote end_token_def)
  then show ?case
    using Cons.IH [of "(True, v) # toks" "f n"] by (simp add: shift [simplified])
qed

text \<open>
  A regular expression made of plain characters and one character brackets, anchored at both
  ends, matches exactly one string. In a bracket \<open>^\<close> negates and a backslash escapes, so
  neither can stand there alone.
\<close>

fun bracket_text :: "string \<Rightarrow> string option" where
  "bracket_text [] = Some []"
| "bracket_text (c # cs) =
     (if c = CHR ''['' then
        (case cs of
           d # e # ds \<Rightarrow> if e = CHR '']'' \<and> d \<noteq> CHR ''^'' \<and> d \<noteq> CHR 0x5C
              then map_option (Cons d) (bracket_text ds) else None
         | _ \<Rightarrow> None)
      else if hbaRegexSpecial c then None else map_option (Cons c) (bracket_text cs))"

definition exact_match :: "string \<Rightarrow> string option" where
  "exact_match re =
     (if has_prefix ''/^'' re \<and> last re = CHR ''$'' then bracket_text (butlast (drop 2 re)) else None)"

text \<open>The name a quoted token stands for: itself, or what its regular expression matches.\<close>

definition token_name :: "string \<Rightarrow> string option" where
  "token_name t = (if has_prefix ''/'' t then exact_match t else Some t)"

lemma bracket_text_exact:
  "bracket_text (exact_regex s) = (if CHR ''^'' \<in> set s \<or> CHR 0x5C \<in> set s then None else Some s)"
proof (induction s)
  case (Cons c s)
  have "hbaRegexSpecial (CHR ''['')" "hbaRegexSpecial (CHR ''^'')" "hbaRegexSpecial (CHR 0x5C)"
    by code_simp+
  then show ?case using Cons by (auto simp: exact_regex_def)
qed (simp add: exact_regex_def)

lemma token_name_slash:
  "token_name (slash_name n) =
     (if has_prefix ''/'' n \<and> (CHR ''^'' \<in> set n \<or> CHR 0x5C \<in> set n) then None else Some n)"
  by (cases n) (auto simp: token_name_def slash_name_def exact_match_def bracket_text_exact butlast_append)

text \<open>
  The database and user names of a rule reach PostgreSQL as they were given: reading the
  field that \<open>Databases\<close> or \<open>Users\<close> wrote gives one quoted token per name, never
  a keyword, and each token stands for exactly its name, commas, quotes, blanks and leading
  slashes included. The one exception is a name that begins with a slash and contains
  \<open>^\<close> or a backslash: the bracket written for that character is not a regular
  expression that matches it.
\<close>

theorem hba_names_read_back:
  "hba_fields (hba_database (Databases d ds hba)) = [map (\<lambda>n. (True, slash_name n)) (d # ds)] \<and>
   hba_fields (hba_user (Users d ds hba)) = [map (\<lambda>n. (True, slash_name n)) (d # ds)] \<and>
   token_name (slash_name n) =
     (if has_prefix ''/'' n \<and> (CHR ''^'' \<in> set n \<or> CHR 0x5C \<in> set n) then None else Some n)"
  using scan_quotes [of "[]" slash_name]
  by (simp add: hba_fields_def Databases_def Users_def quoteDatabase_def quoteUser_def token_name_slash)

section \<open>The first matching rule\<close>

text \<open>
  A connection attempt, with what PostgreSQL asks about it: whether its address lies in the
  network a rule names, whether its user is in a role, whether a name matches a regular
  expression. A line that cannot be read matches nothing.
\<close>

record connection =
  c_local :: bool
  c_tls :: bool
  c_gss :: bool
  c_replication :: bool
  c_database :: string
  c_user :: string
  c_net :: "string \<Rightarrow> bool"
  c_role :: "string \<Rightarrow> bool"
  c_regex :: "string \<Rightarrow> string \<Rightarrow> bool"

definition origin_matches :: "connection \<Rightarrow> string \<Rightarrow> bool" where
  "origin_matches c t \<longleftrightarrow>
     (if t = ''local'' then c_local c
      else \<not> c_local c \<and>
        (t = ''host'' \<or> t = ''hostssl'' \<and> c_tls c \<or> t = ''hostnossl'' \<and> \<not> c_tls c \<or>
         t = ''hostgssenc'' \<and> c_gss c \<or> t = ''hostnogssenc'' \<and> \<not> c_gss c))"

fun name_matches :: "(string \<Rightarrow> string \<Rightarrow> bool) \<Rightarrow> string \<Rightarrow> string \<Rightarrow> bool" where
  "name_matches rx name t = (if has_prefix ''/'' t then rx (tl t) name else t = name)"

definition database_matches :: "connection \<Rightarrow> hba_token \<Rightarrow> bool" where
  "database_matches c tok = (case tok of (quoted, t) \<Rightarrow>
     if c_replication c then \<not> quoted \<and> t = ''replication''
     else if \<not> quoted \<and> t = ''all'' then True
     else if \<not> quoted \<and> t = ''sameuser'' then c_database c = c_user c
     else if \<not> quoted \<and> (t = ''samerole'' \<or> t = ''samegroup'') then c_role c (c_database c)
     else if \<not> quoted \<and> t = ''replication'' then False
     else name_matches (c_regex c) (c_database c) t)"

definition user_matches :: "connection \<Rightarrow> hba_token \<Rightarrow> bool" where
  "user_matches c tok = (case tok of (quoted, t) \<Rightarrow>
     if \<not> quoted \<and> has_prefix ''+'' t then c_role c (tl t)
     else if \<not> quoted \<and> t = ''all'' then True
     else name_matches (c_regex c) (c_user c) t)"

definition address_matches :: "connection \<Rightarrow> hba_token \<Rightarrow> bool" where
  "address_matches c tok = (case tok of (quoted, t) \<Rightarrow> \<not> quoted \<and> t = ''all'' \<or> c_net c t)"

definition fields_verdict :: "connection \<Rightarrow> hba_token list list \<Rightarrow> string option" where
  "fields_verdict c fs =
     (case fs of
        [(_, t)] # dbs # users # rest \<Rightarrow>
          if \<not> (origin_matches c t \<and> (\<exists>d \<in> set dbs. database_matches c d) \<and>
                (\<exists>u \<in> set users. user_matches c u)) then None
          else if t = ''local''
          then (case rest of [(_, m)] # _ \<Rightarrow> Some m | _ \<Rightarrow> None)
          else (case rest of [a] # [(_, m)] # _ \<Rightarrow> if address_matches c a then Some m else None | _ \<Rightarrow> None)
      | _ \<Rightarrow> None)"

definition or_else :: "'b option \<Rightarrow> 'b option \<Rightarrow> 'b option" where
  "or_else x y = (case x of None \<Rightarrow> y | Some m \<Rightarrow> Some m)"

lemma or_else_simps [simp]: "or_else None y = y" "or_else (Some m) y = Some m"
  by (simp_all add: or_else_def)

fun first_fields :: "connection \<Rightarrow> hba_token list list list \<Rightarrow> string option" where
  "first_fields c [] = None"
| "first_fields c (f # fs) = or_else (fields_verdict c f) (first_fields c fs)"

definition first_match :: "connection \<Rightarrow> string list \<Rightarrow> string option" where
  "first_match c ls = first_fields c (map hba_fields ls)"

lemma first_fields_append:
  "first_fields c (xs @ ys) = or_else (first_fields c xs) (first_fields c ys)"
  by (induction xs) (auto simp: or_else_def split: option.splits)

lemma first_match_append:
  "first_match c (xs @ ys) = or_else (first_match c xs) (first_match c ys)"
  by (simp only: first_match_def map_append first_fields_append)

lemma first_match_hbas: "first_match c (map hba_String hs) = first_fields c (map (hba_fields \<circ> hba_String) hs)"
  by (simp add: first_match_def)

lemmas verdict_defs = fields_verdict_def origin_matches_def database_matches_def user_matches_def
  address_matches_def

end
