(* ===== verification/Cluster_Settings.thy ===== *)
theory Cluster_Settings
  imports Postgres_Config Naming "HOL-Library.Signed_Division"
begin

text \<open>
  The settings of one cluster as the reconciler of \<open>PostgresCluster\<close> puts them together
  (\<open>internal/controller/postgrescluster/controller.go\<close>): the rules of
  \<open>pg_hba.conf\<close> from \<open>internal/pmm\<close>, \<open>pgmonitor\<close>, \<open>pgbouncer\<close>
  and \<open>logicalreplica\<close>, and the parameters from the extensions, pgBackRest
  (\<open>internal/pgbackrest/postgres.go\<close>) and huge pages. The version library
  (\<open>gover\<close>) and the condition lookup of apimachinery are arguments.
\<close>

section \<open>The cluster\<close>

type_synonym int32 = "32 word"

record PatroniSpec =
  PatroniDynamicConfiguration :: "(string \<Rightarrow> json option) option"
  LeaderLeaseDurationSeconds :: "int32 option"
  PatroniPort :: "int32 option"
  SyncPeriodSeconds :: "int32 option"
  CreateReplicaMethods :: "string list"
  RemoveDataDirectoryOnDivergedTimelines :: bool

record StandbySpec =
  StandbyEnabled :: bool
  StandbyRepoName :: string
  StandbyHost :: string
  StandbyPort :: "int32 option"

datatype IntOrString = IntVal int32 | StrVal string

record PostgresHBARule =
  RuleConnection :: string
  RuleMethod :: string
  RuleDatabases :: "string list"
  RuleUsers :: "string list"
  RuleOptions :: "(string \<times> IntOrString) list"

record AuthenticationRule =
  RuleStructured :: PostgresHBARule
  RuleHBA :: string

record ExtensionsSpec =
  ExtPGStatMonitor :: bool
  ExtPGAudit :: bool
  ExtPGStatStatements :: bool
  ExtPGCron :: bool
  ExtSetUser :: bool
  PGTDE_Enabled :: bool
  PGTDE_WALEncryption :: bool

record InitContainerSpec =
  InitImage :: string
  InitResources :: "opaque option"
  InitSecurityContext :: "opaque option"

record InstanceSetSpec =
  InstanceName :: string
  InstanceInitContainer :: "InitContainerSpec option"
  ResourceLimits :: "(string \<times> int) list"
  WALVolumeClaimSpec :: "opaque option"
  InstanceReplicas :: "int32 option"
  InstanceMinAvailable :: "IntOrString option"
  InstanceLabels :: strmap
  InstanceAnnotations :: strmap
  InstanceAffinity :: "opaque option"
  InstanceTolerations :: "opaque list"
  InstanceSpread :: "opaque list"
  InstancePriorityClass :: "string option"
  InstanceSecurityContext :: "opaque option"
  DataVolumeLimit :: int \<comment> \<open>the storage limit of the data volume claim\<close>

text \<open>The status of a pgBackRest repository.\<close>

record RepoStatus =
  RepoStatusName :: string
  RepoBound :: bool
  RepoVolumeName :: string
  DesiredRepoVolume :: string
  StanzaCreated :: bool
  ReplicaCreateBackupComplete :: bool
  RepoOptionsHash :: string

text \<open>
  The parts of the specification and the status that decide the settings. A chain of pointers
  that is only followed, as in \<open>Spec.Monitoring.PGMonitor.Exporter\<close>, is a nested
  option; \<open>cs_Proxy\<close> ends in PgBouncer's replicas, \<open>cs_DataVolume\<close> in the
  directory of the data source's volume. \<open>cs_RepoStatus\<close> lists the repositories of
  \<open>Status.PGBackRest\<close>, if any.
\<close>

record PGCluster = PostgresCluster +
  cs_Patroni :: "PatroniSpec option"
  cs_SystemIdentifier :: string
  cs_Standby :: "StandbySpec option"
  cs_AuthRules :: "AuthenticationRule list option"
  cs_PostgresVersion :: int
  cs_Port :: "int32 option"
  cs_LogicalReplicas :: "string list"
  cs_Extensions :: ExtensionsSpec
  cs_TLSOnly :: bool
  cs_Monitoring :: "opaque option option option"
  cs_Proxy :: "int32 option option option"
  cs_MetadataLabels :: strmap
  cs_TrackLatestRestorableTime :: "bool option"
  cs_Conditions :: "Condition list"
  cs_InstanceSets :: "InstanceSetSpec list"
  cs_DataVolume :: "string option option option"
  cs_InitContainer :: "InitContainerSpec option"
  cs_ImagePullPolicy :: string
  cs_RepoStatus :: "RepoStatus list"

definition LabelVersion :: string where
  "LabelVersion = ''pgv2.percona.com/version''"

text \<open>\<open>gover a b\<close> compares two versions, or is the error of reading \<open>a\<close>.\<close>

type_synonym gover = "string \<Rightarrow> string \<Rightarrow> error + int"

definition CompareVersion :: "gover \<Rightarrow> 'a PGCluster_scheme \<Rightarrow> string \<Rightarrow> int" where
  "CompareVersion gv cr ver =
     (case gv (str_at (Labels (cc_meta cr)) LabelVersion) ver of Inl _ \<Rightarrow> -2 | Inr c \<Rightarrow> c)"

definition AnnotationPatroniVersion :: string where
  "AnnotationPatroniVersion = PrefixPerconaPGV2 @ ''patroni-version''"

definition IsPatroniVer4 :: "gover \<Rightarrow> 'a PGCluster_scheme \<Rightarrow> error + bool" where
  "IsPatroniVer4 gv cr =
     (case Annotations (cc_meta cr) (ToCrunchyAnnotation AnnotationPatroniVersion) of
        None \<Rightarrow> if CompareVersion gv cr ''2.7.0'' \<ge> 0 then Inr True
                else Inl (Errorf ''patroni version annotation was not found'')
      | Some patroniVerStr \<Rightarrow>
          (case gv patroniVerStr ''4.0.0'' of
             Inl err \<Rightarrow> Inl (Wrap ''failed to get patroni ver'' err)
           | Inr c \<Rightarrow> Inr (c \<ge> 0)))"

definition IsStandby :: "'a PGCluster_scheme \<Rightarrow> bool" where
  "IsStandby cr = (case cs_Standby cr of None \<Rightarrow> False | Some s \<Rightarrow> StandbyEnabled s)"

definition PGBouncerEnabled :: "int32 option option option \<Rightarrow> bool" where
  "PGBouncerEnabled proxy =
     (case proxy of Some (Some replicas) \<Rightarrow> replicas = None \<or> replicas \<noteq> Some 0 | _ \<Rightarrow> False)"

definition ExporterEnabled :: "'a PGCluster_scheme \<Rightarrow> bool" where
  "ExporterEnabled cluster = (case cs_Monitoring cluster of Some (Some (Some _)) \<Rightarrow> True | _ \<Rightarrow> False)"

definition logicalreplica_Enabled :: "'a PGCluster_scheme \<Rightarrow> bool" where
  "logicalreplica_Enabled inCluster = (cs_LogicalReplicas inCluster \<noteq> [])"

section \<open>Rules of \<open>pg_hba.conf\<close>\<close>

definition append_mandatory :: "HostBasedAuthentication list \<Rightarrow> HBAs \<Rightarrow> HBAs" where
  "append_mandatory hs out = out\<lparr>HbaMandatory := HbaMandatory out @ hs\<rparr>"

text \<open>The three rules that limit a monitoring user to local connections.\<close>

definition monitoring_rules :: "string \<Rightarrow> HostBasedAuthentication list" where
  "monitoring_rules u =
     [Network ''127.0.0.0/8'' (Method ''scram-sha-256'' (Users u [] (TCP NewHBA))),
      Network ''::1/128'' (Method ''scram-sha-256'' (Users u [] (TCP NewHBA))),
      Method ''reject'' (Users u [] (TCP NewHBA))]"

definition pmm_MonitoringUser :: string where
  "pmm_MonitoringUser = ''monitor''"

definition pmm_PostgreSQLHBAs :: "HBAs \<Rightarrow> HBAs" where
  "pmm_PostgreSQLHBAs outHBAs = append_mandatory (monitoring_rules pmm_MonitoringUser) outHBAs"

definition MonitoringUser :: string where
  "MonitoringUser = ''ccp_monitoring''"

definition pgmonitor_PostgreSQLHBAs :: "'a PGCluster_scheme \<Rightarrow> HBAs \<Rightarrow> HBAs" where
  "pgmonitor_PostgreSQLHBAs inCluster outHBAs =
     (if ExporterEnabled inCluster then append_mandatory (monitoring_rules MonitoringUser) outHBAs
      else outHBAs)"

definition postgresqlUser :: string where
  "postgresqlUser = ''_crunchypgbouncer''"

definition postgresqlHBAs :: "HostBasedAuthentication list" where
  "postgresqlHBAs =
     [Method ''scram-sha-256'' (TLS (Users postgresqlUser [] NewHBA)),
      Method ''reject'' (TCP (Users postgresqlUser [] NewHBA))]"

definition pgbouncer_PostgreSQL :: "'a PGCluster_scheme \<Rightarrow> HBAs \<Rightarrow> HBAs" where
  "pgbouncer_PostgreSQL inCluster outHBAs =
     (if \<not> PGBouncerEnabled (cs_Proxy inCluster) then outHBAs
      else append_mandatory postgresqlHBAs outHBAs)"

definition lr_ReplicationUser :: string where
  "lr_ReplicationUser = ''logicalrepl''"

definition hbaAuthMethod :: string where
  "hbaAuthMethod = ''scram-sha-256''"

definition logicalreplica_PostgreSQLHBAs :: "'a PGCluster_scheme \<Rightarrow> HBAs \<Rightarrow> HBAs" where
  "logicalreplica_PostgreSQLHBAs inCluster outHBAs =
     (if \<not> logicalreplica_Enabled inCluster then outHBAs
      else append_mandatory
        [Replication (Method hbaAuthMethod (Users lr_ReplicationUser [] (TLS NewHBA))),
         Method hbaAuthMethod (Users lr_ReplicationUser [] (TLS NewHBA)),
         Method ''reject'' (Users lr_ReplicationUser [] (TCP NewHBA))] outHBAs)"

definition cluster_HBAs :: "'a PGCluster_scheme \<Rightarrow> HBAs" where
  "cluster_HBAs cluster =
     (let pgHBAs = logicalreplica_PostgreSQLHBAs cluster (pgbouncer_PostgreSQL cluster
            (pgmonitor_PostgreSQLHBAs cluster (pmm_PostgreSQLHBAs NewHBAs)))
      in if cs_TLSOnly cluster
         then pgHBAs\<lparr>HbaMandatory := map hba_TLSOnly (HbaMandatory pgHBAs),
                    HbaDefault := map hba_TLSOnly (HbaDefault pgHBAs)\<rparr>
         else pgHBAs)"

section \<open>Parameters\<close>

text \<open>
  Both sets of \<^typ>\<open>Parameters\<close> exist, as \<open>NewParameters\<close> makes them; the nil checks
  of \<open>pgbackrest.PostgreSQL\<close> find nothing to do.
\<close>

definition shared_preload :: string where
  "shared_preload = ''shared_preload_libraries''"

definition pgstatstatements_PostgreSQLParameters :: "Parameters \<Rightarrow> Parameters" where
  "pgstatstatements_PostgreSQLParameters =
     add_mandatory ''pg_stat_statements.track'' ''all'' \<circ> append_list shared_preload [''pg_stat_statements'']"

definition pgstatmonitor_PostgreSQLParameters :: "Parameters \<Rightarrow> Parameters" where
  "pgstatmonitor_PostgreSQLParameters =
     add_mandatory ''pg_stat_monitor.pgsm_query_max_len'' ''2048'' \<circ>
     add_mandatory ''pg_stat_monitor.pgsm_enable_overflow'' ''off'' \<circ>
     append_list shared_preload [''pg_stat_monitor'']"

definition pgaudit_PostgreSQLParameters :: "Parameters \<Rightarrow> Parameters" where
  "pgaudit_PostgreSQLParameters = append_list shared_preload [''pgaudit'']"

definition pgcron_PostgreSQLParameters :: "Parameters \<Rightarrow> Parameters" where
  "pgcron_PostgreSQLParameters =
     add_mandatory ''cron.database_name'' ''postgres'' \<circ> append_list shared_preload [''pg_cron'']"

definition setuser_PostgreSQLParameters :: "Parameters \<Rightarrow> Parameters" where
  "setuser_PostgreSQLParameters = append_list shared_preload [''set_user'']"

definition PGTDEEnabled :: string where
  "PGTDEEnabled = ''PGTDEEnabled''"

definition PGTDEVaultProviderReady :: string where
  "PGTDEVaultProviderReady = ''PGTDEVaultProviderReady''"

text \<open>\<open>isc\<close> is apimachinery's \<open>IsStatusConditionPresentAndEqual\<close>.\<close>

type_synonym cond_fn = "Condition list \<Rightarrow> string \<Rightarrow> ConditionStatus \<Rightarrow> bool"

definition pgtde_PostgreSQLParameters :: "cond_fn \<Rightarrow> 'a PGCluster_scheme \<Rightarrow> Parameters \<Rightarrow> Parameters" where
  "pgtde_PostgreSQLParameters isc cluster outParameters =
     (let ps = append_list shared_preload [''pg_tde''] outParameters;
          can = (isc (cs_Conditions cluster) PGTDEEnabled ConditionTrue \<and>
                 isc (cs_Conditions cluster) PGTDEVaultProviderReady ConditionTrue);
          can = (if IsStandby cluster then \<not> isc (cs_Conditions cluster) PGTDEEnabled ConditionFalse else can)
      in if PGTDE_WALEncryption (cs_Extensions cluster) \<and> can
         then add_mandatory ''pg_tde.wal_encrypt'' ''on'' ps
         else add_mandatory ''pg_tde.wal_encrypt'' ''off'' ps)"

definition downwardAPIPath :: string where
  "downwardAPIPath = ''/etc/database-containerinfo''"

definition pgmonitor_PostgreSQLParameters :: "'a PGCluster_scheme \<Rightarrow> Parameters \<Rightarrow> Parameters" where
  "pgmonitor_PostgreSQLParameters inCluster outParameters =
     (if ExporterEnabled inCluster
      then add_mandatory ''pgnodemx.kdapi_path'' downwardAPIPath
        (append_list shared_preload [''pg_stat_statements'', ''pgnodemx''] outParameters)
      else outParameters)"

definition huge_pages_of :: "string \<Rightarrow> 'a PGCluster_scheme \<Rightarrow> bool" where
  "huge_pages_of name cluster =
     list_ex (\<lambda>instance. list_ex (\<lambda>(k, v). k = name \<and> v > 0) (ResourceLimits instance)) (cs_InstanceSets cluster)"

definition HugePages2MiRequested :: "'a PGCluster_scheme \<Rightarrow> bool" where
  "HugePages2MiRequested cluster = huge_pages_of ''hugepages-2Mi'' cluster"

definition HugePages1GiRequested :: "'a PGCluster_scheme \<Rightarrow> bool" where
  "HugePages1GiRequested cluster = huge_pages_of ''hugepages-1Gi'' cluster"

definition HugePagesRequested :: "'a PGCluster_scheme \<Rightarrow> bool" where
  "HugePagesRequested cluster = (HugePages2MiRequested cluster \<or> HugePages1GiRequested cluster)"

definition SetHugePages :: "'a PGCluster_scheme \<Rightarrow> Parameters \<Rightarrow> Parameters" where
  "SetHugePages cluster pgParameters =
     (if HugePagesRequested cluster then add_default ''huge_pages'' ''try'' pgParameters
      else add_default ''huge_pages'' ''off'' pgParameters)"

subsection \<open>pgBackRest\<close>

abbreviation (input) bs :: string where
  "bs \<equiv> [CHR 0x5C]"

definition DefaultStanzaName :: string where
  "DefaultStanzaName = ''db''"

definition fixTimezone :: string where
  \<open>fixTimezone = ''sed -E "s/([0-9]{4}-[0-9]{2}-[0-9]{2}) ([0-9]{2}:[0-9]{2}:[0-9]{2}'' @ bs @
     ''.[0-9]{6}) (UTC|['' @ bs @ bs @ ''+'' @ bs @ bs @ ''-][0-9]{2})/'' @ bs @ ''1T'' @ bs @ ''2'' @ bs @
     ''3/" | sed "s/UTC/Z/"''\<close>

definition extractCommitTime :: string where
  \<open>extractCommitTime = ''grep -oP "COMMIT '' @ bs @ ''K[^;]+" | '' @ fixTimezone\<close>

definition validateCommitTime :: string where
  \<open>validateCommitTime = ''grep -E "^[0-9]{4}-[0-9]{2}-[0-9]{2}T[0-9]{2}:[0-9]{2}:[0-9]{2}'' @ bs @
     ''.[0-9]{6}(Z|['' @ bs @ ''+'' @ bs @ ''-][0-9]{2})$"''\<close>

definition updateCommandRestorableTime :: "bool \<Rightarrow> string \<Rightarrow> string" where
  \<open>updateCommandRestorableTime walEncryption archive =
     (let waldump = (if walEncryption then ''pg_tde_waldump -k $PGDATA/pg_tde'' else ''pg_waldump'')
      in archive @ '' && timestamp=$('' @ waldump @ '' -r Transaction "%p" | '' @ extractCommitTime @
         '' | tail -n 1 | '' @ validateCommitTime @ '');'' @
         '' if [ ! -z ${timestamp} ]; then echo ${timestamp} > /pgdata/latest_commit_timestamp.txt; fi'')\<close>

definition WALEncryptRestoreCommand :: "string \<Rightarrow> string" where
  \<open>WALEncryptRestoreCommand repoOption =
     ''pg_tde_restore_encrypt %f %p "pgbackrest --stanza='' @ DefaultStanzaName @
     '' archive-get %%f '' @ bs @ ''"%%p'' @ bs @ ''"'' @ repoOption @ ''"''\<close>

definition archive_push :: "bool \<Rightarrow> string" where
  \<open>archive_push walEncryption =
     (if walEncryption
      then ''pg_tde_archive_decrypt %f %p "pgbackrest --stanza='' @ DefaultStanzaName @ '' archive-push %%p"''
      else ''pgbackrest --stanza='' @ DefaultStanzaName @ '' archive-push "%p"'')\<close>

definition archiveGet :: "bool \<Rightarrow> string \<Rightarrow> string" where
  \<open>archiveGet walEncryption repoOption =
     (if walEncryption then WALEncryptRestoreCommand repoOption
      else ''pgbackrest --stanza='' @ DefaultStanzaName @ '' archive-get %f "%p"'' @ repoOption)\<close>

definition wrap_restore :: "gover \<Rightarrow> 'a PGCluster_scheme \<Rightarrow> string \<Rightarrow> string" where
  "wrap_restore gv inCluster command =
     (if CompareVersion gv inCluster ''2.9.0'' \<ge> 0
      then ''/opt/crunchy/bin/restore-command-wrapper.sh '' @ command else command)"

text \<open>The \<open>restore_command\<close> of the user's dynamic configuration, if it is a string.\<close>

definition user_restore_command :: "'a PGCluster_scheme \<Rightarrow> string option" where
  "user_restore_command inCluster =
     (case Option.bind (cs_Patroni inCluster) PatroniDynamicConfiguration of
        None \<Rightarrow> None
      | Some dc \<Rightarrow>
          (case as_object (dc ''postgresql'') of
             None \<Rightarrow> None
           | Some postgresql \<Rightarrow>
               (case as_object (postgresql ''parameters'') of
                  None \<Rightarrow> None
                | Some params \<Rightarrow> as_string (params ''restore_command''))))"

definition pgbackrest_PostgreSQL ::
    "gover \<Rightarrow> 'a PGCluster_scheme \<Rightarrow> bool \<Rightarrow> Parameters \<Rightarrow> Parameters" where
  "pgbackrest_PostgreSQL gv inCluster backupsEnabled outParameters =
     (let walEncryption = PGTDE_WALEncryption (cs_Extensions inCluster);
          archive = archive_push walEncryption;
          (archive, ps) =
            (if CompareVersion gv inCluster ''2.8.0'' \<ge> 0
             then if cs_TrackLatestRestorableTime inCluster = Some True
                  then (updateCommandRestorableTime walEncryption archive,
                        add_mandatory ''track_commit_timestamp'' ''true'' outParameters)
                  else (archive, outParameters)
             else (updateCommandRestorableTime walEncryption archive, outParameters));
          ps = add_mandatory ''archive_mode'' ''on'' ps;
          ps = (if backupsEnabled then add_mandatory ''archive_command'' archive ps
                else add_mandatory ''archive_command'' ''true'' ps);
          ps = (if CompareVersion gv inCluster ''2.8.0'' < 0
                then add_mandatory ''track_commit_timestamp'' ''true'' ps else ps);
          ps = add_default ''archive_timeout'' ''60s'' ps;
          restore = wrap_restore gv inCluster (archiveGet walEncryption []);
          (restore, restoreOverridden) =
            (case user_restore_command inCluster of None \<Rightarrow> (restore, False) | Some c \<Rightarrow> (c, True));
          ps = (if backupsEnabled \<or> restoreOverridden
                then add_mandatory ''restore_command'' restore ps else ps)
      in case cs_Standby inCluster of
           None \<Rightarrow> ps
         | Some sb \<Rightarrow>
             if StandbyEnabled sb \<and> StandbyRepoName sb \<noteq> []
             then let repoOption = '' --repo='' @ trim_prefix ''repo'' (StandbyRepoName sb);
                      restore = (if restoreOverridden then restore @ repoOption
                                 else wrap_restore gv inCluster (archiveGet walEncryption repoOption))
                  in add_mandatory ''restore_command'' restore ps
             else ps)"

subsection \<open>All parameters of a cluster\<close>

abbreviation when_enabled :: "bool \<Rightarrow> ('a \<Rightarrow> 'a) \<Rightarrow> 'a \<Rightarrow> 'a" where
  "when_enabled b f x \<equiv> (if b then f x else x)"

definition cluster_Parameters ::
    "gover \<Rightarrow> cond_fn \<Rightarrow> 'a PGCluster_scheme \<Rightarrow> bool \<Rightarrow> Parameters" where
  "cluster_Parameters gv isc cluster backupsSpecFound =
     (let ext = cs_Extensions cluster;
          ps = NewParameters;
          ps = when_enabled (ExtPGStatStatements ext) pgstatstatements_PostgreSQLParameters ps;
          ps = when_enabled (ExtPGStatMonitor ext) pgstatmonitor_PostgreSQLParameters ps;
          ps = when_enabled (ExtPGAudit ext) pgaudit_PostgreSQLParameters ps;
          ps = when_enabled (ExtPGCron ext) pgcron_PostgreSQLParameters ps;
          ps = when_enabled (ExtSetUser ext) setuser_PostgreSQLParameters ps;
          ps = when_enabled (PGTDE_Enabled ext \<or> isc (cs_Conditions cluster) PGTDEEnabled ConditionTrue)
                 (pgtde_PostgreSQLParameters isc cluster) ps;
          ps = pgbackrest_PostgreSQL gv cluster backupsSpecFound ps;
          ps = pgmonitor_PostgreSQLParameters cluster ps
      in SetHugePages cluster ps)"

section \<open>Who may connect\<close>

text \<open>The fields of the rules of each component, as written and with \<open>TLSOnly\<close>.\<close>

definition rule_fields :: "string \<Rightarrow> hba_token \<Rightarrow> string \<Rightarrow> hba_token \<Rightarrow> string \<Rightarrow> hba_token list list" where
  "rule_fields t d u a m = [[(False, t)], [d], [(True, u)], [a], [(False, m)]]"

abbreviation any :: hba_token where
  "any \<equiv> (False, ''all'')"

abbreviation fields_of :: "HostBasedAuthentication list \<Rightarrow> hba_token list list list" where
  "fields_of \<equiv> map (hba_fields \<circ> hba_String)"

lemma operator_fields:
  "fields_of (HbaMandatory NewHBAs) =
     [[[(False, ''local'')], [any], [(True, ''postgres'')], [(False, ''peer'')]],
      rule_fields ''hostssl'' (False, ''replication'') ReplicationUser any ''cert'',
      rule_fields ''hostssl'' (True, ''postgres'') ReplicationUser any ''cert'',
      rule_fields ''host'' any ReplicationUser any ''reject'']"
  "fields_of (monitoring_rules pmm_MonitoringUser) =
     [rule_fields ''host'' any pmm_MonitoringUser (True, ''127.0.0.0/8'') ''scram-sha-256'',
      rule_fields ''host'' any pmm_MonitoringUser (True, ''::1/128'') ''scram-sha-256'',
      rule_fields ''host'' any pmm_MonitoringUser any ''reject'']"
  "fields_of (monitoring_rules MonitoringUser) =
     [rule_fields ''host'' any MonitoringUser (True, ''127.0.0.0/8'') ''scram-sha-256'',
      rule_fields ''host'' any MonitoringUser (True, ''::1/128'') ''scram-sha-256'',
      rule_fields ''host'' any MonitoringUser any ''reject'']"
  "fields_of postgresqlHBAs =
     [rule_fields ''hostssl'' any postgresqlUser any ''scram-sha-256'',
      rule_fields ''host'' any postgresqlUser any ''reject'']"
  "fields_of [Replication (Method hbaAuthMethod (Users lr_ReplicationUser [] (TLS NewHBA))),
         Method hbaAuthMethod (Users lr_ReplicationUser [] (TLS NewHBA)),
         Method ''reject'' (Users lr_ReplicationUser [] (TCP NewHBA))] =
     [rule_fields ''hostssl'' (False, ''replication'') lr_ReplicationUser any hbaAuthMethod,
      rule_fields ''hostssl'' any lr_ReplicationUser any hbaAuthMethod,
      rule_fields ''host'' any lr_ReplicationUser any ''reject'']"
  by code_simp+

lemma first_fields_rule:
  "first_fields c (rule_fields t d u a m # fs) =
     (if origin_matches c t \<and> t \<noteq> ''local'' \<and> database_matches c d \<and> user_matches c (True, u) \<and> address_matches c a
      then Some m else first_fields c fs)"
  if "t \<noteq> ''local''"
  using that by (simp add: rule_fields_def fields_verdict_def)

lemma user_matches_exact: "\<not> has_prefix ''/'' u \<Longrightarrow> user_matches c (True, u) \<longleftrightarrow> u = c_user c"
  by (simp add: user_matches_def)

definition component_rules :: "'a PGCluster_scheme \<Rightarrow> HostBasedAuthentication list" where
  "component_rules cluster =
     HbaMandatory NewHBAs @ monitoring_rules pmm_MonitoringUser @
     (if ExporterEnabled cluster then monitoring_rules MonitoringUser else []) @
     (if PGBouncerEnabled (cs_Proxy cluster) then postgresqlHBAs else []) @
     (if logicalreplica_Enabled cluster
      then [Replication (Method hbaAuthMethod (Users lr_ReplicationUser [] (TLS NewHBA))),
            Method hbaAuthMethod (Users lr_ReplicationUser [] (TLS NewHBA)),
            Method ''reject'' (Users lr_ReplicationUser [] (TCP NewHBA))] else [])"

lemma cluster_HBAs_mandatory:
  "HbaMandatory (cluster_HBAs cluster) =
     map (if cs_TLSOnly cluster then hba_TLSOnly else id) (component_rules cluster)"
  by (simp add: cluster_HBAs_def component_rules_def append_mandatory_def pmm_PostgreSQLHBAs_def
      pgmonitor_PostgreSQLHBAs_def pgbouncer_PostgreSQL_def logicalreplica_PostgreSQLHBAs_def Let_def)

lemmas service_users = ReplicationUser_def pmm_MonitoringUser_def MonitoringUser_def postgresqlUser_def
  lr_ReplicationUser_def

text \<open>Each group of rules decides the connections of its own user only.\<close>

lemma first_fields_operator:
  "first_fields c (fields_of (HbaMandatory NewHBAs)) =
     (if c_local c then (if c_user c = ''postgres'' \<and> \<not> c_replication c then Some ''peer'' else None)
      else if c_user c \<noteq> ReplicationUser then None
      else if c_tls c \<and> (c_replication c \<or> c_database c = ''postgres'') then Some ''cert''
      else if c_replication c then None else Some ''reject'')"
  unfolding operator_fields
  by (auto simp: rule_fields_def verdict_defs ReplicationUser_def)

definition loopback :: "connection \<Rightarrow> bool" where
  "loopback c \<longleftrightarrow> c_net c ''127.0.0.0/8'' \<or> c_net c ''::1/128''"

lemma first_fields_monitoring:
  assumes "u \<in> {pmm_MonitoringUser, MonitoringUser}"
  shows "first_fields c (fields_of (monitoring_rules u)) =
     (if c_local c \<or> c_user c \<noteq> u \<or> c_replication c then None
      else if loopback c then Some ''scram-sha-256'' else Some ''reject'')"
proof -
  have "fields_of (monitoring_rules u) =
     [rule_fields ''host'' any u (True, ''127.0.0.0/8'') ''scram-sha-256'',
      rule_fields ''host'' any u (True, ''::1/128'') ''scram-sha-256'',
      rule_fields ''host'' any u any ''reject'']" and "\<not> has_prefix ''/'' u"
    using assms operator_fields(2,3) by (auto simp: service_users)
  then show ?thesis
    by (auto simp: rule_fields_def verdict_defs loopback_def)
qed

lemma first_fields_pgbouncer:
  "first_fields c (fields_of postgresqlHBAs) =
     (if c_local c \<or> c_user c \<noteq> postgresqlUser \<or> c_replication c then None
      else if c_tls c then Some ''scram-sha-256'' else Some ''reject'')"
  unfolding operator_fields
  by (auto simp: rule_fields_def verdict_defs postgresqlUser_def)

lemma first_fields_logicalreplica:
  "first_fields c (fields_of [Replication (Method hbaAuthMethod (Users lr_ReplicationUser [] (TLS NewHBA))),
         Method hbaAuthMethod (Users lr_ReplicationUser [] (TLS NewHBA)),
         Method ''reject'' (Users lr_ReplicationUser [] (TCP NewHBA))]) =
     (if c_local c \<or> c_user c \<noteq> lr_ReplicationUser then None
      else if c_tls c then Some ''scram-sha-256''
      else if c_replication c then None else Some ''reject'')"
  unfolding operator_fields
  by (auto simp: rule_fields_def verdict_defs lr_ReplicationUser_def hbaAuthMethod_def)

lemma service_users_distinct:
  "distinct [ReplicationUser, pmm_MonitoringUser, MonitoringUser, postgresqlUser, lr_ReplicationUser]"
  by code_simp

lemma first_fields_components:
  "first_fields c (fields_of (component_rules cluster)) =
     (if c_local c then (if c_user c = ''postgres'' \<and> \<not> c_replication c then Some ''peer'' else None)
      else if c_user c = ReplicationUser then
        (if c_tls c \<and> (c_replication c \<or> c_database c = ''postgres'') then Some ''cert''
         else if c_replication c then None else Some ''reject'')
      else if c_user c = lr_ReplicationUser \<and> logicalreplica_Enabled cluster then
        (if c_tls c then Some ''scram-sha-256''
         else if c_replication c then None else Some ''reject'')
      else if c_replication c then None
      else if c_user c = postgresqlUser \<and> PGBouncerEnabled (cs_Proxy cluster) then
        (if c_tls c then Some ''scram-sha-256'' else Some ''reject'')
      else if c_user c = pmm_MonitoringUser \<or> c_user c = MonitoringUser \<and> ExporterEnabled cluster then
        (if loopback c then Some ''scram-sha-256'' else Some ''reject'')
      else None)"
proof -
  have groups: "first_fields c (fields_of (component_rules cluster)) =
      or_else (first_fields c (fields_of (HbaMandatory NewHBAs)))
      (or_else (first_fields c (fields_of (monitoring_rules pmm_MonitoringUser)))
      (or_else (if ExporterEnabled cluster then first_fields c (fields_of (monitoring_rules MonitoringUser)) else None)
      (or_else (if PGBouncerEnabled (cs_Proxy cluster) then first_fields c (fields_of postgresqlHBAs) else None)
       (if logicalreplica_Enabled cluster
        then first_fields c (fields_of [Replication (Method hbaAuthMethod (Users lr_ReplicationUser [] (TLS NewHBA))),
            Method hbaAuthMethod (Users lr_ReplicationUser [] (TLS NewHBA)),
            Method ''reject'' (Users lr_ReplicationUser [] (TCP NewHBA))]) else None))))"
    by (simp add: component_rules_def first_fields_append del: first_fields.simps(2))
  show ?thesis
    unfolding groups first_fields_operator first_fields_pgbouncer first_fields_logicalreplica
      first_fields_monitoring [OF insertI1] first_fields_monitoring [OF insertI2 [OF insertI1]]
    using service_users_distinct by auto
qed

text \<open>With \<open>TLSOnly\<close> every rule that is not for sockets names \<open>hostssl\<close>.\<close>

definition tls_fields :: "hba_token list list \<Rightarrow> bool" where
  "tls_fields f = (case f of [(_, t)] # _ \<Rightarrow> t = ''local'' \<or> t = ''hostssl'' | _ \<Rightarrow> False)"

lemma first_fields_tls:
  "list_all tls_fields fs \<Longrightarrow> \<not> c_local c \<Longrightarrow> \<not> c_tls c \<Longrightarrow> first_fields c fs = None"
  by (induction fs)
    (auto simp: tls_fields_def fields_verdict_def origin_matches_def split: list.splits prod.splits)

lemma component_rules_tls: "list_all tls_fields (fields_of (map hba_TLSOnly (component_rules cluster)))"
proof -
  have "list_all tls_fields (fields_of (map hba_TLSOnly (HbaMandatory NewHBAs)))"
    "list_all tls_fields (fields_of (map hba_TLSOnly (monitoring_rules pmm_MonitoringUser)))"
    "list_all tls_fields (fields_of (map hba_TLSOnly (monitoring_rules MonitoringUser)))"
    "list_all tls_fields (fields_of (map hba_TLSOnly postgresqlHBAs))"
    "list_all tls_fields (fields_of (map hba_TLSOnly
       [Replication (Method hbaAuthMethod (Users lr_ReplicationUser [] (TLS NewHBA))),
            Method hbaAuthMethod (Users lr_ReplicationUser [] (TLS NewHBA)),
            Method ''reject'' (Users lr_ReplicationUser [] (TCP NewHBA))]))"
    by code_simp+
  then show ?thesis by (simp add: component_rules_def)
qed

lemma first_match_mandatory:
  "first_match c (map hba_String (HbaMandatory (cluster_HBAs cluster)) @ rest) =
     or_else (first_fields c (fields_of (HbaMandatory (cluster_HBAs cluster)))) (first_match c rest)"
  by (simp only: first_match_append first_match_hbas)

lemma service_users_protection:
  assumes "\<not> cs_TLSOnly cluster" and "\<not> c_local c" and "\<not> c_replication c"
  shows "first_match c (map hba_String (HbaMandatory (cluster_HBAs cluster)) @ rest) =
    (if c_user c = ReplicationUser
     then Some (if c_tls c \<and> c_database c = ''postgres'' then ''cert'' else ''reject'')
     else if c_user c = lr_ReplicationUser \<and> logicalreplica_Enabled cluster \<or>
             c_user c = postgresqlUser \<and> PGBouncerEnabled (cs_Proxy cluster)
     then Some (if c_tls c then ''scram-sha-256'' else ''reject'')
     else if c_user c = pmm_MonitoringUser \<or> c_user c = MonitoringUser \<and> ExporterEnabled cluster
     then Some (if loopback c then ''scram-sha-256'' else ''reject'')
     else first_match c rest)"
proof -
  have "fields_of (HbaMandatory (cluster_HBAs cluster)) = fields_of (component_rules cluster)"
    using assms(1) by (simp add: cluster_HBAs_mandatory)
  then show ?thesis
    unfolding first_match_mandatory
    using assms(2,3) service_users_distinct by (auto simp: first_fields_components)
qed



section \<open>Which parameters are set\<close>

text \<open>\<open>loads libs ps\<close>: the mandatory parameters preload exactly the libraries \<open>libs\<close>.\<close>

definition loads :: "string list \<Rightarrow> Parameters \<Rightarrow> bool" where
  "loads libs ps \<longleftrightarrow> [] \<notin> set libs \<and>
     ps_Get (Mandatory ps) shared_preload = (if libs = [] then None else Some (str_join '','' libs))"

lemma str_join_append:
  "xs \<noteq> [] \<Longrightarrow> ys \<noteq> [] \<Longrightarrow> str_join sep (xs @ ys) = str_join sep xs @ sep @ str_join sep ys"
  by (induction sep xs rule: str_join.induct) (auto simp: neq_Nil_conv)

lemma str_join_empty: "[] \<notin> set xs \<Longrightarrow> str_join sep xs = [] \<longleftrightarrow> xs = []"
  by (cases "(sep, xs)" rule: str_join.cases) auto

lemma loads_append:
  "loads libs ps \<Longrightarrow> vs \<noteq> [] \<Longrightarrow> [] \<notin> set vs \<Longrightarrow> loads (libs @ vs) (append_list shared_preload vs ps)"
  by (auto simp: loads_def ps_Get_AppendToList ps_Value_def str_join_append str_join_empty)

lemma loads_add [simp]:
  "normalize k \<noteq> normalize shared_preload \<Longrightarrow> loads libs (add_mandatory k v ps) = loads libs ps"
  by (simp add: loads_def params.get_add)

lemma loads_default [simp]: "loads libs (add_default k v ps) = loads libs ps"
  by (simp add: loads_def)

lemma other_names [simp]:
  "normalize ''pg_stat_statements.track'' \<noteq> normalize shared_preload"
  "normalize ''pg_stat_monitor.pgsm_query_max_len'' \<noteq> normalize shared_preload"
  "normalize ''pg_stat_monitor.pgsm_enable_overflow'' \<noteq> normalize shared_preload"
  "normalize ''cron.database_name'' \<noteq> normalize shared_preload"
  "normalize ''pg_tde.wal_encrypt'' \<noteq> normalize shared_preload"
  "normalize ''pgnodemx.kdapi_path'' \<noteq> normalize shared_preload"
  "normalize ''track_commit_timestamp'' \<noteq> normalize shared_preload"
  "normalize ''archive_mode'' \<noteq> normalize shared_preload"
  "normalize ''archive_command'' \<noteq> normalize shared_preload"
  "normalize ''restore_command'' \<noteq> normalize shared_preload"
  "normalize ''ssl'' \<noteq> normalize shared_preload"
  "normalize ''ssl_ca_file'' \<noteq> normalize shared_preload"
  "normalize ''ssl_key_file'' \<noteq> normalize shared_preload"
  "normalize ''ssl_cert_file'' \<noteq> normalize shared_preload"
  "normalize ''unix_socket_directories'' \<noteq> normalize shared_preload"
  by code_simp+

lemma loads_new: "loads [] NewParameters"
  by (simp add: loads_def NewParameters_def params.get_add params.get_empty)

lemma loads_when:
  "loads libs ps \<Longrightarrow> (\<And>ps. loads libs ps \<Longrightarrow> loads (libs @ vs) (f ps)) \<Longrightarrow>
   loads (libs @ (if b then vs else [])) (when_enabled b f ps)"
  by simp

lemma loads_extensions:
  "loads libs ps \<Longrightarrow> loads (libs @ [''pg_stat_statements'']) (pgstatstatements_PostgreSQLParameters ps)"
  "loads libs ps \<Longrightarrow> loads (libs @ [''pg_stat_monitor'']) (pgstatmonitor_PostgreSQLParameters ps)"
  "loads libs ps \<Longrightarrow> loads (libs @ [''pgaudit'']) (pgaudit_PostgreSQLParameters ps)"
  "loads libs ps \<Longrightarrow> loads (libs @ [''pg_cron'']) (pgcron_PostgreSQLParameters ps)"
  "loads libs ps \<Longrightarrow> loads (libs @ [''set_user'']) (setuser_PostgreSQLParameters ps)"
  "loads libs ps \<Longrightarrow> loads (libs @ [''pg_tde'']) (pgtde_PostgreSQLParameters isc cluster ps)"
  by (simp_all add: pgstatstatements_PostgreSQLParameters_def pgstatmonitor_PostgreSQLParameters_def
      pgaudit_PostgreSQLParameters_def pgcron_PostgreSQLParameters_def setuser_PostgreSQLParameters_def
      pgtde_PostgreSQLParameters_def Let_def loads_append)

lemma loads_pgbackrest [simp]: "loads libs (pgbackrest_PostgreSQL gv cluster b ps) = loads libs ps"
  by (simp add: pgbackrest_PostgreSQL_def Let_def split: option.splits prod.splits)

lemma loads_pgmonitor:
  "loads libs ps \<Longrightarrow>
   loads (libs @ (if ExporterEnabled cluster then [''pg_stat_statements'', ''pgnodemx''] else []))
     (pgmonitor_PostgreSQLParameters cluster ps)"
  by (simp add: pgmonitor_PostgreSQLParameters_def loads_append)

lemma loads_huge_pages [simp]: "loads libs (SetHugePages cluster ps) = loads libs ps"
  by (simp add: SetHugePages_def)

definition preload_libraries :: "cond_fn \<Rightarrow> 'a PGCluster_scheme \<Rightarrow> string list" where
  "preload_libraries isc cluster =
     (let ext = cs_Extensions cluster in
      concat [if ExtPGStatStatements ext then [''pg_stat_statements''] else [],
        if ExtPGStatMonitor ext then [''pg_stat_monitor''] else [],
        if ExtPGAudit ext then [''pgaudit''] else [],
        if ExtPGCron ext then [''pg_cron''] else [],
        if ExtSetUser ext then [''set_user''] else [],
        if PGTDE_Enabled ext \<or> isc (cs_Conditions cluster) PGTDEEnabled ConditionTrue then [''pg_tde''] else [],
        if ExporterEnabled cluster then [''pg_stat_statements'', ''pgnodemx''] else []])"

lemmas loads_enabled = loads_extensions [THEN loads_when [rotated]]

lemma loads_cluster: "loads (preload_libraries isc cluster) (cluster_Parameters gv isc cluster b)"
proof -
  have libs: "preload_libraries isc cluster =
    ((((((([] @ (if ExtPGStatStatements (cs_Extensions cluster) then [''pg_stat_statements''] else [])) @
      (if ExtPGStatMonitor (cs_Extensions cluster) then [''pg_stat_monitor''] else [])) @
      (if ExtPGAudit (cs_Extensions cluster) then [''pgaudit''] else [])) @
      (if ExtPGCron (cs_Extensions cluster) then [''pg_cron''] else [])) @
      (if ExtSetUser (cs_Extensions cluster) then [''set_user''] else [])) @
      (if PGTDE_Enabled (cs_Extensions cluster) \<or> isc (cs_Conditions cluster) PGTDEEnabled ConditionTrue
       then [''pg_tde''] else [])) @
      (if ExporterEnabled cluster then [''pg_stat_statements'', ''pgnodemx''] else []))"
    by (simp add: preload_libraries_def Let_def)
  show ?thesis
    unfolding libs cluster_Parameters_def Let_def loads_huge_pages
    by (intro loads_pgmonitor loads_pgbackrest [THEN iffD2] loads_enabled loads_new)
qed

text \<open>
  The libraries a cluster preloads are those of its extensions, in a fixed order, joined by
  commas, and the parameter is absent when there are none. With both extensions on,
  \<open>pg_stat_statements\<close> comes right before \<open>pg_stat_monitor\<close>, as it must; with
  only \<open>pg_stat_monitor\<close> on and the exporter enabled, the exporter's
  \<open>pg_stat_statements\<close> comes after it.
\<close>

theorem preload_order:
  "ps_Get (Mandatory (cluster_Parameters gv isc cluster b)) ''shared_preload_libraries'' =
     (if preload_libraries isc cluster = [] then None
      else Some (str_join '','' (preload_libraries isc cluster))) \<and>
   (ExtPGStatMonitor (cs_Extensions cluster) \<and> ExtPGStatStatements (cs_Extensions cluster) \<longrightarrow>
      (\<exists>libs. preload_libraries isc cluster = ''pg_stat_statements'' # ''pg_stat_monitor'' # libs)) \<and>
   (ExtPGStatMonitor (cs_Extensions cluster) \<and> \<not> ExtPGStatStatements (cs_Extensions cluster) \<and>
    ExporterEnabled cluster \<longrightarrow>
      (\<exists>libs. preload_libraries isc cluster = ''pg_stat_monitor'' # libs \<and> ''pg_stat_statements'' \<in> set libs))"
proof (intro conjI)
  show "ps_Get (Mandatory (cluster_Parameters gv isc cluster b)) ''shared_preload_libraries'' =
     (if preload_libraries isc cluster = [] then None
      else Some (str_join '','' (preload_libraries isc cluster)))"
    using loads_cluster [of isc cluster gv b] by (simp add: loads_def shared_preload_def)
qed (simp_all add: preload_libraries_def Let_def)

lemma archive_names [simp]:
  "normalize ''archive_mode'' = ''archive_mode''" "normalize ''archive_command'' = ''archive_command''"
  "normalize ''restore_command'' = ''restore_command''"
  "normalize ''track_commit_timestamp'' = ''track_commit_timestamp''"
  by code_simp+

definition standby_repo :: "'a PGCluster_scheme \<Rightarrow> string option" where
  "standby_repo cluster =
     (case cs_Standby cluster of
        Some sb \<Rightarrow> if StandbyEnabled sb \<and> StandbyRepoName sb \<noteq> [] then Some (StandbyRepoName sb) else None
      | None \<Rightarrow> None)"

lemmas pgbackrest_get = pgbackrest_PostgreSQL_def Let_def params.get_add

text \<open>
  What pgBackRest sets. WAL archiving is always on; without backups the archive command
  throws the segments away. A restore command is set only when backups are on, the user gave
  one, or the cluster is a standby of a repository; it is the user's command when there is one,
  and for a standby it ends with, or passes to pgBackRest, the option that selects the
  repository. In particular a cluster without backups gets no restore command at all, rather
  than one that pretends to have restored the segment.
\<close>

theorem pgbackrest_commands:
  "let get = ps_Get (Mandatory (pgbackrest_PostgreSQL gv cluster backups ps));
       wal = PGTDE_WALEncryption (cs_Extensions cluster) in
   get ''archive_mode'' = Some ''on'' \<and>
   (\<not> backups \<longrightarrow> get ''archive_command'' = Some ''true'') \<and>
   (backups \<longrightarrow> (\<exists>tail. get ''archive_command'' = Some (archive_push wal @ tail))) \<and>
   get ''restore_command'' =
     (case (standby_repo cluster, user_restore_command cluster) of
        (Some repo, Some cmd) \<Rightarrow> Some (cmd @ '' --repo='' @ trim_prefix ''repo'' repo)
      | (Some repo, None) \<Rightarrow> Some (wrap_restore gv cluster (archiveGet wal ('' --repo='' @ trim_prefix ''repo'' repo)))
      | (None, Some cmd) \<Rightarrow> Some cmd
      | (None, None) \<Rightarrow> if backups then Some (wrap_restore gv cluster (archiveGet wal []))
                       else ps_Get (Mandatory ps) ''restore_command'')"
  unfolding Let_def
proof (intro conjI impI)
  show "ps_Get (Mandatory (pgbackrest_PostgreSQL gv cluster backups ps)) ''archive_mode'' = Some ''on''"
    by (simp add: pgbackrest_get split: option.splits)
next
  assume "\<not> backups"
  then show "ps_Get (Mandatory (pgbackrest_PostgreSQL gv cluster backups ps)) ''archive_command'' = Some ''true''"
    by (simp add: pgbackrest_get split: option.splits)
next
  assume "backups"
  then show "\<exists>tail. ps_Get (Mandatory (pgbackrest_PostgreSQL gv cluster backups ps)) ''archive_command'' =
      Some (archive_push (PGTDE_WALEncryption (cs_Extensions cluster)) @ tail)"
    by (simp add: pgbackrest_get updateCommandRestorableTime_def split: option.splits)
next
  show "ps_Get (Mandatory (pgbackrest_PostgreSQL gv cluster backups ps)) ''restore_command'' =
     (case (standby_repo cluster, user_restore_command cluster) of
        (Some repo, Some cmd) \<Rightarrow> Some (cmd @ '' --repo='' @ trim_prefix ''repo'' repo)
      | (Some repo, None) \<Rightarrow> Some (wrap_restore gv cluster
          (archiveGet (PGTDE_WALEncryption (cs_Extensions cluster)) ('' --repo='' @ trim_prefix ''repo'' repo)))
      | (None, Some cmd) \<Rightarrow> Some cmd
      | (None, None) \<Rightarrow> if backups
          then Some (wrap_restore gv cluster (archiveGet (PGTDE_WALEncryption (cs_Extensions cluster)) []))
          else ps_Get (Mandatory ps) ''restore_command'')"
    by (simp add: pgbackrest_get standby_repo_def split: option.splits)
qed

section \<open>Examples\<close>

definition example_meta :: ObjectMeta where
  "example_meta = \<lparr>Name = ''hippo'', Namespace = ''ns'', UID = ''u'', ResourceVersion = ''1'', Generation = 1,
     CreationTimestamp = 0, DeletionTimestamp = None, Labels = Map.empty, Annotations = Map.empty,
     Finalizers = []\<rparr>"

definition example_cluster :: "bool \<Rightarrow> PGCluster" where
  "example_cluster tls_only = \<lparr>cc_meta = example_meta, cc_PGBackRest = None,
     cs_Patroni = Some \<lparr>PatroniDynamicConfiguration = None, LeaderLeaseDurationSeconds = Some 30,
       PatroniPort = Some 8008, SyncPeriodSeconds = Some 10, CreateReplicaMethods = [],
       RemoveDataDirectoryOnDivergedTimelines = False\<rparr>,
     cs_SystemIdentifier = [], cs_Standby = None, cs_AuthRules = None, cs_PostgresVersion = 16,
     cs_Port = Some 5432, cs_LogicalReplicas = [''r1''],
     cs_Extensions = \<lparr>ExtPGStatMonitor = True, ExtPGAudit = False, ExtPGStatStatements = False,
       ExtPGCron = False, ExtSetUser = False, PGTDE_Enabled = False, PGTDE_WALEncryption = False\<rparr>,
     cs_TLSOnly = tls_only, cs_Monitoring = Some (Some (Some JNull)), cs_Proxy = Some (Some None),
     cs_MetadataLabels = Map.empty, cs_TrackLatestRestorableTime = None, cs_Conditions = [],
     cs_InstanceSets = [], cs_DataVolume = None, cs_InitContainer = None, cs_ImagePullPolicy = [], cs_RepoStatus = []\<rparr>"

definition plaintext_connection :: "bool \<Rightarrow> connection" where
  "plaintext_connection repl = \<lparr>c_local = False, c_tls = False, c_gss = False, c_replication = repl,
     c_database = ''postgres'', c_user = ReplicationUser, c_net = (\<lambda>_. False), c_role = (\<lambda>_. False),
     c_regex = (\<lambda>_ _. False)\<rparr>"



theorem preload_order_witness:
  "\<exists>libs. preload_libraries (\<lambda>_ _ _. False) (example_cluster False) = ''pg_stat_monitor'' # libs \<and>
     ''pg_stat_statements'' \<in> set libs"
  using preload_order [of "\<lambda>_ _. Inr 0" "\<lambda>_ _ _. False" "example_cluster False" True]
  by (simp add: example_cluster_def ExporterEnabled_def)

theorem pgbackrest_commands_witness:
  "ps_Get (Mandatory (pgbackrest_PostgreSQL (\<lambda>_ _. Inr 0) (example_cluster False) False NewParameters))
     ''archive_command'' = Some ''true''"
  using pgbackrest_commands [of "\<lambda>_ _. Inr 0" "example_cluster False" False NewParameters]
  by (simp add: Let_def)

end
