(* ===== verification/Patroni_Config.thy ===== *)
theory Patroni_Config
  imports Cluster_Settings Postgres_Exec
begin

text \<open>
  The configuration of Patroni: \<open>internal/patroni/config.go\<close>, \<open>certificates.go\<close>,
  \<open>reconcile.go\<close> and \<open>api.go\<close>. The dynamic configuration is a tree of
  \<open>json\<close> values; the encoders and decoders of YAML and JSON, the version library and
  the label merge are arguments. A dereference of a nil pointer is the error \<open>Panic\<close>.
  The lemmas say which parameters and which lines of \<open>pg_hba.conf\<close> PostgreSQL ends up
  with, and compose this with the settings of a cluster.
\<close>

section \<open>Values\<close>

definition nil_deref :: error where
  "nil_deref = Panic ''invalid memory address or nil pointer dereference''"

definition divide_by_zero :: error where
  "divide_by_zero = Panic ''integer divide by zero''"

abbreviation JInt32 :: "int32 \<Rightarrow> json" where
  "JInt32 n \<equiv> JInt (sint n)"

definition json_strs :: "string list \<Rightarrow> json" where
  "json_strs xs = JList (map JStr xs)"

definition json_labels :: "strmap \<Rightarrow> json" where
  "json_labels m = JObj (\<lambda>k. map_option JStr (m k))"

section \<open>Constants and quoting\<close>

definition configDirectory :: string where
  "configDirectory = ''/etc/patroni''"

definition configMapFileKey :: string where
  "configMapFileKey = ''patroni.yaml''"

definition basebackupCreateReplicaMethod :: string where
  "basebackupCreateReplicaMethod = ''basebackup''"

definition pgBackRestCreateReplicaMethod :: string where
  "pgBackRestCreateReplicaMethod = ''pgbackrest''"

definition OverrideConfigAnnotation :: string where
  "OverrideConfigAnnotation = ''pgv2.percona.com/override-config''"

definition yamlGeneratedWarning :: string where
  \<open>yamlGeneratedWarning =
     ''# Generated by postgres-operator. DO NOT EDIT UNLESS YOU KNOW WHAT YOU'' @ [CHR 0x27] @ ''RE DOING.'' @ [CHR 0x0A] @
     ''# If you want to override the config, annotate this ConfigMap with '' @ OverrideConfigAnnotation @
     ''=true'' @ [CHR 0x0A]\<close>

definition quoteShellWord :: "string \<Rightarrow> string" where
  "quoteShellWord s =
     [CHR 0x27] @ replace_char (CHR 0x27) [CHR 0x27, CHR 0x22, CHR 0x27, CHR 0x22, CHR 0x27] s @ [CHR 0x27]"

definition certAuthorityConfigPath :: string where
  "certAuthorityConfigPath = ''~postgres-operator/patroni.ca-roots''"

definition certServerConfigPath :: string where
  "certServerConfigPath = ''~postgres-operator/patroni.crt+key''"

definition certAuthorityFileKey :: string where
  "certAuthorityFileKey = ''patroni.ca-roots''"

definition certServerFileKey :: string where
  "certServerFileKey = ''patroni.crt-combined''"

definition dataMountPath :: string where
  "dataMountPath = ''/pgdata''"

definition walMountPath :: string where
  "walMountPath = ''/pgwal''"

definition DataDirectory :: "'a PGCluster_scheme \<Rightarrow> string" where
  "DataDirectory cluster = dataMountPath @ ''/pg'' @ sprint_int (cs_PostgresVersion cluster)"

definition ConfigDirectory :: "'a PGCluster_scheme \<Rightarrow> string" where
  "ConfigDirectory cluster = DataDirectory cluster"

definition WALStorage :: "InstanceSetSpec \<Rightarrow> string" where
  "WALStorage instance = (if WALVolumeClaimSpec instance \<noteq> None then walMountPath else dataMountPath)"

definition WALDirectory :: "'a PGCluster_scheme \<Rightarrow> InstanceSetSpec \<Rightarrow> string" where
  "WALDirectory cluster instance = WALStorage instance @ ''/pg'' @ sprint_int (cs_PostgresVersion cluster) @ ''_wal''"

definition ClusterBootstrapped :: "'a PGCluster_scheme \<Rightarrow> bool" where
  "ClusterBootstrapped postgresCluster = (cs_SystemIdentifier postgresCluster \<noteq> [])"

definition PatroniSpec_Default :: "PatroniSpec \<Rightarrow> PatroniSpec" where
  "PatroniSpec_Default s =
     s\<lparr>LeaderLeaseDurationSeconds := Some (deref (LeaderLeaseDurationSeconds s) 30),
       PatroniPort := Some (deref (PatroniPort s) 8008),
       SyncPeriodSeconds := Some (deref (SyncPeriodSeconds s) 10)\<rparr>"

definition PatroniSpec_GetPort :: "PatroniSpec option \<Rightarrow> int32" where
  "PatroniSpec_GetPort s = (case s of None \<Rightarrow> 8008 | Some sp \<Rightarrow> deref (PatroniPort sp) 8008)"

section \<open>Dynamic configuration\<close>

definition intstr_String :: "IntOrString \<Rightarrow> string" where
  "intstr_String v = (case v of StrVal s \<Rightarrow> s | IntVal n \<Rightarrow> sprint_int (sint n))"

text \<open>The address of the rule is never nil, so the nil case of \<open>hbaFromSpec\<close> does not arise.\<close>

definition hbaFromSpec :: "PostgresHBARule \<Rightarrow> HostBasedAuthentication" where
  "hbaFromSpec spec =
     (let result = Origin (RuleConnection spec) NewHBA;
          result = Method (if RuleMethod spec = ''password'' then ''scram-sha-256'' else RuleMethod spec) result;
          result = (case RuleDatabases spec of [] \<Rightarrow> result | d # ds \<Rightarrow> Databases d ds result);
          result = (case RuleUsers spec of [] \<Rightarrow> result | u # us \<Rightarrow> Users u us result)
      in if RuleOptions spec \<noteq> []
         then hba_Options (map (\<lambda>(k, v). (k, intstr_String v)) (RuleOptions spec)) result
         else result)"

definition IgnoreSlotsMatchers :: "'a PGCluster_scheme \<Rightarrow> json list" where
  "IgnoreSlotsMatchers inCluster =
     (if \<not> logicalreplica_Enabled inCluster then []
      else [JObj [''type'' \<mapsto> JStr ''logical'', ''plugin'' \<mapsto> JStr ''pgoutput'']])"

text \<open>A mandatory parameter over what is there, \<open>shared_preload_libraries\<close> combined with it.\<close>

definition mandatory_value :: "(string \<Rightarrow> json option) \<Rightarrow> string \<Rightarrow> string \<Rightarrow> string" where
  "mandatory_value parameters k v =
     (if k = ''shared_preload_libraries''
      then let v = (case as_string (parameters k) of
                      Some s \<Rightarrow> if s \<noteq> [] then s @ '','' @ v else v
                    | None \<Rightarrow> v)
           in if str_contains ''citus'' v then ''citus,'' @ v else v
      else v)"

definition dynamic_parameters ::
    "(string \<Rightarrow> json option) \<Rightarrow> Parameters \<Rightarrow> (string \<Rightarrow> json option)" where
  "dynamic_parameters postgresql pgParameters =
     (let parameters = foldl (\<lambda>m (k, v). m(k \<mapsto> JStr v)) Map.empty (AsMap (Default pgParameters));
          parameters = (case as_object (postgresql ''parameters'') of
                          Some section \<Rightarrow> parameters ++ section
                        | None \<Rightarrow> parameters)
      in foldl (\<lambda>m (k, v). m(k \<mapsto> JStr (mandatory_value m k v))) parameters (AsMap (Mandatory pgParameters)))"

definition authentication_lines :: "AuthenticationRule list option \<Rightarrow> string list" where
  "authentication_lines authn =
     (case authn of
        None \<Rightarrow> []
      | Some rules \<Rightarrow> map (\<lambda>rule. if RuleHBA rule \<noteq> [] then RuleHBA rule
                                 else hba_String (hbaFromSpec (RuleStructured rule))) rules)"

definition user_lines :: "json option \<Rightarrow> string list" where
  "user_lines v =
     (case as_list v of
        None \<Rightarrow> []
      | Some section \<Rightarrow> concat (map (\<lambda>x. case as_string (Some x) of Some s \<Rightarrow> [s] | None \<Rightarrow> []) section))"

definition dynamic_hba ::
    "'a PGCluster_scheme \<Rightarrow> (string \<Rightarrow> json option) \<Rightarrow> HBAs \<Rightarrow> string list" where
  "dynamic_hba cluster postgresql pgHBAs =
     (let hba = map hba_String (HbaMandatory pgHBAs);
          hba = hba @ authentication_lines (cs_AuthRules cluster);
          hba = hba @ user_lines (postgresql ''pg_hba'')
      in if length hba = length (HbaMandatory pgHBAs)
         then hba @ map hba_String (HbaDefault pgHBAs) else hba)"

definition standby_section ::
    "StandbySpec \<Rightarrow> json option \<Rightarrow> Parameters \<Rightarrow> (string \<Rightarrow> json option)" where
  "standby_section sb old pgParameters =
     (let standby = (case as_object old of Some section \<Rightarrow> Map.empty ++ section | None \<Rightarrow> Map.empty);
          standby = standby(''restore_command'' := None);
          methods = [];
          (standby, methods) =
            (if StandbyHost sb \<noteq> []
             then (case StandbyPort sb of
                     Some p \<Rightarrow> standby(''host'' \<mapsto> JStr (StandbyHost sb), ''port'' \<mapsto> JInt32 p)
                   | None \<Rightarrow> standby(''host'' \<mapsto> JStr (StandbyHost sb)),
                   basebackupCreateReplicaMethod # methods)
             else (standby, methods));
          (standby, methods) =
            (if StandbyRepoName sb \<noteq> []
             then (standby(''restore_command'' \<mapsto> JStr (ps_Value (Mandatory pgParameters) ''restore_command'')),
                   pgBackRestCreateReplicaMethod # methods)
             else (standby, methods))
      in standby(''create_replica_methods'' \<mapsto> json_strs methods))"

definition DynamicConfiguration ::
    "'a PGCluster_scheme \<Rightarrow> (string \<Rightarrow> json option) \<Rightarrow> HBAs \<Rightarrow> Parameters \<Rightarrow>
     error + (string \<Rightarrow> json option)" where
  "DynamicConfiguration cluster configuration pgHBAs pgParameters =
     (case cs_Patroni cluster of
        None \<Rightarrow> Inl nil_deref
      | Some sp \<Rightarrow>
          (case (LeaderLeaseDurationSeconds sp, SyncPeriodSeconds sp) of
             (Some ttl, Some loop_wait) \<Rightarrow>
               (let root = (Map.empty ++ configuration)(''ttl'' \<mapsto> JInt32 ttl, ''loop_wait'' \<mapsto> JInt32 loop_wait);
                    postgresql = [''use_slots'' \<mapsto> JBool False];
                    postgresql = (case as_object (root ''postgresql'') of
                                    Some section \<Rightarrow> postgresql ++ section
                                  | None \<Rightarrow> postgresql);
                    postgresql = postgresql(''parameters'' \<mapsto> JObj (dynamic_parameters postgresql pgParameters));
                    postgresql = postgresql(''pg_hba'' \<mapsto> json_strs (dynamic_hba cluster postgresql pgHBAs));
                    postgresql = postgresql(''use_pg_rewind'' \<mapsto> JBool (cs_PostgresVersion cluster > 10));
                    root = root(''postgresql'' \<mapsto> JObj postgresql);
                    root = (case cs_Standby cluster of
                              Some sb \<Rightarrow>
                                if StandbyEnabled sb
                                then root(''standby_cluster'' \<mapsto>
                                       JObj (standby_section sb (root ''standby_cluster'') pgParameters))
                                else root
                            | None \<Rightarrow> root)
                in if IgnoreSlotsMatchers cluster \<noteq> []
                   then Inr (root(''ignore_slots'' \<mapsto>
                          JList ((case as_list (root ''ignore_slots'') of Some existing \<Rightarrow> existing | None \<Rightarrow> []) @
                            IgnoreSlotsMatchers cluster)))
                   else Inr root)
           | _ \<Rightarrow> Inl nil_deref))"

section \<open>Cluster and instance files\<close>

text \<open>
  \<open>yaml.Marshal\<close> gives text and an error. What is returned is the generated text with
  that error; a panic ends the call.
\<close>

type_synonym yaml_fn = "json \<Rightarrow> string \<times> error option"

definition authentication_entry :: json where
  "authentication_entry = JObj [
     ''sslcert'' \<mapsto> JStr ''/tmp/replication/tls.crt'',
     ''sslkey'' \<mapsto> JStr ''/tmp/replication/tls.key'',
     ''sslmode'' \<mapsto> JStr ''verify-ca'',
     ''sslrootcert'' \<mapsto> JStr ''/tmp/replication/ca.crt'',
     ''username'' \<mapsto> JStr ReplicationUser]"

definition cluster_postgresql :: "gover \<Rightarrow> 'a PGCluster_scheme \<Rightarrow> (string \<Rightarrow> json option)" where
  "cluster_postgresql gv cluster =
     (let section = [''authentication'' \<mapsto>
            JObj [''replication'' \<mapsto> authentication_entry, ''rewind'' \<mapsto> authentication_entry]];
          section = (if PGTDE_Enabled (cs_Extensions cluster)
            then section(''bin_name'' \<mapsto> JObj [''pg_basebackup'' \<mapsto> JStr ''pg_tde_basebackup'',
              ''pg_rewind'' \<mapsto> JStr ''pg_tde_rewind''])
            else section)
      in case cs_Patroni cluster of
           Some sp \<Rightarrow> if CompareVersion gv cluster ''2.9.0'' \<ge> 0
             then section(''remove_data_directory_on_diverged_timelines'' \<mapsto>
               JBool (RemoveDataDirectoryOnDivergedTimelines sp))
             else section
         | None \<Rightarrow> section)"

definition clusterYAML ::
    "gover \<Rightarrow> merge_fn \<Rightarrow> yaml_fn \<Rightarrow> 'a PGCluster_scheme \<Rightarrow> HBAs \<Rightarrow> Parameters \<Rightarrow>
     error + (string \<times> error option)" where
  "clusterYAML gv mrg yaml cluster pgHBAs pgParameters =
     (let labels = [LabelCluster \<mapsto> Name (cc_meta cluster)];
          labels = (if CompareVersion gv cluster ''2.9.0'' \<ge> 0
                    then Merge mrg [cs_MetadataLabels cluster, labels] else labels);
          cafile = path_join [configDirectory, certAuthorityConfigPath];
          certfile = path_join [configDirectory, certServerConfigPath];
          root = [
            ''scope'' \<mapsto> JStr (PatroniScope cluster),
            ''kubernetes'' \<mapsto> JObj [
              ''namespace'' \<mapsto> JStr (Namespace (cc_meta cluster)),
              ''role_label'' \<mapsto> JStr LabelRole,
              ''scope_label'' \<mapsto> JStr LabelPatroni,
              ''use_endpoints'' \<mapsto> JBool True,
              ''labels'' \<mapsto> json_labels labels],
            ''postgresql'' \<mapsto> JObj (cluster_postgresql gv cluster),
            ''restapi'' \<mapsto> JObj [
              ''cafile'' \<mapsto> JStr cafile,
              ''certfile'' \<mapsto> JStr certfile,
              ''keyfile'' \<mapsto> JNull,
              ''verify_client'' \<mapsto> JStr ''optional''],
            ''ctl'' \<mapsto> JObj [
              ''cacert'' \<mapsto> JStr cafile,
              ''certfile'' \<mapsto> JStr certfile,
              ''keyfile'' \<mapsto> JNull,
              ''insecure'' \<mapsto> JBool False],
            ''watchdog'' \<mapsto> JObj [''mode'' \<mapsto> JStr ''off'']];
          write = (\<lambda>root. case yaml (JObj root) of (b, err) \<Rightarrow> (yamlGeneratedWarning @ b, err))
      in if ClusterBootstrapped cluster then Inr (write root)
         else (let configuration = (case Option.bind (cs_Patroni cluster) PatroniDynamicConfiguration of
                   Some c \<Rightarrow> c | None \<Rightarrow> Map.empty)
               in case DynamicConfiguration cluster configuration pgHBAs pgParameters of
                    Inl p \<Rightarrow> Inl p
                  | Inr dcs \<Rightarrow> Inr (write (root(''bootstrap'' \<mapsto> JObj [''dcs'' \<mapsto> JObj dcs])))))"

text \<open>The dynamic configuration a Go nil map and an empty map stand for is the same.\<close>

definition quoted_path :: "string \<Rightarrow> string" where
  "quoted_path s = [CHR 0x22] @ s @ [CHR 0x22]"

definition replica_command :: "string list \<Rightarrow> string" where
  \<open>replica_command command =
     str_join '' '' (map quoteShellWord
       ([''bash'', ''-ceu'', ''--'',
         ''install --directory --mode=0700 "${PGDATA?}" && exec "$@"'',
         ''-''] @ command))\<close>

definition instance_bootstrap :: "'a PGCluster_scheme \<Rightarrow> InstanceSetSpec \<Rightarrow> json" where
  "instance_bootstrap cluster instance =
     (let isRestore = (case cc_PGBackRest cluster of Some st \<Rightarrow> RestoreStatus st \<noteq> None | None \<Rightarrow> False);
          isDataSource = (case cs_DataVolume cluster of Some (Some (Some d)) \<Rightarrow> d \<noteq> [] | _ \<Rightarrow> False)
      in if isRestore \<or> isDataSource
         then let data_dir = DataDirectory cluster in
           JObj [''method'' \<mapsto> JStr ''existing'',
             ''existing'' \<mapsto> JObj [
               ''command'' \<mapsto> JStr (''mv '' @ quoted_path (data_dir @ ''_bootstrap'') @ '' '' @ quoted_path data_dir),
               ''no_params'' \<mapsto> JStr ''true'']]
         else JObj [''method'' \<mapsto> JStr ''initdb'',
           ''initdb'' \<mapsto> json_strs [''data-checksums'', ''encoding=UTF8'',
             ''waldir='' @ WALDirectory cluster instance]])"

definition instanceYAML ::
    "gover \<Rightarrow> yaml_fn \<Rightarrow> 'a PGCluster_scheme \<Rightarrow> InstanceSetSpec \<Rightarrow> string list \<Rightarrow>
     string \<times> error option" where
  "instanceYAML gv yaml cluster instance pgbackrestReplicaCreateCommand =
     (let root = [''kubernetes'' \<mapsto> JObj Map.empty, ''restapi'' \<mapsto> JObj Map.empty, ''tags'' \<mapsto> JObj Map.empty];
          postgresql = [''pgpass'' \<mapsto> JStr ''/tmp/.pgpass'', ''use_unix_socket'' \<mapsto> JBool True,
            ''basebackup'' \<mapsto> json_strs [''waldir='' @ WALDirectory cluster instance]];
          methods = [basebackupCreateReplicaMethod];
          step = (if pgbackrestReplicaCreateCommand = [] then Inr (postgresql, methods)
            else case IsPatroniVer4 gv cluster of
                Inl err \<Rightarrow> Inl (Wrap ''failed to check if patroni v4 is used'' err)
              | Inr patroniVer4 \<Rightarrow>
                  Inr (postgresql(pgBackRestCreateReplicaMethod \<mapsto> JObj [
                      ''command'' \<mapsto> JStr (replica_command pgbackrestReplicaCreateCommand),
                      ''keep_data'' \<mapsto> JBool True,
                      (if patroniVer4 then ''no_leader'' else ''no_master'') \<mapsto> JBool True,
                      ''no_params'' \<mapsto> JBool True]),
                    pgBackRestCreateReplicaMethod # methods))
      in case step of
           Inl err \<Rightarrow> ([], Some err)
         | Inr (postgresql, methods) \<Rightarrow>
             let methods = (case cs_Patroni cluster of
                   Some sp \<Rightarrow> if CreateReplicaMethods sp \<noteq> [] then CreateReplicaMethods sp else methods
                 | None \<Rightarrow> methods);
                 postgresql = postgresql(''create_replica_methods'' \<mapsto> json_strs methods);
                 root = root(''postgresql'' \<mapsto> JObj postgresql);
                 root = (if ClusterBootstrapped cluster then root
                         else root(''bootstrap'' \<mapsto> instance_bootstrap cluster instance))
             in (case yaml (JObj root) of (b, err) \<Rightarrow> (yamlGeneratedWarning @ b, err)))"

section \<open>Pods\<close>

record Probe =
  TimeoutSeconds :: int32
  PeriodSeconds :: int32
  SuccessThreshold :: int32
  FailureThreshold :: int32

text \<open>Go's integer division truncates towards zero and wraps in its one case of overflow.\<close>

definition int32_div :: "int32 \<Rightarrow> int32 \<Rightarrow> error + int32" where
  "int32_div a b = (if b = 0 then Inl divide_by_zero else Inr (word_of_int (sint a sdiv sint b)))"

definition at_least_one :: "int32 \<Rightarrow> int32" where
  "at_least_one n = (if sint n < 1 then 1 else n)"

definition probeTiming :: "PatroniSpec \<Rightarrow> error + Probe" where
  "probeTiming spec =
     (case (SyncPeriodSeconds spec, LeaderLeaseDurationSeconds spec) of
        (Some sync, Some lease) \<Rightarrow>
          (case (int32_div sync 2, int32_div lease sync) of
             (Inr t, Inr f) \<Rightarrow> Inr \<lparr>TimeoutSeconds = at_least_one t, PeriodSeconds = sync,
               SuccessThreshold = 1, FailureThreshold = at_least_one f\<rparr>
           | (Inl e, _) \<Rightarrow> Inl e
           | (_, Inl e) \<Rightarrow> Inl e)
      | _ \<Rightarrow> Inl nil_deref)"

record EnvVar =
  EnvName :: string
  EnvValue :: string
  EnvFieldRef :: "string option"

record ContainerPort =
  PortName :: string
  PortNumber :: int32
  PortProtocol :: string

record ServicePort =
  SvcPortName :: string
  SvcTargetPort :: string

definition endpoint_ports :: "ServicePort list \<Rightarrow> ContainerPort list list \<Rightarrow> ContainerPort list" where
  "endpoint_ports sps containers =
     concat (map (\<lambda>sp. concat (map (\<lambda>cps.
       map (\<lambda>cp. cp\<lparr>PortName := SvcPortName sp\<rparr>) (filter (\<lambda>cp. SvcTargetPort sp = PortName cp) cps)) containers)) sps)"

definition env_value :: "string \<Rightarrow> string \<Rightarrow> EnvVar" where
  "env_value n v = \<lparr>EnvName = n, EnvValue = v, EnvFieldRef = None\<rparr>"

definition env_field :: "string \<Rightarrow> string \<Rightarrow> EnvVar" where
  "env_field n p = \<lparr>EnvName = n, EnvValue = [], EnvFieldRef = Some p\<rparr>"

text \<open>\<open>yamlPorts\<close> is the text \<open>yaml.Marshal\<close> gives for the ports; its error is dropped.\<close>

definition instanceEnvironment ::
    "(ContainerPort list \<Rightarrow> string) \<Rightarrow> 'a PGCluster_scheme \<Rightarrow> string \<Rightarrow> ServicePort list \<Rightarrow>
     ContainerPort list list \<Rightarrow> error + EnvVar list" where
  "instanceEnvironment yamlPorts cluster podSubdomain leaderPorts podContainers =
     (case cs_Patroni cluster of
        None \<Rightarrow> Inl nil_deref
      | Some sp \<Rightarrow>
          (case (PatroniPort sp, cs_Port cluster) of
             (Some patroniPort, Some postgresPort) \<Rightarrow>
               (let address = (\<lambda>port. ''$(PATRONI_NAME).'' @ podSubdomain @ '':'' @ sprint_int (sint port));
                    listen = (\<lambda>port. ''*:'' @ sprint_int (sint port))
                in Inr [
                  env_field ''PATRONI_NAME'' ''metadata.name'',
                  env_field ''PATRONI_KUBERNETES_POD_IP'' ''status.podIP'',
                  env_value ''PATRONI_KUBERNETES_PORTS'' (yamlPorts (endpoint_ports leaderPorts podContainers)),
                  env_value ''PATRONI_POSTGRESQL_CONNECT_ADDRESS'' (address postgresPort),
                  env_value ''PATRONI_POSTGRESQL_LISTEN'' (listen postgresPort),
                  env_value ''PATRONI_POSTGRESQL_CONFIG_DIR'' (ConfigDirectory cluster),
                  env_value ''PATRONI_POSTGRESQL_DATA_DIR'' (DataDirectory cluster),
                  env_value ''PATRONI_RESTAPI_CONNECT_ADDRESS'' (address patroniPort),
                  env_value ''PATRONI_RESTAPI_LISTEN'' (listen patroniPort),
                  env_value ''PATRONICTL_CONFIG_FILE'' configDirectory])
           | _ \<Rightarrow> Inl nil_deref))"

datatype VolumeProjection =
    ConfigMapProjection string "(string \<times> string) list"
  | SecretProjection string "(string \<times> string) list"

definition instanceConfigFiles :: "string \<Rightarrow> string \<Rightarrow> VolumeProjection list" where
  "instanceConfigFiles cluster instance =
     [ConfigMapProjection cluster [(configMapFileKey, ''~postgres-operator_cluster.yaml'')],
      ConfigMapProjection instance [(configMapFileKey, ''~postgres-operator_instance.yaml'')]]"

definition instanceCertificates :: "string \<Rightarrow> VolumeProjection list" where
  "instanceCertificates certificates =
     [SecretProjection certificates
        [(certAuthorityFileKey, certAuthorityConfigPath), (certServerFileKey, certServerConfigPath)]]"

text \<open>The texts are the results of \<open>MarshalText\<close> of each certificate or key.\<close>

fun certFile :: "(error + string) list \<Rightarrow> error + string" where
  "certFile [] = Inr []"
| "certFile (Inl e # ts) = Inl e"
| "certFile (Inr b # ts) = (case certFile ts of Inl e \<Rightarrow> Inl e | Inr bs \<Rightarrow> Inr (b @ bs))"

definition ReplicaCreateCommand :: "'a PGCluster_scheme \<Rightarrow> InstanceSetSpec \<Rightarrow> string list" where
  "ReplicaCreateCommand cluster instance =
     (let command = (\<lambda>repoName.
            [''pgbackrest'', ''restore'', ''--delta'', ''--stanza='' @ DefaultStanzaName,
             ''--repo='' @ trim_prefix ''repo'' repoName,
             ''--link-map=pg_wal='' @ WALDirectory cluster instance, ''--type=standby'']);
          from_status = (case find ReplicaCreateBackupComplete (cs_RepoStatus cluster) of Some repo \<Rightarrow> command (RepoStatusName repo) | None \<Rightarrow> [])
      in case cs_Standby cluster of
           Some sb \<Rightarrow> if StandbyEnabled sb \<and> StandbyRepoName sb \<noteq> [] then command (StandbyRepoName sb)
                      else from_status
         | None \<Rightarrow> from_status)"

text \<open>The data of a config map before and after; \<open>initialize.Map\<close> makes a missing map empty.\<close>

definition patroni_ClusterConfigMap ::
    "gover \<Rightarrow> merge_fn \<Rightarrow> yaml_fn \<Rightarrow> 'a PGCluster_scheme \<Rightarrow> HBAs \<Rightarrow> Parameters \<Rightarrow> strmap \<Rightarrow>
     error + (strmap \<times> error option)" where
  "patroni_ClusterConfigMap gv mrg yaml inCluster inHBAs inParameters data =
     (case clusterYAML gv mrg yaml inCluster inHBAs inParameters of
        Inl p \<Rightarrow> Inl p
      | Inr (s, err) \<Rightarrow> Inr (data(configMapFileKey \<mapsto> s), err))"

definition patroni_InstanceConfigMap ::
    "gover \<Rightarrow> yaml_fn \<Rightarrow> 'a PGCluster_scheme \<Rightarrow> InstanceSetSpec \<Rightarrow> strmap \<Rightarrow> strmap \<times> error option" where
  "patroni_InstanceConfigMap gv yaml inCluster inInstanceSpec data =
     (case instanceYAML gv yaml inCluster inInstanceSpec (ReplicaCreateCommand inCluster inInstanceSpec) of
        (s, err) \<Rightarrow> (data(configMapFileKey \<mapsto> s), err))"

definition patroni_InstanceCertificates ::
    "error + string \<Rightarrow> error + string \<Rightarrow> error + string \<Rightarrow> strmap \<Rightarrow> strmap \<times> error option" where
  "patroni_InstanceCertificates inRoot inDNS inDNSKey data =
     (case certFile [inRoot] of
        Inl e \<Rightarrow> (data(certAuthorityFileKey \<mapsto> []), Some e)
      | Inr ca \<Rightarrow>
          (case certFile [inDNSKey, inDNS] of
             Inl e \<Rightarrow> (data(certAuthorityFileKey \<mapsto> ca, certServerFileKey \<mapsto> []), Some e)
           | Inr crt \<Rightarrow> (data(certAuthorityFileKey \<mapsto> ca, certServerFileKey \<mapsto> crt), None)))"

datatype ProbeHandler =
    ExecAction "string list"
  | HTTPSGet string int32

definition probe_handler :: "string \<Rightarrow> string \<Rightarrow> gover \<Rightarrow> 'a PGCluster_scheme \<Rightarrow> error + ProbeHandler" where
  "probe_handler script path gv cluster =
     (if CompareVersion gv cluster ''2.7.0'' \<ge> 0 then Inr (ExecAction [''bash'', ''-c'', script])
      else (case Option.bind (cs_Patroni cluster) PatroniPort of
              None \<Rightarrow> Inl nil_deref
            | Some port \<Rightarrow> Inr (HTTPSGet path port)))"

definition livenessProbe :: "gover \<Rightarrow> 'a PGCluster_scheme \<Rightarrow> error + ProbeHandler" where
  "livenessProbe = probe_handler ''/opt/crunchy/bin/postgres-liveness-check.sh'' ''/liveness''"

definition readinessProbe :: "gover \<Rightarrow> 'a PGCluster_scheme \<Rightarrow> error + ProbeHandler" where
  "readinessProbe = probe_handler ''/opt/crunchy/bin/postgres-readiness-check.sh'' ''/readiness''"

record ContainerProbe =
  ProbeTiming :: Probe
  InitialDelaySeconds :: int32
  Handler :: ProbeHandler

record VolumeMount =
  MountName :: string
  MountPath :: string
  MountReadOnly :: bool

record Container =
  ctr_Name :: string
  ctr_Image :: string
  ctr_ImagePullPolicy :: string
  ctr_Command :: "string list"
  ctr_Env :: "EnvVar list"
  ctr_Ports :: "ContainerPort list"
  ctr_VolumeMounts :: "VolumeMount list"
  ctr_Resources :: opaque
  ctr_SecurityContext :: "opaque option"
  ctr_TerminationMessage :: "string \<times> string"
  LivenessProbe :: "ContainerProbe option"
  ReadinessProbe :: "ContainerProbe option"

definition instanceProbes :: "gover \<Rightarrow> 'a PGCluster_scheme \<Rightarrow> Container \<Rightarrow> error + Container" where
  "instanceProbes gv cluster container =
     (case cs_Patroni cluster of
        None \<Rightarrow> Inl nil_deref
      | Some sp \<Rightarrow>
          (case (probeTiming sp, livenessProbe gv cluster, readinessProbe gv cluster) of
             (Inl e, _, _) \<Rightarrow> Inl e
           | (_, Inl e, _) \<Rightarrow> Inl e
           | (_, _, Inl e) \<Rightarrow> Inl e
           | (Inr t, Inr l, Inr r) \<Rightarrow> Inr (container\<lparr>
               LivenessProbe := Some \<lparr>ProbeTiming = t, InitialDelaySeconds = 3, Handler = l\<rparr>,
               ReadinessProbe := Some \<lparr>ProbeTiming = t, InitialDelaySeconds = 3, Handler = r\<rparr>\<rparr>)))"

datatype Volume =
    ProjectedVolume string "VolumeProjection list"
  | EmptyDirVolume string

record PodTemplate =
  pt_Labels :: strmap
  pt_Containers :: "Container list"
  pt_InitContainers :: "Container list"
  pt_Volumes :: "Volume list"

definition CrunchyBinVolumeName :: string where
  "CrunchyBinVolumeName = ''crunchy-bin''"

definition CrunchyBinVolumePath :: string where
  "CrunchyBinVolumePath = ''/opt/crunchy''"

definition RestrictedSecurityContext :: "bool \<Rightarrow> opaque" where
  "RestrictedSecurityContext enableSeccompProfile =
     JObj ([''allowPrivilegeEscalation'' \<mapsto> JBool False,
       ''capabilities'' \<mapsto> JObj [''drop'' \<mapsto> json_strs [''ALL'']],
       ''privileged'' \<mapsto> JBool False,
       ''readOnlyRootFilesystem'' \<mapsto> JBool True,
       ''runAsNonRoot'' \<mapsto> JBool True] ++
       (if enableSeccompProfile
        then [''seccompProfile'' \<mapsto> JObj [''type'' \<mapsto> JStr ''RuntimeDefault'']] else Map.empty))"

text \<open>The value of the component's init container, else of the cluster's, else the given one.\<close>

definition init_setting ::
    "(InitContainerSpec \<Rightarrow> 'b option) \<Rightarrow> InitContainerSpec option \<Rightarrow> InitContainerSpec option \<Rightarrow> 'b \<Rightarrow> 'b" where
  "init_setting f component cluster d =
     (case Option.bind component f of Some x \<Rightarrow> x | None \<Rightarrow> deref (Option.bind cluster f) d)"

definition InitContainer ::
    "'a PGCluster_scheme \<Rightarrow> string \<Rightarrow> string \<Rightarrow> string \<Rightarrow> opaque \<Rightarrow> opaque \<Rightarrow>
     InitContainerSpec option \<Rightarrow> Container" where
  "InitContainer cluster componentName img pullPolicy secCtx resources component =
     \<lparr>ctr_Name = componentName @ ''-init'', ctr_Image = img, ctr_ImagePullPolicy = pullPolicy,
      ctr_Command = [''/usr/local/bin/init-entrypoint.sh''], ctr_Env = [], ctr_Ports = [],
      ctr_VolumeMounts = [\<lparr>MountName = CrunchyBinVolumeName, MountPath = CrunchyBinVolumePath, MountReadOnly = False\<rparr>],
      ctr_Resources = init_setting InitResources component (cs_InitContainer cluster) resources,
      ctr_SecurityContext = Some (init_setting InitSecurityContext component (cs_InitContainer cluster) secCtx),
      ctr_TerminationMessage = (''/dev/termination-log'', ''File''),
      LivenessProbe = None, ReadinessProbe = None\<rparr>"

definition instanceInitContainer ::
    "gover \<Rightarrow> 'a PGCluster_scheme \<Rightarrow> Container \<Rightarrow> PodTemplate \<Rightarrow> InstanceSetSpec \<Rightarrow> string \<Rightarrow>
     Container \<times> PodTemplate" where
  "instanceInitContainer gv cluster container instancePod inInstanceSpec initImage =
     (let initContainer = InitContainer cluster ContainerDatabase initImage (cs_ImagePullPolicy cluster)
            (RestrictedSecurityContext True) (ctr_Resources container) (InstanceInitContainer inInstanceSpec);
          inits = (if CompareVersion gv cluster ''2.8.0'' \<ge> 0
                   then initContainer # pt_InitContainers instancePod
                   else pt_InitContainers instancePod @ [initContainer])
      in (container\<lparr>ctr_VolumeMounts := ctr_VolumeMounts container @
            [\<lparr>MountName = CrunchyBinVolumeName, MountPath = CrunchyBinVolumePath, MountReadOnly = False\<rparr>]\<rparr>,
          instancePod\<lparr>pt_InitContainers := inits,
            pt_Volumes := pt_Volumes instancePod @ [EmptyDirVolume CrunchyBinVolumeName]\<rparr>))"

text \<open>The pointer the loop over the containers ends with: the last container of that name.\<close>

definition last_named :: "string \<Rightarrow> Container list \<Rightarrow> nat option" where
  "last_named n cs = (case filter (\<lambda>i. ctr_Name (cs ! i) = n) [0..<length cs] of [] \<Rightarrow> None | is \<Rightarrow> Some (last is))"

definition InstancePod ::
    "gover \<Rightarrow> (ContainerPort list \<Rightarrow> string) \<Rightarrow> 'a PGCluster_scheme \<Rightarrow> string \<Rightarrow> string \<Rightarrow> ServicePort list \<Rightarrow>
     InstanceSetSpec \<Rightarrow> string \<Rightarrow> string \<Rightarrow> string \<Rightarrow> PodTemplate \<Rightarrow> error + PodTemplate" where
  "InstancePod gv yamlPorts inCluster clusterConfigMap podService leaderPorts inInstanceSpec
       certificates instanceConfigMap initImage pod =
     (let pod = pod\<lparr>pt_Labels := (pt_Labels pod)(LabelPatroni \<mapsto> PatroniScope inCluster)\<rparr> in
      case last_named ContainerDatabase (pt_Containers pod) of
        None \<Rightarrow> Inl nil_deref
      | Some i \<Rightarrow>
          (let container = pt_Containers pod ! i;
               container = container\<lparr>ctr_Command :=
                 (if CompareVersion gv inCluster ''2.7.0'' \<ge> 0
                  then [''/opt/crunchy/bin/postgres-entrypoint.sh'', ''patroni'', configDirectory]
                  else [''patroni'', configDirectory])\<rparr>
           in case instanceEnvironment yamlPorts inCluster podService leaderPorts
                  (map ctr_Ports (pt_Containers pod)) of
                Inl e \<Rightarrow> Inl e
              | Inr env \<Rightarrow>
                  (let container = container\<lparr>ctr_Env := ctr_Env container @ env,
                         ctr_VolumeMounts := ctr_VolumeMounts container @
                           [\<lparr>MountName = ''patroni-config'', MountPath = configDirectory, MountReadOnly = True\<rparr>]\<rparr>;
                       pod = pod\<lparr>pt_Volumes := pt_Volumes pod @
                         [ProjectedVolume ''patroni-config''
                            (instanceConfigFiles clusterConfigMap instanceConfigMap @ instanceCertificates certificates)]\<rparr>
                   in case instanceProbes gv inCluster container of
                        Inl e \<Rightarrow> Inl e
                      | Inr container \<Rightarrow>
                          (case (if CompareVersion gv inCluster ''2.7.0'' \<ge> 0
                                 then instanceInitContainer gv inCluster container pod inInstanceSpec initImage
                                 else (container, pod)) of
                             (container, pod) \<Rightarrow>
                               Inr (pod\<lparr>pt_Containers := (pt_Containers pod)[i := container]\<rparr>)))))"

subsection \<open>What Patroni says about a pod\<close>

text \<open>The annotation \<open>status\<close> of the pod; a nil pod is \<open>None\<close>.\<close>

definition status_says :: "string \<Rightarrow> ObjectMeta option \<Rightarrow> bool" where
  "status_says text pod =
     (case pod of None \<Rightarrow> False | Some m \<Rightarrow> str_contains text (str_at (Annotations m) ''status''))"

definition PodIsPrimary :: "ObjectMeta option \<Rightarrow> bool" where
  \<open>PodIsPrimary pod = (status_says ''"role":"master"'' pod \<or> status_says ''"role":"primary"'' pod)\<close>

definition PodIsStandbyLeader :: "ObjectMeta option \<Rightarrow> bool" where
  \<open>PodIsStandbyLeader pod = status_says ''"role":"standby_leader"'' pod\<close>

definition PodRequiresRestart :: "ObjectMeta option \<Rightarrow> bool" where
  \<open>PodRequiresRestart pod = status_says ''"pending_restart":true'' pod\<close>

section \<open>Calling \<open>patronictl\<close>\<close>

definition patronictl ::
    "'w Executor \<Rightarrow> string list \<Rightarrow> (error option \<Rightarrow> string \<Rightarrow> string \<Rightarrow> ('w, 'b) io) \<Rightarrow> ('w, 'b) io" where
  "patronictl exec args k = plain (exec [] (''patronictl'' # args)) (\<lambda>(err, stdout, stderr). k err stdout stderr)"

definition ChangePrimaryAndWait ::
    "'w Executor \<Rightarrow> string \<Rightarrow> string \<Rightarrow> bool \<Rightarrow> ('w, bool \<times> error option) io" where
  "ChangePrimaryAndWait exec current nextp patroniVer4 =
     patronictl exec ([''switchover'', ''--scheduled=now'', ''--force'', ''--candidate='' @ nextp] @
         (if patroniVer4 then [''--primary='' @ current] else [''--master='' @ current]))
       (\<lambda>err stdout _. ret (str_contains ''switched over'' stdout, err))"

definition SwitchoverAndWait :: "'w Executor \<Rightarrow> string \<Rightarrow> ('w, bool \<times> error option) io" where
  "SwitchoverAndWait exec target =
     patronictl exec [''switchover'', ''--scheduled=now'', ''--force'', ''--candidate='' @ target]
       (\<lambda>err stdout _. ret (str_contains ''switched over'' stdout, err))"

definition FailoverAndWait :: "'w Executor \<Rightarrow> string \<Rightarrow> ('w, bool \<times> error option) io" where
  "FailoverAndWait exec target =
     patronictl exec [''failover'', ''--force'', ''--candidate='' @ target]
       (\<lambda>err stdout _. ret (str_contains ''failed over'' stdout, err))"

text \<open>\<open>encode\<close> is the JSON encoder.\<close>

definition ReplaceConfiguration ::
    "((string \<Rightarrow> json option) \<Rightarrow> error + string) \<Rightarrow> 'w Executor \<Rightarrow> (string \<Rightarrow> json option) \<Rightarrow>
     ('w, error option) io" where
  "ReplaceConfiguration encode exec configuration =
     (case encode configuration of
        Inl err \<Rightarrow> ret (Some err)
      | Inr stdin \<Rightarrow> plain (exec stdin [''patronictl'', ''edit-config'', ''--replace=-'', ''--force''])
          (\<lambda>(err, _, _). ret err))"

definition RestartPendingMembers :: "'w Executor \<Rightarrow> string \<Rightarrow> string \<Rightarrow> ('w, error option) io" where
  "RestartPendingMembers exec role scope =
     patronictl exec [''restart'', ''--pending'', ''--force'', ''--role='' @ role, scope] (\<lambda>err _ _. ret err)"

record PatroniMember =
  MemberRole :: string
  MemberState :: string
  MemberTimeline :: int

text \<open>\<open>unmarshal\<close> is the JSON decoder for the list of members.\<close>

definition GetTimeline ::
    "(string \<Rightarrow> error + PatroniMember list) \<Rightarrow> 'w Executor \<Rightarrow> ('w, int \<times> error option) io" where
  "GetTimeline unmarshal exec =
     patronictl exec [''list'', ''--format'', ''json''] (\<lambda>err stdout stderr.
       case err of
         Some e \<Rightarrow> ret (0, Some e)
       | None \<Rightarrow>
           if stderr \<noteq> [] then ret (0, Some (Errorf stderr))
           else (case unmarshal stdout of
               Inl e \<Rightarrow> ret (0, Some e)
             | Inr members \<Rightarrow>
                 (case find (\<lambda>m. MemberRole m = ''Leader'' \<and> MemberState m = ''running'') members of
                    Some m \<Rightarrow> ret (MemberTimeline m, None)
                  | None \<Rightarrow> ret (0, None))))"

section \<open>What the dynamic configuration holds\<close>

text \<open>The sections of a configuration, as the code looks them up.\<close>

definition section_of :: "(string \<Rightarrow> json option) \<Rightarrow> string \<Rightarrow> (string \<Rightarrow> json option)" where
  "section_of m k = (case as_object (m k) of Some section \<Rightarrow> section | None \<Rightarrow> Map.empty)"

definition user_parameters :: "(string \<Rightarrow> json option) \<Rightarrow> (string \<Rightarrow> json option)" where
  "user_parameters conf = section_of (section_of conf ''postgresql'') ''parameters''"

lemma foldl_defaults:
  "distinct (map fst kvs) \<Longrightarrow>
   foldl (\<lambda>m (k, v). m(k \<mapsto> JStr v)) p kvs k = (case map_of kvs k of None \<Rightarrow> p k | Some v \<Rightarrow> Some (JStr v))"
proof (induction kvs arbitrary: p)
  case (Cons kv kvs)
  then show ?case by (cases kv) (auto simp: map_of_eq_None_iff [symmetric] split: option.splits)
qed simp

lemma mandatory_value_cong: "m k = m' k \<Longrightarrow> mandatory_value m k v = mandatory_value m' k v"
  by (auto simp: mandatory_value_def)

lemma foldl_mandatory:
  "distinct (map fst kvs) \<Longrightarrow>
   foldl (\<lambda>m (k, v). m(k \<mapsto> JStr (mandatory_value m k v))) p kvs k =
     (case map_of kvs k of None \<Rightarrow> p k | Some v \<Rightarrow> Some (JStr (mandatory_value p k v)))"
proof (induction kvs arbitrary: p)
  case (Cons kv kvs)
  obtain k0 v0 where kv: "kv = (k0, v0)" by fastforce
  let ?p = "p(k0 \<mapsto> JStr (mandatory_value p k0 v0))"
  have IH: "foldl (\<lambda>m (k, v). m(k \<mapsto> JStr (mandatory_value m k v))) p (kv # kvs) k =
     (case map_of kvs k of None \<Rightarrow> ?p k | Some v \<Rightarrow> Some (JStr (mandatory_value ?p k v)))"
    using Cons.IH [of ?p] Cons.prems kv by (simp del: fun_upd_apply)
  show ?case
  proof (cases "k = k0")
    case True
    with Cons.prems kv have "map_of kvs k = None" by (simp add: map_of_eq_None_iff)
    with True kv show ?thesis unfolding IH by simp
  next
    case False
    then have "?p k = p k" by simp
    with False kv show ?thesis unfolding IH by (simp add: mandatory_value_cong [of ?p k p] split: option.splits)
  qed
qed simp

lemma dynamic_parameters_lookup:
  fixes pm :: Parameters and pg :: "string \<Rightarrow> json option"
  assumes "ps_ok (Mandatory pm)" and "ps_ok (Default pm)"
  defines "base \<equiv> (\<lambda>k. map_option JStr (map_of (ps_values (Default pm)) k)) ++ section_of pg ''parameters''"
  shows "dynamic_parameters pg pm k =
    (case map_of (ps_values (Mandatory pm)) k of
       None \<Rightarrow> base k | Some v \<Rightarrow> Some (JStr (mandatory_value base k v)))"
proof -
  have "(\<lambda>k. foldl (\<lambda>m (k, v). m(k \<mapsto> JStr v)) Map.empty (ps_values (Default pm)) k) =
      (\<lambda>k. map_option JStr (map_of (ps_values (Default pm)) k))"
    using assms(2) by (auto simp: foldl_defaults ps_ok_def fun_eq_iff split: option.splits)
  then have "(case as_object (pg ''parameters'') of
       Some section \<Rightarrow> foldl (\<lambda>m (k, v). m(k \<mapsto> JStr v)) Map.empty (AsMap (Default pm)) ++ section
     | None \<Rightarrow> foldl (\<lambda>m (k, v). m(k \<mapsto> JStr v)) Map.empty (AsMap (Default pm))) = base"
    by (auto simp: base_def section_of_def AsMap_def split: option.splits)
  then show ?thesis
    using assms(1) unfolding dynamic_parameters_def Let_def
    by (simp only: foldl_mandatory ps_ok_def AsMap_def)
qed

lemma DynamicConfiguration_postgresql:
  assumes "DynamicConfiguration cluster conf hbas pm = Inr root"
  defines "pg \<equiv> [''use_slots'' \<mapsto> JBool False] ++ section_of conf ''postgresql''"
  obtains sec where "root ''postgresql'' = Some (JObj sec)"
    and "sec ''parameters'' = Some (JObj (dynamic_parameters pg pm))"
    and "sec ''pg_hba'' = Some (json_strs (dynamic_hba cluster pg hbas))"
proof -
  have pg: "(case as_object (((Map.empty ++ conf)(''ttl'' \<mapsto> a, ''loop_wait'' \<mapsto> b)) ''postgresql'') of
       Some section \<Rightarrow> [''use_slots'' \<mapsto> JBool False] ++ section | None \<Rightarrow> [''use_slots'' \<mapsto> JBool False]) = pg" for a b
    by (simp add: pg_def section_of_def split: option.splits)
  let ?sec = "pg(''parameters'' \<mapsto> JObj (dynamic_parameters pg pm),
    ''pg_hba'' \<mapsto> json_strs (dynamic_hba cluster (pg(''parameters'' \<mapsto> JObj (dynamic_parameters pg pm))) hbas),
    ''use_pg_rewind'' \<mapsto> JBool (cs_PostgresVersion cluster > 10))"
  have "root ''postgresql'' = Some (JObj ?sec)"
    using assms(1) unfolding DynamicConfiguration_def Let_def pg
    by (auto split: option.splits if_splits)
  moreover have "dynamic_hba cluster (pg(''parameters'' \<mapsto> x)) hbas = dynamic_hba cluster pg hbas" for x
    by (simp add: dynamic_hba_def)
  ultimately show thesis by (intro that [of ?sec]) simp_all
qed

lemma map_add_lookup: "(f ++ g) k = (case g k of Some y \<Rightarrow> Some y | None \<Rightarrow> f k)"
  by (simp add: map_add_def split: option.splits)

lemma section_of_postgresql:
  "section_of ([''use_slots'' \<mapsto> x] ++ m) ''parameters'' = section_of m ''parameters''"
  by (simp add: section_of_def map_add_def split: option.splits)

text \<open>
  C27: Which value a PostgreSQL parameter ends up with. A mandatory parameter has the operator's
  value whatever the user wrote; any other parameter has the user's value, and the operator's
  default only where the user gave none. The preload list is the one mandatory parameter that
  is combined: the user's libraries come first, then the operator's, and \<open>citus\<close> is put
  in front when the list mentions it. A name spelled with capitals is not the mandatory
  parameter of the lower case name: there the user's value stands beside it.
\<close>

theorem effective_parameters:
  assumes "ps_ok (Mandatory pm)" and "ps_ok (Default pm)"
    and "DynamicConfiguration cluster conf hbas pm = Inr root"
  shows "\<exists>sec ps. root ''postgresql'' = Some (JObj sec) \<and> sec ''parameters'' = Some (JObj ps) \<and>
    (\<forall>k v. map_of (ps_values (Mandatory pm)) k = Some v \<and> k \<noteq> ''shared_preload_libraries'' \<longrightarrow>
       ps k = Some (JStr v)) \<and>
    (\<forall>k. map_of (ps_values (Mandatory pm)) k = None \<longrightarrow>
       ps k = (case user_parameters conf k of Some u \<Rightarrow> Some u
               | None \<Rightarrow> map_option JStr (map_of (ps_values (Default pm)) k))) \<and>
    (\<forall>k. normalize k \<noteq> k \<longrightarrow> ps k = user_parameters conf k) \<and>
    (\<forall>v libs. map_of (ps_values (Mandatory pm)) ''shared_preload_libraries'' = Some v \<and>
        user_parameters conf ''shared_preload_libraries'' = Some (JStr libs) \<and> libs \<noteq> [] \<longrightarrow>
       ps ''shared_preload_libraries'' = Some (JStr
         (if str_contains ''citus'' (libs @ '','' @ v) then ''citus,'' @ libs @ '','' @ v else libs @ '','' @ v)))"
proof -
  let ?pg = "[''use_slots'' \<mapsto> JBool False] ++ section_of conf ''postgresql''"
  from assms(3) obtain sec where sec: "root ''postgresql'' = Some (JObj sec)"
    "sec ''parameters'' = Some (JObj (dynamic_parameters ?pg pm))"
    by (rule DynamicConfiguration_postgresql)
  have lookup: "dynamic_parameters ?pg pm k =
    (case map_of (ps_values (Mandatory pm)) k of
       None \<Rightarrow> (case user_parameters conf k of Some u \<Rightarrow> Some u | None \<Rightarrow> map_option JStr (map_of (ps_values (Default pm)) k))
     | Some v \<Rightarrow> Some (JStr (mandatory_value
         ((\<lambda>k. map_option JStr (map_of (ps_values (Default pm)) k)) ++ user_parameters conf) k v)))" for k
    using dynamic_parameters_lookup [OF assms(1,2), of ?pg k]
    by (simp only: section_of_postgresql user_parameters_def [symmetric] map_add_lookup)
  show ?thesis
  proof (rule exI [of _ sec], rule exI [of _ "dynamic_parameters ?pg pm"], intro conjI allI impI)
    fix k v assume "map_of (ps_values (Mandatory pm)) k = Some v \<and> k \<noteq> ''shared_preload_libraries''"
    then show "dynamic_parameters ?pg pm k = Some (JStr v)" by (simp add: lookup mandatory_value_def)
  next
    fix k assume "map_of (ps_values (Mandatory pm)) k = None"
    then show "dynamic_parameters ?pg pm k =
        (case user_parameters conf k of Some u \<Rightarrow> Some u | None \<Rightarrow> map_option JStr (map_of (ps_values (Default pm)) k))"
      by (simp add: lookup)
  next
    fix k assume "normalize k \<noteq> k"
    with assms(1,2) show "dynamic_parameters ?pg pm k = user_parameters conf k"
      by (simp add: lookup ps_ok_outside split: option.splits)
  next
    fix v libs assume "map_of (ps_values (Mandatory pm)) ''shared_preload_libraries'' = Some v \<and>
        user_parameters conf ''shared_preload_libraries'' = Some (JStr libs) \<and> libs \<noteq> []"
    then show "dynamic_parameters ?pg pm ''shared_preload_libraries'' = Some (JStr
         (if str_contains ''citus'' (libs @ '','' @ v) then ''citus,'' @ libs @ '','' @ v else libs @ '','' @ v))"
      by (simp add: lookup mandatory_value_def Let_def map_add_lookup)
  qed (use sec in auto)
qed


section \<open>Rules of the specification\<close>

lemma hba_String_quoted_origin:
  "hba_origin h = hba_quote t \<Longrightarrow> hba_origin h \<noteq> ''local''"
  by (simp add: hba_quote_def)

text \<open>
  A structured rule for local connections is never usable. \<open>hbaFromSpec\<close> writes the
  connection type in quotes, so the record is not recognised as local and is printed with the
  address \<open>all\<close>; PostgreSQL, which reads the quoted word as the type \<open>local\<close>, then
  takes \<open>all\<close> for the authentication method of the line.
\<close>

theorem structured_local_rule_misread:
  assumes "RuleDatabases r = []" and "RuleUsers r = []" and "RuleOptions r = []"
    and "RuleConnection r = ''local''" and "RuleMethod r = ''peer''"
    and "c_local c" and "\<not> c_replication c"
  shows "hba_String (hbaFromSpec r) = hba_quote ''local'' @ '' all all all peer'' \<and>
    first_match c [hba_String (hbaFromSpec r)] = Some ''all''"
proof
  show line: "hba_String (hbaFromSpec r) = hba_quote ''local'' @ '' all all all peer''"
    using assms(1-5)
    by (simp add: hbaFromSpec_def Origin_def Method_def NewHBA_def AllUsers_def AllNetworks_def AllDatabases_def
        hba_String_def hba_quote_def replace_char_def TrimSpace_def trim_func_def is_space_def)
  have "hba_fields (hba_quote ''local'' @ '' all all all peer'') =
      [[(True, ''local'')], [(False, ''all'')], [(False, ''all'')], [(False, ''all'')], [(False, ''peer'')]]"
    by code_simp
  then show "first_match c [hba_String (hbaFromSpec r)] = Some ''all''"
    unfolding line using assms(6,7) by (simp add: first_match_def verdict_defs)
qed

section \<open>Shell words\<close>

text \<open>
  How a shell reads words: blanks separate them, single quotes keep everything up to the next
  single quote, double quotes keep everything up to the next double quote when no character of
  \<open>$`\\\<close> is among it. \<open>word\<close> is the word so far in reverse, if one has begun.
\<close>

datatype shell_state = Between | Bare string | Single string | Double string

fun shell_words :: "shell_state \<Rightarrow> string \<Rightarrow> string list option" where
  "shell_words Between [] = Some []"
| "shell_words (Bare w) [] = Some [rev w]"
| "shell_words _ [] = None"
| "shell_words Between (c # cs) =
     (if c = CHR '' '' then shell_words Between cs
      else if c = CHR 0x27 then shell_words (Single []) cs
      else if c = CHR 0x22 then shell_words (Double []) cs
      else shell_words (Bare [c]) cs)"
| "shell_words (Bare w) (c # cs) =
     (if c = CHR '' '' then map_option (Cons (rev w)) (shell_words Between cs)
      else if c = CHR 0x27 then shell_words (Single w) cs
      else if c = CHR 0x22 then shell_words (Double w) cs
      else shell_words (Bare (c # w)) cs)"
| "shell_words (Single w) (c # cs) =
     (if c = CHR 0x27 then shell_words (Bare w) cs else shell_words (Single (c # w)) cs)"
| "shell_words (Double w) (c # cs) =
     (if c = CHR 0x22 then shell_words (Bare w) cs
      else if c \<in> {CHR ''$'', CHR ''`'', CHR 0x5C} then None
      else shell_words (Double (c # w)) cs)"

lemma shell_single:
  "shell_words (Single w)
     (replace_char (CHR 0x27) [CHR 0x27, CHR 0x22, CHR 0x27, CHR 0x22, CHR 0x27] s @ CHR 0x27 # rest) =
   shell_words (Bare (rev s @ w)) rest"
  by (induction s arbitrary: w) (auto simp: replace_char_def)

lemma shell_quoted:
  "shell_words Between (quoteShellWord s @ rest) = shell_words (Bare (rev s)) rest"
  using shell_single [of "[]" s rest] by (simp add: quoteShellWord_def)

lemma shell_joined: "shell_words Between (str_join '' '' (map quoteShellWord ws)) = Some ws"
proof (induction ws rule: induct_list012)
  case (2 w)
  show ?case using shell_quoted [of w "[]"] by simp
next
  case (3 w v ws)
  then show ?case using shell_quoted [of w] by simp
qed simp

text \<open>
  The command by which Patroni creates a replica is what the shell makes of it: splitting
  the generated text into words gives the wrapper and then every argument of the pgBackRest
  command unchanged, whatever characters it contains.
\<close>

theorem replica_command_reads_back:
  "\<exists>wrapper. shell_words Between (replica_command command) = Some (wrapper @ command) \<and>
     wrapper ! 0 = ''bash'' \<and> length wrapper = 5"
  by (simp add: replica_command_def shell_joined del: list.map)

section \<open>Probes\<close>

lemma int32_div_pos:
  assumes "0 \<le> sint a" and "0 < sint b"
  shows "int32_div a b = Inr (word_of_int (sint a div sint b))"
    and "sint (word_of_int (sint a div sint b) :: int32) = sint a div sint b"
proof -
  have sdiv: "sint a sdiv sint b = sint a div sint b" using assms by (simp add: signed_divide_int_def sgn_if)
  have "b \<noteq> 0" using assms(2) by auto
  then show "int32_div a b = Inr (word_of_int (sint a div sint b))" by (simp add: int32_div_def sdiv)
  have "sint a div sint b \<le> sint a" using assms zdiv_mono2 [of "sint a" 1 "sint b"] by simp
  moreover have "sint a < 2 ^ 31" using sint_lt [of a] by simp
  moreover have "0 \<le> sint a div sint b" using assms by (simp add: pos_imp_zdiv_nonneg_iff)
  ultimately show "sint (word_of_int (sint a div sint b) :: int32) = sint a div sint b"
    by (simp add: sint_sbintrunc' signed_take_bit_int_eq_self)
qed

lemma div_spans:
  fixes l s :: int
  assumes "0 < s"
  shows "l div s * s \<le> l" and "l < (l div s + 1) * s"
  using div_mult_mod_eq [of l s] pos_mod_sign [OF assms, of l] pos_mod_bound [OF assms, of l]
  unfolding distrib_right mult_1 by linarith+

lemma sint_at_least_one: "sint (at_least_one n) = max 1 (sint n)"
  by (simp add: at_least_one_def max_def)

text \<open>
  For the durations the API admits, a lease of at least three seconds and a sync period of
  at least one that is not longer, the probes of an instance are well-formed and fail in time:
  timeout, period and both thresholds are at least one, the timeout is at most the period, and
  the failures that are tolerated span no more than the lease but, with one more period, do.
\<close>

theorem probeTiming_bounds:
  assumes "SyncPeriodSeconds spec = Some sync" and "LeaderLeaseDurationSeconds spec = Some lease"
    and "1 \<le> sint sync" and "sint sync \<le> sint lease"
  shows "\<exists>p. probeTiming spec = Inr p \<and> 1 \<le> sint (TimeoutSeconds p) \<and>
    sint (TimeoutSeconds p) \<le> sint (PeriodSeconds p) \<and> PeriodSeconds p = sync \<and> SuccessThreshold p = 1 \<and>
    1 \<le> sint (FailureThreshold p) \<and>
    sint (FailureThreshold p) * sint (PeriodSeconds p) \<le> sint lease \<and>
    sint lease < (sint (FailureThreshold p) + 1) * sint (PeriodSeconds p)"
proof -
  let ?s = "sint sync" and ?l = "sint lease"
  let ?p = "\<lparr>TimeoutSeconds = at_least_one (word_of_int (?s div 2)), PeriodSeconds = sync,
    SuccessThreshold = 1, FailureThreshold = at_least_one (word_of_int (?l div ?s))\<rparr>"
  have two: "sint (2 :: int32) = 2" by simp
  note t = int32_div_pos [of sync 2, unfolded two] and f = int32_div_pos [of lease sync]
  have "probeTiming spec = Inr ?p"
    using assms t(1) f(1) by (simp add: probeTiming_def)
  moreover have "1 \<le> ?l div ?s" using assms(3,4) by (simp add: pos_imp_zdiv_pos_iff int_one_le_iff_zero_less)
  moreover have "?l div ?s * ?s \<le> ?l" "?l < (?l div ?s + 1) * ?s"
    using div_spans [of ?s ?l] assms(3) by simp_all
  moreover have "?s div 2 \<le> ?s" using assms(3) by linarith
  ultimately show ?thesis
    using assms t(2) f(2) by (intro exI [of _ ?p]) (simp add: sint_at_least_one)
qed

section \<open>Examples\<close>

lemma DynamicConfiguration_defined:
  "(\<exists>root. DynamicConfiguration cluster conf hbas pm = Inr root) \<longleftrightarrow>
   (\<exists>sp. cs_Patroni cluster = Some sp \<and> LeaderLeaseDurationSeconds sp \<noteq> None \<and> SyncPeriodSeconds sp \<noteq> None)"
  by (auto simp: DynamicConfiguration_def Let_def split: option.splits)

lemma DynamicConfiguration_example:
  obtains root where "DynamicConfiguration (example_cluster b) conf hbas pm = Inr root"
  using DynamicConfiguration_defined [of "example_cluster b" conf hbas pm] by (auto simp: example_cluster_def)

lemma ps_ok_NewParameters: "ps_ok (Mandatory NewParameters)" "ps_ok (Default NewParameters)"
  by (simp_all add: NewParameters_def)

definition example_configuration :: "string \<Rightarrow> json option" where
  "example_configuration = [''postgresql'' \<mapsto> JObj [
     ''parameters'' \<mapsto> JObj [''ssl'' \<mapsto> JStr ''off'', ''SSL'' \<mapsto> JStr ''off'', ''jit'' \<mapsto> JStr ''on''],
     ''pg_hba'' \<mapsto> JList [JStr ''host all all all trust'']]]"

theorem effective_parameters_witness:
  "\<exists>root sec ps. DynamicConfiguration (example_cluster False) example_configuration NewHBAs NewParameters = Inr root \<and>
     root ''postgresql'' = Some (JObj sec) \<and> sec ''parameters'' = Some (JObj ps) \<and>
     ps ''ssl'' = Some (JStr ''on'') \<and> ps ''SSL'' = Some (JStr ''off'')"
proof -
  obtain root where root: "DynamicConfiguration (example_cluster False) example_configuration NewHBAs NewParameters = Inr root"
    by (rule DynamicConfiguration_example)
  have "normalize ''ssl'' = ''ssl''" "normalize ''ssl_cert_file'' \<noteq> ''ssl''" "normalize ''ssl_key_file'' \<noteq> ''ssl''"
    "normalize ''ssl_ca_file'' \<noteq> ''ssl''" by code_simp+
  then have "ps_Get (Mandatory NewParameters) ''ssl'' = Some ''on''"
    by (simp add: NewParameters_def params.get_add)
  then have ssl: "map_of (ps_values (Mandatory NewParameters)) ''ssl'' = Some ''on''"
    by (simp add: ps_Get_def \<open>normalize ''ssl'' = ''ssl''\<close>)
  have SSL: "normalize ''SSL'' \<noteq> ''SSL''" by code_simp
  have "user_parameters example_configuration ''SSL'' = Some (JStr ''off'')"
    by (simp add: user_parameters_def section_of_def example_configuration_def)
  with effective_parameters [OF ps_ok_NewParameters root] ssl SSL root show ?thesis by fastforce
qed


definition local_rule :: PostgresHBARule where
  "local_rule = \<lparr>RuleConnection = ''local'', RuleMethod = ''peer'', RuleDatabases = [], RuleUsers = [],
     RuleOptions = []\<rparr>"

theorem structured_local_rule_misread_witness:
  "first_match ((plaintext_connection False)\<lparr>c_local := True\<rparr>) [hba_String (hbaFromSpec local_rule)] = Some ''all''"
  by (rule structured_local_rule_misread [THEN conjunct2]) (simp_all add: local_rule_def plaintext_connection_def)

theorem probeTiming_bounds_witness:
  "\<exists>p. probeTiming (the (cs_Patroni (example_cluster False))) = Inr p \<and> 1 \<le> sint (FailureThreshold p) \<and>
     sint (FailureThreshold p) * 10 \<le> 30"
  using probeTiming_bounds [of "the (cs_Patroni (example_cluster False))" 10 30]
  by (auto simp: example_cluster_def)

end
