(* ===== verification/Instances.thy ===== *)
theory Instances
  imports Patroni_Config
begin

text \<open>
  The PostgreSQL instances of a PostgresCluster,
  \<open>internal/controller/postgrescluster/instance.go\<close> with \<open>delete.go\<close> and
  \<open>pod_disruption_budget.go\<close>: what the reconciler observes of the instances, how it
  scales them up and down, in which order it redeploys and stops them. The interface to the API
  server is the record \<open>reconciler\<close>. Log lines, events and tracing spans are left out.
\<close>

section \<open>Objects and interface\<close>

definition RolePatroniLeader :: string where
  "RolePatroniLeader = ''primary''"

definition RolePatroniLeaderDeprecated :: string where
  "RolePatroniLeaderDeprecated = ''master''"

definition Finalizer :: string where
  "Finalizer = labelPrefix @ ''finalizer''"

text \<open>
  A container status is the name of the container and whether it is running; an owner is the
  kind and name of the controller.
\<close>

record InstPod = Pod +
  ContainerStatuses :: "(string \<times> bool) list"
  InitContainerStatuses :: "(string \<times> bool) list"
  TerminationGracePeriodSeconds :: "int option"
  PodOwner :: "(string \<times> string) option"

record Runner = StatefulSet +
  StsObservedGeneration :: int
  UpdateRevision :: string

record SetStatus =
  SetStatusName :: string
  SetStatusReplicas :: int
  SetStatusReady :: int
  SetStatusUpdated :: int
  DesiredPGDataVolume :: strmap

record SwitchoverSpec =
  SwitchoverEnabled :: bool
  TargetInstance :: "string option"
  SwitchoverType :: string

text \<open>
  A Service: the specification a user gives of one, and the object. The controller of the object
  is the UID of its owner.
\<close>

record ServiceSpec =
  ss_Labels :: strmap
  ss_Annotations :: strmap
  ss_NodePort :: "int32 option"
  ss_Type :: string
  ss_LoadBalancerSourceRanges :: "string list"
  ss_InternalTrafficPolicy :: "string option"
  ss_ExternalTrafficPolicy :: "string option"

record SvcPort =
  sp_Name :: string
  sp_Port :: int32
  sp_Protocol :: string
  sp_TargetPort :: string
  sp_NodePort :: int32

record Service =
  sv_meta :: ObjectMeta
  sv_Type :: string
  sv_ClusterIP :: string
  sv_PublishNotReady :: bool
  sv_Selector :: "strmap option"
  sv_Ports :: "SvcPort list"
  sv_LoadBalancerSourceRanges :: "string list"
  sv_InternalTrafficPolicy :: "string option"
  sv_ExternalTrafficPolicy :: string
  sv_Controller :: "string option"

text \<open>Endpoints with the addresses and ports of their only subset.\<close>

record ServiceEndpoints =
  se_meta :: ObjectMeta
  se_Controller :: "string option"
  se_Addresses :: "string list"
  se_Ports :: "(string \<times> int32 \<times> string) list"

text \<open>
  What a cluster is created from or restored from: another cluster's repository, or a repository in
  a cloud, with its stanza.
\<close>

record CloudDataSource =
  CloudStanza :: string
  CloudRepoName :: string
  CloudOptions :: "string list"

record DataSource =
  ds_PostgresCluster :: "PostgresClusterDataSource option"
  ds_PGBackRest :: "CloudDataSource option"

text \<open>A repository with the cron expressions of its schedules, by backup type.\<close>

record BackupSchedules =
  ScheduleFull :: "string option"
  ScheduleDifferential :: "string option"
  ScheduleIncremental :: "string option"

record ScheduledRepo = PGBackRestRepo +
  RepoSchedules :: "BackupSchedules option"

record BackupJobs =
  bj_Resources :: opaque
  bj_TTLSecondsAfterFinished :: "int option"
  bj_Tolerations :: "opaque list"
  bj_Affinity :: "opaque option"
  bj_PriorityClassName :: "string option"
  bj_RestartPolicy :: string
  bj_BackoffLimit :: "int option"

record InstCluster = PGCluster +
  ic_Shutdown :: "bool option"
  ic_Annotations :: strmap \<comment> \<open>\<open>Spec.Metadata\<close>\<close>
  ic_DisableDefaultPodScheduling :: "bool option"
  ic_ImagePullSecrets :: "opaque list"
  ic_Switchover :: "SwitchoverSpec option"
  ic_StartupInstance :: string
  ic_StartupInstanceSet :: string
  ic_InstanceSetStatus :: "SetStatus list"
  ic_SwitchoverStatus :: "string option"
  ic_SwitchoverTimeline :: "int option"
  ic_Service :: "ServiceSpec option"
  ic_ReplicaService :: "ServiceSpec option"
  ic_DataSource :: "DataSource option"
  ic_Restore :: "PGBackRestRestoreSpec option" \<comment> \<open>\<open>Spec.Backups.PGBackRest\<close> and below\<close>
  ic_Manual :: "PGBackRestManualBackup option"
  ic_Repos :: "ScheduledRepo list"
  ic_Jobs :: "BackupJobs option"
  ic_BackupLabels :: strmap
  ic_BackupAnnotations :: strmap
  ic_BackupEnv :: "opaque list"
  ic_BackupEnvFrom :: "opaque list"
  ic_Snapshots :: bool \<comment> \<open>\<open>Spec.Backups.Snapshots\<close> is there\<close>
  ic_PGBouncerRevision :: string
  ic_ExporterConfiguration :: string
  ic_RepoHostReady :: "bool option" \<comment> \<open>\<open>Status.PGBackRest.RepoHost\<close>\<close>

text \<open>An object that may be controlled by a cluster: its kind, metadata and controller's UID.\<close>

record Controlled =
  co_kind :: string
  co_meta :: ObjectMeta
  co_controller :: "string option"

record PodDisruptionBudget =
  pdb_meta :: ObjectMeta
  pdb_MinAvailable :: IntOrString
  pdb_Selector :: LabelSelector
  pdb_Controller :: "string option"

text \<open>\<open>Instance\<close>: its name, the pods found for it, its StatefulSet and the specification of its set.\<close>

record Instance =
  i_name :: string
  i_pods :: "InstPod list"
  i_runner :: "Runner option"
  i_spec :: "InstanceSetSpec option"

text \<open>
  \<open>rc_AsSelector\<close> gives the error of making a selector, if any.
  \<open>rc_Sort\<close> is \<open>sort.Sort\<close>, \<open>rc_Scaled\<close> is
  \<open>intstr.GetScaledValueFromIntOrPercent\<close> with rounding up, \<open>rc_ParseQuantity\<close>
  parses a resource quantity to its value. \<open>rc_Scale_Zero\<close> sends the merge patch
  \<open>{"spec":{"replicas":0}}\<close> to a StatefulSet. \<open>rc_Delete\<close> and
  \<open>rc_Delete_Pod\<close> have the UID and the resource version of their object as
  preconditions, the other deletions have none. \<open>rc_Apply_Service\<close> returns the object as
  the API server has it. \<open>rc_Read_Backup\<close> reads past the cache. The three functions on
  conditions are those of apimachinery.
\<close>

text \<open>The Job of a pgBackRest backup: its metadata and what its pod runs.\<close>

record BackupJobSpec =
  js_Labels :: strmap
  js_Annotations :: strmap
  js_Command :: "string list"
  js_Env :: "EnvVar list"
  js_UserEnv :: "opaque list" \<comment> \<open>after those of the operator\<close>
  js_EnvFrom :: "opaque list"
  js_Image :: string
  js_ImagePullPolicy :: string
  js_ContainerName :: string
  js_Resources :: "opaque option"
  js_VolumeMounts :: "VolumeMount list"
  js_InitContainers :: "Container list"
  js_Volumes :: "string list"
  js_SecurityContext :: opaque
  js_RestartPolicy :: string
  js_ServiceAccountName :: string
  js_TTLSecondsAfterFinished :: "int option"
  js_BackoffLimit :: "int option"
  js_Tolerations :: "opaque list"
  js_Affinity :: "opaque option"
  js_PriorityClassName :: string
  js_ImagePullSecrets :: "opaque list"

record JobIntent =
  ji_meta :: ObjectMeta
  ji_Spec :: BackupJobSpec

record 'w reconciler =
  rc_Now :: "'w \<Rightarrow> time"
  rc_AsSelector :: "LabelSelector \<Rightarrow> error option"
  rc_Sort :: "(Instance \<Rightarrow> Instance \<Rightarrow> bool) \<Rightarrow> Instance list \<Rightarrow> Instance list"
  rc_Scaled :: "IntOrString \<Rightarrow> int \<Rightarrow> error + int"
  rc_ParseQuantity :: "string \<Rightarrow> error + int"
  rc_List_Pods :: "string \<Rightarrow> LabelSelector \<Rightarrow> ('w, InstPod list) io"
  rc_List_Runners :: "string \<Rightarrow> LabelSelector \<Rightarrow> ('w, Runner list) io"
  rc_List_Kind :: "string \<Rightarrow> string \<Rightarrow> LabelSelector \<Rightarrow> ('w, Controlled list) io"
  rc_Delete :: "Controlled \<Rightarrow> ('w, unit) io"
  rc_Delete_Pod :: "InstPod \<Rightarrow> ('w, unit) io"
  rc_Scale_Zero :: "key \<Rightarrow> ('w, unit) io"
  rc_Patch_Finalizers :: "InstCluster \<Rightarrow> string list \<Rightarrow> ('w, unit) io"
  rc_DeleteAll_Endpoints :: "string \<Rightarrow> LabelSelector \<Rightarrow> ('w, unit) io"
  rc_Get_PDB :: "key \<Rightarrow> ('w, PodDisruptionBudget) io"
  rc_Apply_PDB :: "PodDisruptionBudget \<Rightarrow> ('w, unit) io"
  rc_Get_Endpoints :: "key \<Rightarrow> ('w, Endpoints) io"
  rc_SetControllerReference :: "InstCluster \<Rightarrow> PodDisruptionBudget \<Rightarrow> error + PodDisruptionBudget"
  rc_Own_Service :: "InstCluster \<Rightarrow> Service \<Rightarrow> error + Service"
  rc_Get_Service :: "key \<Rightarrow> ('w, Service) io"
  rc_Apply_Service :: "Service \<Rightarrow> ('w, Service) io"
  rc_Apply_Endpoints :: "ServiceEndpoints \<Rightarrow> ('w, unit) io"
  rc_FindCondition :: "Condition list \<Rightarrow> string \<Rightarrow> Condition option"
  rc_SetCondition :: "Condition list \<Rightarrow> Condition \<Rightarrow> Condition list"
  rc_RemoveCondition :: "Condition list \<Rightarrow> string \<Rightarrow> Condition list"
  rc_SafeEncode :: "string \<Rightarrow> string"
  rc_Get_Current :: "key \<Rightarrow> ('w, InstCluster) io"
  rc_Read_Backup :: "key \<Rightarrow> ('w, PerconaPGBackup) io"
  rc_List_Jobs :: "string \<Rightarrow> strmap \<Rightarrow> ('w, Job list) io"
  rc_Delete_Job :: "Job \<Rightarrow> ('w, unit) io"
  rc_Delete_Runner :: "Runner \<Rightarrow> ('w, unit) io"
  rc_Delete_Endpoints :: "Endpoints \<Rightarrow> ('w, unit) io"
  rc_Delete_Object :: "Controlled \<Rightarrow> ('w, unit) io"
  rc_Apply_Job :: "JobIntent \<Rightarrow> ('w, unit) io"
  rc_PodExec :: "string \<Rightarrow> string \<Rightarrow> string \<Rightarrow> 'w Executor"

definition with_selector :: "'w reconciler \<Rightarrow> LabelSelector \<Rightarrow> ('w, 'a) io \<Rightarrow> ('w, 'a) io" where
  "with_selector E sel k = (case rc_AsSelector E sel of Some e \<Rightarrow> throw e | None \<Rightarrow> k)"

section \<open>One instance\<close>

text \<open>Each of these returns whether something is so and whether that is known.\<close>

definition IsTerminating :: "Instance \<Rightarrow> bool \<times> bool" where
  "IsTerminating i =
     (case i_pods i of [p] \<Rightarrow> (DeletionTimestamp (p_meta p) \<noteq> None, True) | _ \<Rightarrow> (False, False))"

definition IsReady :: "Instance \<Rightarrow> bool \<times> bool" where
  "IsReady i =
     (case i_pods i of
        [p] \<Rightarrow> (case find (\<lambda>c. JobConditionType c = ''Ready'') (PodConditions p) of
                 Some c \<Rightarrow> (JobConditionStatus c = ConditionTrue, True)
               | None \<Rightarrow> (False, False))
      | _ \<Rightarrow> (False, False))"

definition IsAvailable :: "Instance \<Rightarrow> bool \<times> bool" where
  "IsAvailable i =
     (let (terminating, knownTerminating) = IsTerminating i; (ready, knownReady) = IsReady i
      in (ready \<and> \<not> terminating, knownReady \<and> knownTerminating))"

definition pod_role :: "'a Pod_scheme \<Rightarrow> string" where
  "pod_role p = str_at (Labels (p_meta p)) LabelRole"

definition IsPrimary :: "Instance \<Rightarrow> bool \<times> bool" where
  "IsPrimary i =
     (case i_pods i of
        [p] \<Rightarrow> (pod_role p = RolePatroniLeader \<or> pod_role p = RolePatroniLeaderDeprecated, True)
      | _ \<Rightarrow> (False, False))"

definition IsRunning :: "Instance \<Rightarrow> string \<Rightarrow> bool \<times> bool" where
  "IsRunning i container =
     (case i_pods i of
        [p] \<Rightarrow> (case find (\<lambda>(n, _). n = container) (ContainerStatuses p @ InitContainerStatuses p) of
                 Some (_, running) \<Rightarrow> (running, True)
               | None \<Rightarrow> (False, False))
      | _ \<Rightarrow> (False, False))"

text \<open>\<open>member[strings.Index(member, text):]\<close>, when there is an occurrence.\<close>

fun from_index :: "string \<Rightarrow> string \<Rightarrow> string option" where
  "from_index p [] = (if p = [] then Some [] else None)"
| "from_index p (c # cs) = (if has_prefix p (c # cs) then Some (c # cs) else from_index p cs)"

definition IsWritable :: "Instance \<Rightarrow> bool \<times> bool" where
  \<open>IsWritable i =
     (case i_pods i of
        [p] \<Rightarrow> (case from_index ''"role":'' (str_at (Annotations (p_meta p)) ''status'') of
                 None \<Rightarrow> (False, False)
               | Some member \<Rightarrow> (has_prefix ''"role":"master"'' member \<or> has_prefix ''"role":"primary"'' member, True))
      | _ \<Rightarrow> (False, False))\<close>

definition StatefulSetRevisionLabel :: string where
  "StatefulSetRevisionLabel = ''controller-revision-hash''"

definition PodMatchesPodTemplate :: "Instance \<Rightarrow> bool \<times> bool" where
  "PodMatchesPodTemplate i =
     (case (i_runner i, i_pods i) of
        (Some runner, [p]) \<Rightarrow>
          if StsObservedGeneration runner \<noteq> Generation (s_meta runner) then (False, False)
          else (str_at (Labels (p_meta p)) StatefulSetRevisionLabel = UpdateRevision runner, True)
      | _ \<Rightarrow> (False, False))"

text \<open>A fact that holds and is known; one that is known not to hold.\<close>

definition surely :: "bool \<times> bool \<Rightarrow> bool" where
  "surely r \<longleftrightarrow> snd r \<and> fst r"

definition surely_not :: "bool \<times> bool \<Rightarrow> bool" where
  "surely_not r \<longleftrightarrow> snd r \<and> \<not> fst r"

definition byPriority :: "Instance \<Rightarrow> Instance \<Rightarrow> bool" where
  "byPriority a b =
     (if surely (IsPrimary a) then False
      else if surely (IsPrimary b) then True
      else if surely (IsAvailable a) then False
      else if surely (IsAvailable b) then True
      else i_name a < i_name b)"

section \<open>What is observed\<close>

text \<open>
  The instances in the order in which they were found, which is the order of
  \<open>forCluster\<close>. The maps of the Go code hold pointers to them, so here they hold positions:
  pods found later are added to the instance itself.
\<close>

record observedInstances =
  forCluster :: "Instance list"
  byNameAt :: "string \<Rightarrow> nat option"
  bySetAt :: "string \<Rightarrow> nat list"
  setNames :: "string list"

definition byName :: "observedInstances \<Rightarrow> string \<Rightarrow> Instance option" where
  "byName o' n = map_option (\<lambda>k. forCluster o' ! k) (byNameAt o' n)"

definition bySet :: "observedInstances \<Rightarrow> string \<Rightarrow> Instance list" where
  "bySet o' s = map (\<lambda>k. forCluster o' ! k) (bySetAt o' s)"

definition observe_new :: "Instance \<Rightarrow> string \<Rightarrow> observedInstances \<Rightarrow> observedInstances" where
  "observe_new i s o' =
     (let k = length (forCluster o') in
      \<lparr>forCluster = forCluster o' @ [i],
       byNameAt = (byNameAt o')(i_name i \<mapsto> k),
       bySetAt = (bySetAt o')(s := bySetAt o' s @ [k]),
       setNames = List.insert s (setNames o')\<rparr>)"

text \<open>The specification of a set: the last one of that name.\<close>

definition set_spec :: "'a PGCluster_scheme \<Rightarrow> string \<Rightarrow> InstanceSetSpec option" where
  "set_spec cluster name = find (\<lambda>s. InstanceName s = name) (rev (cs_InstanceSets cluster))"

definition observe_runner :: "'a PGCluster_scheme \<Rightarrow> Runner \<Rightarrow> observedInstances \<Rightarrow> observedInstances" where
  "observe_runner cluster runner o' =
     (let rs = str_at (Labels (s_meta runner)) LabelInstanceSet in
      observe_new \<lparr>i_name = Name (s_meta runner), i_pods = [], i_runner = Some runner, i_spec = set_spec cluster rs\<rparr> rs o')"

definition observe_pod :: "'a PGCluster_scheme \<Rightarrow> InstPod \<Rightarrow> observedInstances \<Rightarrow> observedInstances" where
  "observe_pod cluster pod o' =
     (let pn = str_at (Labels (p_meta pod)) LabelInstance;
          ps = str_at (Labels (p_meta pod)) LabelInstanceSet
      in case byNameAt o' pn of
           None \<Rightarrow> observe_new \<lparr>i_name = pn, i_pods = [pod], i_runner = None, i_spec = set_spec cluster ps\<rparr> ps o'
         | Some k \<Rightarrow> o'\<lparr>forCluster := (forCluster o')[k := (forCluster o' ! k)\<lparr>i_pods := i_pods (forCluster o' ! k) @ [pod]\<rparr>]\<rparr>)"

definition newObservedInstances :: "'a PGCluster_scheme \<Rightarrow> Runner list \<Rightarrow> InstPod list \<Rightarrow> observedInstances" where
  "newObservedInstances cluster runners pods =
     fold (observe_pod cluster) pods (fold (observe_runner cluster) runners
       \<lparr>forCluster = [], byNameAt = Map.empty, bySetAt = (\<lambda>_. []),
        setNames = fold (\<lambda>s. List.insert (InstanceName s)) (cs_InstanceSets cluster) []\<rparr>)"

definition writablePod :: "observedInstances \<Rightarrow> string \<Rightarrow> (InstPod \<times> Instance) option" where
  "writablePod observed container =
     map_option (\<lambda>i. (hd (i_pods i), i)) (find (\<lambda>i. surely_not (IsTerminating i) \<and> surely (IsWritable i) \<and>
       surely (IsRunning i container)) (forCluster observed))"

definition standbyLeaderPod :: "observedInstances \<Rightarrow> string \<Rightarrow> (InstPod \<times> Instance) option" where
  "standbyLeaderPod observed container =
     map_option (\<lambda>i. (hd (i_pods i), i)) (find (\<lambda>i. surely_not (IsTerminating i) \<and>
       length (i_pods i) = 1 \<and> PodIsStandbyLeader (Some (p_meta (hd (i_pods i)))) \<and>
       surely (IsRunning i container)) (forCluster observed))"

definition runningPods :: "observedInstances \<Rightarrow> string \<Rightarrow> InstPod list \<times> bool" where
  "runningPods observed container =
     (let up = (\<lambda>i. surely_not (IsTerminating i) \<and> surely (IsRunning i container)) in
      (map (\<lambda>i. hd (i_pods i)) (filter up (forCluster observed)), list_all up (forCluster observed)))"

subsection \<open>The status of the instance sets\<close>

definition storeDesiredRequest :: "'w reconciler \<Rightarrow> string \<Rightarrow> string \<Rightarrow> string" where
  "storeDesiredRequest E desiredRequest desiredRequestBackup =
     (let usable = (\<lambda>r. if r \<noteq> [] \<and> isl (rc_ParseQuantity E r) then [] else r);
          desired = usable desiredRequest
      in if desired = [] then usable desiredRequestBackup else desired)"

definition suggested_size :: string where
  "suggested_size = ''suggested-pgdata-pvc-size''"

definition set_status ::
    "'w reconciler \<Rightarrow> bool \<Rightarrow> strmap \<Rightarrow> observedInstances \<Rightarrow> string \<Rightarrow> SetStatus" where
  "set_status E autogrow previous observed name =
     (let instances = bySet observed name;
          observed_sizes = fold (\<lambda>i m. fold (\<lambda>p m.
              let v = str_at (Annotations (p_meta p)) suggested_size in
              if v \<noteq> [] then m(i_name i \<mapsto> v) else m) (i_pods i) m) instances Map.empty;
          sizes = fold (\<lambda>i m. m(i_name i \<mapsto>
              storeDesiredRequest E (str_at m (i_name i)) (str_at previous (i_name i)))) instances observed_sizes
      in \<lparr>SetStatusName = name,
          SetStatusReplicas = sum_list (map (\<lambda>i. int (length (i_pods i))) instances),
          SetStatusReady = int (length (filter (\<lambda>i. surely (IsReady i)) instances)),
          SetStatusUpdated = int (length (filter (\<lambda>i. surely (PodMatchesPodTemplate i)) instances)),
          DesiredPGDataVolume = (if autogrow then sizes else Map.empty)\<rparr>)"

definition fill_status :: "'w reconciler \<Rightarrow> bool \<Rightarrow> InstCluster \<Rightarrow> observedInstances \<Rightarrow> InstCluster" where
  "fill_status E autogrow cluster observed =
     (let previous = foldl (\<lambda>m s. m ++ DesiredPGDataVolume s) Map.empty (ic_InstanceSetStatus cluster)
      in cluster\<lparr>ic_InstanceSetStatus := map (set_status E autogrow previous observed) (sort (setNames observed))\<rparr>)"

text \<open>
  The status is filled also when a list call fails, then from what was listed before the failure.
  The result is the cluster, the observation and the error.
\<close>

definition observeInstances ::
    "'w reconciler \<Rightarrow> bool \<Rightarrow> InstCluster \<Rightarrow> ('w, InstCluster \<times> observedInstances \<times> error option) io" where
  "observeInstances E autogrow cluster =
     (let sel = ClusterInstances (cluster_name cluster); ns = cluster_ns cluster;
          finish = (\<lambda>runners pods err. let observed = newObservedInstances cluster runners pods
             in ret (fill_status E autogrow cluster observed, observed, err))
      in attempt (with_selector E sel (rc_List_Pods E ns sel))
           (\<lambda>e. finish [] [] (Some e))
           (\<lambda>pods. attempt (rc_List_Runners E ns sel)
              (\<lambda>e. finish [] pods (Some e))
              (\<lambda>runners. finish runners pods None)))"

section \<open>Stopping and deleting instances\<close>

text \<open>
  A \<open>reconcile.Result\<close> is whether to come back and after which duration.
  \<open>stop\<close> returns the result of the caller, changed when the StatefulSet could not be
  scaled. \<open>deleteInstances\<close> is \<open>None\<close> when there is nothing left to stop.
\<close>

record reconcile_Result =
  Requeue :: bool
  RequeueAfter :: int

definition empty_Result :: reconcile_Result where
  "empty_Result = \<lparr>Requeue = False, RequeueAfter = 0\<rparr>"

definition RequeueWithoutBackoff :: "int \<Rightarrow> reconcile_Result" where
  "RequeueWithoutBackoff delay = \<lparr>Requeue = True, RequeueAfter = (if delay \<le> 0 then 1 else delay)\<rparr>"

definition stop ::
    "'w reconciler \<Rightarrow> 'a PGCluster_scheme \<Rightarrow> InstPod \<Rightarrow> reconcile_Result \<Rightarrow> ('w, reconcile_Result \<times> error option) io" where
  "stop E cluster pod result =
     (case PodOwner pod of
        None \<Rightarrow> ret (result, Some (Errorf (''pod '' @ go_quote (Namespace (p_meta pod) @ ''/'' @ Name (p_meta pod)) @ '' has no owner'')))
      | Some (kind, name) \<Rightarrow>
          if kind = ''StatefulSet'' then
            attempt (rc_Scale_Zero E (cluster_ns cluster, name))
              (\<lambda>e. ret (RequeueWithoutBackoff (10 * Second), if IsNotFound e then None else Some e))
              (\<lambda>_. ret (result, None))
          else ret (result, Some (Errorf (''unexpected kind '' @ go_quote kind))))"

text \<open>The loop over several pods, with the result and the error so far.\<close>

fun stop_replicas ::
    "'w reconciler \<Rightarrow> 'a PGCluster_scheme \<Rightarrow> InstPod list \<Rightarrow> reconcile_Result \<Rightarrow> error option \<Rightarrow>
     ('w, reconcile_Result \<times> error option) io" where
  "stop_replicas E cluster [] result err = ret (result, err)"
| "stop_replicas E cluster (p # ps) result err =
     (if err = None \<and> (pod_role p = RolePatroniReplica \<or> pod_role p = [])
      then plain (stop E cluster p result) (\<lambda>(result, err). stop_replicas E cluster ps (result\<lparr>RequeueAfter := 0\<rparr>) err)
      else stop_replicas E cluster ps result err)"

definition deleteInstances :: "'w reconciler \<Rightarrow> 'a PGCluster_scheme \<Rightarrow> ('w, reconcile_Result option) io" where
  "deleteInstances E cluster =
     (let sel = ClusterInstances (cluster_name cluster) in
      plain (with_selector E sel (rc_List_Pods E (cluster_ns cluster) sel)) (\<lambda>pods.
        let fin = (\<lambda>(result, err). case err of Some e \<Rightarrow> throw e | None \<Rightarrow> ret (Some result)) in
        case pods of
          [] \<Rightarrow> ret None
        | [p] \<Rightarrow> plain (stop E cluster p empty_Result) fin
        | _ \<Rightarrow> plain (stop_replicas E cluster pods (empty_Result\<lparr>RequeueAfter := 1 * Second\<rparr>) None) fin))"

definition deletePatroniArtifacts :: "'w reconciler \<Rightarrow> 'a PGCluster_scheme \<Rightarrow> ('w, unit) io" where
  "deletePatroniArtifacts E cluster =
     with_selector E (ClusterPatronis cluster)
       (rc_DeleteAll_Endpoints E (cluster_ns cluster) (ClusterPatronis cluster))"

text \<open>\<open>None\<close> lets the caller go on. The finalizers left are written in sorted order.\<close>

definition handleDelete :: "'w reconciler \<Rightarrow> InstCluster \<Rightarrow> ('w, reconcile_Result option) io" where
  "handleDelete E cluster =
     (let finalizers = Finalizers (cc_meta cluster) in
      if time_IsZero (DeletionTimestamp (cc_meta cluster)) then
        (if Finalizer \<in> set finalizers then ret None
         else plain (rc_Patch_Finalizers E cluster (finalizers @ [Finalizer])) (\<lambda>_. ret None))
      else if Finalizer \<notin> set finalizers then ret (Some empty_Result)
      else plain (deleteInstances E cluster) (\<lambda>result.
        case result of
          Some r \<Rightarrow> ret (Some r)
        | None \<Rightarrow> plain (deletePatroniArtifacts E cluster) (\<lambda>_.
            plain (ignore_not_found (rc_Patch_Finalizers E cluster
                (sort (remdups (filter (\<lambda>f. f \<noteq> Finalizer) finalizers)))))
              (\<lambda>_. ret (Some empty_Result)))))"

definition IsControlledBy :: "Controlled \<Rightarrow> 'a PGCluster_scheme \<Rightarrow> bool" where
  "IsControlledBy object cluster \<longleftrightarrow> co_controller object = Some (UID (cc_meta cluster))"

definition deleteControlled :: "'w reconciler \<Rightarrow> 'a PGCluster_scheme \<Rightarrow> Controlled \<Rightarrow> ('w, unit) io" where
  "deleteControlled E cluster object =
     (if IsControlledBy object cluster then rc_Delete E object else ret ())"

fun delete_items :: "'w reconciler \<Rightarrow> 'a PGCluster_scheme \<Rightarrow> Controlled list \<Rightarrow> ('w, unit) io" where
  "delete_items E cluster [] = ret ()"
| "delete_items E cluster (x # xs) =
     plain (ignore_not_found (deleteControlled E cluster x)) (\<lambda>_. delete_items E cluster xs)"

fun delete_kinds ::
    "'w reconciler \<Rightarrow> 'a PGCluster_scheme \<Rightarrow> LabelSelector \<Rightarrow> string list \<Rightarrow> ('w, unit) io" where
  "delete_kinds E cluster sel [] = ret ()"
| "delete_kinds E cluster sel (k # ks) =
     plain (rc_List_Kind E k (cluster_ns cluster) sel) (\<lambda>items.
       plain (delete_items E cluster items) (\<lambda>_. delete_kinds E cluster sel ks))"

definition deleteInstance :: "'w reconciler \<Rightarrow> 'a PGCluster_scheme \<Rightarrow> string \<Rightarrow> ('w, unit) io" where
  "deleteInstance E cluster instanceName =
     (let sel = ClusterInstance (cluster_name cluster) instanceName in
      with_selector E sel (delete_kinds E cluster sel
        [''ConfigMapList'', ''SecretList'', ''StatefulSetList'', ''PersistentVolumeClaimList'']))"

section \<open>Scaling\<close>

subsection \<open>Up\<close>

definition data_volumes :: "InstanceSetSpec \<Rightarrow> PVC list \<Rightarrow> PVC list" where
  "data_volumes set' clusterVolumes = filter (\<lambda>v. DeletionTimestamp (v_meta v) = None \<and>
     str_at (Labels (v_meta v)) LabelRole = RolePostgresData \<and>
     str_at (Labels (v_meta v)) LabelInstanceSet = InstanceName set') clusterVolumes"

definition wal_volumes_for :: "InstanceSetSpec \<Rightarrow> PVC list \<Rightarrow> PVC \<Rightarrow> PVC list" where
  "wal_volumes_for set' clusterVolumes setVol = filter (\<lambda>v. DeletionTimestamp (v_meta v) = None \<and>
     str_at (Labels (v_meta v)) LabelRole = RolePostgresWAL \<and>
     str_at (Labels (v_meta v)) LabelInstanceSet = InstanceName set' \<and>
     str_at (Labels (v_meta v)) LabelInstance = str_at (Labels (v_meta setVol)) LabelInstance) clusterVolumes"

definition findAvailableInstanceNames ::
    "InstanceSetSpec \<Rightarrow> observedInstances \<Rightarrow> PVC list \<Rightarrow> string list" where
  "findAvailableInstanceNames set' observed clusterVolumes =
     (let setVolumes = data_volumes set' clusterVolumes;
          setVolumes = (if WALVolumeClaimSpec set' \<noteq> None
            then concat (map (wal_volumes_for set' clusterVolumes) setVolumes) else setVolumes)
      in filter (\<lambda>n. Option.bind (byName observed n) i_runner = None)
           (map (\<lambda>v. str_at (Labels (v_meta v)) LabelInstance) setVolumes))"

text \<open>
  \<open>rnd\<close> is the sequence of random strings of \<open>GenerateInstance\<close>, \<open>n\<close>
  the number used so far. The loop that looks for a name that is not taken ends only when the
  sequence has one, so it is a partial function.
\<close>

partial_function (option) fresh_instance ::
    "(nat \<Rightarrow> string) \<Rightarrow> 'a PGCluster_scheme \<Rightarrow> string \<Rightarrow> string list \<Rightarrow> nat \<Rightarrow> (ObjectMeta \<times> nat) option" where
  "fresh_instance rnd cluster setName taken n =
     (let next = GenerateInstance (rnd n) cluster setName in
      if Name next \<in> set taken then fresh_instance rnd cluster setName taken (Suc n)
      else Some (next, Suc n))"

declare fresh_instance.simps [code]

text \<open>The names of the instances to add: \<open>missing\<close> of them.\<close>

fun new_instances ::
    "(nat \<Rightarrow> string) \<Rightarrow> 'a PGCluster_scheme \<Rightarrow> string \<Rightarrow> nat \<Rightarrow> string list \<Rightarrow> string list \<Rightarrow> nat \<Rightarrow>
     ObjectMeta list option" where
  "new_instances rnd cluster setName 0 available taken n = Some []"
| "new_instances rnd cluster setName (Suc missing) available taken n =
     (case available of
        a # as \<Rightarrow>
          let next = (GenerateInstance (rnd n) cluster setName)\<lparr>Name := a\<rparr> in
          map_option ((#) next) (new_instances rnd cluster setName missing as (a # taken) (Suc n))
      | [] \<Rightarrow>
          (case fresh_instance rnd cluster setName taken n of
             None \<Rightarrow> None
           | Some (next, n') \<Rightarrow>
               map_option ((#) next) (new_instances rnd cluster setName missing [] (Name next # taken) n')))"

definition empty_runner :: "ObjectMeta \<Rightarrow> Runner" where
  "empty_runner m = \<lparr>s_meta = m, StsReplicas = 0, StsReadyReplicas = 0, StsObservedGeneration = 0, UpdateRevision = []\<rparr>"

definition scaled_instances ::
    "(nat \<Rightarrow> string) \<Rightarrow> 'a PGCluster_scheme \<Rightarrow> observedInstances \<Rightarrow> InstanceSetSpec \<Rightarrow> int32 \<Rightarrow> string list \<Rightarrow>
     Runner list option" where
  "scaled_instances rnd cluster observed set' replicas available =
     (let runners = List.map_filter i_runner (bySet observed (InstanceName set'));
          names = map i_name (filter (\<lambda>i. i_runner i \<noteq> None) (bySet observed (InstanceName set')))
      in map_option (\<lambda>ms. runners @ map empty_runner ms)
           (new_instances rnd cluster (InstanceName set') (nat (sint replicas) - length runners) available names 0))"

text \<open>
  Reconciling the instances one after the other: the error returned is that of the last one.
  \<open>reconcileInstance\<close>, which writes the objects of one instance, is an argument.
\<close>

fun reconcile_each :: "(Runner \<Rightarrow> ('w, unit) io) \<Rightarrow> Runner list \<Rightarrow> error option \<Rightarrow> ('w, error option) io" where
  "reconcile_each reconcileInstance [] err = ret err"
| "reconcile_each reconcileInstance (r # rs) err =
     attempt (reconcileInstance r)
       (\<lambda>e. reconcile_each reconcileInstance rs (Some e)) (\<lambda>_. reconcile_each reconcileInstance rs None)"

text \<open>A loop that does not end is the error \<open>Sentinel\<close> of its name.\<close>

definition scaleUpInstances ::
    "(nat \<Rightarrow> string) \<Rightarrow> (Runner \<Rightarrow> ('w, unit) io) \<Rightarrow> 'a PGCluster_scheme \<Rightarrow> observedInstances \<Rightarrow>
     InstanceSetSpec \<Rightarrow> string list \<Rightarrow> ('w, Runner list) io" where
  "scaleUpInstances rnd reconcileInstance cluster observed set' available =
     (case InstanceReplicas set' of
        None \<Rightarrow> throw nil_deref
      | Some replicas \<Rightarrow>
          (case scaled_instances rnd cluster observed set' replicas available of
             None \<Rightarrow> throw (Sentinel ''does not return'')
           | Some instances \<Rightarrow>
               plain (reconcile_each reconcileInstance instances None) (\<lambda>err.
                 case err of Some e \<Rightarrow> throw e | None \<Rightarrow> ret instances)))"

subsection \<open>Down\<close>

definition pod_leads :: "'a Pod_scheme \<Rightarrow> bool" where
  "pod_leads p \<longleftrightarrow> pod_role p = ''master'' \<or> pod_role p = ''primary''"

definition keep_of_set :: "InstPod list \<Rightarrow> int \<Rightarrow> InstPod list" where
  "keep_of_set instances want =
     (let keep = (if want > 0 then filter pod_leads instances else [])
      in keep @ take (nat (want - int (length keep))) (filter (\<lambda>p. \<not> pod_leads p) instances))"

text \<open>\<open>want\<close> in the order in which Go iterates the map, each set once.\<close>

definition podsToKeep :: "InstPod list \<Rightarrow> (string \<times> int) list \<Rightarrow> InstPod list" where
  "podsToKeep instances want =
     concat (map (\<lambda>(name, num). keep_of_set
       (filter (\<lambda>p. str_at (Labels (p_meta p)) LabelInstanceSet = name) instances) num) want)"

fun wanted :: "InstanceSetSpec list \<Rightarrow> (string \<times> int) list \<Rightarrow> error + (string \<times> int) list" where
  "wanted [] want = Inr want"
| "wanted (s # ss) want =
     (case InstanceReplicas s of
        None \<Rightarrow> Inl nil_deref
      | Some n \<Rightarrow> wanted ss (AList.update (InstanceName s) (sint n) want))"

fun delete_pods_of ::
    "'w reconciler \<Rightarrow> 'a PGCluster_scheme \<Rightarrow> string list \<Rightarrow> InstPod list \<Rightarrow> ('w, unit) io" where
  "delete_pods_of E cluster namesToKeep [] = ret ()"
| "delete_pods_of E cluster namesToKeep (p # ps) =
     (let n = str_at (Labels (p_meta p)) LabelInstance in
      if n \<in> set namesToKeep then delete_pods_of E cluster namesToKeep ps
      else plain (deleteInstance E cluster n) (\<lambda>_. delete_pods_of E cluster namesToKeep ps))"

text \<open>\<open>order\<close> is the order in which Go iterates the map of wanted replicas.\<close>

definition scaleDownInstances ::
    "'w reconciler \<Rightarrow> ((string \<times> int) list \<Rightarrow> (string \<times> int) list) \<Rightarrow> 'a PGCluster_scheme \<Rightarrow> observedInstances \<Rightarrow>
     ('w, unit) io" where
  "scaleDownInstances E order cluster observed =
     (case wanted (cs_InstanceSets cluster) [] of
        Inl e \<Rightarrow> throw e
      | Inr want \<Rightarrow>
          let pods = concat (map i_pods (forCluster observed));
              namesToKeep = map (\<lambda>p. str_at (Labels (p_meta p)) LabelInstance) (podsToKeep pods (order want))
          in delete_pods_of E cluster namesToKeep pods)"

section \<open>Rolling out changes\<close>

definition DefaultTerminationGracePeriodSeconds :: int where
  "DefaultTerminationGracePeriodSeconds = 30"

text \<open>
  The checkpoints before the only instance is stopped. Whether they succeed is only logged, so
  their result is not returned.
\<close>

definition instance_checkpoint :: "'w reconciler \<Rightarrow> 'w Executor \<Rightarrow> int \<Rightarrow> ('w, time \<times> error option) io" where
  "instance_checkpoint E exec graceSeconds =
     look (rc_Now E) (\<lambda>start.
       plain (ExecInDatabasesFromQuery exec ''SELECT pg_catalog.current_database()''
           (''SET statement_timeout = :'' @ [CHR 0x27] @ ''timeout'' @ [CHR 0x27] @ ''; CHECKPOINT;'')
           [(''timeout'', sprint_int graceSeconds @ ''s''), (''ON_ERROR_STOP'', ''on''), (''QUIET'', ''on'')])
         (\<lambda>(err, _, _). look (rc_Now E) (\<lambda>now. ret (now - start, err))))"

definition checkpoints :: "'w reconciler \<Rightarrow> 'w Executor \<Rightarrow> InstPod \<Rightarrow> ('w, unit) io" where
  "checkpoints E exec pod =
     (let graceSeconds = deref (TerminationGracePeriodSeconds pod) DefaultTerminationGracePeriodSeconds;
          threshold = (graceSeconds sdiv 2) * Second
      in plain (instance_checkpoint E exec graceSeconds) (\<lambda>(duration, err).
           if err = None \<and> duration > threshold
           then plain (instance_checkpoint E exec graceSeconds) (\<lambda>_. ret ()) else ret ()))"

definition rolloutInstance ::
    "'w reconciler \<Rightarrow> gover \<Rightarrow> 'a PGCluster_scheme \<Rightarrow> observedInstances \<Rightarrow> Instance \<Rightarrow> ('w, unit) io" where
  "rolloutInstance E gv cluster instances i =
     (case (i_runner i, i_pods i) of
        (Some _, [pod]) \<Rightarrow>
          let exec = rc_PodExec E (Namespace (p_meta pod)) (Name (p_meta pod)) ContainerDatabase;
              primary = surely (IsPrimary i)
          in if primary \<and> length (forCluster instances) > 1 then
               (case IsPatroniVer4 gv cluster of
                  Inl e \<Rightarrow> throw (Wrap ''failed to check if patroni v4 is used'' e)
                | Inr patroniVer4 \<Rightarrow>
                    plain (ChangePrimaryAndWait exec (Name (p_meta pod)) [] patroniVer4) (\<lambda>(success, err).
                      case err of
                        Some e \<Rightarrow> throw e
                      | None \<Rightarrow> if success then ret () else throw (Errorf ''unable to switchover'')))
             else if primary then plain (checkpoints E exec pod) (\<lambda>_. rc_Delete_Pod E pod)
             else rc_Delete_Pod E pod
      | _ \<Rightarrow> throw (Errorf (''unexpected instance state during rollout: '' @ i_name i @ '' has '' @
          sprint_int (int (length (i_pods i))) @ '' pods'')))"

definition maxUnavailable :: int where
  "maxUnavailable = 1"

fun specified :: "InstanceSetSpec list \<Rightarrow> error + int" where
  "specified [] = Inr 0"
| "specified (s # ss) =
     (case InstanceReplicas s of
        None \<Rightarrow> Inl nil_deref
      | Some n \<Rightarrow> (case specified ss of Inl e \<Rightarrow> Inl e | Inr m \<Rightarrow> Inr (sint n + m)))"

text \<open>The instances that count: they have a set and are known not to be terminating.\<close>

definition counted :: "Instance \<Rightarrow> bool" where
  "counted i \<longleftrightarrow> i_spec i \<noteq> None \<and> surely_not (IsTerminating i)"

definition considered :: "Instance list \<Rightarrow> Instance list" where
  "considered is = filter (\<lambda>i. counted i \<and> surely_not (PodMatchesPodTemplate i)) is"

definition numAvailable :: "Instance list \<Rightarrow> int" where
  "numAvailable is = int (length (filter (\<lambda>i. counted i \<and> surely (IsAvailable i)) is))"

fun redeploy_loop :: "(Instance \<Rightarrow> ('w, unit) io) \<Rightarrow> Instance list \<Rightarrow> int \<Rightarrow> ('w, unit) io" where
  "redeploy_loop redeploy [] numUnavailable = ret ()"
| "redeploy_loop redeploy (i # is) numUnavailable =
     (if surely_not (IsAvailable i) then plain (redeploy i) (\<lambda>_. redeploy_loop redeploy is numUnavailable)
      else if numUnavailable < maxUnavailable
      then plain (redeploy i) (\<lambda>_. redeploy_loop redeploy is (numUnavailable + 1))
      else redeploy_loop redeploy is numUnavailable)"

definition rolloutInstances ::
    "'w reconciler \<Rightarrow> 'a PGCluster_scheme \<Rightarrow> observedInstances \<Rightarrow> (Instance \<Rightarrow> ('w, unit) io) \<Rightarrow> ('w, unit) io" where
  "rolloutInstances E cluster instances redeploy =
     (case specified (cs_InstanceSets cluster) of
        Inl e \<Rightarrow> throw e
      | Inr numSpecified \<Rightarrow>
          let todo = considered (forCluster instances);
              todo = (if length todo > 1 then rc_Sort E byPriority todo else todo)
          in redeploy_loop redeploy todo (numSpecified - numAvailable (forCluster instances)))"

section \<open>The StatefulSet of an instance\<close>

definition LabelPerconaComponent :: string where
  "LabelPerconaComponent = ''app.kubernetes.io/component''"

definition LabelPerconaManagedBy :: string where
  "LabelPerconaManagedBy = ''app.kubernetes.io/managed-by''"

definition LabelPerconaPartOf :: string where
  "LabelPerconaPartOf = ''app.kubernetes.io/part-of''"

definition LabelPerconaName :: string where
  "LabelPerconaName = ''app.kubernetes.io/name''"

definition LabelPerconaInstance :: string where
  "LabelPerconaInstance = ''app.kubernetes.io/instance''"

definition LabelPerconaManagedByValue :: string where
  "LabelPerconaManagedByValue = ''percona-postgresql-operator''"

definition WithPerconaLabels :: "merge_fn \<Rightarrow> gover \<Rightarrow> strmap \<Rightarrow> string \<Rightarrow> string \<Rightarrow> string \<Rightarrow> strmap" where
  "WithPerconaLabels mrg gv labels clusterName component crVersion =
     (case gv crVersion ''2.3.0'' of
        Inl _ \<Rightarrow> labels
      | Inr c \<Rightarrow>
          if c < 0 then labels
          else
            let ls = [LabelPerconaManagedBy \<mapsto> LabelPerconaManagedByValue,
                      LabelPerconaName \<mapsto> ''percona-postgresql'', LabelPerconaPartOf \<mapsto> ''percona-postgresql''];
                ls = (if clusterName \<noteq> [] then ls(LabelPerconaInstance \<mapsto> clusterName) else ls);
                ls = (if component \<noteq> [] then ls(LabelPerconaComponent \<mapsto> component) else ls)
            in mrg labels ls)"

record TopologySpreadConstraint =
  TopologyKey :: string
  WhenUnsatisfiable :: string
  SpreadSelector :: LabelSelector
  MaxSkew :: int

definition defaultTopologySpreadConstraints :: "LabelSelector \<Rightarrow> TopologySpreadConstraint list" where
  "defaultTopologySpreadConstraints selector =
     [\<lparr>TopologyKey = ''kubernetes.io/hostname'', WhenUnsatisfiable = ''ScheduleAnyway'', SpreadSelector = selector, MaxSkew = 1\<rparr>,
      \<lparr>TopologyKey = ''topology.kubernetes.io/zone'', WhenUnsatisfiable = ''ScheduleAnyway'', SpreadSelector = selector, MaxSkew = 1\<rparr>]"

definition TDEInstalledAnnotation :: string where
  "TDEInstalledAnnotation = ''pgv2.percona.com/tde-installed''"

definition TDEWALEncryptionAnnotation :: string where
  "TDEWALEncryptionAnnotation = ''pgv2.percona.com/tde-wal-encryption''"

text \<open>How many pods the StatefulSet runs: one or none.\<close>

definition instance_replicas :: "InstCluster \<Rightarrow> string \<Rightarrow> int \<Rightarrow> bool \<Rightarrow> int" where
  "instance_replicas cluster name numInstancePods suspend =
     (if suspend then 0
      else if ic_StartupInstance cluster = [] then 1
      else if ic_StartupInstance cluster \<noteq> name then 0
      else if ic_Shutdown cluster = Some True \<and> numInstancePods \<le> 1 then 0
      else 1)"

record InstanceIntent =
  it_Labels :: strmap
  it_Annotations :: strmap
  it_Selector :: strmap
  it_TemplateAnnotations :: strmap
  it_TemplateLabels :: strmap
  it_RevisionHistoryLimit :: int
  it_ServiceName :: string
  it_UpdateStrategy :: string
  it_Affinity :: "opaque option"
  it_Tolerations :: "opaque list"
  it_Spread :: "opaque list"
  it_DefaultSpread :: "TopologySpreadConstraint list"
  it_PriorityClassName :: string
  it_Replicas :: int
  it_RestartPolicy :: string
  it_ShareProcessNamespace :: bool
  it_ServiceAccountName :: string
  it_EnableServiceLinks :: bool
  it_SecurityContext :: opaque
  it_ImagePullSecrets :: "opaque list"

text \<open>\<open>podSecurityContext\<close> is the one of the cluster, used when the set has none.\<close>

definition generateInstanceStatefulSetIntent ::
    "merge_fn \<Rightarrow> gover \<Rightarrow> cond_fn \<Rightarrow> opaque \<Rightarrow> InstCluster \<Rightarrow> InstanceSetSpec \<Rightarrow> string \<Rightarrow> string \<Rightarrow> string \<Rightarrow> int \<Rightarrow> bool \<Rightarrow>
     InstanceIntent" where
  "generateInstanceStatefulSetIntent mrg gv cond podSecurityContext cluster spec clusterPodServiceName
       instanceServiceAccountName name numInstancePods suspend =
     (let own = [LabelCluster \<mapsto> cluster_name cluster, LabelInstanceSet \<mapsto> InstanceName spec, LabelInstance \<mapsto> name];
          labels = Merge mrg [cs_MetadataLabels cluster, InstanceLabels spec,
            WithPerconaLabels mrg gv (own(LabelData \<mapsto> DataPostgres)) (cluster_name cluster) ''pg''
              (str_at (Labels (cc_meta cluster)) LabelVersion)];
          annotations = Merge mrg [ic_Annotations cluster, InstanceAnnotations spec];
          template = (if CompareVersion gv cluster ''2.7.0'' \<ge> 0
            then Merge mrg [ic_Annotations cluster, InstanceAnnotations spec,
                   [DefaultContainerAnnotation \<mapsto> ContainerDatabase]]
            else annotations);
          tde = cs_Extensions cluster;
          template = (if PGTDE_Enabled tde \<or> cond (cs_Conditions cluster) PGTDEEnabled ConditionTrue
            then Merge mrg [template, [TDEInstalledAnnotation \<mapsto> ''true'',
                   TDEWALEncryptionAnnotation \<mapsto> (if PGTDE_WALEncryption tde then ''true'' else ''false'')]]
            else template)
      in \<lparr>it_Labels = labels, it_Annotations = annotations, it_Selector = own,
          it_TemplateAnnotations = template, it_TemplateLabels = labels,
          it_RevisionHistoryLimit = 0, it_ServiceName = clusterPodServiceName, it_UpdateStrategy = ''OnDelete'',
          it_Affinity = InstanceAffinity spec, it_Tolerations = InstanceTolerations spec,
          it_Spread = InstanceSpread spec,
          it_DefaultSpread = (if deref (ic_DisableDefaultPodScheduling cluster) False then []
            else defaultTopologySpreadConstraints (ClusterDataForPostgresAndPGBackRest (cluster_name cluster))),
          it_PriorityClassName = deref (InstancePriorityClass spec) [],
          it_Replicas = instance_replicas cluster name numInstancePods suspend,
          it_RestartPolicy = ''Always'', it_ShareProcessNamespace = True,
          it_ServiceAccountName = instanceServiceAccountName, it_EnableServiceLinks = False,
          it_SecurityContext = deref (InstanceSecurityContext spec) podSecurityContext,
          it_ImagePullSecrets = ic_ImagePullSecrets cluster\<rparr>)"

section \<open>Disruption budgets and the instance sets as a whole\<close>

definition getMinAvailable :: "IntOrString option \<Rightarrow> int32 \<Rightarrow> IntOrString" where
  "getMinAvailable minAvailable replicas =
     (case minAvailable of Some m \<Rightarrow> m | None \<Rightarrow> IntVal (if sint replicas > 1 then 1 else 0))"

definition generatePodDisruptionBudget ::
    "'w reconciler \<Rightarrow> InstCluster \<Rightarrow> ObjectMeta \<Rightarrow> IntOrString \<Rightarrow> LabelSelector \<Rightarrow> error + PodDisruptionBudget" where
  "generatePodDisruptionBudget E cluster meta minAvailable selector =
     rc_SetControllerReference E cluster
       \<lparr>pdb_meta = meta, pdb_MinAvailable = minAvailable, pdb_Selector = selector, pdb_Controller = None\<rparr>"

definition reconcileInstanceSetPodDisruptionBudget ::
    "'w reconciler \<Rightarrow> merge_fn \<Rightarrow> InstCluster \<Rightarrow> InstanceSetSpec \<Rightarrow> ('w, unit) io" where
  "reconcileInstanceSetPodDisruptionBudget E mrg cluster spec =
     (case InstanceReplicas spec of
        None \<Rightarrow> throw (Errorf ''Replicas should be defined'')
      | Some replicas \<Rightarrow>
          let minAvailable = getMinAvailable (InstanceMinAvailable spec) replicas;
              meta = (InstanceSet cluster (InstanceName spec))\<lparr>
                Labels := Merge mrg [cs_MetadataLabels cluster, InstanceLabels spec,
                  [LabelCluster \<mapsto> cluster_name cluster, LabelInstanceSet \<mapsto> InstanceName spec]],
                Annotations := Merge mrg [ic_Annotations cluster, InstanceAnnotations spec]\<rparr>
          in case generatePodDisruptionBudget E cluster meta minAvailable
                    (ClusterInstanceSet (cluster_name cluster) (InstanceName spec)) of
               Inl e \<Rightarrow> throw e
             | Inr pdb \<Rightarrow>
                 (case rc_Scaled E minAvailable (sint replicas) of
                    Inl e \<Rightarrow> throw e
                  | Inr scaled \<Rightarrow>
                      if scaled \<le> 0
                      then ignore_not_found (plain (rc_Get_PDB E (object_key (pdb_meta pdb))) (\<lambda>pdb.
                        deleteControlled E cluster \<lparr>co_kind = ''PodDisruptionBudget'', co_meta = pdb_meta pdb,
                          co_controller = pdb_Controller pdb\<rparr>))
                      else rc_Apply_PDB E pdb))"

fun delete_stale :: "'w reconciler \<Rightarrow> 'a PGCluster_scheme \<Rightarrow> string list \<Rightarrow> Controlled list \<Rightarrow> ('w, unit) io" where
  "delete_stale E cluster names [] = ret ()"
| "delete_stale E cluster names (x # xs) =
     (if str_at (Labels (co_meta x)) LabelInstanceSet \<in> set names then delete_stale E cluster names xs
      else plain (ignore_not_found (deleteControlled E cluster x)) (\<lambda>_. delete_stale E cluster names xs))"

definition cleanupPodDisruptionBudgets :: "'w reconciler \<Rightarrow> 'a PGCluster_scheme \<Rightarrow> ('w, unit) io" where
  "cleanupPodDisruptionBudgets E cluster =
     (let sel = ClusterInstanceSets (cluster_name cluster) in
      ignore_not_found (plain (with_selector E sel
          (rc_List_Kind E ''PodDisruptionBudgetList'' (cluster_ns cluster) sel)) (\<lambda>items.
        delete_stale E cluster (map InstanceName (cs_InstanceSets cluster)) items)))"

text \<open>Which instance to start first after a shutdown: the primary, remembered while shutting down.\<close>

fun startup_loop :: "InstCluster \<Rightarrow> Instance list \<Rightarrow> error + InstCluster" where
  "startup_loop cluster [] = Inr cluster"
| "startup_loop cluster (i # is) =
     (if surely (IsPrimary i) then
        if ic_Shutdown cluster = Some True then
          (case i_spec i of
             None \<Rightarrow> Inl nil_deref
           | Some spec \<Rightarrow> startup_loop (cluster\<lparr>ic_StartupInstance := i_name i,
               ic_StartupInstanceSet := InstanceName spec\<rparr>) is)
        else startup_loop (cluster\<lparr>ic_StartupInstance := [], ic_StartupInstanceSet := []\<rparr>) is
      else startup_loop cluster is)"

text \<open>
  \<open>reconcileInstance\<close> is given the cluster, what was observed of the instance, its set and
  the number of pods; \<open>rnd s\<close> is the sequence of random strings drawn for the set
  \<open>s\<close>.
\<close>

type_synonym 'w instance_writer =
  "InstCluster \<Rightarrow> Instance option \<Rightarrow> InstanceSetSpec \<Rightarrow> int \<Rightarrow> Runner \<Rightarrow> ('w, unit) io"

fun scale_sets ::
    "'w reconciler \<Rightarrow> merge_fn \<Rightarrow> (string \<Rightarrow> nat \<Rightarrow> string) \<Rightarrow> 'w instance_writer \<Rightarrow> InstCluster \<Rightarrow> observedInstances \<Rightarrow>
     PVC list \<Rightarrow> int \<Rightarrow> InstanceSetSpec list \<Rightarrow> ('w, unit) io" where
  "scale_sets E mrg rnd reconcileInstance cluster instances volumes numInstancePods [] = ret ()"
| "scale_sets E mrg rnd reconcileInstance cluster instances volumes numInstancePods (s # ss) =
     plain (scaleUpInstances (rnd (InstanceName s))
         (\<lambda>r. reconcileInstance cluster (byName instances (Name (s_meta r))) s numInstancePods r)
         cluster instances s (findAvailableInstanceNames s instances volumes)) (\<lambda>_.
     plain (reconcileInstanceSetPodDisruptionBudget E mrg cluster s) (\<lambda>_.
     scale_sets E mrg rnd reconcileInstance cluster instances volumes numInstancePods ss))"

definition reconcileInstanceSets ::
    "'w reconciler \<Rightarrow> merge_fn \<Rightarrow> gover \<Rightarrow> (string \<Rightarrow> nat \<Rightarrow> string) \<Rightarrow> ((string \<times> int) list \<Rightarrow> (string \<times> int) list) \<Rightarrow>
     'w instance_writer \<Rightarrow> InstCluster \<Rightarrow> observedInstances \<Rightarrow> PVC list \<Rightarrow> ('w, InstCluster \<times> error option) io" where
  "reconcileInstanceSets E mrg gv rnd order reconcileInstance cluster instances volumes =
     (case startup_loop cluster (forCluster instances) of
        Inl e \<Rightarrow> throw e
      | Inr cluster \<Rightarrow>
          let numInstancePods = sum_list (map (\<lambda>i. int (length (i_pods i))) (forCluster instances)) in
          attempt
            (plain (scale_sets E mrg rnd reconcileInstance cluster instances volumes numInstancePods
                (cs_InstanceSets cluster)) (\<lambda>_.
             plain (scaleDownInstances E order cluster instances) (\<lambda>_.
             plain (cleanupPodDisruptionBudgets E cluster) (\<lambda>_.
             rolloutInstances E cluster instances (rolloutInstance E gv cluster instances)))))
            (\<lambda>e. ret (cluster, Some e)) (\<lambda>_. ret (cluster, None)))"

end
