(* ===== verification/Cluster_Memory.thy ===== *)
theory Cluster_Memory
  imports Instances Memory
begin

text \<open>
  What the reconciler of the instances needs of \<open>sort.Sort\<close>, and a second API server in
  memory, for the interface \<open>reconciler\<close> of \<open>Instances\<close>: its world is the
  list of stored objects.
\<close>

section \<open>Running a plan and sorting\<close>

text \<open>One call after the other, up to the first error.\<close>

fun run_each :: "('a \<Rightarrow> ('w, unit) io) \<Rightarrow> 'a list \<Rightarrow> ('w, unit) io" where
  "run_each f [] = ret ()"
| "run_each f (x # xs) = plain (f x) (\<lambda>_. run_each f xs)"

definition strict_weak :: "('a \<Rightarrow> 'a \<Rightarrow> bool) \<Rightarrow> bool" where
  "strict_weak lt \<longleftrightarrow> (\<forall>a b. lt a b \<longrightarrow> \<not> lt b a) \<and>
     (\<forall>a b c. lt a c \<longrightarrow> lt a b \<or> lt b c)"

text \<open>
  What \<open>sort.Sort\<close> promises: the same elements, and none before a smaller one. It is not
  stable.
\<close>

locale priority_sort =
  fixes sort_by :: "('a \<Rightarrow> 'a \<Rightarrow> bool) \<Rightarrow> 'a list \<Rightarrow> 'a list"
  assumes mset_sort_by: "strict_weak lt \<Longrightarrow> mset (sort_by lt xs) = mset xs"
    and sorted_sort_by: "strict_weak lt \<Longrightarrow> sorted_wrt (\<lambda>a b. \<not> lt b a) (sort_by lt xs)"
begin

lemma set_sort_by: "strict_weak lt \<Longrightarrow> set (sort_by lt xs) = set xs"
  using mset_sort_by by (metis set_mset_mset)

text \<open>An element that nothing exceeds comes after all that are smaller.\<close>

lemma top_last:
  assumes lt: "strict_weak lt" and i: "sort_by lt xs = ps @ i # qs" and j: "j \<in> set xs" "lt j i"
  shows "j \<in> set ps"
proof -
  have "j \<in> set (ps @ i # qs)" using set_sort_by [OF lt, of xs] i j(1) by simp
  moreover have "j \<noteq> i" using lt j(2) by (auto simp: strict_weak_def)
  moreover have "j \<notin> set qs"
    using sorted_sort_by [OF lt, of xs] i j(2) by (auto simp: sorted_wrt_append)
  ultimately show ?thesis by auto
qed

end

text \<open>Sorting by insertion has these laws.\<close>

fun insert_by :: "('a \<Rightarrow> 'a \<Rightarrow> bool) \<Rightarrow> 'a \<Rightarrow> 'a list \<Rightarrow> 'a list" where
  "insert_by lt x [] = [x]"
| "insert_by lt x (y # ys) = (if lt y x then y # insert_by lt x ys else x # y # ys)"

definition insertion_sort :: "('a \<Rightarrow> 'a \<Rightarrow> bool) \<Rightarrow> 'a list \<Rightarrow> 'a list" where
  "insertion_sort lt xs = foldr (insert_by lt) xs []"

lemma mset_insert_by [simp]: "mset (insert_by lt x xs) = add_mset x (mset xs)"
  by (induction xs) auto

lemma set_insert_by [simp]: "set (insert_by lt x xs) = insert x (set xs)"
  by (induction xs) auto

lemma sorted_insert_by:
  assumes "strict_weak lt" and "sorted_wrt (\<lambda>a b. \<not> lt b a) xs"
  shows "sorted_wrt (\<lambda>a b. \<not> lt b a) (insert_by lt x xs)"
  using assms(2)
proof (induction xs)
  case (Cons y ys)
  show ?case
  proof (cases "lt y x")
    case True
    with Cons assms(1) show ?thesis by (auto simp: strict_weak_def)
  next
    case False
    with Cons.prems assms(1) have "\<not> lt z x" if "z \<in> set ys" for z
      using that unfolding strict_weak_def by (meson list.set_intros(2) sorted_wrt.simps(2))
    with False Cons.prems show ?thesis by auto
  qed
qed simp

interpretation insertion: priority_sort insertion_sort
proof
  fix lt :: "'a \<Rightarrow> 'a \<Rightarrow> bool" and xs assume lt: "strict_weak lt"
  show "mset (insertion_sort lt xs) = mset xs"
    by (induction xs) (auto simp: insertion_sort_def)
  show "sorted_wrt (\<lambda>a b. \<not> lt b a) (insertion_sort lt xs)"
    by (induction xs) (auto simp: insertion_sort_def intro: sorted_insert_by [OF lt])
qed

section \<open>Objects in memory\<close>

definition req_holds :: "strmap \<Rightarrow> Requirement \<Rightarrow> bool" where
  "req_holds ls q = (case ReqOperator q of
     OpExists \<Rightarrow> ls (ReqKey q) \<noteq> None | OpIn \<Rightarrow> str_at ls (ReqKey q) \<in> set (ReqValues q))"

definition selects :: "LabelSelector \<Rightarrow> strmap \<Rightarrow> bool" where
  "selects sel ls \<longleftrightarrow> match_labels (MatchLabels sel) ls \<and> list_all (req_holds ls) (MatchExpressions sel)"

record cmem =
  cm_pods :: "InstPod list"
  cm_runners :: "Runner list"
  cm_objects :: "Controlled list"
  cm_budgets :: "PodDisruptionBudget list"
  cm_endpoints :: "Endpoints list"
  cm_finalizers :: "string list"
  cm_services :: "Service list"
  cm_primary_endpoints :: "ServiceEndpoints list"
  cm_jobs :: "Job list"
  cm_applied_jobs :: "JobIntent list"
  cm_current :: "InstCluster list"
  cm_percona_backups :: "PerconaPGBackup list"
  cm_timeline :: nat
  cm_changes :: nat

abbreviation "pod_key p \<equiv> object_key (p_meta p)"
abbreviation "runner_key r \<equiv> object_key (s_meta r)"

definition lists :: "('w \<Rightarrow> 'o list) \<Rightarrow> ('o \<Rightarrow> ObjectMeta) \<Rightarrow> string \<Rightarrow> LabelSelector \<Rightarrow> ('w, 'o list) io" where
  "lists objs meta ns sel = mem_list objs (\<lambda>x. Namespace (meta x) = ns \<and> selects sel (Labels (meta x)))"

text \<open>
  Patroni in memory: its timeline is printed in unary, and grows with each change of the primary.
\<close>

definition mem_patroni :: "cmem Executor" where
  "mem_patroni stdin args =
     (if take 2 args = [''patronictl'', ''list''] then look cm_timeline (\<lambda>t. ret (None, replicate t (CHR ''x''), []))
      else if take 2 args = [''patronictl'', ''switchover''] \<or> take 2 args = [''patronictl'', ''failover'']
      then (\<lambda>w. (Inr (None, if args ! 1 = ''failover'' then ''failed over'' else ''switched over'', []),
        w\<lparr>cm_timeline := Suc (cm_timeline w), cm_changes := Suc (cm_changes w)\<rparr>))
      else ret (None, [], []))"

definition mem_members :: "string \<Rightarrow> error + PatroniMember list" where
  "mem_members s = Inr [\<lparr>MemberRole = ''Leader'', MemberState = ''running'', MemberTimeline = int (length s)\<rparr>]"

text \<open>A quantity is read as its digits, a percentage is not.\<close>

definition cluster_memory :: "cmem reconciler" where
  "cluster_memory = \<lparr>
     rc_Now = (\<lambda>_. 0), rc_AsSelector = (\<lambda>_. None), rc_Sort = insertion_sort,
     rc_Scaled = (\<lambda>v n. case v of IntVal k \<Rightarrow> Inr (sint k) | StrVal s \<Rightarrow> Inl (Errorf ''percentage'')),
     rc_ParseQuantity = (\<lambda>s. if s \<noteq> [] then Inr (int (length s)) else Inl (Errorf ''quantity'')),
     rc_List_Pods = lists cm_pods p_meta, rc_List_Runners = lists cm_runners s_meta,
     rc_List_Kind = (\<lambda>kind ns sel. mem_list cm_objects (\<lambda>x. co_kind x @ ''List'' = kind \<and>
       Namespace (co_meta x) = ns \<and> selects sel (Labels (co_meta x)))),
     rc_Delete = (\<lambda>x w. (Inr (), cm_objects_update (filter (\<lambda>y. \<not> (co_kind y = co_kind x \<and>
       object_key (co_meta y) = object_key (co_meta x)))) w)),
     rc_Delete_Pod = (\<lambda>p. mem_del cm_pods cm_pods_update pod_key (pod_key p)),
     rc_Scale_Zero = (\<lambda>k. unit_of (mem_put cm_runners cm_runners_update runner_key k (\<lambda>r. r\<lparr>StsReplicas := 0\<rparr>))),
     rc_Patch_Finalizers = (\<lambda>c fs w. (Inr (), w\<lparr>cm_finalizers := fs\<rparr>)),
     rc_DeleteAll_Endpoints = (\<lambda>ns sel w. (Inr (), cm_endpoints_update (filter (\<lambda>e.
       \<not> (Namespace (e_meta e) = ns \<and> selects sel (Labels (e_meta e))))) w)),
     rc_Get_PDB = mem_get cm_budgets (\<lambda>b. object_key (pdb_meta b)),
     rc_Apply_PDB = (\<lambda>b w. (Inr (), cm_budgets_update (\<lambda>bs. b # filter (\<lambda>x. object_key (pdb_meta x) \<noteq> object_key (pdb_meta b)) bs) w)),
     rc_Get_Endpoints = mem_get cm_endpoints (\<lambda>e. object_key (e_meta e)),
     rc_SetControllerReference = (\<lambda>c b. Inr (b\<lparr>pdb_Controller := Some (UID (cc_meta c))\<rparr>)),
     rc_Own_Service = (\<lambda>c v. Inr (v\<lparr>sv_Controller := Some (UID (cc_meta c))\<rparr>)),
     rc_Get_Service = mem_get cm_services (\<lambda>v. object_key (sv_meta v)),
     rc_Apply_Service = (\<lambda>v w. (Inr v, cm_services_update (\<lambda>vs. v # filter (\<lambda>x. object_key (sv_meta x) \<noteq> object_key (sv_meta v)) vs) w)),
     rc_Apply_Endpoints = (\<lambda>e w. (Inr (), cm_primary_endpoints_update (\<lambda>es. e # es) w)),
     rc_FindCondition = (\<lambda>cs t. find (\<lambda>c. ConditionType c = t) cs),
     rc_SetCondition = mem_conditions_set,
     rc_RemoveCondition = (\<lambda>cs t. filter (\<lambda>c. ConditionType c \<noteq> t) cs),
     rc_SafeEncode = (\<lambda>s. s),
     rc_Get_Current = mem_get cm_current (\<lambda>c. object_key (cc_meta c)),
     rc_Read_Backup = mem_get cm_percona_backups bkey,
     rc_List_Jobs = (\<lambda>ns sel. mem_list cm_jobs (\<lambda>j. Namespace (j_meta j) = ns \<and> match_labels sel (Labels (j_meta j)))),
     rc_Delete_Job = (\<lambda>j. mem_del cm_jobs cm_jobs_update (\<lambda>j. object_key (j_meta j)) (object_key (j_meta j))),
     rc_Delete_Runner = (\<lambda>r w. (Inr (), w\<lparr>cm_runners := filter (\<lambda>x. runner_key x \<noteq> runner_key r) (cm_runners w),
       cm_pods := filter (\<lambda>p. PodOwner p \<noteq> Some (''StatefulSet'', Name (s_meta r))) (cm_pods w)\<rparr>)),
     rc_Delete_Endpoints = (\<lambda>e. mem_del cm_endpoints cm_endpoints_update (\<lambda>e. object_key (e_meta e)) (object_key (e_meta e))),
     rc_Delete_Object = (\<lambda>x w. (Inr (), cm_objects_update (filter (\<lambda>y. \<not> (co_kind y = co_kind x \<and>
       object_key (co_meta y) = object_key (co_meta x)))) w)),
     rc_Apply_Job = (\<lambda>j w. (Inr (), cm_applied_jobs_update (\<lambda>js. j # filter (\<lambda>x. object_key (ji_meta x) \<noteq> object_key (ji_meta j)) js) w)),
     rc_PodExec = (\<lambda>ns pod container. mem_patroni)\<rparr>"

interpretation cm: priority_sort "rc_Sort cluster_memory"
proof -
  have "rc_Sort cluster_memory = insertion_sort" by (simp add: cluster_memory_def)
  then show "priority_sort (rc_Sort cluster_memory)" using insertion.priority_sort_axioms by simp
qed

section \<open>An example\<close>

definition named :: "string \<Rightarrow> strmap \<Rightarrow> ObjectMeta" where
  "named n ls = example_meta\<lparr>Name := n, Labels := ls\<rparr>"

definition instance_labels :: "string \<Rightarrow> strmap" where
  "instance_labels n = [LabelCluster \<mapsto> ''hippo'', LabelInstanceSet \<mapsto> ''00'', LabelInstance \<mapsto> n]"

text \<open>
  A pod of the instance \<open>n\<close> with a role, of a revision, ready or not, and its
  StatefulSet, whose revision is \<open>new\<close>.
\<close>

definition example_pod :: "string \<Rightarrow> string \<Rightarrow> string \<Rightarrow> bool \<Rightarrow> InstPod" where
  "example_pod n role revision ready =
     \<lparr>p_meta = named (n @ ''-0'') ((instance_labels n)(LabelRole \<mapsto> role, StatefulSetRevisionLabel \<mapsto> revision)),
      PodPhase = ''Running'',
      PodConditions = [\<lparr>JobConditionType = ''Ready'', JobConditionStatus = (if ready then ConditionTrue else ConditionFalse)\<rparr>],
      ContainerStatuses = [(ContainerDatabase, ready)], InitContainerStatuses = [],
      TerminationGracePeriodSeconds = None, PodOwner = Some (''StatefulSet'', n)\<rparr>"

definition example_runner :: "string \<Rightarrow> Runner" where
  "example_runner n = \<lparr>s_meta = named n (instance_labels n), StsReplicas = 1, StsReadyReplicas = 1,
     StsObservedGeneration = 1, UpdateRevision = ''new''\<rparr>"

definition example_set :: "string \<Rightarrow> int32 \<Rightarrow> InstanceSetSpec" where
  "example_set n replicas = \<lparr>InstanceName = n, InstanceInitContainer = None, ResourceLimits = [],
     WALVolumeClaimSpec = None, InstanceReplicas = Some replicas, InstanceMinAvailable = None,
     InstanceLabels = Map.empty, InstanceAnnotations = Map.empty, InstanceAffinity = None,
     InstanceTolerations = [], InstanceSpread = [], InstancePriorityClass = None,
     InstanceSecurityContext = None, DataVolumeLimit = 0\<rparr>"

definition instances_cluster :: "InstanceSetSpec list \<Rightarrow> InstCluster" where
  "instances_cluster sets = PGCluster.extend ((example_cluster False)\<lparr>cs_InstanceSets := sets\<rparr>)
     \<lparr>ic_Shutdown = None, ic_Annotations = Map.empty, ic_DisableDefaultPodScheduling = None,
      ic_ImagePullSecrets = [], ic_Switchover = None, ic_StartupInstance = [], ic_StartupInstanceSet = [],
      ic_InstanceSetStatus = [], ic_SwitchoverStatus = None, ic_SwitchoverTimeline = None,
      ic_Service = None, ic_ReplicaService = None, ic_DataSource = None, ic_Restore = None, ic_Manual = None, ic_Repos = [],
      ic_Jobs = None, ic_BackupLabels = Map.empty, ic_BackupAnnotations = Map.empty, ic_BackupEnv = [], ic_BackupEnvFrom = [],
      ic_Snapshots = False, ic_PGBouncerRevision = [], ic_ExporterConfiguration = [], ic_RepoHostReady = None\<rparr>"

definition two_sets :: InstCluster where
  "two_sets = instances_cluster [example_set ''00'' 2]"

definition two_instances :: "string \<Rightarrow> observedInstances" where
  "two_instances revision = newObservedInstances two_sets [example_runner ''a'', example_runner ''b'']
     [example_pod ''a'' ''primary'' revision True, example_pod ''b'' ''replica'' revision True]"

lemma two_sets_specified: "specified (cs_InstanceSets two_sets) = Inr 2"
  by (simp add: two_sets_def instances_cluster_def example_set_def PGCluster.defs)


definition empty_memory :: cmem where
  "empty_memory = \<lparr>cm_pods = [], cm_runners = [], cm_objects = [], cm_budgets = [], cm_endpoints = [], cm_finalizers = [],
     cm_services = [], cm_primary_endpoints = [], cm_jobs = [], cm_applied_jobs = [], cm_current = [], cm_percona_backups = [],
     cm_timeline = 1, cm_changes = 0\<rparr>"

end
