(* ===== verification/Rollout.thy ===== *)
theory Rollout
  imports Cluster_Memory
begin

text \<open>
  What \<open>rolloutInstances\<close> does with the instances whose pods are out of date: it runs
  \<open>redeploy\<close> over a plan, a list computed from what was observed alone. The plan keeps all
  but one of the specified instances available, comes to an available primary last, and is not
  empty when the cluster is healthy.
\<close>

section \<open>The plan\<close>

fun rollout_plan :: "Instance list \<Rightarrow> int \<Rightarrow> Instance list" where
  "rollout_plan [] u = []"
| "rollout_plan (i # is) u =
     (if surely_not (IsAvailable i) then i # rollout_plan is u
      else if u < maxUnavailable then i # rollout_plan is (u + 1)
      else rollout_plan is u)"

lemma redeploy_loop_plan: "redeploy_loop redeploy is u = run_each redeploy (rollout_plan is u)"
  by (induction "is" arbitrary: u) auto

text \<open>The instances of a plan that may be available: their redeployment counts.\<close>

abbreviation disrupted :: "Instance list \<Rightarrow> Instance list" where
  "disrupted is \<equiv> filter (\<lambda>i. \<not> surely_not (IsAvailable i)) is"

lemma rollout_plan_disrupted: "int (length (disrupted (rollout_plan is u))) \<le> max 0 (maxUnavailable - u)"
  by (induction "is" u rule: rollout_plan.induct) auto

lemma rollout_plan_mset: "mset (rollout_plan is u) \<subseteq># mset is"
proof (induction "is" arbitrary: u)
  case (Cons i "is")
  have "mset (rollout_plan is u) \<subseteq># add_mset i (mset is)"
    by (rule subset_mset.order_trans [OF Cons.IH]) simp
  with Cons.IH show ?case by simp
qed simp

lemma rollout_plan_set: "set (rollout_plan is u) \<subseteq> set is"
  using rollout_plan_mset set_mset_mono by fastforce

lemma rollout_plan_unavailable:
  "i \<in> set is \<Longrightarrow> surely_not (IsAvailable i) \<Longrightarrow> i \<in> set (rollout_plan is u)"
  by (induction "is" arbitrary: u) auto

text \<open>The budget is used from the front: what may be available is taken only after all before it.\<close>

lemma rollout_plan_exhausted:
  "\<not> u < maxUnavailable \<Longrightarrow> i \<in> set (rollout_plan is u) \<Longrightarrow> surely_not (IsAvailable i)"
  by (induction "is" arbitrary: u) (auto split: if_splits)

lemma rollout_plan_front:
  assumes "i \<in> set (rollout_plan (xs @ i # ys) u)" and "i \<notin> set xs"
    and "\<not> surely_not (IsAvailable i)"
  shows "set xs \<subseteq> set (rollout_plan (xs @ i # ys) u)"
  using assms
proof (induction xs arbitrary: u)
  case (Cons x xs)
  have "\<exists>v. rollout_plan ((x # xs) @ i # ys) u = x # rollout_plan (xs @ i # ys) v"
  proof (cases "surely_not (IsAvailable x) \<or> u < maxUnavailable")
    case False
    with Cons.prems have "i \<in> set (rollout_plan (xs @ i # ys) u)" by simp
    with False Cons.prems(3) show ?thesis using rollout_plan_exhausted by blast
  qed auto
  then obtain v where v: "rollout_plan ((x # xs) @ i # ys) u = x # rollout_plan (xs @ i # ys) v" ..
  with Cons.prems have "set xs \<subseteq> set (rollout_plan (xs @ i # ys) v)" by (intro Cons.IH) auto
  with v show ?case by auto
qed simp

lemma rollout_plan_Nil:
  "rollout_plan is u = [] \<longleftrightarrow> is = [] \<or> \<not> u < maxUnavailable \<and> (\<forall>i\<in>set is. \<not> surely_not (IsAvailable i))"
  by (induction "is" u rule: rollout_plan.induct) auto

section \<open>Sorting by priority\<close>

text \<open>
  \<open>byPriority\<close> is a strict weak order: it compares ranks, and within the lowest rank
  names.
\<close>

definition rank :: "Instance \<Rightarrow> nat \<times> string" where
  "rank i = (if surely (IsPrimary i) then (2, [])
     else if surely (IsAvailable i) then (1, []) else (0, i_name i))"

lemma byPriority_rank: "byPriority a b \<longleftrightarrow> fst (rank a) < fst (rank b) \<or> fst (rank a) = fst (rank b) \<and> snd (rank a) < snd (rank b)"
  by (auto simp: byPriority_def rank_def)

lemma strict_weak_byPriority: "strict_weak byPriority"
  unfolding strict_weak_def byPriority_rank by auto

section \<open>Properties of a rollout\<close>

text \<open>The instances to redeploy, in the order in which they are gone through.\<close>

definition queue :: "'w reconciler \<Rightarrow> observedInstances \<Rightarrow> Instance list" where
  "queue E instances =
     (let todo = considered (forCluster instances) in if length todo > 1 then rc_Sort E byPriority todo else todo)"

lemma rolloutInstances_queue:
  assumes "specified (cs_InstanceSets cluster) = Inr n"
  shows "rolloutInstances E cluster instances redeploy =
    run_each redeploy (rollout_plan (queue E instances) (n - numAvailable (forCluster instances)))"
  using assms by (simp add: rolloutInstances_def queue_def redeploy_loop_plan Let_def)

lemma mset_queue:
  "priority_sort (rc_Sort E) \<Longrightarrow> mset (queue E instances) = mset (considered (forCluster instances))"
  by (simp add: queue_def Let_def priority_sort.mset_sort_by strict_weak_byPriority)

lemma queue_primary_last:
  assumes "priority_sort (rc_Sort E)" and "queue E instances = ps @ i # qs"
    and "surely (IsPrimary i)" and "j \<in> set (considered (forCluster instances))" and "\<not> surely (IsPrimary j)"
  shows "j \<in> set ps"
proof (cases "length (considered (forCluster instances)) > 1")
  case True
  have "byPriority j i" using assms(3,5) by (simp add: byPriority_def)
  with True assms show ?thesis
    by (auto simp: queue_def Let_def intro: priority_sort.top_last [OF _ strict_weak_byPriority])
next
  case False
  with assms(2) have "considered (forCluster instances) = [i]"
    by (cases "considered (forCluster instances)") (auto simp: queue_def Let_def Cons_eq_append_conv)
  with assms(3-5) show ?thesis by auto
qed

lemma plan_budget:
  "min (numAvailable is) (n - 1) \<le>
   numAvailable is - int (length (filter (\<lambda>i. surely (IsAvailable i)) (rollout_plan todo (n - numAvailable is))))"
proof -
  have "length (filter (\<lambda>i. surely (IsAvailable i)) xs) \<le> length (disrupted xs)" for xs
    by (induction xs) (auto simp: surely_def surely_not_def)
  with rollout_plan_disrupted [of todo "n - numAvailable is"] show ?thesis
    by (smt (verit) maxUnavailable_def of_nat_mono)
qed



text \<open>
  C32: A rollout stands still only when there is nothing to do or the cluster lacks an instance:
  if redeploying does nothing but fail and the rollout still succeeds, then no instance is known
  to be out of date, or fewer are available than specified and all those to redeploy may be
  available.
\<close>

theorem rollout_makes_progress:
  assumes "priority_sort (rc_Sort E)" and "specified (cs_InstanceSets cluster) = Inr n"
    and "fst (rolloutInstances E cluster instances (\<lambda>i. throw e) w) = Inr ()"
  shows "considered (forCluster instances) = [] \<or>
    numAvailable (forCluster instances) < n \<and>
    (\<forall>i\<in>set (considered (forCluster instances)). \<not> surely_not (IsAvailable i))"
proof -
  let ?u = "n - numAvailable (forCluster instances)"
  have "fst (run_each (\<lambda>i. throw e) (rollout_plan (queue E instances) ?u) w) = Inr ()"
    using assms(2,3) by (simp add: rolloutInstances_queue)
  then have "rollout_plan (queue E instances) ?u = []"
    by (cases "rollout_plan (queue E instances) ?u") (auto simp: io_defs split: if_splits)
  moreover have "set (queue E instances) = set (considered (forCluster instances))"
    using mset_queue [OF assms(1)] by (metis set_mset_mset)
  ultimately show ?thesis by (auto simp: rollout_plan_Nil maxUnavailable_def)
qed

theorem rollout_makes_progress_witness:
  "fst (rolloutInstances cluster_memory (instances_cluster [example_set ''00'' 3]) (two_instances ''old'')
     (\<lambda>i. throw nil_deref) empty_memory) = Inr () \<and>
   considered (forCluster (two_instances ''old'')) \<noteq> [] \<and> numAvailable (forCluster (two_instances ''old'')) < 3"
proof -
  let ?c = "instances_cluster [example_set ''00'' 3]"
  have n: "specified (cs_InstanceSets ?c) = Inr 3"
    by (simp add: instances_cluster_def example_set_def PGCluster.defs)
  have run: "fst (rolloutInstances cluster_memory ?c (two_instances ''old'') (\<lambda>i. throw nil_deref) empty_memory) = Inr ()"
    by code_simp
  have "length (considered (forCluster (two_instances ''old''))) = 2" by code_simp
  with rollout_makes_progress [OF cm.priority_sort_axioms n run] run show ?thesis by fastforce
qed

end
