(* ===== verification/Services.thy ===== *)
theory Services
  imports Cluster_Memory
begin

text \<open>
  The Services of a cluster, \<open>internal/controller/postgrescluster/cluster.go\<close> and the
  Services of \<open>patroni.go\<close>: the one whose Endpoints Patroni points to the leader, the
  ones that lead to the primary and to the replicas, and those that only hold names.
\<close>

section \<open>The Services\<close>

definition RolePrimary :: string where
  "RolePrimary = ''primary''"

definition RoleReplica :: string where
  "RoleReplica = ''replica''"

definition PortPostgreSQL :: string where
  "PortPostgreSQL = ''postgres''"

definition ClusterIPNone :: string where
  "ClusterIPNone = ''None''"

definition new_Service :: "ObjectMeta \<Rightarrow> Service" where
  "new_Service meta = \<lparr>sv_meta = meta, sv_Type = [], sv_ClusterIP = [], sv_PublishNotReady = False, sv_Selector = None,
     sv_Ports = [], sv_LoadBalancerSourceRanges = [], sv_InternalTrafficPolicy = None, sv_ExternalTrafficPolicy = [],
     sv_Controller = None\<rparr>"

definition version_of :: "'a PGCluster_scheme \<Rightarrow> string" where
  "version_of cluster = str_at (Labels (cc_meta cluster)) LabelVersion"

definition postgres_port :: "int32 \<Rightarrow> SvcPort" where
  "postgres_port port = \<lparr>sp_Name = PortPostgreSQL, sp_Port = port, sp_Protocol = ''TCP'', sp_TargetPort = PortPostgreSQL, sp_NodePort = 0\<rparr>"

definition node_port_error :: "ObjectMeta \<Rightarrow> error" where
  "node_port_error meta = Errorf (''NodePort cannot be set with type ClusterIP on Service '' @ go_quote (Name meta))"

text \<open>
  The part the leader and the replica Service share: the type, the node port and the policies of
  the user's specification.
\<close>

definition typed_Service :: "ServiceSpec \<Rightarrow> SvcPort \<Rightarrow> Service \<Rightarrow> error + Service" where
  "typed_Service spec port service =
     (let service = service\<lparr>sv_Type := ss_Type spec,
            sv_ExternalTrafficPolicy := deref (ss_ExternalTrafficPolicy spec) [],
            sv_InternalTrafficPolicy := ss_InternalTrafficPolicy spec\<rparr>
      in case ss_NodePort spec of
           None \<Rightarrow> Inr (service\<lparr>sv_Ports := [port]\<rparr>)
         | Some n \<Rightarrow>
             if ss_Type spec = ''ClusterIP'' then Inl (node_port_error (sv_meta service))
             else Inr (service\<lparr>sv_Ports := [port\<lparr>sp_NodePort := n\<rparr>]\<rparr>))"

definition reconcilePatroniDistributedConfiguration ::
    "'w reconciler \<Rightarrow> merge_fn \<Rightarrow> gover \<Rightarrow> InstCluster \<Rightarrow> ('w, unit) io" where
  "reconcilePatroniDistributedConfiguration E mrg gv cluster =
     (case rc_Own_Service E cluster (new_Service (PatroniDistributedConfiguration cluster)) of
        Inl e \<Rightarrow> throw e
      | Inr dcsService \<Rightarrow> plain (rc_Apply_Service E (dcsService\<lparr>
          sv_meta := (sv_meta dcsService)\<lparr>
            Annotations := Merge mrg [ic_Annotations cluster],
            Labels := Merge mrg [cs_MetadataLabels cluster,
              WithPerconaLabels mrg gv [LabelCluster \<mapsto> cluster_name cluster, LabelPatroni \<mapsto> PatroniScope cluster]
                (cluster_name cluster) [] (version_of cluster)]\<rparr>,
          sv_ClusterIP := ClusterIPNone, sv_Selector := None\<rparr>)) (\<lambda>_. ret ()))"

definition generatePatroniLeaderLeaseService ::
    "'w reconciler \<Rightarrow> merge_fn \<Rightarrow> gover \<Rightarrow> InstCluster \<Rightarrow> error + Service" where
  "generatePatroniLeaderLeaseService E mrg gv cluster =
     (let annotations = Merge mrg [ic_Annotations cluster];
          labels = Merge mrg [cs_MetadataLabels cluster];
          (annotations, labels) = (case ic_Service cluster of
              None \<Rightarrow> (annotations, labels)
            | Some spec \<Rightarrow> (Merge mrg [annotations, ss_Annotations spec], Merge mrg [labels, ss_Labels spec]));
          labels = Merge mrg [labels, WithPerconaLabels mrg gv
              [LabelCluster \<mapsto> cluster_name cluster, LabelPatroni \<mapsto> PatroniScope cluster]
              (cluster_name cluster) [] (version_of cluster)];
          service = new_Service ((PatroniLeaderEndpoints cluster)\<lparr>Annotations := annotations, Labels := labels\<rparr>)
      in case cs_Port cluster of
           None \<Rightarrow> Inl nil_deref
         | Some port \<Rightarrow>
             (case (case ic_Service cluster of
                      None \<Rightarrow> Inr (service\<lparr>sv_Type := ''ClusterIP'', sv_Ports := [postgres_port port]\<rparr>)
                    | Some spec \<Rightarrow> typed_Service spec (postgres_port port)
                        (service\<lparr>sv_LoadBalancerSourceRanges := ss_LoadBalancerSourceRanges spec\<rparr>)) of
                Inl e \<Rightarrow> Inl e
              | Inr service \<Rightarrow> rc_Own_Service E cluster service))"

definition apply_generated :: "'w reconciler \<Rightarrow> error + Service \<Rightarrow> ('w, Service) io" where
  "apply_generated E generated = (case generated of Inl e \<Rightarrow> throw e | Inr service \<Rightarrow> rc_Apply_Service E service)"

definition reconcilePatroniLeaderLease ::
    "'w reconciler \<Rightarrow> merge_fn \<Rightarrow> gover \<Rightarrow> InstCluster \<Rightarrow> ('w, Service) io" where
  "reconcilePatroniLeaderLease E mrg gv cluster = apply_generated E (generatePatroniLeaderLeaseService E mrg gv cluster)"

definition reconcileClusterPodService :: "'w reconciler \<Rightarrow> merge_fn \<Rightarrow> InstCluster \<Rightarrow> ('w, Service) io" where
  "reconcileClusterPodService E mrg cluster =
     (case rc_Own_Service E cluster (new_Service (ClusterPodService cluster)) of
        Inl e \<Rightarrow> throw e
      | Inr service \<Rightarrow> rc_Apply_Service E (service\<lparr>
          sv_meta := (sv_meta service)\<lparr>
            Annotations := Merge mrg [ic_Annotations cluster],
            Labels := Merge mrg [cs_MetadataLabels cluster, [LabelCluster \<mapsto> cluster_name cluster]]\<rparr>,
          sv_ClusterIP := ClusterIPNone, sv_PublishNotReady := True,
          sv_Selector := Some [LabelCluster \<mapsto> cluster_name cluster]\<rparr>))"

text \<open>\<open>leader\<close> is the Service of the leader as the API server has it, with its address.\<close>

definition generateClusterPrimaryService ::
    "'w reconciler \<Rightarrow> merge_fn \<Rightarrow> gover \<Rightarrow> InstCluster \<Rightarrow> Service option \<Rightarrow> error + Service \<times> ServiceEndpoints" where
  "generateClusterPrimaryService E mrg gv cluster leader =
     (let meta = (ClusterPrimaryService cluster)\<lparr>
            Annotations := Merge mrg [ic_Annotations cluster],
            Labels := Merge mrg [cs_MetadataLabels cluster, WithPerconaLabels mrg gv
              [LabelCluster \<mapsto> cluster_name cluster, LabelRole \<mapsto> RolePrimary]
              (cluster_name cluster) ''pg'' (version_of cluster)]\<rparr>;
          owned = rc_Own_Service E cluster (new_Service meta)
      in case leader of
           None \<Rightarrow> Inl (Errorf ''Patroni DCS other than Kubernetes Endpoints is not implemented'')
         | Some leader \<Rightarrow>
             (case cs_Port cluster of
                None \<Rightarrow> Inl nil_deref
              | Some port \<Rightarrow>
                  (case owned of
                     Inl e \<Rightarrow> Inl e
                   | Inr service \<Rightarrow>
                       let service = service\<lparr>sv_ClusterIP := ClusterIPNone, sv_Selector := None, sv_Ports := [postgres_port port]\<rparr>
                       in Inr (service, \<lparr>se_meta = sv_meta service, se_Controller = sv_Controller service,
                            se_Addresses = [sv_ClusterIP leader],
                            se_Ports = map (\<lambda>sp. (sp_Name sp, sp_Port sp, sp_Protocol sp)) (sv_Ports service)\<rparr>))))"

definition reconcileClusterPrimaryService ::
    "'w reconciler \<Rightarrow> merge_fn \<Rightarrow> gover \<Rightarrow> InstCluster \<Rightarrow> Service option \<Rightarrow> ('w, Service) io" where
  "reconcileClusterPrimaryService E mrg gv cluster leader =
     (case generateClusterPrimaryService E mrg gv cluster leader of
        Inl e \<Rightarrow> throw e
      | Inr (service, endpoints) \<Rightarrow>
          plain (rc_Apply_Service E service) (\<lambda>service.
            plain (rc_Apply_Endpoints E endpoints) (\<lambda>_. ret service)))"

definition generateClusterReplicaService ::
    "'w reconciler \<Rightarrow> merge_fn \<Rightarrow> gover \<Rightarrow> InstCluster \<Rightarrow> error + Service" where
  "generateClusterReplicaService E mrg gv cluster =
     (let annotations = ic_Annotations cluster; labels = cs_MetadataLabels cluster;
          (annotations, labels) = (case ic_ReplicaService cluster of
              None \<Rightarrow> (annotations, labels)
            | Some spec \<Rightarrow> (Merge mrg [annotations, ss_Annotations spec], Merge mrg [labels, ss_Labels spec]));
          labels = Merge mrg [labels, WithPerconaLabels mrg gv
              [LabelCluster \<mapsto> cluster_name cluster, LabelRole \<mapsto> RoleReplica]
              (cluster_name cluster) ''pg'' (version_of cluster)];
          service = (new_Service ((ClusterReplicaService cluster)\<lparr>Annotations := annotations, Labels := labels\<rparr>))\<lparr>
            sv_Type := ''ClusterIP''\<rparr>
      in case cs_Port cluster of
           None \<Rightarrow> Inl nil_deref
         | Some port \<Rightarrow>
             (case (case ic_ReplicaService cluster of
                      None \<Rightarrow> Inr (service\<lparr>sv_Ports := [postgres_port port]\<rparr>)
                    | Some spec \<Rightarrow> typed_Service spec (postgres_port port) service) of
                Inl e \<Rightarrow> Inl e
              | Inr service \<Rightarrow> rc_Own_Service E cluster (service\<lparr>
                  sv_Selector := Some [LabelCluster \<mapsto> cluster_name cluster, LabelRole \<mapsto> RolePatroniReplica]\<rparr>)))"

definition HasReplicas :: "'a PGCluster_scheme \<Rightarrow> bool" where
  "HasReplicas cluster = list_ex (\<lambda>s. case InstanceReplicas s of None \<Rightarrow> False | Some n \<Rightarrow> sint n > 1) (cs_InstanceSets cluster)"

definition reconcileClusterReplicaService ::
    "'w reconciler \<Rightarrow> merge_fn \<Rightarrow> gover \<Rightarrow> InstCluster \<Rightarrow> ('w, Service) io" where
  "reconcileClusterReplicaService E mrg gv cluster =
     (case generateClusterReplicaService E mrg gv cluster of
        Inl e \<Rightarrow> throw e
      | Inr service \<Rightarrow>
          if HasReplicas cluster then rc_Apply_Service E service
          else attempt (rc_Get_Service E (object_key (sv_meta service)))
            (\<lambda>e. if IsNotFound e then ret service else throw e)
            (\<lambda>stored. attempt (deleteControlled E cluster \<lparr>co_kind = ''Service'', co_meta = sv_meta stored,
                co_controller = sv_Controller stored\<rparr>)
              (\<lambda>e. if IsNotFound e then ret stored else throw e) (\<lambda>_. ret stored)))"

section \<open>Properties\<close>

text \<open>Labels of the operator's own stay when those common to Percona's operators are added.\<close>

lemma WithPerconaLabels_le:
  assumes "merge_law mrg" and "\<And>k. k \<in> dom ls \<Longrightarrow> has_prefix labelPrefix k"
  shows "ls \<subseteq>\<^sub>m WithPerconaLabels mrg gv ls c component v"
proof -
  have "k \<noteq> LabelPerconaManagedBy \<and> k \<noteq> LabelPerconaName \<and> k \<noteq> LabelPerconaPartOf \<and>
      k \<noteq> LabelPerconaInstance \<and> k \<noteq> LabelPerconaComponent" if "k \<in> dom ls" for k
    using assms(2) [OF that]
    by (auto simp: labelPrefix_def LabelPerconaManagedBy_def LabelPerconaName_def LabelPerconaPartOf_def
        LabelPerconaInstance_def LabelPerconaComponent_def)
  then show ?thesis
    using assms(1)
    by (auto simp: WithPerconaLabels_def Let_def merge_law_def map_le_def map_add_def split: sum.splits option.splits)
qed

text \<open>Taking ownership of a Service changes nothing else of it.\<close>

locale service_owner =
  fixes own :: "InstCluster \<Rightarrow> Service \<Rightarrow> error + Service"
  assumes owned: "own c v = Inr v' \<Longrightarrow> v' = v\<lparr>sv_Controller := sv_Controller v'\<rparr>"
begin

lemma owned_fields:
  assumes "own c v = Inr v'"
  shows "sv_meta v' = sv_meta v" "sv_Selector v' = sv_Selector v" "sv_Ports v' = sv_Ports v" "sv_Type v' = sv_Type v"
  using arg_cong [OF owned [OF assms], of sv_meta] arg_cong [OF owned [OF assms], of sv_Selector]
    arg_cong [OF owned [OF assms], of sv_Ports] arg_cong [OF owned [OF assms], of sv_Type] by simp_all

end

interpretation cmo: service_owner "rc_Own_Service cluster_memory"
  by unfold_locales (auto simp: cluster_memory_def)

text \<open>The port of a Service is the one of the cluster, with a node port only where Kubernetes takes one.\<close>

lemma typed_Service_port:
  assumes "typed_Service spec (postgres_port port) service = Inr service'"
  shows "sv_meta service' = sv_meta service" "sv_Type service' = ss_Type spec"
    "\<exists>p. sv_Ports service' = [p] \<and> sp_Port p = port \<and> sp_TargetPort p = PortPostgreSQL \<and>
      (ss_Type spec = ''ClusterIP'' \<longrightarrow> sp_NodePort p = 0)"
  using assms by (auto simp: typed_Service_def postgres_port_def Let_def split: option.splits if_splits)

text \<open>
  The Services of the leader and of the replicas keep the labels they are found by, whatever
  labels the user adds, and only the one for replicas selects pods: the Endpoints of the leader
  are those of Patroni, and the ones of the primary lead to the address of the leader's Service.
\<close>

lemma replica_service:
  assumes "merge_law mrg" and "service_owner (rc_Own_Service E)"
    and "generateClusterReplicaService E mrg gv cluster = Inr service"
  shows "[LabelCluster \<mapsto> cluster_name cluster, LabelRole \<mapsto> RoleReplica] \<subseteq>\<^sub>m Labels (sv_meta service)"
    and "sv_Selector service = Some [LabelCluster \<mapsto> cluster_name cluster, LabelRole \<mapsto> RolePatroniReplica]"
proof -
  let ?own = "[LabelCluster \<mapsto> cluster_name cluster, LabelRole \<mapsto> RoleReplica]"
  note [trans] = map_le_trans
  obtain v ls where v: "rc_Own_Service E cluster v = Inr service"
    and "Labels (sv_meta v) = ls ++ WithPerconaLabels mrg gv ?own (cluster_name cluster) ''pg'' (version_of cluster)"
    and sel: "sv_Selector v = Some [LabelCluster \<mapsto> cluster_name cluster, LabelRole \<mapsto> RolePatroniReplica]"
    using assms(1,3) by (auto simp: generateClusterReplicaService_def Let_def Merge_def merge_law_def new_Service_def
        split: option.splits sum.splits dest: typed_Service_port(1))
  note this(2)
  moreover have "?own \<subseteq>\<^sub>m WithPerconaLabels mrg gv ?own (cluster_name cluster) ''pg'' (version_of cluster)"
    by (rule WithPerconaLabels_le [OF assms(1)]) (auto simp: LabelCluster_def LabelRole_def split: if_splits)
  ultimately show "?own \<subseteq>\<^sub>m Labels (sv_meta service)"
    using service_owner.owned_fields(1) [OF assms(2) v] map_le_map_add map_le_trans by metis
  show "sv_Selector service = Some [LabelCluster \<mapsto> cluster_name cluster, LabelRole \<mapsto> RolePatroniReplica]"
    using sel service_owner.owned_fields(2) [OF assms(2) v] by simp
qed

lemma primary_service:
  assumes "service_owner (rc_Own_Service E)"
    and "generateClusterPrimaryService E mrg gv cluster (Some leader) = Inr (service, endpoints)"
  shows "se_meta endpoints = sv_meta service" "se_Addresses endpoints = [sv_ClusterIP leader]" "sv_Selector service = None"
    "Some (map sp_Port (sv_Ports service)) = map_option (\<lambda>port. [port]) (cs_Port cluster)"
  using assms by (auto simp: generateClusterPrimaryService_def Let_def postgres_port_def split: option.splits sum.splits)

text \<open>
  \<open>HasReplicas\<close> looks for a set of several instances: two sets of one instance each make a
  primary and a replica, and the Service for replicas is deleted.
\<close>

definition single_sets :: InstCluster where
  "single_sets = instances_cluster [example_set ''00'' 1, example_set ''01'' 1]"

definition replica_service_memory :: cmem where
  "replica_service_memory = empty_memory\<lparr>cm_objects := [\<lparr>co_kind = ''Service'', co_meta = ClusterReplicaService single_sets,
       co_controller = Some (UID (cc_meta single_sets))\<rparr>],
     cm_services := [(new_Service (ClusterReplicaService single_sets))\<lparr>sv_Controller := Some (UID (cc_meta single_sets))\<rparr>]\<rparr>"

lemma single_sets_lose_service:
  "specified (cs_InstanceSets single_sets) = Inr 2"
  "cm_objects (snd (reconcileClusterReplicaService cluster_memory (++) (\<lambda>_ _. Inr 0) single_sets replica_service_memory)) = []"
  by code_simp+

end
