(* ===== verification/Scaling.thy ===== *)
theory Scaling
  imports Services
begin

text \<open>
  What the reconciler of the instances observes, which instances it adds and removes, and in
  which order it stops them.
\<close>

section \<open>Observation\<close>

text \<open>
  The observation is specified without positions: the names in the order in which they are
  first seen, and for a name the instance that is made of all runners and pods.
\<close>

definition first_seen :: "'a list \<Rightarrow> 'a list" where
  "first_seen xs = rev (remdups (rev xs))"

definition pod_instance :: "'a Pod_scheme \<Rightarrow> string" where
  "pod_instance p = str_at (Labels (p_meta p)) LabelInstance"

definition instance_names :: "Runner list \<Rightarrow> InstPod list \<Rightarrow> string list" where
  "instance_names runners pods = first_seen (map (\<lambda>r. Name (s_meta r)) runners @ map pod_instance pods)"

definition set_name_of :: "Runner list \<Rightarrow> InstPod list \<Rightarrow> string \<Rightarrow> string" where
  "set_name_of runners pods n =
     (case find (\<lambda>r. Name (s_meta r) = n) runners of
        Some r \<Rightarrow> str_at (Labels (s_meta r)) LabelInstanceSet
      | None \<Rightarrow> (case find (\<lambda>p. pod_instance p = n) pods of
          Some p \<Rightarrow> str_at (Labels (p_meta p)) LabelInstanceSet | None \<Rightarrow> []))"

definition instance_of :: "'a PGCluster_scheme \<Rightarrow> Runner list \<Rightarrow> InstPod list \<Rightarrow> string \<Rightarrow> Instance" where
  "instance_of cluster runners pods n =
     \<lparr>i_name = n, i_pods = filter (\<lambda>p. pod_instance p = n) pods,
      i_runner = find (\<lambda>r. Name (s_meta r) = n) runners,
      i_spec = set_spec cluster (set_name_of runners pods n)\<rparr>"

lemma first_seen_snoc: "first_seen (xs @ [x]) = (if x \<in> set xs then first_seen xs else first_seen xs @ [x])"
  by (simp add: first_seen_def)

lemma set_first_seen [simp]: "set (first_seen xs) = set xs" "distinct (first_seen xs)"
  by (simp_all add: first_seen_def)

lemma first_seen_distinct: "distinct xs \<Longrightarrow> first_seen xs = xs"
  by (simp add: first_seen_def distinct_remdups_id)

text \<open>The positions kept by the maps, for names \<open>ns\<close> with instances \<open>F\<close> and sets \<open>S\<close>.\<close>

definition tracks :: "string list \<Rightarrow> (string \<Rightarrow> Instance) \<Rightarrow> (string \<Rightarrow> string) \<Rightarrow> observedInstances \<Rightarrow> bool" where
  "tracks ns F S o' \<longleftrightarrow> distinct ns \<and> forCluster o' = map F ns \<and>
     (\<forall>n k. byNameAt o' n = Some k \<longleftrightarrow> k < length ns \<and> ns ! k = n) \<and>
     (\<forall>s. bySetAt o' s = filter (\<lambda>k. S (ns ! k) = s) [0..<length ns])"

lemma tracks_new:
  assumes t: "tracks ns F S o'" and n: "n \<notin> set ns" "i_name (F' n) = n"
    and same: "\<And>m. m \<in> set ns \<Longrightarrow> F' m = F m" "\<And>m. m \<in> set ns \<Longrightarrow> S' m = S m"
  shows "tracks (ns @ [n]) F' S' (observe_new (F' n) (S' n) o')"
proof -
  have "filter (\<lambda>k. S' ((ns @ [n]) ! k) = s) [0..<length ns] = filter (\<lambda>k. S (ns ! k) = s) [0..<length ns]" for s
    using same(2) by (intro filter_cong) (auto simp: nth_append)
  moreover have "map F' ns = map F ns" using same(1) by simp
  ultimately show ?thesis
    using t n by (auto simp: tracks_def observe_new_def Let_def nth_append less_Suc_eq)
qed

lemma tracks_update:
  assumes t: "tracks ns F S o'" and k: "byNameAt o' n = Some k"
    and same: "\<And>m. m \<in> set ns \<Longrightarrow> m \<noteq> n \<Longrightarrow> F' m = F m" "\<And>m. m \<in> set ns \<Longrightarrow> S' m = S m"
  shows "tracks ns F' S' (o'\<lparr>forCluster := (forCluster o')[k := F' n]\<rparr>)"
proof -
  have k': "k < length ns" "ns ! k = n" "distinct ns" using t k by (auto simp: tracks_def)
  have "(map F ns)[k := F' n] = map F' ns"
  proof (rule nth_equalityI)
    fix j assume "j < length ((map F ns)[k := F' n])"
    then have j: "j < length ns" by simp
    with k' have "j \<noteq> k \<Longrightarrow> ns ! j \<noteq> n" using nth_eq_iff_index_eq by blast
    with j k' same(1) show "(map F ns)[k := F' n] ! j = map F' ns ! j" by (cases "j = k") auto
  qed simp
  moreover have "filter (\<lambda>k. S' (ns ! k) = s) [0..<length ns] = filter (\<lambda>k. S (ns ! k) = s) [0..<length ns]" for s
    using same(2) by (intro filter_cong) auto
  ultimately show ?thesis using t by (simp add: tracks_def)
qed

lemma tracks_byName: "tracks ns F S o' \<Longrightarrow> byName o' n = (if n \<in> set ns then Some (F n) else None)"
  unfolding byName_def tracks_def
  by (cases "byNameAt o' n") (auto simp: in_set_conv_nth, metis option.distinct(1))

lemma tracks_bySet:
  assumes "tracks ns F S o'"
  shows "bySet o' s = map F (filter (\<lambda>n. S n = s) ns)"
proof -
  have "map (\<lambda>k. map F ns ! k) (filter (\<lambda>k. S (ns ! k) = s) [0..<length ns]) =
      map F (map ((!) ns) (filter ((\<lambda>n. S n = s) \<circ> (!) ns) [0..<length ns]))"
    by (auto simp: comp_def)
  also have "\<dots> = map F (filter (\<lambda>n. S n = s) (map ((!) ns) [0..<length ns]))"
    by (simp only: filter_map)
  finally show ?thesis using assms by (simp add: bySet_def tracks_def map_nth)
qed

lemma find_snoc: "find P (xs @ [x]) = (case find P xs of Some y \<Rightarrow> Some y | None \<Rightarrow> if P x then Some x else None)"
  by (induction xs) auto

lemma find_None: "find P xs = None \<longleftrightarrow> (\<forall>x\<in>set xs. \<not> P x)"
  by (induction xs) auto

text \<open>The two loops of \<open>newObservedInstances\<close>.\<close>

lemma tracks_runners:
  assumes "distinct (map (\<lambda>r. Name (s_meta r)) runners)"
  shows "tracks (map (\<lambda>r. Name (s_meta r)) runners) (instance_of cluster runners []) (set_name_of runners [])
    (fold (observe_runner cluster) runners \<lparr>forCluster = [], byNameAt = Map.empty, bySetAt = (\<lambda>_. []), setNames = sets\<rparr>)"
  using assms
proof (induction runners rule: rev_induct)
  case Nil
  show ?case by (simp add: tracks_def)
next
  case (snoc r runners)
  let ?rs = "runners @ [r]" and ?n = "Name (s_meta r)"
  have n: "?n \<notin> set (map (\<lambda>r. Name (s_meta r)) runners)" using snoc.prems by simp
  then have new: "find (\<lambda>r. Name (s_meta r) = ?n) runners = None"
    by (auto simp: find_None rev_image_eqI)
  have same: "set_name_of ?rs [] m = set_name_of runners [] m \<and> instance_of cluster ?rs [] m = instance_of cluster runners [] m"
    if "m \<in> set (map (\<lambda>r. Name (s_meta r)) runners)" for m
  proof -
    have "?n \<noteq> m" using that n by blast
    then have "find (\<lambda>r. Name (s_meta r) = m) ?rs = find (\<lambda>r. Name (s_meta r) = m) runners"
      by (simp add: find_snoc split: option.splits)
    then show ?thesis by (simp add: set_name_of_def instance_of_def)
  qed
  have "observe_runner cluster r o' = observe_new (instance_of cluster ?rs [] ?n) (set_name_of ?rs [] ?n) o'" for o'
    using new by (simp add: observe_runner_def Let_def instance_of_def set_name_of_def find_snoc)
  moreover have "tracks (map (\<lambda>r. Name (s_meta r)) runners @ [?n]) (instance_of cluster ?rs []) (set_name_of ?rs [])
      (observe_new (instance_of cluster ?rs [] ?n) (set_name_of ?rs [] ?n) (fold (observe_runner cluster) runners
        \<lparr>forCluster = [], byNameAt = Map.empty, bySetAt = (\<lambda>_. []), setNames = sets\<rparr>))"
    using snoc.prems by (intro tracks_new [OF snoc.IH n]) (simp_all only: same, simp_all add: instance_of_def)
  ultimately show ?case by simp
qed

lemma tracks_observe_pod:
  assumes t: "tracks (instance_names runners pods) (instance_of cluster runners pods) (set_name_of runners pods) o'"
  shows "tracks (instance_names runners (pods @ [p])) (instance_of cluster runners (pods @ [p]))
    (set_name_of runners (pods @ [p])) (observe_pod cluster p o')"
proof (cases "byNameAt o' (pod_instance p)")
  case None
  let ?n = "pod_instance p"
  have n: "?n \<notin> set (instance_names runners pods)"
    using t None by (auto simp: tracks_def in_set_conv_nth) (metis None option.distinct(1))
  then have none: "find (\<lambda>r. Name (s_meta r) = ?n) runners = None" "find (\<lambda>p. pod_instance p = ?n) pods = None"
      "filter (\<lambda>p. pod_instance p = ?n) pods = []"
    by (auto simp: find_None instance_names_def filter_empty_conv rev_image_eqI)
  have names: "instance_names runners (pods @ [p]) = instance_names runners pods @ [?n]"
    using n by (simp add: instance_names_def first_seen_snoc flip: append_assoc)
  have same: "instance_of cluster runners (pods @ [p]) m = instance_of cluster runners pods m \<and>
      set_name_of runners (pods @ [p]) m = set_name_of runners pods m" if "m \<in> set (instance_names runners pods)" for m
    using that n by (auto simp: instance_of_def set_name_of_def find_snoc split: option.splits)
  have "observe_pod cluster p o' = observe_new (instance_of cluster runners (pods @ [p]) ?n)
      (set_name_of runners (pods @ [p]) ?n) o'"
    using None none by (simp add: observe_pod_def Let_def pod_instance_def [symmetric] instance_of_def set_name_of_def find_snoc)
  moreover have "tracks (instance_names runners pods @ [?n]) (instance_of cluster runners (pods @ [p]))
      (set_name_of runners (pods @ [p])) (observe_new (instance_of cluster runners (pods @ [p]) ?n)
      (set_name_of runners (pods @ [p]) ?n) o')"
    by (rule tracks_new [OF t n]) (auto simp: same, simp add: instance_of_def)
  ultimately show ?thesis using names by simp
next
  case (Some k)
  let ?n = "pod_instance p" and ?F = "instance_of cluster runners (pods @ [p])"
  have k: "k < length (instance_names runners pods)" "instance_names runners pods ! k = ?n"
    using t Some by (auto simp: tracks_def)
  then have n: "?n \<in> set (instance_names runners pods)" using nth_mem by metis
  then have names: "instance_names runners (pods @ [p]) = instance_names runners pods"
    by (simp add: instance_names_def first_seen_snoc flip: append_assoc)
  have same: "set_name_of runners (pods @ [p]) m = set_name_of runners pods m"
    if "m \<in> set (instance_names runners pods)" for m
  proof -
    from that have "find (\<lambda>r. Name (s_meta r) = m) runners \<noteq> None \<or> find (\<lambda>p. pod_instance p = m) pods \<noteq> None"
      by (auto simp: find_None instance_names_def)
    then show ?thesis by (auto simp: set_name_of_def find_snoc split: option.splits)
  qed
  have "(forCluster o' ! k)\<lparr>i_pods := i_pods (forCluster o' ! k) @ [p]\<rparr> = ?F ?n"
    using t k same [OF n] by (simp add: tracks_def instance_of_def)
  then have "observe_pod cluster p o' = o'\<lparr>forCluster := (forCluster o')[k := ?F ?n]\<rparr>"
    using Some by (simp add: observe_pod_def pod_instance_def)
  with tracks_update [OF t Some, of ?F "set_name_of runners (pods @ [p])"] names same show ?thesis
    by (auto simp: instance_of_def)
qed

lemma tracks_newObservedInstances:
  assumes "distinct (map (\<lambda>r. Name (s_meta r)) runners)"
  shows "tracks (instance_names runners pods) (instance_of cluster runners pods) (set_name_of runners pods)
    (newObservedInstances cluster runners pods)"
proof (induction pods rule: rev_induct)
  case Nil
  show ?case using tracks_runners [OF assms] first_seen_distinct [OF assms]
    by (simp add: newObservedInstances_def instance_names_def)
next
  case (snoc p pods)
  from tracks_observe_pod [OF this] show ?case by (simp add: newObservedInstances_def)
qed

text \<open>
  C6: the observation of a cluster refines its specification. When the names of the StatefulSets
  are distinct, as they are in one namespace, the instances are the StatefulSets and the instances
  the pods name, each once, in the order in which they are first seen; each has all its pods, in
  order, its StatefulSet and the specification of its set; an instance is found under its name, and
  the instances of a set are those of the cluster whose StatefulSet, or else whose first pod, carries
  its label.
\<close>

theorem observation_complete:
  assumes "distinct (map (\<lambda>r. Name (s_meta r)) runners)"
  shows "forCluster (newObservedInstances cluster runners pods) =
      map (instance_of cluster runners pods) (instance_names runners pods) \<and>
    (\<forall>n. byName (newObservedInstances cluster runners pods) n =
      (if n \<in> set (instance_names runners pods) then Some (instance_of cluster runners pods n) else None)) \<and>
    (\<forall>s. bySet (newObservedInstances cluster runners pods) s =
      map (instance_of cluster runners pods)
        (filter (\<lambda>n. set_name_of runners pods n = s) (instance_names runners pods)))"
proof -
  note t = tracks_newObservedInstances [OF assms, of pods cluster]
  then have "forCluster (newObservedInstances cluster runners pods) =
      map (instance_of cluster runners pods) (instance_names runners pods)"
    by (simp add: tracks_def)
  then show ?thesis using tracks_byName [OF t] tracks_bySet [OF t] by simp
qed

theorem observation_complete_witness:
  "map i_name (forCluster (newObservedInstances two_sets [example_runner ''b'']
      [example_pod ''a'' ''primary'' ''r'' True, example_pod ''b'' ''replica'' ''r'' True])) = [''b'', ''a''] \<and>
   map_option (\<lambda>i. length (i_pods i)) (byName (newObservedInstances two_sets [example_runner ''b'']
      [example_pod ''a'' ''primary'' ''r'' True, example_pod ''b'' ''replica'' ''r'' True]) ''a'') = Some 1"
proof -
  let ?rs = "[example_runner ''b'']"
    and ?ps = "[example_pod ''a'' ''primary'' ''r'' True, example_pod ''b'' ''replica'' ''r'' True]"
  have "distinct (map (\<lambda>r. Name (s_meta r)) ?rs)" by simp
  note o = observation_complete [OF this, of two_sets ?ps]
  have "instance_names ?rs ?ps = [''b'', ''a'']" and "map pod_instance ?ps = [''a'', ''b'']" by code_simp+
  with o show ?thesis by (simp add: instance_of_def)
qed

section \<open>Scaling up\<close>

lemma fresh_instance_first:
  assumes free: "Name (GenerateInstance (rnd m) cluster s) \<notin> set taken" and le: "n \<le> m"
    and below: "\<And>k. n \<le> k \<Longrightarrow> k < m \<Longrightarrow> Name (GenerateInstance (rnd k) cluster s) \<in> set taken"
  shows "fresh_instance rnd cluster s taken n = Some (GenerateInstance (rnd m) cluster s, Suc m)"
proof -
  have "fresh_instance rnd cluster s taken (m - d) = Some (GenerateInstance (rnd m) cluster s, Suc m)" if "d \<le> m - n" for d
    using that
  proof (induction d)
    case 0
    with free show ?case by (subst fresh_instance.simps) simp
  next
    case (Suc d)
    then have "Name (GenerateInstance (rnd (m - Suc d)) cluster s) \<in> set taken" and "Suc (m - Suc d) = m - d"
      using below [of "m - Suc d"] by simp_all
    with Suc show ?case by (subst fresh_instance.simps) simp
  qed
  from this [of "m - n"] le show ?thesis by simp
qed

lemma fresh_instance_found:
  assumes "\<exists>k\<ge>n. Name (GenerateInstance (rnd k) cluster s) \<notin> set taken"
  shows "fresh_instance rnd cluster s taken n =
    (let k = (LEAST k. k \<ge> n \<and> Name (GenerateInstance (rnd k) cluster s) \<notin> set taken)
     in Some (GenerateInstance (rnd k) cluster s, Suc k))"
proof -
  let ?P = "\<lambda>k. k \<ge> n \<and> Name (GenerateInstance (rnd k) cluster s) \<notin> set taken"
  have "?P (LEAST k. ?P k)" using assms by (metis (mono_tags, lifting) LeastI_ex)
  moreover have "Name (GenerateInstance (rnd k) cluster s) \<in> set taken" if "n \<le> k" "k < (LEAST k. ?P k)" for k
    using not_less_Least [OF that(2)] that(1) by simp
  ultimately show ?thesis unfolding Let_def by (intro fresh_instance_first) blast+
qed

lemma fresh_instance_Some:
  assumes "fresh_instance rnd cluster s taken n = Some y"
  shows "\<exists>k\<ge>n. Name (GenerateInstance (rnd k) cluster s) \<notin> set taken"
  using assms
proof (induction rnd cluster s taken n y rule: fresh_instance.raw_induct [rotated, consumes 1, case_names step])
  case (step f rnd cluster s taken n y)
  show ?case
  proof (cases "Name (GenerateInstance (rnd n) cluster s) \<in> set taken")
    case True
    with step(2) have "f rnd cluster s taken (Suc n) = Some y" by (simp add: Let_def)
    from step(1) [OF this] obtain k where "Suc n \<le> k" "Name (GenerateInstance (rnd k) cluster s) \<notin> set taken" by auto
    then show ?thesis by (intro exI [of _ k]) simp
  qed (intro exI [of _ n], simp)
qed

text \<open>
  C33: the search for a name that is not taken ends exactly when the random strings still to come
  have one, and then with the first of them.
\<close>

theorem fresh_instance_terminates:
  "fresh_instance rnd cluster s taken n =
     (if \<exists>k\<ge>n. Name (GenerateInstance (rnd k) cluster s) \<notin> set taken
      then let k = (LEAST k. k \<ge> n \<and> Name (GenerateInstance (rnd k) cluster s) \<notin> set taken)
        in Some (GenerateInstance (rnd k) cluster s, Suc k)
      else None)"
proof (cases "\<exists>k\<ge>n. Name (GenerateInstance (rnd k) cluster s) \<notin> set taken")
  case False
  then have "fresh_instance rnd cluster s taken n = None" 
    by (cases "fresh_instance rnd cluster s taken n") (auto dest: fresh_instance_Some)
  with False show ?thesis by (simp only: if_False)
qed (simp only: fresh_instance_found if_True)

text \<open>
  The random strings are varied enough for \<open>m\<close> instances: fewer than \<open>m\<close>
  names never take all that are still to come.
\<close>

definition varied :: "(nat \<Rightarrow> string) \<Rightarrow> 'a PGCluster_scheme \<Rightarrow> string \<Rightarrow> nat \<Rightarrow> bool" where
  "varied rnd cluster s m \<longleftrightarrow>
     (\<forall>taken n. length taken < m \<longrightarrow> (\<exists>k\<ge>n. Name (GenerateInstance (rnd k) cluster s) \<notin> set taken))"

lemma fresh_instance_varied:
  assumes "varied rnd cluster s m" and "length taken < m"
  obtains next' n' where "fresh_instance rnd cluster s taken n = Some (next', n')" and "Name next' \<notin> set taken"
proof -
  let ?P = "\<lambda>k. k \<ge> n \<and> Name (GenerateInstance (rnd k) cluster s) \<notin> set taken"
  have ex: "\<exists>k\<ge>n. Name (GenerateInstance (rnd k) cluster s) \<notin> set taken" using assms by (simp add: varied_def)
  then have "?P (LEAST k. ?P k)" by (metis (mono_tags, lifting) LeastI_ex)
  with fresh_instance_found [OF ex] that show thesis by (simp add: Let_def)
qed

lemma new_instances_varied:
  assumes "varied rnd cluster s m" and "length taken + missing \<le> m"
    and "distinct available" and "set available \<inter> set taken = {}"
  shows "\<exists>ms. new_instances rnd cluster s missing available taken n = Some ms \<and> length ms = missing \<and>
    distinct (map Name ms) \<and> set (map Name ms) \<inter> set taken = {} \<and>
    take missing available = take (length available) (map Name ms)"
  using assms(2-)
proof (induction missing arbitrary: available taken n)
  case (Suc missing)
  show ?case
  proof (cases available)
    case (Cons a as)
    with Suc.prems have "length (a # taken) + missing \<le> m" "distinct as" "set as \<inter> set (a # taken) = {}" by auto
    from Suc.IH [OF this, of "Suc n"] Cons Suc.prems show ?thesis by (auto simp: Let_def)
  next
    case Nil
    obtain next' n' where f: "fresh_instance rnd cluster s taken n = Some (next', n')" "Name next' \<notin> set taken"
      using fresh_instance_varied [OF assms(1), of taken n] Suc.prems(1) by auto
    have "length (Name next' # taken) + missing \<le> m" using Suc.prems(1) by simp
    from Suc.IH [OF this, of "[]" n'] f Nil show ?thesis by auto
  qed
qed simp

lemma first_seen_append: "first_seen (xs @ ys) = first_seen xs @ filter (\<lambda>y. y \<notin> set xs) (first_seen ys)"
proof (induction ys rule: rev_induct)
  case (snoc y ys)
  have "first_seen (xs @ ys @ [y]) = first_seen ((xs @ ys) @ [y])" by simp
  with snoc show ?case by (simp only: first_seen_snoc) auto
qed (simp add: first_seen_def)

lemma find_by_name:
  "distinct (map f rs) \<Longrightarrow> r \<in> set rs \<Longrightarrow> find (\<lambda>r'. f r' = f r) rs = Some r"
  by (induction rs) (auto simp: rev_image_eqI)

abbreviation set_runners :: "Runner list \<Rightarrow> string \<Rightarrow> Runner list" where
  "set_runners runners s \<equiv> filter (\<lambda>r. str_at (Labels (s_meta r)) LabelInstanceSet = s) runners"

lemma runners_of_set:
  fixes cluster :: "'a PGCluster_scheme" and pods :: "InstPod list"
  assumes d: "distinct (map (\<lambda>r. Name (s_meta r)) runners)"
  defines "o' \<equiv> newObservedInstances cluster runners pods"
  shows "List.map_filter i_runner (bySet o' s) = set_runners runners s"
    and "map i_name (filter (\<lambda>i. i_runner i \<noteq> None) (bySet o' s)) = map (\<lambda>r. Name (s_meta r)) (set_runners runners s)"
proof -
  let ?nm = "\<lambda>r :: Runner. Name (s_meta r)" and ?F = "instance_of cluster runners pods"
  have found: "find (\<lambda>r'. ?nm r' = ?nm r) runners = Some r" if "r \<in> set runners" for r
    using find_by_name [OF d that] .
  define rest where "rest = filter (\<lambda>y. y \<notin> set (map ?nm runners)) (first_seen (map pod_instance pods))"
  have "instance_names runners pods = map ?nm runners @ rest"
    by (simp add: instance_names_def first_seen_append first_seen_distinct [OF d] rest_def)
  then have o': "bySet o' s = map ?F (filter (\<lambda>n. set_name_of runners pods n = s) (map ?nm runners @ rest))"
    unfolding o'_def using tracks_bySet [OF tracks_newObservedInstances [OF d, of pods cluster]] by simp
  have rest: "i_runner (?F n) = None" if "n \<in> set rest" for n
    using that by (auto simp: rest_def instance_of_def find_None rev_image_eqI)
  have none: "List.map_filter i_runner (map ?F (filter P ns)) = []" "filter (\<lambda>i. i_runner i \<noteq> None) (map ?F (filter P ns)) = []"
    if "set ns \<subseteq> set rest" for ns P
    using that rest by (induction ns) (auto simp: List.map_filter_def)
  have "List.map_filter i_runner (map ?F (filter (\<lambda>n. set_name_of runners pods n = s) (map ?nm rs))) = set_runners rs s \<and>
      map i_name (filter (\<lambda>i. i_runner i \<noteq> None) (map ?F (filter (\<lambda>n. set_name_of runners pods n = s) (map ?nm rs)))) =
        map ?nm (set_runners rs s)" if "set rs \<subseteq> set runners" for rs
    using that found by (induction rs) (auto simp: List.map_filter_def instance_of_def set_name_of_def)
  from this [of runners] none [of rest] show "List.map_filter i_runner (bySet o' s) = set_runners runners s"
    and "map i_name (filter (\<lambda>i. i_runner i \<noteq> None) (bySet o' s)) = map ?nm (set_runners runners s)"
    unfolding o' by (simp_all add: List.map_filter_def)
qed

lemma available_not_running:
  assumes d: "distinct (map (\<lambda>r. Name (s_meta r)) runners)" and r: "r \<in> set runners"
  shows "Name (s_meta r) \<notin> set (findAvailableInstanceNames s (newObservedInstances cluster runners pods) volumes)"
proof -
  have "Name (s_meta r) \<in> set (instance_names runners pods)" using r by (simp add: instance_names_def)
  then have "byName (newObservedInstances cluster runners pods) (Name (s_meta r)) =
      Some (instance_of cluster runners pods (Name (s_meta r)))"
    using tracks_byName [OF tracks_newObservedInstances [OF d, of pods cluster]] by simp
  with find_by_name [OF d r] show ?thesis
    by (auto simp: findAvailableInstanceNames_def Let_def instance_of_def)
qed

text \<open>
  C20: scaling up. When the StatefulSets have distinct names, the volumes left behind give distinct
  names and the random strings are varied enough, the search for names ends, and the instances of a
  set to write are its StatefulSets followed by new ones, as many as the set has replicas or as it
  already had; all have distinct names, and the instances whose volumes are left come back first.
\<close>

theorem scale_up_reaches_replicas:
  fixes cluster :: "'a PGCluster_scheme"
  assumes "distinct (map (\<lambda>r. Name (s_meta r)) runners)"
    and "available = findAvailableInstanceNames set' (newObservedInstances cluster runners pods) volumes"
    and "distinct available"
    and "varied rnd cluster (InstanceName set') (nat (sint replicas))"
  shows "\<exists>new. scaled_instances rnd cluster (newObservedInstances cluster runners pods) set' replicas available =
      Some (set_runners runners (InstanceName set') @ new) \<and>
    length new = nat (sint replicas) - length (set_runners runners (InstanceName set')) \<and>
    distinct (map (\<lambda>r. Name (s_meta r)) (set_runners runners (InstanceName set') @ new)) \<and>
    take (length new) available = take (length available) (map (\<lambda>r. Name (s_meta r)) new)"
proof -
  let ?own = "set_runners runners (InstanceName set')"
  let ?missing = "nat (sint replicas) - length ?own"
  have own: "distinct (map (\<lambda>r. Name (s_meta r)) ?own)" using assms(1) by (rule distinct_map_filter)
  have disj: "set available \<inter> set (map (\<lambda>r. Name (s_meta r)) ?own) = {}"
    by (auto simp: assms(2) dest: available_not_running [OF assms(1)])
  have "length (map (\<lambda>r. Name (s_meta r)) ?own) + ?missing \<le> nat (sint replicas) \<or> ?missing = 0" by auto
  then obtain ms where "new_instances rnd cluster (InstanceName set') ?missing available (map (\<lambda>r. Name (s_meta r)) ?own) 0 = Some ms"
    and "length ms = ?missing" and "distinct (map Name ms)"
    and "set (map Name ms) \<inter> set (map (\<lambda>r. Name (s_meta r)) ?own) = {}"
    and "take ?missing available = take (length available) (map Name ms)"
    using new_instances_varied [OF assms(4) _ assms(3) disj, of ?missing 0] by auto
  with own show ?thesis
    by (intro exI [of _ "map empty_runner ms"])
      (auto simp: scaled_instances_def Let_def runners_of_set [OF assms(1)] empty_runner_def comp_def simp del: not_None_eq)
qed

text \<open>Strings of growing length are varied enough for any number of instances.\<close>

lemma varied_unary: "varied (\<lambda>k. replicate k (CHR ''x'')) cluster s m"
proof -
  let ?name = "\<lambda>k. Name (GenerateInstance (replicate k (CHR ''x'')) cluster s)"
  have "\<exists>k\<ge>n. ?name k \<notin> set taken" for taken n
  proof (rule ccontr)
    assume "\<not> (\<exists>k\<ge>n. ?name k \<notin> set taken)"
    then have "?name ` {n..} \<subseteq> set taken" by auto
    moreover have "inj_on ?name {n..}"
      by (intro inj_onI) (simp add: GenerateInstance_def mk_meta_def)
    ultimately have "finite {n..}" by (meson List.finite_set finite_imageD finite_subset)
    then show False using infinite_Ici by blast
  qed
  then show ?thesis by (simp add: varied_def)
qed

theorem scale_up_reaches_replicas_witness:
  "\<exists>new. scaled_instances (\<lambda>k. replicate k (CHR ''x'')) two_sets
      (newObservedInstances two_sets [example_runner ''b''] []) (example_set ''00'' 3) 3
      (findAvailableInstanceNames (example_set ''00'' 3) (newObservedInstances two_sets [example_runner ''b''] []) []) =
    Some (example_runner ''b'' # new) \<and> length new = 2 \<and>
    distinct (map (\<lambda>r. Name (s_meta r)) (example_runner ''b'' # new))"
proof -
  let ?o = "newObservedInstances two_sets [example_runner ''b''] []"
  have d: "distinct (map (\<lambda>r. Name (s_meta r)) [example_runner ''b''])" by simp
  have a: "distinct (findAvailableInstanceNames (example_set ''00'' 3) ?o [])" by code_simp
  have "set_runners [example_runner ''b''] ''00'' = [example_runner ''b'']" "InstanceName (example_set ''00'' 3) = ''00''"
    by (simp_all add: example_runner_def named_def instance_labels_def str_at_def example_set_def LabelInstanceSet_def LabelInstance_def labelPrefix_def)
  with scale_up_reaches_replicas [OF d refl a varied_unary, of 3] show ?thesis by auto
qed

section \<open>Scaling down\<close>

lemma keep_of_set_leaders: "want > 0 \<Longrightarrow> p \<in> set pods \<Longrightarrow> pod_leads p \<Longrightarrow> p \<in> set (keep_of_set pods want)"
  by (simp add: keep_of_set_def Let_def)

lemma keep_of_set_subset: "set (keep_of_set pods want) \<subseteq> set pods"
  by (auto simp: keep_of_set_def Let_def dest: in_set_takeD split: if_splits)

text \<open>
  of the pods of a set, as many are kept as are wanted, or all if there are fewer; a leader is
  kept whenever any pod is wanted, even when there are more leaders than pods wanted.
\<close>

theorem keep_of_set_count:
  "int (length (keep_of_set pods want)) =
     max (if want > 0 then int (length (filter pod_leads pods)) else 0) (max 0 (min want (int (length pods)))) \<and>
   set (keep_of_set pods want) \<subseteq> set pods \<and>
   (if want > 0 then set (filter pod_leads pods) \<subseteq> set (keep_of_set pods want) else keep_of_set pods want = [])"
proof -
  have "length (filter pod_leads pods) + length (filter (\<lambda>p. \<not> pod_leads p) pods) = length pods"
    by (rule sum_length_filter_compl)
  then have "int (length (keep_of_set pods want)) =
     max (if want > 0 then int (length (filter pod_leads pods)) else 0) (max 0 (min want (int (length pods))))"
    by (auto simp: keep_of_set_def Let_def)
  moreover have "want \<le> 0 \<Longrightarrow> keep_of_set pods want = []" by (simp add: keep_of_set_def)
  ultimately show ?thesis using keep_of_set_subset keep_of_set_leaders by auto
qed

text \<open>The instances that are deleted: those of the pods none of whose instance's pods is kept.\<close>

definition victims :: "string list \<Rightarrow> InstPod list \<Rightarrow> string list" where
  "victims names pods = filter (\<lambda>n. n \<notin> set names) (map pod_instance pods)"

lemma delete_pods_of_victims:
  "delete_pods_of E cluster names pods = run_each (deleteInstance E cluster) (victims names pods)"
  by (induction pods) (auto simp: victims_def Let_def pod_instance_def)

lemma podsToKeep_leader:
  assumes "p \<in> set pods" and "pod_leads p" and "(str_at (Labels (p_meta p)) LabelInstanceSet, n) \<in> set want" and "n > 0"
  shows "p \<in> set (podsToKeep pods want)"
  using assms by (force simp: podsToKeep_def intro: keep_of_set_leaders)

lemma podsToKeep_of_set:
  assumes "(s, n) \<in> set want"
  shows "set (keep_of_set (filter (\<lambda>p. str_at (Labels (p_meta p)) LabelInstanceSet = s) pods) n) \<subseteq> set (podsToKeep pods want)"
  using assms by (force simp: podsToKeep_def)

text \<open>
  C19: scaling down deletes instances one after the other, up to the first error. None of them has a
  pod that leads in a set of which any pod is wanted, and none has one of the pods that are kept of
  its set.
\<close>

theorem scale_down_spares_leaders:
  assumes "wanted (cs_InstanceSets cluster) [] = Inr want" and "set (order want) = set want"
    and "pods = concat (map i_pods (forCluster observed))"
  shows "\<exists>names. scaleDownInstances E order cluster observed = run_each (deleteInstance E cluster) names \<and>
    (\<forall>p\<in>set pods. pod_instance p \<in> set names \<longrightarrow>
       (\<forall>n. (str_at (Labels (p_meta p)) LabelInstanceSet, n) \<in> set want \<longrightarrow>
          (pod_leads p \<longrightarrow> n \<le> 0) \<and>
          p \<notin> set (keep_of_set (filter (\<lambda>q. str_at (Labels (p_meta q)) LabelInstanceSet =
            str_at (Labels (p_meta p)) LabelInstanceSet) pods) n)))"
proof (intro exI conjI ballI allI impI)
  let ?keep = "map pod_instance (podsToKeep pods (order want))"
  show "scaleDownInstances E order cluster observed = run_each (deleteInstance E cluster) (victims ?keep pods)"
    using assms(1,3) by (simp add: scaleDownInstances_def Let_def delete_pods_of_victims pod_instance_def [abs_def])
  fix p n assume p: "p \<in> set pods" "pod_instance p \<in> set (victims ?keep pods)"
    and n: "(str_at (Labels (p_meta p)) LabelInstanceSet, n) \<in> set want"
  have gone: "p \<notin> set (podsToKeep pods (order want))" using p(2) by (auto simp: victims_def)
  show "n \<le> 0" if "pod_leads p"
    using podsToKeep_leader [OF p(1) that] n assms(2) gone by force
  show "p \<notin> set (keep_of_set (filter (\<lambda>q. str_at (Labels (p_meta q)) LabelInstanceSet =
      str_at (Labels (p_meta p)) LabelInstanceSet) pods) n)"
    using podsToKeep_of_set [of _ n "order want" pods] n assms(2) gone by blast
qed

theorem scale_down_spares_leaders_witness:
  "\<exists>names. scaleDownInstances cluster_memory (\<lambda>w. w) (instances_cluster [example_set ''00'' 1]) (two_instances ''new'') =
     run_each (deleteInstance cluster_memory (instances_cluster [example_set ''00'' 1])) names \<and> ''a'' \<notin> set names"
proof -
  let ?c = "instances_cluster [example_set ''00'' 1]" and ?pods = "concat (map i_pods (forCluster (two_instances ''new'')))"
  have w: "wanted (cs_InstanceSets ?c) [] = Inr [(''00'', 1)]" by code_simp
  have "?pods = [example_pod ''a'' ''primary'' ''new'' True, example_pod ''b'' ''replica'' ''new'' True]"
  proof -
    have d: "distinct (map (\<lambda>r. Name (s_meta r)) [example_runner ''a'', example_runner ''b''])" by code_simp
    have "instance_names [example_runner ''a'', example_runner ''b''] ps = [''a'', ''b'']"
      "map pod_instance ps = [''a'', ''b'']"
      if "ps = [example_pod ''a'' ''primary'' ''new'' True, example_pod ''b'' ''replica'' ''new'' True]" for ps
      unfolding that by code_simp+
    then show ?thesis
      using tracks_newObservedInstances [OF d, of "[example_pod ''a'' ''primary'' ''new'' True, example_pod ''b'' ''replica'' ''new'' True]" two_sets]
      by (simp add: two_instances_def tracks_def instance_of_def)
  qed
  moreover have "pod_instance (example_pod ''a'' ''primary'' ''new'' True) = ''a''"
      "str_at (Labels (p_meta (example_pod ''a'' ''primary'' ''new'' True))) LabelInstanceSet = ''00''"
      "pod_leads (example_pod ''a'' ''primary'' ''new'' True)"
    by code_simp+
  ultimately show ?thesis
    using scale_down_spares_leaders [OF w _ refl, of "\<lambda>w. w" cluster_memory "two_instances ''new''"] by fastforce
qed

section \<open>Stopping\<close>

lemma keeps_stop:
  assumes "\<And>n. PodOwner p = Some (''StatefulSet'', n) \<Longrightarrow> keeps I (rc_Scale_Zero E (cluster_ns cluster, n))"
  shows "keeps I (stop E cluster p result)"
  unfolding stop_def by (intro frame_intros) (use assms in auto)

lemma keeps_stop_replicas:
  assumes "\<And>p n. p \<in> set ps \<Longrightarrow> \<not> pod_leads p \<Longrightarrow> PodOwner p = Some (''StatefulSet'', n) \<Longrightarrow>
    keeps I (rc_Scale_Zero E (cluster_ns cluster, n))"
  shows "keeps I (stop_replicas E cluster ps result err)"
  using assms
proof (induction ps arbitrary: result err)
  case (Cons p ps)
  have "keeps I (stop E cluster p result)" if "pod_role p = RolePatroniReplica \<or> pod_role p = []"
    using that by (intro keeps_stop Cons.prems) (auto simp: pod_leads_def RolePatroniReplica_def)
  moreover have "keeps I (stop_replicas E cluster ps result err)" for result err
    using Cons.prems by (intro Cons.IH) auto
  ultimately show ?case by (auto intro!: frame_intros)
qed (simp add: keeps_ret)

lemma keeps_with_selector [frame_intros]: "keeps I k \<Longrightarrow> keeps I (with_selector E sel k)"
  by (auto simp: with_selector_def intro: frame_intros split: option.splits)

text \<open>
  While a cluster with at least two pods is being deleted, only StatefulSets of pods that do not
  lead are scaled to zero. This is stated for any record \<open>scaled\<close> of what was scaled that a
  scaling call extends by its own StatefulSet at most, and that listing leaves alone.
\<close>

theorem delete_stops_replicas_first:
  assumes "\<And>ns sel w. scaled (snd (rc_List_Pods E ns sel w)) = scaled w"
    and "\<And>k w. scaled (snd (rc_Scale_Zero E k w)) \<subseteq> insert k (scaled w)"
    and "rc_List_Pods E (cluster_ns cluster) (ClusterInstances (cluster_name cluster)) w = (Inr pods, w1)"
    and "length pods \<ge> 2"
  shows "scaled (snd (deleteInstances E cluster w)) \<subseteq> scaled w \<union>
    {(cluster_ns cluster, n) | n p. p \<in> set pods \<and> PodOwner p = Some (''StatefulSet'', n) \<and> \<not> pod_leads p}"
proof -
  define S where "S = scaled w \<union>
    {(cluster_ns cluster, n) | n p. p \<in> set pods \<and> PodOwner p = Some (''StatefulSet'', n) \<and> \<not> pod_leads p}"
  have "keeps (\<lambda>w. scaled w \<subseteq> S) (rc_Scale_Zero E k)" if "k \<in> S" for k
    using assms(2) that by (intro keepsI) blast
  then have k: "keeps (\<lambda>w. scaled w \<subseteq> S) (plain (stop_replicas E cluster pods (empty_Result\<lparr>RequeueAfter := 1 * Second\<rparr>) None)
      (\<lambda>(result, err). case err of None \<Rightarrow> ret (Some result) | Some e \<Rightarrow> throw e))"
    by (intro frame_intros keeps_stop_replicas) (auto simp: S_def)
  have w1: "scaled w1 \<subseteq> S" using assms(1) [of "cluster_ns cluster" "ClusterInstances (cluster_name cluster)" w] assms(3)
    by (auto simp: S_def)
  obtain p q ps where pods: "pods = p # q # ps" using assms(4) by (cases pods; cases "tl pods") auto
  show ?thesis unfolding S_def [symmetric]
    using keepsD [OF k w1] assms(3)
    by (cases "rc_AsSelector E (ClusterInstances (cluster_name cluster))")
      (auto simp: deleteInstances_def with_selector_def Let_def pods plain_def attempt_def throw_def S_def)
qed

text \<open>In memory: the StatefulSets that have no replicas.\<close>

definition zero_runners :: "cmem \<Rightarrow> key set" where
  "zero_runners w = runner_key ` {r \<in> set (cm_runners w). StsReplicas r = 0}"

definition two_running :: cmem where
  "two_running = empty_memory\<lparr>cm_pods := [example_pod ''a'' ''primary'' ''new'' True, example_pod ''b'' ''replica'' ''new'' True],
     cm_runners := [example_runner ''a'', example_runner ''b'']\<rparr>"

lemma zero_runners_list: "zero_runners (snd (rc_List_Pods cluster_memory ns sel w)) = zero_runners w"
  by (simp add: cluster_memory_def lists_def mem_list_def)

lemma zero_runners_scale: "zero_runners (snd (rc_Scale_Zero cluster_memory k w)) \<subseteq> insert k (zero_runners w)"
  by (auto simp: cluster_memory_def unit_of_def mem_put_def attempt_def throw_def ret_def zero_runners_def replace_def
      split: option.splits)

theorem delete_stops_replicas_first_witness:
  "(''ns'', ''a'') \<notin> zero_runners (snd (deleteInstances cluster_memory two_sets two_running)) \<and>
   map StsReplicas (cm_runners (snd (deleteInstances cluster_memory two_sets two_running))) = [1, 0]"
proof -
  let ?pods = "cm_pods two_running"
  have "selects (ClusterInstances (cluster_name two_sets)) (Labels (p_meta (?pods ! 0)))"
    "selects (ClusterInstances (cluster_name two_sets)) (Labels (p_meta (?pods ! 1)))"
    "cluster_ns two_sets = ''ns''" "map (\<lambda>p. Namespace (p_meta p)) ?pods = [''ns'', ''ns'']"
    "pod_leads (?pods ! 0)" "map PodOwner ?pods = [Some (''StatefulSet'', ''a''), Some (''StatefulSet'', ''b'')]"
    "length ?pods = 2" "map (\<lambda>r. StsReplicas r) (cm_runners two_running) = [1, 1]"
    by code_simp+
  note facts = this
  obtain p q where pods: "?pods = [p, q]" using facts(7) by (auto simp: length_Suc_conv numeral_2_eq_2)
  then have "rc_List_Pods cluster_memory (cluster_ns two_sets) (ClusterInstances (cluster_name two_sets)) two_running =
      (Inr ?pods, two_running)"
    using facts by (simp add: cluster_memory_def lists_def mem_list_def)
  note run = delete_stops_replicas_first [OF zero_runners_list zero_runners_scale this]
  have "zero_runners two_running = {}" using facts(8) by (auto simp: zero_runners_def)
  with run pods facts have "(''ns'', ''a'') \<notin> zero_runners (snd (deleteInstances cluster_memory two_sets two_running))" by auto
  moreover have "map StsReplicas (cm_runners (snd (deleteInstances cluster_memory two_sets two_running))) = [1, 0]" by code_simp
  ultimately show ?thesis ..
qed

lemma deleteInstances_None:
  assumes "deleteInstances E cluster w = (Inr None, w1)"
  shows "with_selector E (ClusterInstances (cluster_name cluster))
     (rc_List_Pods E (cluster_ns cluster) (ClusterInstances (cluster_name cluster))) w = (Inr [], w1)"
proof -
  let ?fin = "\<lambda>(result, err). case err of None \<Rightarrow> ret (Some result) | Some e \<Rightarrow> throw e"
  have not_None: "?fin y w' \<noteq> (Inr None, w'')" for y :: "reconcile_Result \<times> error option" and w' w'' :: 'a
    by (auto split: prod.splits option.splits)
  from assms obtain pods w' where list: "with_selector E (ClusterInstances (cluster_name cluster))
     (rc_List_Pods E (cluster_ns cluster) (ClusterInstances (cluster_name cluster))) w = (Inr pods, w')"
    and rest: "(case pods of [] \<Rightarrow> ret None
        | [p] \<Rightarrow> plain (stop E cluster p empty_Result) ?fin
        | _ \<Rightarrow> plain (stop_replicas E cluster pods (empty_Result\<lparr>RequeueAfter := 1 * Second\<rparr>) None) ?fin) w' = (Inr None, w1)"
    by (auto simp: deleteInstances_def Let_def plain_Inr)
  from rest have "pods = [] \<and> w' = w1"
  proof (cases pods)
    case (Cons p ps)
    with rest not_None show ?thesis by (cases ps) (auto simp: plain_Inr split: prod.splits)
  qed simp
  with list show ?thesis by simp
qed

lemma handleDelete_patches:
  assumes "keeps (\<lambda>w'. fin w' = fin w) (deleteInstances E cluster)"
    and "keeps (\<lambda>w'. fin w' = fin w) (deletePatroniArtifacts E cluster)"
    and "\<not> time_IsZero (DeletionTimestamp (cc_meta cluster))"
    and "fin (snd (handleDelete E cluster w)) \<noteq> fin w"
  shows "\<exists>w1 w2. deleteInstances E cluster w = (Inr None, w1) \<and> deletePatroniArtifacts E cluster w1 = (Inr (), w2)"
proof -
  obtain r w1 where d: "deleteInstances E cluster w = (r, w1)" by fastforce
  obtain r' w2 where p: "deletePatroniArtifacts E cluster w1 = (r', w2)" by fastforce
  have f: "fin w1 = fin w" "fin w2 = fin w"
    using keeps_run [OF assms(1) _ d] keeps_run [OF assms(2) _ p] by auto
  have "r = Inr None" "r' = Inr ()"
    using assms(3,4) d p f
    by (auto simp: handleDelete_def Let_def plain_def attempt_def throw_def ret_def split: if_splits sum.splits option.splits)
  with d p show ?thesis by blast
qed

text \<open>
  The finalizer of a cluster that is being deleted is given up last: the stored finalizers change
  only when no pod of the cluster was listed and its Patroni objects have been deleted since.
\<close>

theorem finalizer_removed_last:
  assumes "\<And>ns sel w. fin (snd (rc_List_Pods E ns sel w)) = fin w"
    and "\<And>k w. fin (snd (rc_Scale_Zero E k w)) = fin w"
    and "\<And>ns sel w. fin (snd (rc_DeleteAll_Endpoints E ns sel w)) = fin w"
    and "\<not> time_IsZero (DeletionTimestamp (cc_meta cluster))"
    and "fin (snd (handleDelete E cluster w)) \<noteq> fin w"
  shows "\<exists>w1 w2. rc_List_Pods E (cluster_ns cluster) (ClusterInstances (cluster_name cluster)) w = (Inr [], w1) \<and>
    rc_DeleteAll_Endpoints E (cluster_ns cluster) (ClusterPatronis cluster) w1 = (Inr (), w2)"
proof -
  let ?I = "\<lambda>w'. fin w' = fin w"
  have keeps: "keeps ?I (rc_List_Pods E ns sel)" "keeps ?I (rc_Scale_Zero E k)" "keeps ?I (rc_DeleteAll_Endpoints E ns sel)" for ns sel k
    unfolding keeps_def assms(1-3) by auto
  have stop: "keeps ?I (stop E cluster p d)" "keeps ?I (stop_replicas E cluster ps d e)" for p ps d e
    by (intro keeps_stop keeps_stop_replicas keeps)+
  have "keeps ?I (deleteInstances E cluster)"
    unfolding deleteInstances_def Let_def by (intro frame_intros keeps stop)
  moreover have "keeps ?I (deletePatroniArtifacts E cluster)"
    unfolding deletePatroniArtifacts_def by (intro frame_intros keeps)
  ultimately have "\<exists>w1 w2. deleteInstances E cluster w = (Inr None, w1) \<and> deletePatroniArtifacts E cluster w1 = (Inr (), w2)"
    using assms(4,5) by (rule handleDelete_patches)
  then show ?thesis by (auto dest!: deleteInstances_None simp: deletePatroniArtifacts_def with_selector_def split: option.splits)
qed

definition leaving :: InstCluster where
  "leaving = cc_meta_update (\<lambda>m. m\<lparr>DeletionTimestamp := Some 1, Finalizers := [Finalizer]\<rparr>) two_sets"

theorem finalizer_removed_last_witness:
  "cm_finalizers (snd (handleDelete cluster_memory leaving (empty_memory\<lparr>cm_finalizers := [Finalizer]\<rparr>))) = [] \<and>
   (\<exists>w1 w2. rc_List_Pods cluster_memory (cluster_ns leaving) (ClusterInstances (cluster_name leaving))
        (empty_memory\<lparr>cm_finalizers := [Finalizer]\<rparr>) = (Inr [], w1) \<and>
      rc_DeleteAll_Endpoints cluster_memory (cluster_ns leaving) (ClusterPatronis leaving) w1 = (Inr (), w2))"
proof -
  let ?w = "empty_memory\<lparr>cm_finalizers := [Finalizer]\<rparr>"
  have run: "cm_finalizers (snd (handleDelete cluster_memory leaving ?w)) = []" by code_simp
  have "cm_finalizers ?w \<noteq> []" by simp
  with run have ne: "cm_finalizers (snd (handleDelete cluster_memory leaving ?w)) \<noteq> cm_finalizers ?w" by simp
  have d: "\<not> time_IsZero (DeletionTimestamp (cc_meta leaving))" by code_simp
  have "cm_finalizers (snd (rc_List_Pods cluster_memory ns sel w)) = cm_finalizers w"
    "cm_finalizers (snd (rc_Scale_Zero cluster_memory k w)) = cm_finalizers w"
    "cm_finalizers (snd (rc_DeleteAll_Endpoints cluster_memory ns sel w)) = cm_finalizers w" for ns sel k w
    by (auto simp: cluster_memory_def lists_def mem_list_def unit_of_def mem_put_def attempt_def throw_def ret_def
        split: option.splits)
  from finalizer_removed_last [OF this d ne] run show ?thesis by blast
qed

section \<open>Shutting down and starting\<close>

abbreviation primaries :: "Instance list \<Rightarrow> Instance list" where
  "primaries is \<equiv> filter (\<lambda>i. surely (IsPrimary i)) is"

lemma startup_loop_running:
  "ic_Shutdown cluster \<noteq> Some True \<Longrightarrow> startup_loop cluster is =
   Inr (if primaries is = [] then cluster else cluster\<lparr>ic_StartupInstance := [], ic_StartupInstanceSet := []\<rparr>)"
  by (induction cluster "is" rule: startup_loop.induct) auto

lemma startup_loop_stopping:
  "ic_Shutdown cluster = Some True \<Longrightarrow> startup_loop cluster is =
   (if \<exists>i\<in>set (primaries is). i_spec i = None then Inl nil_deref
    else Inr (if primaries is = [] then cluster else cluster\<lparr>
      ic_StartupInstance := i_name (last (primaries is)),
      ic_StartupInstanceSet := InstanceName (the (i_spec (last (primaries is))))\<rparr>))"
  by (induction cluster "is" rule: startup_loop.induct) (auto split: option.splits)

text \<open>
  C18: The order of stopping and starting. While a cluster shuts down, the StatefulSet of its
  primary keeps its pod for as long as there are others, and all others get none; without a primary
  the instance remembered before takes its place. When a cluster that is not shutting down has a
  primary, every StatefulSet gets its pod; as long as it has none, only the instance remembered
  gets one, if there is one. A suspended instance gets no pod.
\<close>

theorem primary_stops_last_starts_first:
  assumes "startup_loop cluster is = Inr cluster'" and "\<And>i. i \<in> set is \<Longrightarrow> i_name i \<noteq> []"
  shows "instance_replicas cluster' name pods suspend =
    (let first = (if primaries is = [] then ic_StartupInstance cluster
           else if ic_Shutdown cluster = Some True then i_name (last (primaries is)) else [])
     in if suspend then 0
        else if first = [] then 1
        else if name \<noteq> first then 0
        else if ic_Shutdown cluster = Some True \<and> pods \<le> 1 then 0 else 1)"
proof (cases "ic_Shutdown cluster = Some True")
  case True
  have "primaries is \<noteq> [] \<Longrightarrow> i_name (last (primaries is)) \<noteq> []"
    using assms(2) last_in_set [of "primaries is"] by auto
  moreover have "cluster' = (if primaries is = [] then cluster else cluster\<lparr>
      ic_StartupInstance := i_name (last (primaries is)),
      ic_StartupInstanceSet := InstanceName (the (i_spec (last (primaries is))))\<rparr>)"
    using assms(1) startup_loop_stopping [OF True, of "is"]
    by (cases "\<exists>i\<in>set (primaries is). i_spec i = None") (simp_all only: if_True if_False sum.inject sum.distinct)
  ultimately show ?thesis using True by (cases "primaries is = []") (simp_all add: instance_replicas_def Let_def)
next
  case False
  have "cluster' = (if primaries is = [] then cluster else cluster\<lparr>ic_StartupInstance := [], ic_StartupInstanceSet := []\<rparr>)"
    using assms(1) unfolding startup_loop_running [OF False] by simp
  with False show ?thesis by (cases "primaries is = []") (simp_all add: instance_replicas_def Let_def)
qed

definition stopping :: InstCluster where
  "stopping = two_sets\<lparr>ic_Shutdown := Some True\<rparr>"

theorem primary_stops_last_starts_first_witness:
  "\<exists>cluster'. startup_loop stopping (forCluster (two_instances ''new'')) = Inr cluster' \<and>
     instance_replicas cluster' ''a'' 2 False = 1 \<and> instance_replicas cluster' ''b'' 2 False = 0 \<and>
     instance_replicas cluster' ''a'' 1 False = 0"
proof -
  have s: "ic_Shutdown stopping = Some True" by code_simp
  have "list_all (\<lambda>i. i_spec i \<noteq> None) (primaries (forCluster (two_instances ''new'')))"
    "list_all (\<lambda>i. i_name i \<noteq> []) (forCluster (two_instances ''new''))"
    and p: "map i_name (primaries (forCluster (two_instances ''new''))) = [''a'']"
    by code_simp+
  then have spec: "\<forall>i\<in>set (primaries (forCluster (two_instances ''new''))). i_spec i \<noteq> None"
    and names: "\<And>i. i \<in> set (forCluster (two_instances ''new'')) \<Longrightarrow> i_name i \<noteq> []"
    unfolding list_all_iff by blast+
  from p have ne: "primaries (forCluster (two_instances ''new'')) \<noteq> []"
      "i_name (last (primaries (forCluster (two_instances ''new'')))) = ''a''"
    by (auto simp: map_eq_Cons_conv)
  from spec obtain c' where c': "startup_loop stopping (forCluster (two_instances ''new'')) = Inr c'"
    unfolding startup_loop_stopping [OF s] by (metis (no_types, lifting))
  from primary_stops_last_starts_first [OF c' names] c' ne s show ?thesis by (simp add: Let_def)
qed

text \<open>
  Shutting a cluster down dereferences a nil pointer exactly when an instance that leads belongs
  to no set of the specification, which is so when its set was removed from it.
\<close>

theorem shutdown_panics_iff:
  "(\<exists>e. startup_loop cluster is = Inl e) =
     (ic_Shutdown cluster = Some True \<and> (\<exists>i\<in>set is. surely (IsPrimary i) \<and> i_spec i = None))"
  by (cases "ic_Shutdown cluster = Some True") (auto simp: startup_loop_stopping startup_loop_running)

text \<open>
  When the instances of a set are written, the error that is reported is that of the last one:
  whatever the others reported is dropped, and only a panic stops the loop.
\<close>

theorem only_last_error_reported:
  "reconcile_each f (rs @ [r]) err =
     plain (reconcile_each f rs err) (\<lambda>_. attempt (f r) (\<lambda>e. ret (Some e)) (\<lambda>_. ret None))"
proof (induction rs arbitrary: err)
  case Nil
  show ?case by (simp add: plain_def attempt_def ret_def)
next
  case (Cons q rs)
  show ?case
  proof
    fix w
    obtain x w2 where "f q w = (x, w2)" by fastforce
    then show "reconcile_each f ((q # rs) @ [r]) err w =
        plain (reconcile_each f (q # rs) err) (\<lambda>_. attempt (f r) (\<lambda>e. ret (Some e)) (\<lambda>_. ret None)) w"
      using Cons.IH by (cases x) (auto simp: plain_def attempt_def throw_def)
  qed
qed

section \<open>The StatefulSet of an instance\<close>

text \<open>
  C34: The selector of an instance's StatefulSet matches the labels of its pod template, whatever
  labels the user adds, and is determined by the names of the cluster, the set and the instance,
  as the API server demands. The update strategy leaves pods alone, so that the rollout decides.
\<close>

theorem instance_selector_matches_template:
  assumes "merge_law mrg"
    and "intent = generateInstanceStatefulSetIntent mrg gv cond sc cluster spec svc acc name pods suspend"
  shows "it_Selector intent \<subseteq>\<^sub>m it_TemplateLabels intent \<and>
    it_Selector intent = [LabelCluster \<mapsto> cluster_name cluster, LabelInstanceSet \<mapsto> InstanceName spec, LabelInstance \<mapsto> name] \<and>
    it_Replicas intent \<in> {0, 1} \<and> it_UpdateStrategy intent = ''OnDelete''"
proof -
  let ?own = "[LabelCluster \<mapsto> cluster_name cluster, LabelInstanceSet \<mapsto> InstanceName spec, LabelInstance \<mapsto> name]"
  let ?all = "?own(LabelData \<mapsto> DataPostgres)"
  note [trans] = map_le_trans
  have "?own \<subseteq>\<^sub>m ?all"
    by (simp add: map_le_def LabelData_def LabelCluster_def LabelInstanceSet_def LabelInstance_def)
  also have "?all \<subseteq>\<^sub>m WithPerconaLabels mrg gv ?all (cluster_name cluster) ''pg'' (str_at (Labels (cc_meta cluster)) LabelVersion)"
    by (rule WithPerconaLabels_le [OF assms(1)])
      (auto simp: LabelData_def LabelCluster_def LabelInstanceSet_def LabelInstance_def split: if_splits)
  also have "\<dots> \<subseteq>\<^sub>m it_TemplateLabels intent"
    using assms(1) by (simp add: assms(2) generateInstanceStatefulSetIntent_def Let_def Merge_def merge_law_def map_le_map_add)
  finally show ?thesis
    by (simp add: assms(2) generateInstanceStatefulSetIntent_def Let_def instance_replicas_def)
qed

theorem instance_selector_matches_template_witness:
  "let intent = generateInstanceStatefulSetIntent (++) (\<lambda>_ _. Inr 0) (\<lambda>_ _ _. False) JNull two_sets
      (example_set ''00'' 2) ''hippo-pods'' ''hippo-instance'' ''a'' 2 False
   in it_Selector intent \<subseteq>\<^sub>m it_TemplateLabels intent \<and> it_Replicas intent = 1"
  using instance_selector_matches_template [OF _ refl, of "(++)" "\<lambda>_ _. Inr 0" "\<lambda>_ _ _. False" JNull two_sets
      "example_set ''00'' 2" "''hippo-pods''" "''hippo-instance''" "''a''" 2 False]
  by (simp add: merge_law_def Let_def generateInstanceStatefulSetIntent_def instance_replicas_def
      two_sets_def instances_cluster_def PGCluster.defs)

end
