(* ===== verification/Patroni_Control.thy ===== *)
theory Patroni_Control
  imports Cluster_Memory
begin

text \<open>
  How the operator drives Patroni, \<open>internal/controller/postgrescluster/patroni.go\<close>:
  pending restarts, the dynamic configuration, the system identifier, and switchovers. Its
  Services are in \<open>Services\<close>.
\<close>

section \<open>Restarts and configuration\<close>

definition PatroniSwitchover_annotation :: string where
  "PatroniSwitchover_annotation = labelPrefix @ ''trigger-switchover''"

definition pod_exec :: "'w reconciler \<Rightarrow> InstPod \<Rightarrow> 'w Executor" where
  "pod_exec E pod = rc_PodExec E (Namespace (p_meta pod)) (Name (p_meta pod)) ContainerDatabase"

text \<open>An instance Patroni wants to restart, and that is up.\<close>

definition needs_restart :: "Instance \<Rightarrow> bool" where
  "needs_restart i \<longleftrightarrow> i_pods i \<noteq> [] \<and> PodRequiresRestart (Some (p_meta (hd (i_pods i)))) \<and>
     surely_not (IsTerminating i) \<and> surely (IsRunning i ContainerDatabase)"

text \<open>The loop that looks for one primary and one replica, and stops when it has both.\<close>

fun restart_loop :: "Instance list \<Rightarrow> Instance option \<Rightarrow> Instance option \<Rightarrow> Instance option \<times> Instance option" where
  "restart_loop [] primary replica = (primary, replica)"
| "restart_loop (i # is) primary replica =
     (if needs_restart i then
        (let (primary, replica) = (if fst (IsPrimary i) then (Some i, replica) else (primary, Some i))
         in if primary \<noteq> None \<and> replica \<noteq> None then (primary, replica) else restart_loop is primary replica)
      else restart_loop is primary replica)"

text \<open>An error that a command returns as a value ends the operation.\<close>

definition check :: "('w, error option) io \<Rightarrow> ('w, unit) io" where
  "check m = plain m (\<lambda>err. case err of Some e \<Rightarrow> throw e | None \<Rightarrow> ret ())"

definition handlePatroniRestarts ::
    "'w reconciler \<Rightarrow> gover \<Rightarrow> 'a PGCluster_scheme \<Rightarrow> observedInstances \<Rightarrow> ('w, unit) io" where
  "handlePatroniRestarts E gv cluster instances =
     (case restart_loop (forCluster instances) None None of
        (Some i, _) \<Rightarrow>
          (case IsPatroniVer4 gv cluster of
             Inl e \<Rightarrow> throw (Wrap ''failed to check if patroni v4 is used'' e)
           | Inr patroniVer4 \<Rightarrow> check (RestartPendingMembers (pod_exec E (hd (i_pods i)))
               (if patroniVer4 then ''primary'' else ''master'') (PatroniScope cluster)))
      | (None, Some i) \<Rightarrow> check (RestartPendingMembers (pod_exec E (hd (i_pods i))) ''replica'' (PatroniScope cluster))
      | (None, None) \<Rightarrow> ret ())"

text \<open>\<open>encode\<close> is the JSON encoder.\<close>

definition reconcilePatroniDynamicConfiguration ::
    "'w reconciler \<Rightarrow> ((string \<Rightarrow> json option) \<Rightarrow> error + string) \<Rightarrow> 'a PGCluster_scheme \<Rightarrow> observedInstances \<Rightarrow>
     HBAs \<Rightarrow> Parameters \<Rightarrow> ('w, unit) io" where
  "reconcilePatroniDynamicConfiguration E encode cluster instances pgHBAs pgParameters =
     (if \<not> ClusterBootstrapped cluster then ret ()
      else case find (\<lambda>i. surely_not (IsTerminating i) \<and> surely (IsRunning i ContainerDatabase) \<and> i_pods i \<noteq> [])
             (forCluster instances) of
        None \<Rightarrow> ret ()
      | Some i \<Rightarrow>
          let configuration = (case cs_Patroni cluster of
                None \<Rightarrow> Map.empty | Some sp \<Rightarrow> deref (PatroniDynamicConfiguration sp) Map.empty)
          in case DynamicConfiguration cluster configuration pgHBAs pgParameters of
               Inl e \<Rightarrow> throw e
             | Inr configuration \<Rightarrow> check (ReplaceConfiguration encode (pod_exec E (hd (i_pods i))) configuration))"

text \<open>The result is the cluster, the delay before the next reconciliation and the error.\<close>

definition reconcilePatroniStatus ::
    "'w reconciler \<Rightarrow> InstCluster \<Rightarrow> observedInstances \<Rightarrow> ('w, InstCluster \<times> int \<times> error option) io" where
  "reconcilePatroniStatus E cluster observed =
     (let readyInstance = list_ex (\<lambda>i. fst (IsReady i)) (forCluster observed);
          dcs = PatroniDistributedConfiguration cluster;
          record = (\<lambda>annotations.
            if str_at annotations ''initialize'' \<noteq> []
            then ret (cluster\<lparr>cs_SystemIdentifier := str_at annotations ''initialize''\<rparr>, 0, None)
            else ret (cluster, if readyInstance then Second else 0, None))
      in attempt (rc_Get_Endpoints E (object_key dcs))
           (\<lambda>e. if IsNotFound e then record (Annotations dcs) else ret (cluster, 0, Some e))
           (\<lambda>dcs. record (Annotations (e_meta dcs))))"

section \<open>Switchover\<close>

definition switchover_target :: "SwitchoverSpec \<Rightarrow> observedInstances \<Rightarrow> error + Instance option" where
  "switchover_target spec instances =
     (let name = deref (TargetInstance spec) [] in
      if SwitchoverType spec = ''Failover'' \<and> name = [] then Inl (Errorf ''TargetInstance required when running failover'')
      else if name = [] then Inr None
      else case find (\<lambda>i. i_name i = name) (rev (forCluster instances)) of
          None \<Rightarrow> Inl (Errorf ''TargetInstance was specified but not found in the cluster'')
        | Some i \<Rightarrow>
            if length (i_pods i) \<noteq> 1
            then Inl (Errorf (''TargetInstance should have one pod. Pods ('' @ sprint_int (int (length (i_pods i))) @ '')''))
            else Inr (Some i))"

definition switchover_done :: "InstCluster \<Rightarrow> string \<Rightarrow> InstCluster" where
  "switchover_done cluster annotation =
     cluster\<lparr>ic_SwitchoverStatus := Some annotation, ic_SwitchoverTimeline := None\<rparr>"

text \<open>
  What to do once the target is known: the timeline is recorded first, so that a second attempt
  can tell whether the first went through. \<open>unmarshal\<close> is the JSON decoder of the list of
  members. The cluster with its status is returned also with an error.
\<close>

definition switchover_act ::
    "'w Executor \<Rightarrow> (string \<Rightarrow> error + PatroniMember list) \<Rightarrow> InstCluster \<Rightarrow> string \<Rightarrow> SwitchoverSpec \<Rightarrow> Instance option \<Rightarrow>
     ('w, InstCluster \<times> error option) io" where
  "switchover_act exec unmarshal cluster annotation spec target =
     plain (GetTimeline unmarshal exec) (\<lambda>(timeline, err).
       case err of
         Some e \<Rightarrow> ret (cluster, Some e)
       | None \<Rightarrow>
           if timeline = 0 then ret (cluster, Some (Errorf ''error getting and parsing current timeline''))
           else if deref (ic_SwitchoverTimeline cluster) 0 = 0
           then ret (cluster\<lparr>ic_SwitchoverTimeline := Some timeline\<rparr>, None)
           else if deref (ic_SwitchoverTimeline cluster) 0 \<noteq> timeline
           then ret (switchover_done cluster annotation, None)
           else
             let next = (case target of None \<Rightarrow> [] | Some i \<Rightarrow> Name (p_meta (hd (i_pods i)))) in
             plain (if SwitchoverType spec = ''Failover'' then FailoverAndWait exec next else SwitchoverAndWait exec next)
               (\<lambda>(success, err). case err of
                  Some e \<Rightarrow> ret (cluster, Some e)
                | None \<Rightarrow> if success then ret (switchover_done cluster annotation, None)
                    else ret (cluster, Some (Errorf ''unable to switchover''))))"

definition reconcilePatroniSwitchover ::
    "'w reconciler \<Rightarrow> (string \<Rightarrow> error + PatroniMember list) \<Rightarrow> InstCluster \<Rightarrow> observedInstances \<Rightarrow>
     ('w, InstCluster \<times> error option) io" where
  "reconcilePatroniSwitchover E unmarshal cluster instances =
     (let annotation = str_at (Annotations (cc_meta cluster)) PatroniSwitchover_annotation;
          stopped = cluster\<lparr>ic_SwitchoverStatus := None, ic_SwitchoverTimeline := None\<rparr>
      in case (cs_Patroni cluster, ic_Switchover cluster) of
           (Some _, Some spec) \<Rightarrow>
             if \<not> SwitchoverEnabled spec then ret (stopped, None)
             else if annotation = [] \<or> ic_SwitchoverStatus cluster = Some annotation
             then ret (cluster\<lparr>ic_SwitchoverTimeline := None\<rparr>, None)
             else if length (forCluster instances) \<le> 1
             then ret (cluster, Some (Errorf ''Need more than one instance to switchover''))
             else (case switchover_target spec instances of
                 Inl e \<Rightarrow> ret (cluster, Some e)
               | Inr target \<Rightarrow>
                   (case find (\<lambda>i. surely (IsRunning i ContainerDatabase) \<and> length (i_pods i) = 1) (forCluster instances) of
                      None \<Rightarrow> ret (cluster, Some (Errorf ''Could not find a running pod when attempting switchover.''))
                    | Some i \<Rightarrow> switchover_act (pod_exec E (hd (i_pods i))) unmarshal cluster annotation spec target))
         | _ \<Rightarrow> ret (stopped, None))"

section \<open>Properties\<close>

subsection \<open>Restarts\<close>

text \<open>The instances that need to restart, by role.\<close>

abbreviation restarts :: "bool \<Rightarrow> Instance list \<Rightarrow> Instance list" where
  "restarts primary is \<equiv> filter (\<lambda>i. needs_restart i \<and> fst (IsPrimary i) = primary) is"

lemma restart_loop_spec:
  "p = None \<or> r = None \<Longrightarrow> restart_loop is p r = (p', r') \<Longrightarrow>
   (case p' of None \<Rightarrow> p = None \<and> restarts True is = [] | Some i \<Rightarrow> p = Some i \<or> i \<in> set (restarts True is)) \<and>
   (case r' of None \<Rightarrow> r = None \<and> (p' = None \<longrightarrow> restarts False is = [])
    | Some i \<Rightarrow> r = Some i \<or> i \<in> set (restarts False is))"
proof (induction "is" arbitrary: p r)
  case Nil
  then show ?case by (auto split: option.splits)
next
  case (Cons i "is")
  show ?case
  proof (cases "needs_restart i")
    case False
    with Cons.prems Cons.IH [of p r] show ?thesis by (auto split: option.splits)
  next
    case up: True
    show ?thesis
    proof (cases "fst (IsPrimary i)")
      case True
      with up Cons.prems Cons.IH [of "Some i" r] show ?thesis by (cases r) (auto split: option.splits)
    next
      case False
      with up Cons.prems Cons.IH [of p "Some i"] show ?thesis by (cases p) (auto split: option.splits)
    qed
  qed
qed

text \<open>
  Pending restarts. When a primary that is up needs to restart, the primary is restarted and
  nothing else, since some settings have to change there first; when only replicas do, all
  replicas that need it are, and otherwise nothing is called.
\<close>

theorem restarts_primary_first:
  "if \<exists>i\<in>set (forCluster instances). needs_restart i \<and> fst (IsPrimary i)
   then \<exists>i\<in>set (forCluster instances). needs_restart i \<and> fst (IsPrimary i) \<and>
     handlePatroniRestarts E gv cluster instances =
       (case IsPatroniVer4 gv cluster of
          Inl e \<Rightarrow> throw (Wrap ''failed to check if patroni v4 is used'' e)
        | Inr v4 \<Rightarrow> check (RestartPendingMembers (pod_exec E (hd (i_pods i)))
            (if v4 then ''primary'' else ''master'') (PatroniScope cluster)))
   else if \<exists>i\<in>set (forCluster instances). needs_restart i
   then \<exists>i\<in>set (forCluster instances). needs_restart i \<and>
     handlePatroniRestarts E gv cluster instances =
       check (RestartPendingMembers (pod_exec E (hd (i_pods i))) ''replica'' (PatroniScope cluster))
   else handlePatroniRestarts E gv cluster instances = ret ()"
proof -
  obtain p r where l: "restart_loop (forCluster instances) None None = (p, r)" by fastforce
  note spec = restart_loop_spec [OF _ l]
  show ?thesis
  proof (cases p)
    case (Some i)
    with spec have "i \<in> set (restarts True (forCluster instances))" by simp
    with Some show ?thesis by (auto simp: handlePatroniRestarts_def l)
  next
    case None
    with spec have none: "restarts True (forCluster instances) = []" by simp
    show ?thesis
    proof (cases r)
      case (Some i)
      with spec have "i \<in> set (restarts False (forCluster instances))" by simp
      with Some None none show ?thesis by (auto simp: handlePatroniRestarts_def l filter_empty_conv)
    next
      case r: None
      with spec None have "restarts False (forCluster instances) = []" by simp
      with r None none show ?thesis by (auto simp: handlePatroniRestarts_def l filter_empty_conv)
    qed
  qed
qed

subsection \<open>Switchovers\<close>

text \<open>The command that changes the primary, and what follows it.\<close>

definition change_primary :: "'w Executor \<Rightarrow> SwitchoverSpec \<Rightarrow> Instance option \<Rightarrow> ('w, bool \<times> error option) io" where
  "change_primary exec spec target =
     (let next = (case target of None \<Rightarrow> [] | Some i \<Rightarrow> Name (p_meta (hd (i_pods i))))
      in if SwitchoverType spec = ''Failover'' then FailoverAndWait exec next else SwitchoverAndWait exec next)"

lemma switchover_act_early:
  assumes "GetTimeline unmarshal exec w = (r, w1)"
  shows "r = Inl e \<Longrightarrow> switchover_act exec unmarshal cluster a spec target w = (Inl e, w1)"
    and "r = Inr (t, Some e) \<Longrightarrow> switchover_act exec unmarshal cluster a spec target w = (Inr (cluster, Some e), w1)"
    and "r = Inr (0, None) \<Longrightarrow> \<exists>e. switchover_act exec unmarshal cluster a spec target w = (Inr (cluster, Some e), w1)"
    and "r = Inr (t, None) \<Longrightarrow> t \<noteq> 0 \<Longrightarrow> deref (ic_SwitchoverTimeline cluster) 0 = 0 \<Longrightarrow>
      switchover_act exec unmarshal cluster a spec target w = (Inr (cluster\<lparr>ic_SwitchoverTimeline := Some t\<rparr>, None), w1)"
    and "r = Inr (t, None) \<Longrightarrow> deref (ic_SwitchoverTimeline cluster) 0 \<notin> {0, t} \<Longrightarrow> t \<noteq> 0 \<Longrightarrow>
      switchover_act exec unmarshal cluster a spec target w = (Inr (switchover_done cluster a, None), w1)"
  by (simp_all add: switchover_act_def plain_def attempt_def assms throw_def ret_def)

lemma switchover_act_late:
  assumes "GetTimeline unmarshal exec w = (Inr (t, None), w1)" and "t \<noteq> 0" and "deref (ic_SwitchoverTimeline cluster) 0 = t"
    and "change_primary exec spec target w1 = (r2, w2)"
  shows "switchover_act exec unmarshal cluster a spec target w =
    (case r2 of Inl e \<Rightarrow> Inl e
     | Inr (success, err) \<Rightarrow> Inr (if success \<and> err = None then (switchover_done cluster a, None)
         else (cluster, Some (deref err (Errorf ''unable to switchover'')))), w2)"
proof -
  have "switchover_act exec unmarshal cluster a spec target w =
      plain (change_primary exec spec target) (\<lambda>(success, err). case err of
          Some e \<Rightarrow> ret (cluster, Some e)
        | None \<Rightarrow> if success then ret (switchover_done cluster a, None)
            else ret (cluster, Some (Errorf ''unable to switchover''))) w1"
    using assms(2,3) unfolding switchover_act_def plain_def [of "GetTimeline unmarshal exec"] attempt_def assms(1) change_primary_def Let_def
    by (simp only: sum.case prod.case option.case if_False if_True simp_thms)
  also have "\<dots> = (case r2 of Inl e \<Rightarrow> Inl e
     | Inr (success, err) \<Rightarrow> Inr (if success \<and> err = None then (switchover_done cluster a, None)
         else (cluster, Some (deref err (Errorf ''unable to switchover'')))), w2)"
    unfolding plain_def attempt_def assms(4) throw_def ret_def
    by (cases r2) (simp_all split: option.split prod.split)
  finally show ?thesis .
qed

text \<open>
  What is relied on of Patroni: listing the members changes nothing and reports the timeline when
  there is a leader; a change of the primary starts a new timeline, and a switchover or failover
  that is reported as successful is such a change. \<open>changes\<close> counts them.
\<close>

locale patroni_members =
  fixes exec :: "'w Executor" and unmarshal :: "string \<Rightarrow> error + PatroniMember list"
    and timeline :: "'w \<Rightarrow> int" and changes :: "'w \<Rightarrow> nat"
  assumes listed: "GetTimeline unmarshal exec w = (r, w') \<Longrightarrow>
      timeline w' = timeline w \<and> changes w' = changes w \<and> (\<forall>t. r = Inr (t, None) \<longrightarrow> t \<in> {0, timeline w})"
    and switched: "SwitchoverAndWait exec n w = (b, w') \<Longrightarrow>
      changes w' = changes w \<and> timeline w' = timeline w \<and> b \<noteq> Inr (True, None) \<or>
      changes w' = Suc (changes w) \<and> timeline w' \<noteq> timeline w"
    and failed: "FailoverAndWait exec n w = (b, w') \<Longrightarrow>
      changes w' = changes w \<and> timeline w' = timeline w \<and> b \<noteq> Inr (True, None) \<or>
      changes w' = Suc (changes w) \<and> timeline w' \<noteq> timeline w"
begin

text \<open>One attempt, by the timeline that was recorded before.\<close>

lemma act_cases:
  assumes "switchover_act exec unmarshal cluster a spec target w = (res, w')"
  obtains (same) "changes w' = changes w" "timeline w' = timeline w"
      "\<And>c e. res = Inr (c, e) \<Longrightarrow> c = cluster \<or>
        deref (ic_SwitchoverTimeline cluster) 0 = 0 \<and> timeline w \<noteq> 0 \<and>
          c = cluster\<lparr>ic_SwitchoverTimeline := Some (timeline w)\<rparr> \<or>
        deref (ic_SwitchoverTimeline cluster) 0 \<notin> {0, timeline w} \<and> c = switchover_done cluster a"
  | (changed) "changes w' = Suc (changes w)" "timeline w' \<noteq> timeline w"
      "deref (ic_SwitchoverTimeline cluster) 0 = timeline w" "timeline w \<noteq> 0"
      "\<And>c e. res = Inr (c, e) \<Longrightarrow> c = cluster \<or> c = switchover_done cluster a"
proof -
  obtain r w1 where g: "GetTimeline unmarshal exec w = (r, w1)" by fastforce
  note l = listed [OF g]
  note early = switchover_act_early [OF g, where cluster = cluster and a = a and spec = spec and target = target, unfolded assms]
  show thesis
  proof (cases "\<exists>t. r = Inr (t, None) \<and> t \<noteq> 0 \<and> deref (ic_SwitchoverTimeline cluster) 0 = t")
    case False
    then consider e where "r = Inl e" | t e where "r = Inr (t, Some e)" | "r = Inr (0, None)"
      | "r = Inr (timeline w, None)" "timeline w \<noteq> 0" "deref (ic_SwitchoverTimeline cluster) 0 = 0"
      | "r = Inr (timeline w, None)" "timeline w \<noteq> 0" "deref (ic_SwitchoverTimeline cluster) 0 \<notin> {0, timeline w}"
      using l by (cases r) force+
    then show thesis
    proof cases
      case (1 e)
      from early(1) [OF this] l show thesis by (intro same) auto
    next
      case (2 t e)
      from early(2) [OF this] l show thesis by (intro same) auto
    next
      case 3
      from early(3) [OF this] l show thesis by (intro same) auto
    next
      case 4
      from early(4) [OF this] 4 l show thesis by (intro same) auto
    next
      case 5
      from early(5) [OF 5(1,3,2)] 5 l show thesis by (intro same) auto
    qed
  next
    case True
    then have t: "r = Inr (timeline w, None)" "timeline w \<noteq> 0" "deref (ic_SwitchoverTimeline cluster) 0 = timeline w"
      using l by auto
    obtain r2 w2 where m: "change_primary exec spec target w1 = (r2, w2)" by fastforce
    have ch: "changes w2 = changes w \<and> timeline w2 = timeline w \<and> r2 \<noteq> Inr (True, None) \<or>
        changes w2 = Suc (changes w) \<and> timeline w2 \<noteq> timeline w"
      using m l unfolding change_primary_def Let_def
      by (cases "SwitchoverType spec = ''Failover''") (auto dest: switched failed)
    have eq: "res = (case r2 of Inl e \<Rightarrow> Inl e
        | Inr (success, err) \<Rightarrow> Inr (if success \<and> err = None then (switchover_done cluster a, None)
            else (cluster, Some (deref err (Errorf ''unable to switchover'')))))" "w' = w2"
      using switchover_act_late [OF g [unfolded t(1)] t(2,3) m, of a, unfolded assms] by (simp_all only: prod.inject)
    have c: "c = cluster \<or> c = switchover_done cluster a \<and> r2 = Inr (True, None)" if "res = Inr (c, e)" for c e
    proof (cases r2)
      case (Inl e')
      with that eq(1) show ?thesis by simp
    next
      case (Inr b)
      with that eq(1) show ?thesis by (cases b) (auto split: if_splits)
    qed
    from ch show thesis
    proof
      assume "changes w2 = changes w \<and> timeline w2 = timeline w \<and> r2 \<noteq> Inr (True, None)"
      with c eq(2) show thesis by (intro same) blast+
    next
      assume "changes w2 = Suc (changes w) \<and> timeline w2 \<noteq> timeline w"
      with c eq(2) t show thesis by (intro changed) blast+
    qed
  qed
qed

end

text \<open>
  The life of one request. The versions of the cluster are a list: the first is what the
  controller's cache has, the last what the API server has. A reconciliation reads the cache and
  patches the status on the server with the fields it changed; the cache catches up one version at
  a time; and the world may change otherwise, but not its timeline.
\<close>

definition merge_status :: "InstCluster \<Rightarrow> InstCluster \<Rightarrow> InstCluster \<Rightarrow> InstCluster" where
  "merge_status before after stored = stored\<lparr>
     ic_SwitchoverStatus := (if ic_SwitchoverStatus after \<noteq> ic_SwitchoverStatus before
       then ic_SwitchoverStatus after else ic_SwitchoverStatus stored),
     ic_SwitchoverTimeline := (if ic_SwitchoverTimeline after \<noteq> ic_SwitchoverTimeline before
       then ic_SwitchoverTimeline after else ic_SwitchoverTimeline stored)\<rparr>"

inductive switchover_history ::
    "'w reconciler \<Rightarrow> (string \<Rightarrow> error + PatroniMember list) \<Rightarrow> ('w \<Rightarrow> int) \<Rightarrow> ('w \<Rightarrow> nat) \<Rightarrow>
     InstCluster \<Rightarrow> 'w \<Rightarrow> InstCluster list \<Rightarrow> 'w \<Rightarrow> bool"
  for E unmarshal timeline changes c0 w0 where
  requested: "switchover_history E unmarshal timeline changes c0 w0 [c0] w0"
| reconciled: "switchover_history E unmarshal timeline changes c0 w0 (c # cs) w \<Longrightarrow>
     reconcilePatroniSwitchover E unmarshal c instances w = (Inr (c', err), w') \<Longrightarrow>
     switchover_history E unmarshal timeline changes c0 w0 (c # cs @ [merge_status c c' (last (c # cs))]) w'"
| interrupted: "switchover_history E unmarshal timeline changes c0 w0 (c # cs) w \<Longrightarrow>
     reconcilePatroniSwitchover E unmarshal c instances w = (Inl e, w') \<Longrightarrow>
     switchover_history E unmarshal timeline changes c0 w0 (c # cs) w'"
| caught_up: "switchover_history E unmarshal timeline changes c0 w0 (c # c' # cs) w \<Longrightarrow>
     switchover_history E unmarshal timeline changes c0 w0 (c' # cs) w"
| elsewhere: "switchover_history E unmarshal timeline changes c0 w0 cs w \<Longrightarrow>
     timeline w' = timeline w \<Longrightarrow> changes w' = changes w \<Longrightarrow>
     switchover_history E unmarshal timeline changes c0 w0 cs w'"

abbreviation recorded :: "InstCluster \<Rightarrow> int" where
  "recorded c \<equiv> deref (ic_SwitchoverTimeline c) 0"

definition request_of :: "InstCluster \<Rightarrow> string" where
  "request_of c = str_at (Annotations (cc_meta c)) PatroniSwitchover_annotation"

definition requests_switchover :: "InstCluster \<Rightarrow> bool" where
  "requests_switchover c \<longleftrightarrow> cs_Patroni c \<noteq> None \<and> request_of c \<noteq> [] \<and>
     (case ic_Switchover c of None \<Rightarrow> False | Some spec \<Rightarrow> SwitchoverEnabled spec)"

text \<open>The versions of one request, before and after the primary has changed.\<close>

definition asks :: "string \<Rightarrow> InstCluster \<Rightarrow> bool" where
  "asks a c \<longleftrightarrow> requests_switchover c \<and> request_of c = a"

definition waits :: "string \<Rightarrow> int \<Rightarrow> InstCluster \<Rightarrow> bool" where
  "waits a t c \<longleftrightarrow> ic_SwitchoverStatus c \<noteq> Some a \<and> recorded c \<in> {0, t}"

definition switched_over :: "string \<Rightarrow> int \<Rightarrow> InstCluster \<Rightarrow> bool" where
  "switched_over a t c \<longleftrightarrow>
     (if ic_SwitchoverStatus c = Some a then ic_SwitchoverTimeline c = None else recorded c \<notin> {0, t})"

definition versions_ok :: "string \<Rightarrow> nat \<Rightarrow> InstCluster list \<Rightarrow> int \<Rightarrow> nat \<Rightarrow> bool" where
  "versions_ok a k cs t n \<longleftrightarrow> (\<forall>c\<in>set cs. asks a c) \<and>
     (n = k \<and> (\<forall>c\<in>set cs. waits a t c) \<and> sorted_wrt (\<lambda>c d. recorded c \<noteq> 0 \<longrightarrow> recorded d \<noteq> 0) cs \<or>
      n = Suc k \<and> (\<forall>c\<in>set cs. switched_over a t c))"

lemma merge_status_request [simp]:
  "requests_switchover (merge_status c c' d) = requests_switchover d"
  "request_of (merge_status c c' d) = request_of d"
  by (simp_all add: merge_status_def requests_switchover_def request_of_def)

lemma merge_status_same [simp]: "merge_status c c d = d"
  by (simp add: merge_status_def)

text \<open>What one reconciliation of a request does: nothing, or an attempt.\<close>

lemma reconcilePatroniSwitchover_cases:
  assumes "reconcilePatroniSwitchover E unmarshal c instances w = (res, w')" and "requests_switchover c"
  obtains (settled) "ic_SwitchoverStatus c = Some (request_of c)" "w' = w" "res = Inr (c\<lparr>ic_SwitchoverTimeline := None\<rparr>, None)"
  | (refused) e where "w' = w" "res = Inr (c, Some e)"
  | (act) p spec target where "ic_SwitchoverStatus c \<noteq> Some (request_of c)"
      "switchover_act (pod_exec E p) unmarshal c (request_of c) spec target w = (res, w')"
proof -
  from assms(2) obtain sp spec where req: "cs_Patroni c = Some sp" "ic_Switchover c = Some spec" "SwitchoverEnabled spec"
      "request_of c \<noteq> []"
    by (auto simp: requests_switchover_def split: option.splits)
  note run = assms(1) [unfolded reconcilePatroniSwitchover_def Let_def request_of_def [symmetric] req prod.case option.case]
  consider "ic_SwitchoverStatus c = Some (request_of c)"
    | "ic_SwitchoverStatus c \<noteq> Some (request_of c)" "length (forCluster instances) \<le> 1"
    | "ic_SwitchoverStatus c \<noteq> Some (request_of c)" "\<not> length (forCluster instances) \<le> 1" by blast
  then show thesis
  proof cases
    case 1
    with run req show thesis by (intro settled) (simp_all add: ret_def)
  next
    case 2
    with run req have "w' = w \<and> res = Inr (c, Some (Errorf ''Need more than one instance to switchover''))"
      by (auto simp: ret_def)
    then show thesis using refused by blast
  next
    case 3
    show thesis
    proof (cases "switchover_target spec instances")
      case (Inl e)
      with run req 3 have "w' = w \<and> res = Inr (c, Some e)" by (auto simp: ret_def)
      then show thesis using refused by blast
    next
      case (Inr target)
      show thesis
      proof (cases "find (\<lambda>i. surely (IsRunning i ContainerDatabase) \<and> length (i_pods i) = 1) (forCluster instances)")
        case None
        with run req 3 Inr
        have "w' = w \<and> res = Inr (c, Some (Errorf ''Could not find a running pod when attempting switchover.''))"
          by (auto simp: ret_def)
        then show thesis using refused by blast
      next
        case (Some i)
        with run req 3 Inr show thesis by (intro act) simp_all
      qed
    qed
  qed
qed

lemma versions_ok_tl: "versions_ok a k (c # cs) t n \<Longrightarrow> versions_ok a k cs t n"
  by (auto simp: versions_ok_def)

text \<open>The primary changes while the cache has its timeline: so has every later version.\<close>

lemma versions_ok_changed:
  assumes "versions_ok a k (c # cs) t n" and "recorded c = t" and "t \<noteq> 0" and "t' \<noteq> t"
    and "ic_SwitchoverStatus c \<noteq> Some a"
  shows "versions_ok a k (c # cs) t' (Suc n)"
proof -
  have "\<not> switched_over a t c" using assms(2,5) by (simp add: switched_over_def)
  with assms(1) have ok: "n = k" "\<forall>d\<in>set (c # cs). asks a d \<and> waits a t d" "\<forall>d\<in>set cs. recorded d \<noteq> 0"
    using assms(2,3) by (auto simp: versions_ok_def)
  have "switched_over a t' d" if "d \<in> set (c # cs)" for d
    using that ok(2,3) assms(2-4) by (auto simp: switched_over_def waits_def)
  with ok show ?thesis by (simp add: versions_ok_def)
qed

text \<open>A version is written: before the change it has a timeline if the last one had, after it it is a result.\<close>

lemma versions_ok_waiting:
  assumes "versions_ok a k cs t n" and "cs \<noteq> []" and "asks a d" and "waits a t d" and "n = k"
    and "recorded d = 0 \<Longrightarrow> recorded (last cs) = 0"
  shows "versions_ok a k (cs @ [d]) t n"
proof -
  obtain bs b where cs: "cs = bs @ [b]" using assms(2) by (cases cs rule: rev_cases) auto
  have s: "sorted_wrt (\<lambda>c d. recorded c \<noteq> 0 \<longrightarrow> recorded d \<noteq> 0) cs" "\<forall>c\<in>set cs. asks a c \<and> waits a t c"
    using assms(1,5) by (auto simp: versions_ok_def)
  have "recorded c \<noteq> 0 \<longrightarrow> recorded d \<noteq> 0" if "c \<in> set cs" for c
    using that s(1) assms(6) cs by (auto simp: sorted_wrt_append)
  with s assms(3-5) show ?thesis by (auto simp: versions_ok_def sorted_wrt_append)
qed

lemma versions_ok_switched:
  "versions_ok a k cs t n \<Longrightarrow> n \<noteq> k \<Longrightarrow> asks a d \<Longrightarrow> switched_over a t d \<Longrightarrow> versions_ok a k (cs @ [d]) t n"
  by (auto simp: versions_ok_def)

lemma versions_ok_again:
  assumes "versions_ok a k cs t n" and "cs \<noteq> []"
  shows "versions_ok a k (cs @ [last cs]) t n"
proof (cases "n = k")
  case True
  with assms show ?thesis by (intro versions_ok_waiting) (auto simp: versions_ok_def)
next
  case False
  with assms show ?thesis by (intro versions_ok_switched) (auto simp: versions_ok_def)
qed

lemma merge_status_done:
  "ic_SwitchoverStatus c \<noteq> Some a \<Longrightarrow> recorded c \<noteq> 0 \<Longrightarrow> switched_over a t (merge_status c (switchover_done c a) d)"
  by (cases "ic_SwitchoverTimeline c") (auto simp: switched_over_def merge_status_def switchover_done_def)

lemma merge_status_recorded:
  assumes "recorded c = 0" and "t \<noteq> 0" and "ic_SwitchoverStatus d \<noteq> Some a"
  shows "waits a t (merge_status c (c\<lparr>ic_SwitchoverTimeline := Some t\<rparr>) d)"
    and "recorded (merge_status c (c\<lparr>ic_SwitchoverTimeline := Some t\<rparr>) d) = t"
  using assms by (cases "ic_SwitchoverTimeline c", auto simp: waits_def merge_status_def)+

lemma versions_ok_write:
  assumes ok: "versions_ok a k (c # cs) t n" and c: "ic_SwitchoverStatus c \<noteq> Some a"
    and d: "c' = c \<or> recorded c = 0 \<and> t \<noteq> 0 \<and> c' = c\<lparr>ic_SwitchoverTimeline := Some t\<rparr> \<or>
      recorded c \<notin> {0, t} \<and> c' = switchover_done c a"
  shows "versions_ok a k ((c # cs) @ [merge_status c c' (last (c # cs))]) t n"
proof -
  let ?l = "last (c # cs)"
  have l: "?l \<in> set (c # cs)" by (rule last_in_set) simp
  with ok have asks: "asks a (merge_status c c' ?l)" by (simp add: versions_ok_def asks_def)
  from d consider "c' = c" | "recorded c = 0" "t \<noteq> 0" "c' = c\<lparr>ic_SwitchoverTimeline := Some t\<rparr>"
    | "recorded c \<notin> {0, t}" "c' = switchover_done c a" by blast
  then show ?thesis
  proof cases
    case 1
    with versions_ok_again [OF ok] show ?thesis by simp
  next
    case 2
    with c ok l have "n = k" "waits a t ?l" by (auto simp: versions_ok_def switched_over_def)
    with 2 asks merge_status_recorded [OF 2(1,2), of ?l a] show ?thesis
      by (intro versions_ok_waiting [OF ok]) (auto simp: waits_def)
  next
    case 3
    with ok have "n \<noteq> k" by (auto simp: versions_ok_def waits_def)
    with 3 c asks merge_status_done [of c a] show ?thesis by (intro versions_ok_switched [OF ok]) auto
  qed
qed

text \<open>One attempt, and one reconciliation, keep the versions in order.\<close>

lemma act_versions:
  assumes patroni: "patroni_members exec unmarshal timeline changes"
    and ok: "versions_ok a k (c # cs) (timeline w) (changes w)" and c: "ic_SwitchoverStatus c \<noteq> Some a"
    and run: "switchover_act exec unmarshal c a spec target w = (res, w')"
  shows "versions_ok a k (c # cs) (timeline w') (changes w') \<and>
    (\<forall>c' e. res = Inr (c', e) \<longrightarrow>
       versions_ok a k ((c # cs) @ [merge_status c c' (last (c # cs))]) (timeline w') (changes w'))"
proof (cases rule: patroni_members.act_cases [OF patroni run, case_names same changed])
  case same
  then show ?thesis using ok versions_ok_write [OF ok c] by simp
next
  case changed
  have ok': "versions_ok a k (c # cs) (timeline w') (changes w')"
    unfolding changed(1) by (rule versions_ok_changed [OF ok changed(3,4,2) c])
  moreover have "versions_ok a k ((c # cs) @ [merge_status c c' (last (c # cs))]) (timeline w') (changes w')"
    if "res = Inr (c', e)" for c' e
    by (rule versions_ok_write [OF ok' c]) (use changed(5) [OF that] changed(2-4) in auto)
  ultimately show ?thesis by blast
qed

lemma reconciled_versions:
  assumes patroni: "\<And>p. patroni_members (pod_exec E p) unmarshal timeline changes"
    and ok: "versions_ok a k (c # cs) (timeline w) (changes w)"
    and run: "reconcilePatroniSwitchover E unmarshal c instances w = (res, w')"
  shows "versions_ok a k (c # cs) (timeline w') (changes w') \<and>
    (\<forall>c' e. res = Inr (c', e) \<longrightarrow>
       versions_ok a k ((c # cs) @ [merge_status c c' (last (c # cs))]) (timeline w') (changes w'))"
proof -
  have c: "requests_switchover c" "request_of c = a" using ok by (auto simp: versions_ok_def asks_def)
  show ?thesis
    using run c(1)
  proof (cases rule: reconcilePatroniSwitchover_cases)
    case settled
    with c(2) ok have "switched_over a (timeline w) c" by (auto simp: versions_ok_def waits_def)
    with settled c(2) have "c\<lparr>ic_SwitchoverTimeline := None\<rparr> = c" by (cases c) (simp add: switched_over_def)
    with settled ok versions_ok_again [OF ok] show ?thesis by simp
  next
    case (refused e)
    with ok versions_ok_again [OF ok] show ?thesis by simp
  next
    case (act p spec target)
    from act_versions [OF patroni ok] act c(2) show ?thesis by simp
  qed
qed

lemma switchover_history_versions:
  assumes "switchover_history E unmarshal timeline changes c0 w0 cs w"
    and "\<And>p. patroni_members (pod_exec E p) unmarshal timeline changes"
    and "requests_switchover c0" and "ic_SwitchoverStatus c0 \<noteq> Some (request_of c0)" and "recorded c0 = 0"
  shows "cs \<noteq> [] \<and> versions_ok (request_of c0) (changes w0) cs (timeline w) (changes w)"
  using assms(1)
proof (induction rule: switchover_history.induct)
  case requested
  with assms(3-5) show ?case by (simp add: versions_ok_def asks_def waits_def)
next
  case (reconciled c cs w instances c' err w')
  from reconciled_versions [OF assms(2) conjunct2 [OF reconciled.IH] reconciled.hyps(2)] show ?case by simp
next
  case (interrupted c cs w instances e w')
  from reconciled_versions [OF assms(2) conjunct2 [OF interrupted.IH] interrupted.hyps(2)] show ?case by simp
next
  case (caught_up c c' cs w)
  then show ?case using versions_ok_tl by blast
qed simp

text \<open>
  C7: A requested switchover is carried out at most once. When the members of a cluster change
  their timeline with every change of the primary, and only through the commands of the operator,
  then over every sequence of reconciliations of one request, each reading any version of the
  cluster the cache may have and each possibly cut short, the primary changes at most once; and
  once the server has the request as done, it has changed.
\<close>

theorem switchover_at_most_once:
  assumes "switchover_history E unmarshal timeline changes c0 w0 cs w"
    and "\<And>p. patroni_members (pod_exec E p) unmarshal timeline changes"
    and "requests_switchover c0" and "ic_SwitchoverStatus c0 \<noteq> Some (request_of c0)" and "recorded c0 = 0"
  shows "changes w \<in> {changes w0, Suc (changes w0)} \<and>
    (ic_SwitchoverStatus (last cs) = Some (request_of c0) \<longrightarrow> changes w = Suc (changes w0))"
proof -
  have "cs \<noteq> []" "versions_ok (request_of c0) (changes w0) cs (timeline w) (changes w)"
    using switchover_history_versions [OF assms] by simp_all
  then show ?thesis using last_in_set [of cs] by (auto simp: versions_ok_def waits_def)
qed

interpretation mp: patroni_members "pod_exec cluster_memory p" mem_members "\<lambda>w. int (cm_timeline w)" cm_changes
  for p
proof -
  have "pod_exec cluster_memory p = mem_patroni" by (simp add: pod_exec_def cluster_memory_def)
  then show "patroni_members (pod_exec cluster_memory p) mem_members (\<lambda>w. int (cm_timeline w)) cm_changes"
    by unfold_locales
      (auto simp: GetTimeline_def SwitchoverAndWait_def FailoverAndWait_def patronictl_def mem_patroni_def mem_members_def
        plain_def attempt_def ret_def look_def)
qed

definition switching :: InstCluster where
  "switching = (instances_cluster [example_set ''00'' 2])\<lparr>
     cc_meta := example_meta\<lparr>Annotations := [PatroniSwitchover_annotation \<mapsto> ''now'']\<rparr>,
     ic_Switchover := Some \<lparr>SwitchoverEnabled = True, TargetInstance = None, SwitchoverType = ''Switchover''\<rparr>\<rparr>"

definition switch :: "InstCluster \<Rightarrow> cmem \<Rightarrow> InstCluster \<times> cmem" where
  "switch c w = (case reconcilePatroniSwitchover cluster_memory mem_members c (two_instances ''new'') w of
     (Inr (c', _), w') \<Rightarrow> (c', w') | (Inl _, w') \<Rightarrow> (c, w'))"

theorem switchover_at_most_once_witness:
  "\<exists>cs w. switchover_history cluster_memory mem_members (\<lambda>w. int (cm_timeline w)) cm_changes switching empty_memory cs w \<and>
     length cs = 2 \<and> cm_changes w = 1 \<and> cm_changes w \<in> {cm_changes empty_memory, Suc (cm_changes empty_memory)}"
proof -
  let ?H = "switchover_history cluster_memory mem_members (\<lambda>w. int (cm_timeline w)) cm_changes switching empty_memory"
  have step: "?H [c] w \<Longrightarrow>
      \<not> isl (fst (reconcilePatroniSwitchover cluster_memory mem_members c (two_instances ''new'') w)) \<Longrightarrow>
      ?H [c, merge_status c (fst (switch c w)) c] (snd (switch c w))" for c w
    using switchover_history.reconciled [of cluster_memory mem_members "\<lambda>w. int (cm_timeline w)" cm_changes switching empty_memory c "[]" w
        "two_instances ''new''" "fst (switch c w)"]
    by (auto simp: switch_def split: prod.splits sum.splits)
  define c1 w1 where "c1 = merge_status switching (fst (switch switching empty_memory)) switching"
    and "w1 = snd (switch switching empty_memory)"
  have "?H [switching, c1] w1"
    unfolding c1_def w1_def by (rule step [OF switchover_history.requested]) code_simp
  then have "?H [c1] w1" by (rule switchover_history.caught_up)
  moreover have "\<not> isl (fst (reconcilePatroniSwitchover cluster_memory mem_members c1 (two_instances ''new'') w1))"
    "cm_changes (snd (switch c1 w1)) = 1"
    unfolding c1_def w1_def by code_simp+
  ultimately have h: "?H [c1, merge_status c1 (fst (switch c1 w1)) c1] (snd (switch c1 w1))" by (intro step)
  have "requests_switchover switching" "ic_SwitchoverStatus switching \<noteq> Some (request_of switching)" "recorded switching = 0"
    by code_simp+
  from switchover_at_most_once [OF h mp.patroni_members_axioms this] h \<open>cm_changes (snd (switch c1 w1)) = 1\<close>
  show ?thesis by (intro exI conjI) auto
qed

end
