(* ===== verification/Data_Source.thy ===== *)
theory Data_Source
  imports Cluster_Memory "HOL-Library.Code_Target_Nat"
begin

text \<open>
  Restoring a cluster and creating one from a backup: \<open>reconcileDataSource\<close> of
  \<open>internal/controller/postgrescluster/cluster.go\<close> with \<open>observeRestoreEnv\<close>
  and \<open>prepareForRestore\<close> of \<open>pgbackrest.go\<close>. The instances and the objects of
  Patroni are removed first, over several reconciliations; only then the data directory is
  populated. The last section shows this of every history of reconciliations.
\<close>

section \<open>Observing\<close>

definition ConditionPostgresDataInitialized :: string where
  "ConditionPostgresDataInitialized = ''PostgresDataInitialized''"

definition ConditionPGBackRestRestoreProgressing :: string where
  "ConditionPGBackRestRestoreProgressing = ''PGBackRestoreProgressing''"

definition ReasonReadyForRestore :: string where
  "ReasonReadyForRestore = ''ReadyForRestore''"

definition PGBackRestConfigHash :: string where
  "PGBackRestConfigHash = labelPrefix @ ''pgbackrest-hash''"

definition jobFailed :: "Job \<Rightarrow> bool" where
  "jobFailed job = first_condition ''Failed'' (JobConditions job)"

definition jobCompleted :: "Job \<Rightarrow> bool" where
  "jobCompleted job = first_condition ''Complete'' (JobConditions job)"

text \<open>The Endpoints of Patroni that exist.\<close>

fun current_endpoints :: "'w reconciler \<Rightarrow> ObjectMeta list \<Rightarrow> ('w, Endpoints list) io" where
  "current_endpoints E [] = ret []"
| "current_endpoints E (m # ms) =
     attempt (rc_Get_Endpoints E (object_key m))
       (\<lambda>e. if IsNotFound e then current_endpoints E ms else throw e)
       (\<lambda>ep. plain (current_endpoints E ms) (\<lambda>eps. ret (ep # eps)))"

definition patroni_endpoints :: "InstCluster \<Rightarrow> ObjectMeta list" where
  "patroni_endpoints cluster =
     [PatroniLeaderEndpoints cluster, PatroniDistributedConfiguration cluster, PatroniTrigger cluster]"

definition set_condition :: "'w reconciler \<Rightarrow> string \<Rightarrow> ConditionStatus \<Rightarrow> string \<Rightarrow> InstCluster \<Rightarrow> InstCluster" where
  "set_condition E type status reason cluster =
     cluster\<lparr>cs_Conditions := rc_SetCondition E (cs_Conditions cluster)
       \<lparr>ConditionType = type, ConditionStatus = status, ConditionReason = reason,
        ObservedGeneration = Generation (cc_meta cluster), LastTransitionTime = 0\<rparr>\<rparr>"

definition remove_condition :: "'w reconciler \<Rightarrow> string \<Rightarrow> InstCluster \<Rightarrow> InstCluster" where
  "remove_condition E type cluster = cluster\<lparr>cs_Conditions := rc_RemoveCondition E (cs_Conditions cluster) type\<rparr>"

text \<open>The status of a restore follows its Job.\<close>

definition follow_job :: "Job \<Rightarrow> InstCluster \<Rightarrow> InstCluster" where
  "follow_job job cluster =
     (case cc_PGBackRest cluster of
        Some st \<Rightarrow>
          (case RestoreStatus st of
             Some rs \<Rightarrow> cluster\<lparr>cc_PGBackRest := Some (st\<lparr>RestoreStatus := Some (rs\<lparr>
               JobStatusCompletionTime := JobCompletionTime job, JobSucceededCount := JobSucceededPods job,
               JobFailedCount := JobFailedPods job,
               JobFinished := JobFinished rs \<or> jobCompleted job \<or> jobFailed job\<rparr>)\<rparr>)\<rparr>
           | None \<Rightarrow> cluster)
      | None \<Rightarrow> cluster)"

fun delete_each :: "'w reconciler \<Rightarrow> Controlled list \<Rightarrow> ('w, unit) io" where
  "delete_each E [] = ret ()"
| "delete_each E (x # xs) = plain (rc_Delete_Object E x) (\<lambda>_. delete_each E xs)"

text \<open>What earlier versions created for the restore Job.\<close>

definition delete_restore_config :: "'w reconciler \<Rightarrow> merge_fn \<Rightarrow> InstCluster \<Rightarrow> ('w, unit) io" where
  "delete_restore_config E mrg cluster =
     (let sel = \<lparr>MatchLabels = PGBackRestRestoreConfigSelector mrg (cluster_name cluster), MatchExpressions = []\<rparr>
      in plain (rc_List_Kind E ''ConfigMapList'' (cluster_ns cluster) sel) (\<lambda>restoreConfigMaps.
         plain (delete_each E restoreConfigMaps) (\<lambda>_.
         plain (rc_List_Kind E ''SecretList'' (cluster_ns cluster) sel) (\<lambda>restoreSecrets.
         delete_each E restoreSecrets))))"

text \<open>
  The cluster with its status is returned also with an error, since the caller writes the status
  in any case.
\<close>

definition observe_job ::
    "'w reconciler \<Rightarrow> merge_fn \<Rightarrow> Job \<Rightarrow> InstCluster \<Rightarrow> ('w, InstCluster \<times> error option) io" where
  "observe_job E mrg job cluster =
     (let cluster = follow_job job cluster in
      if jobCompleted job then
        (let cluster = remove_condition E ConditionPGBackRestRestoreProgressing
               (set_condition E ConditionPostgresDataInitialized ConditionTrue ''PGBackRestRestoreComplete'' cluster)
         in attempt (delete_restore_config E mrg cluster) (\<lambda>e. ret (cluster, Some e)) (\<lambda>_. ret (cluster, None)))
      else if jobFailed job
      then ret (set_condition E ConditionPostgresDataInitialized ConditionFalse ''PGBackRestRestoreFailed'' cluster, None)
      else ret (cluster, None))"

definition observeRestoreEnv ::
    "'w reconciler \<Rightarrow> merge_fn \<Rightarrow> InstCluster \<Rightarrow> ('w, InstCluster \<times> (error + Endpoints list \<times> Job option)) io" where
  "observeRestoreEnv E mrg cluster =
     attempt (current_endpoints E (patroni_endpoints cluster)) (\<lambda>e. ret (cluster, Inl e)) (\<lambda>endpoints.
     attempt (rc_List_Jobs E (cluster_ns cluster) (PGBackRestRestoreJobSelector mrg (cluster_name cluster)))
       (\<lambda>e. ret (cluster, Inl e)) (\<lambda>jobs.
       case jobs of
         [] \<Rightarrow> ret (cluster, Inr (endpoints, None))
       | [job] \<Rightarrow> plain (observe_job E mrg job cluster) (\<lambda>(cluster, err).
           ret (cluster, case err of Some e \<Rightarrow> Inl e | None \<Rightarrow> Inr (endpoints, Some job)))
       | _ \<Rightarrow> ret (cluster, Inl (Errorf
           ''invalid number of restore Jobs found when attempting to reconcile a pgBackRest data source''))))"

section \<open>Preparing\<close>

text \<open>The instance whose volume the restore uses. An instance of a set that is no longer
  specified has no specification to take the name of its set from.\<close>

definition restore_primary :: "observedInstances \<Rightarrow> Instance option" where
  "restore_primary observed = find (\<lambda>i. fst (IsPrimary i)) (rev (forCluster observed))"

definition restore_runners :: "observedInstances \<Rightarrow> Runner list" where
  "restore_runners observed = List.map_filter i_runner (forCluster observed)"

definition cluster_running :: "observedInstances \<Rightarrow> bool" where
  "cluster_running observed = list_ex (\<lambda>i. fst (IsRunning i ContainerDatabase)) (forCluster observed)"

definition startup_at :: "string \<Rightarrow> string \<Rightarrow> InstCluster \<Rightarrow> InstCluster" where
  "startup_at name setName cluster = cluster\<lparr>ic_StartupInstance := name, ic_StartupInstanceSet := setName\<rparr>"

definition restore_startup :: "'w reconciler \<Rightarrow> observedInstances \<Rightarrow> InstCluster \<Rightarrow> error + InstCluster" where
  "restore_startup E observed cluster =
     (if ic_StartupInstance cluster \<noteq> [] then Inr cluster
      else case (restore_primary observed, restore_runners observed, cs_InstanceSets cluster) of
          (Some i, _, _) \<Rightarrow>
            (case i_spec i of None \<Rightarrow> Inl nil_deref | Some s \<Rightarrow> Inr (startup_at (i_name i) (InstanceName s) cluster))
        | (None, runner # _, _) \<Rightarrow>
            Inr (startup_at (Name (s_meta runner)) (str_at (Labels (s_meta runner)) LabelInstanceSet) cluster)
        | (None, [], s # _) \<Rightarrow>
            (case GenerateStartupInstance (rc_SafeEncode E) cluster (InstanceName s) of
               None \<Rightarrow> Inl (Panic ''slice bounds out of range'')
             | Some m \<Rightarrow> Inr (startup_at (Name m) (InstanceName s) cluster))
        | (None, [], []) \<Rightarrow> Inl (Errorf ''unable to determine startup instance for restore''))"

text \<open>An object that is gone is as good as deleted.\<close>

fun delete_all :: "('o \<Rightarrow> ('w, unit) io) \<Rightarrow> 'o list \<Rightarrow> ('w, unit) io" where
  "delete_all del [] = ret ()"
| "delete_all del (x # xs) = plain (ignore_not_found (del x)) (\<lambda>_. delete_all del xs)"

definition setPreparingClusterCondition :: "'w reconciler \<Rightarrow> InstCluster \<Rightarrow> InstCluster" where
  "setPreparingClusterCondition E = set_condition E ConditionPGBackRestRestoreProgressing ConditionTrue ''RestoreInPlaceRequested''"

text \<open>The cluster returned with the error of an operation, if it has one.\<close>

definition returning :: "InstCluster \<Rightarrow> ('w, unit) io \<Rightarrow> ('w, InstCluster \<times> error option) io" where
  "returning cluster m = attempt m (\<lambda>e. ret (cluster, Some e)) (\<lambda>_. ret (cluster, None))"

definition restore_requested :: "string \<Rightarrow> InstCluster \<Rightarrow> InstCluster" where
  "restore_requested restoreID cluster =
     cluster\<lparr>cs_RepoStatus := [], ic_RepoHostReady := None, cc_PGBackRest := Some \<lparr>ManualBackupStatus = None, RestoreStatus = Some
       \<lparr>JobStatusID = restoreID, JobFinished = False, JobStatusCompletionTime = None, JobSucceededCount = 0,
        JobFailedCount = 0\<rparr>\<rparr>\<rparr>"

definition ready_for_restore :: "'w reconciler \<Rightarrow> InstCluster \<Rightarrow> InstCluster" where
  "ready_for_restore E cluster =
     (set_condition E ConditionPGBackRestRestoreProgressing ConditionTrue ReasonReadyForRestore
       (remove_condition E ConditionPostgresDataInitialized cluster))
     \<lparr>cs_SystemIdentifier := [], ic_PGBouncerRevision := [], ic_ExporterConfiguration := []\<rparr>"

definition prepareForRestore ::
    "'w reconciler \<Rightarrow> InstCluster \<Rightarrow> observedInstances \<Rightarrow> Endpoints list \<Rightarrow> Job option \<Rightarrow> string \<Rightarrow>
     ('w, InstCluster \<times> error option) io" where
  "prepareForRestore E cluster observed currentEndpoints restoreJob restoreID =
     (let cluster = restore_requested restoreID cluster in
      case restore_startup E observed cluster of
        Inl e \<Rightarrow> if is_panic e then throw e else ret (cluster, Some e)
      | Inr cluster \<Rightarrow>
          (case restoreJob of
             Some job \<Rightarrow> returning (setPreparingClusterCondition E cluster) (rc_Delete_Job E job)
           | None \<Rightarrow>
               if cluster_running observed
               then returning (setPreparingClusterCondition E cluster)
                 (delete_all (rc_Delete_Runner E) (restore_runners observed))
               else if currentEndpoints = [] then ret (ready_for_restore E cluster, None)
               else returning (setPreparingClusterCondition E cluster)
                 (delete_all (rc_Delete_Endpoints E) currentEndpoints)))"

section \<open>The data source\<close>

datatype data_source = NoSource | ClusterSource PostgresClusterDataSource | CloudSource CloudDataSource

text \<open>
  The restore that is requested, if any: its ID and the source. \<open>Enabled\<close> is a pointer that
  is followed without a check.
\<close>

definition bootstrap_id :: "InstCluster \<Rightarrow> string" where
  "bootstrap_id cluster = ''~pgo-bootstrap-'' @ cluster_name cluster"

definition cluster_source :: "PostgresClusterDataSource option \<Rightarrow> data_source" where
  "cluster_source s = (case s of None \<Rightarrow> NoSource | Some d \<Rightarrow> ClusterSource d)"

definition requested_source :: "InstCluster \<Rightarrow> error + (string \<times> data_source) option" where
  "requested_source cluster =
     (let restoreID = str_at (Annotations (cc_meta cluster)) PGBackRestRestore;
          bootstrap = (case ic_DataSource cluster of
              None \<Rightarrow> None
            | Some ds \<Rightarrow>
                (case (ds_PostgresCluster ds, ds_PGBackRest ds) of
                   (Some d, _) \<Rightarrow> Some (bootstrap_id cluster, ClusterSource d)
                 | (None, Some c) \<Rightarrow> Some (bootstrap_id cluster, CloudSource c)
                 | (None, None) \<Rightarrow> None))
      in case (if restoreID = [] then None else ic_Restore cluster) of
           None \<Rightarrow> Inr bootstrap
         | Some restore \<Rightarrow>
             (case RestoreEnabled restore of
                None \<Rightarrow> Inl nil_deref
              | Some True \<Rightarrow> Inr (Some (restoreID, cluster_source (RestoreDataSource restore)))
              | Some False \<Rightarrow> Inr bootstrap))"

fun source_configs :: "data_source \<Rightarrow> string list" where
  "source_configs NoSource = []"
| "source_configs (ClusterSource d) = SourceClusterName d # SourceRepoName d # SourceOptions d"
| "source_configs (CloudSource c) = CloudStanza c # CloudRepoName c # CloudOptions c"

text \<open>\<open>util.SafeHash32\<close> of the strings written one after the other.\<close>

definition SafeHash32 :: "'w reconciler \<Rightarrow> string list \<Rightarrow> string" where
  "SafeHash32 E ws = rc_SafeEncode E (sprint_nat (unat (fnv32 (concat ws))))"

definition status_restore_id :: "InstCluster \<Rightarrow> string" where
  "status_restore_id cluster =
     (case cc_PGBackRest cluster of None \<Rightarrow> [] | Some st \<Rightarrow>
       (case RestoreStatus st of None \<Rightarrow> [] | Some rs \<Rightarrow> JobStatusID rs))"

definition data_initialized :: "'w reconciler \<Rightarrow> InstCluster \<Rightarrow> bool" where
  "data_initialized E cluster =
     (case rc_FindCondition E (cs_Conditions cluster) ConditionPostgresDataInitialized of
        None \<Rightarrow> False | Some c \<Rightarrow> ConditionStatus c = ConditionTrue)"

definition restoring_in_place :: "'w reconciler \<Rightarrow> InstCluster \<Rightarrow> bool" where
  "restoring_in_place E cluster =
     (case rc_FindCondition E (cs_Conditions cluster) ConditionPGBackRestRestoreProgressing of
        None \<Rightarrow> False | Some c \<Rightarrow> ConditionStatus c = ConditionTrue)"

definition restore_ready :: "'w reconciler \<Rightarrow> InstCluster \<Rightarrow> bool" where
  "restore_ready E cluster =
     (case rc_FindCondition E (cs_Conditions cluster) ConditionPGBackRestRestoreProgressing of
        None \<Rightarrow> False | Some c \<Rightarrow> ConditionStatus c = ConditionTrue \<and> ConditionReason c = ReasonReadyForRestore)"

section \<open>Populating the data directory\<close>

text \<open>
  The parts of a restore that write objects: the configuration of pgBackRest, the volumes, and the
  restore Job. The first of them also changes the status of the cluster and returns it with its
  error; the volumes are named after the StatefulSet their instance will have.
\<close>

record 'w restore_parts =
  rp_PGBackRest :: "InstCluster \<Rightarrow> Instance list \<Rightarrow> ('w, InstCluster \<times> reconcile_Result \<times> error option) io"
  rp_CopyConfiguration :: "InstCluster \<Rightarrow> InstCluster \<Rightarrow> ('w, unit) io"
  rp_CreateConfig :: "InstCluster \<Rightarrow> string \<Rightarrow> ('w, unit) io"
  rp_DataVolume :: "InstCluster \<Rightarrow> InstanceSetSpec \<Rightarrow> ObjectMeta \<Rightarrow> InstCluster option \<Rightarrow> ('w, opaque) io"
  rp_WALVolume :: "InstCluster \<Rightarrow> InstanceSetSpec \<Rightarrow> ObjectMeta \<Rightarrow> ('w, opaque option) io"
  rp_TablespaceVolumes :: "InstCluster \<Rightarrow> InstanceSetSpec \<Rightarrow> ObjectMeta \<Rightarrow> ('w, opaque list) io"
  rp_RestoreJob :: "InstCluster \<Rightarrow> InstCluster option \<Rightarrow> opaque \<Rightarrow> opaque option \<Rightarrow> opaque list \<Rightarrow>
    PostgresClusterDataSource \<Rightarrow> string \<Rightarrow> string \<Rightarrow> string \<Rightarrow> string \<Rightarrow> ('w, unit) io"

text \<open>The instance the restore goes to, and the specification of its set.\<close>

definition startup_set :: "InstCluster \<Rightarrow> error + string \<times> string \<times> InstanceSetSpec" where
  "startup_set cluster =
     (if ic_StartupInstance cluster = []
      then Inl (Errorf ''unable to find instance name for pgBackRest restore Job'')
      else if ic_StartupInstanceSet cluster = []
      then Inl (Errorf ''unable to find instance set name for pgBackRest restore Job'')
      else case find (\<lambda>s. InstanceName s = ic_StartupInstanceSet cluster) (cs_InstanceSets cluster) of
          None \<Rightarrow> Inl (Errorf ''unable to determine the proper instance set for the restore'')
        | Some s \<Rightarrow> Inr (ic_StartupInstance cluster, ic_StartupInstanceSet cluster, s))"

definition mark_bootstrapped :: "'w reconciler \<Rightarrow> InstCluster \<Rightarrow> InstCluster" where
  "mark_bootstrapped E cluster =
     (if data_initialized E cluster then cluster
      else set_condition E ConditionPostgresDataInitialized ConditionTrue ''ClusterAlreadyBootstrapped'' cluster)"

text \<open>The volumes and then the Job that fills them.\<close>

definition restore_into ::
    "'w restore_parts \<Rightarrow> InstCluster \<Rightarrow> InstCluster option \<Rightarrow> string \<times> string \<times> InstanceSetSpec \<Rightarrow> PostgresClusterDataSource \<Rightarrow>
     string \<Rightarrow> string \<Rightarrow> ('w, unit) io" where
  "restore_into P cluster source startup dataSource configHash stanza =
     (let (instanceName, instanceSetName, spec) = startup; fakeSTS = mk_meta (cluster_ns cluster) instanceName
      in plain (rp_DataVolume P cluster spec fakeSTS source) (\<lambda>pgdata.
         plain (rp_WALVolume P cluster spec fakeSTS) (\<lambda>pgwal.
         plain (rp_TablespaceVolumes P cluster spec fakeSTS) (\<lambda>pgtablespaces.
         rp_RestoreJob P cluster source pgdata pgwal pgtablespaces dataSource instanceName instanceSetName
           configHash stanza))))"

definition or_default :: "string \<Rightarrow> string \<Rightarrow> string" where
  "or_default s d = (if s = [] then d else s)"

text \<open>
  From the repository \<open>dataSource\<close> names, of this cluster or another. A source that does
  not exist or has no such repository is only reported by an event.
\<close>

definition restore_from ::
    "'w restore_parts \<Rightarrow> InstCluster \<Rightarrow> InstCluster \<Rightarrow> string \<times> string \<times> InstanceSetSpec \<Rightarrow>
     PostgresClusterDataSource \<Rightarrow> string \<Rightarrow> ('w, InstCluster \<times> error option) io" where
  "restore_from P cluster source startup dataSource configHash =
     (if list_ex (\<lambda>repo. RepoNameOf repo = SourceRepoName dataSource) (ic_Repos source)
      then returning cluster (restore_into P cluster (Some source) startup dataSource configHash DefaultStanzaName)
      else ret (cluster, None))"

definition reconcilePostgresClusterDataSource ::
    "'w reconciler \<Rightarrow> 'w restore_parts \<Rightarrow> InstCluster \<Rightarrow> PostgresClusterDataSource \<Rightarrow> string \<Rightarrow>
     ('w, InstCluster \<times> error option) io" where
  "reconcilePostgresClusterDataSource E P cluster dataSource configHash =
     (let sourceClusterName = or_default (SourceClusterName dataSource) (cluster_name cluster);
          sourceClusterNamespace = or_default (SourceClusterNamespace dataSource) (cluster_ns cluster)
      in case startup_set cluster of
           Inl e \<Rightarrow> ret (cluster, Some e)
         | Inr startup \<Rightarrow>
             if ClusterBootstrapped cluster then ret (mark_bootstrapped E cluster, None)
             else if sourceClusterName = cluster_name cluster \<and> sourceClusterNamespace = cluster_ns cluster
             then plain (rp_PGBackRest P cluster [\<lparr>i_name = ic_StartupInstance cluster, i_pods = [], i_runner = None, i_spec = None\<rparr>])
               (\<lambda>(reconciled, result, err).
                  case err of
                    Some e \<Rightarrow> ret (reconciled, Some (Wrap
                      ''unable to reconcile pgBackRest as needed to initialize PostgreSQL data for the cluster'' e))
                  | None \<Rightarrow>
                      if result \<noteq> empty_Result then ret (reconciled, None)
                      else restore_from P reconciled cluster startup dataSource configHash)
             else attempt (rc_Get_Current E (object_key (mk_meta sourceClusterNamespace sourceClusterName)))
               (\<lambda>e. ret (cluster, if IsNotFound e then None else Some e))
               (\<lambda>source. attempt (rp_CopyConfiguration P cluster source) (\<lambda>e. ret (cluster, Some e))
                  (\<lambda>_. restore_from P cluster source startup dataSource configHash)))"

text \<open>A repository in a cloud has its own stanza. What the pods of the Job are given beside the
  options is not part of \<open>CloudDataSource\<close>.\<close>

definition cloud_source :: "CloudDataSource \<Rightarrow> PostgresClusterDataSource" where
  "cloud_source c = \<lparr>SourceClusterName = [], SourceClusterNamespace = [], SourceRepoName = CloudRepoName c,
     SourceOptions = CloudOptions c, SourceTolerations = None, SourceEnv = [], SourceEnvFrom = []\<rparr>"

definition reconcileCloudBasedDataSource ::
    "'w reconciler \<Rightarrow> 'w restore_parts \<Rightarrow> InstCluster \<Rightarrow> CloudDataSource \<Rightarrow> string \<Rightarrow>
     ('w, InstCluster \<times> error option) io" where
  "reconcileCloudBasedDataSource E P cluster dataSource configHash =
     (case startup_set cluster of
        Inl e \<Rightarrow> ret (cluster, Some e)
      | Inr startup \<Rightarrow>
          if ClusterBootstrapped cluster then ret (mark_bootstrapped E cluster, None)
          else returning cluster (plain (rp_CreateConfig P cluster configHash) (\<lambda>_.
            restore_into P cluster None startup (cloud_source dataSource) configHash (CloudStanza dataSource))))"

fun populate :: "'w reconciler \<Rightarrow> 'w restore_parts \<Rightarrow> InstCluster \<Rightarrow> data_source \<Rightarrow> string \<Rightarrow>
    ('w, InstCluster \<times> error option) io" where
  "populate E P cluster NoSource configHash = ret (cluster, None)"
| "populate E P cluster (ClusterSource d) configHash = reconcilePostgresClusterDataSource E P cluster d configHash"
| "populate E P cluster (CloudSource c) configHash = reconcileCloudBasedDataSource E P cluster c configHash"

section \<open>Reconciling\<close>

text \<open>The result is the cluster, whether the caller has to wait, and the error.\<close>

definition reconcileDataSource ::
    "'w reconciler \<Rightarrow> merge_fn \<Rightarrow> 'w restore_parts \<Rightarrow> InstCluster \<Rightarrow> observedInstances \<Rightarrow> ('w, InstCluster \<times> bool \<times> error option) io" where
  "reconcileDataSource E mrg P cluster observed =
     plain (observeRestoreEnv E mrg cluster) (\<lambda>(cluster, env).
       case env of
         Inl e \<Rightarrow> ret (cluster, False, Some e)
       | Inr (endpoints, restoreJob) \<Rightarrow>
           (case requested_source cluster of
              Inl e \<Rightarrow> throw e
            | Inr None \<Rightarrow> ret (cluster, False, None)
            | Inr (Some (restoreID, source)) \<Rightarrow>
                let configHash = SafeHash32 E (source_configs source);
                    configChanged = (case restoreJob of
                        None \<Rightarrow> False
                      | Some job \<Rightarrow> configHash \<noteq> str_at (Annotations (j_meta job)) PGBackRestConfigHash)
                in if restoring_in_place E cluster \<and> (\<not> restore_ready E cluster \<or> configChanged) \<or>
                      restoreID \<noteq> status_restore_id cluster
                   then plain (prepareForRestore E cluster observed endpoints restoreJob restoreID)
                     (\<lambda>(cluster, err). ret (cluster, True, err))
                   else if data_initialized E cluster then ret (cluster, False, None)
                   else plain (populate E P cluster source configHash) (\<lambda>(cluster, err). ret (cluster, True, err))))"

section \<open>Properties\<close>

text \<open>The helpers for conditions, as apimachinery documents them.\<close>

locale status_conditions =
  fixes found :: "Condition list \<Rightarrow> string \<Rightarrow> Condition option"
    and put :: "Condition list \<Rightarrow> Condition \<Rightarrow> Condition list"
    and drop_type :: "Condition list \<Rightarrow> string \<Rightarrow> Condition list"
  assumes found_put: "\<exists>d. found (put cs c) (ConditionType c) = Some d \<and>
      ConditionStatus d = ConditionStatus c \<and> ConditionReason d = ConditionReason c"
    and found_other_put: "t \<noteq> ConditionType c \<Longrightarrow> found (put cs c) t = found cs t"
    and found_dropped: "found (drop_type cs t) t = None"
    and found_other_drop: "t' \<noteq> t \<Longrightarrow> found (drop_type cs t) t' = found cs t'"

interpretation cmc: status_conditions "rc_FindCondition cluster_memory" "rc_SetCondition cluster_memory"
  "rc_RemoveCondition cluster_memory"
proof -
  have "find P (filter Q xs) = find P xs" if "\<And>x. P x \<Longrightarrow> Q x" for P Q :: "Condition \<Rightarrow> bool" and xs
    using that by (induction xs) auto
  then show "status_conditions (rc_FindCondition cluster_memory) (rc_SetCondition cluster_memory) (rc_RemoveCondition cluster_memory)"
    by unfold_locales (auto simp: cluster_memory_def mem_conditions_set_def find_None_iff)
qed

text \<open>
  The part of the status that steers a restore: its ID, whether a restore is in progress, whether
  the cluster is ready for it, and whether the data is there.
\<close>

type_synonym mark = "string \<times> bool \<times> bool \<times> bool"

definition restore_mark :: "'w reconciler \<Rightarrow> InstCluster \<Rightarrow> mark" where
  "restore_mark E c = (status_restore_id c, restoring_in_place E c, restore_ready E c, data_initialized E c)"

abbreviation "mark_id (m :: mark) \<equiv> fst m"
abbreviation "mark_restoring (m :: mark) \<equiv> fst (snd m)"
abbreviation "mark_ready (m :: mark) \<equiv> fst (snd (snd m))"
abbreviation "mark_initialized (m :: mark) \<equiv> snd (snd (snd m))"

lemmas mark_defs = restore_mark_def status_restore_id_def restoring_in_place_def restore_ready_def data_initialized_def

text \<open>
  A reconciliation that found nothing left of the cluster: no database container is running, and
  neither a restore Job nor an object of Patroni exists.
\<close>

definition torn_down :: "'w reconciler \<Rightarrow> merge_fn \<Rightarrow> string \<Rightarrow> InstCluster \<times> observedInstances \<times> 'w \<Rightarrow> bool" where
  "torn_down E mrg restoreID = (\<lambda>(c, observed, w).
     (\<exists>c' w' source. observeRestoreEnv E mrg c w = (Inr (c', Inr ([], None)), w') \<and>
        requested_source c' = Inr (Some (restoreID, source))) \<and> \<not> cluster_running observed)"

text \<open>Reconciling pgBackRest leaves alone what steers a restore.\<close>

definition pgbackrest_keeps_mark :: "'w reconciler \<Rightarrow> 'w restore_parts \<Rightarrow> bool" where
  "pgbackrest_keeps_mark E P \<longleftrightarrow> (\<forall>c is w c' r err w'.
     rp_PGBackRest P c is w = (Inr (c', r, err), w') \<longrightarrow> restore_mark E c' = restore_mark E c)"

lemma requested_nonempty: "requested_source c = Inr (Some (restoreID, s)) \<Longrightarrow> restoreID \<noteq> []"
  by (auto simp: requested_source_def bootstrap_id_def Let_def split: option.splits if_splits bool.splits)

lemma condition_names [simp]:
  "ConditionPGBackRestRestoreProgressing \<noteq> ConditionPostgresDataInitialized"
  "ConditionPostgresDataInitialized \<noteq> ConditionPGBackRestRestoreProgressing"
  by (simp_all add: ConditionPGBackRestRestoreProgressing_def ConditionPostgresDataInitialized_def)

locale restoring = status_conditions "rc_FindCondition E" "rc_SetCondition E" "rc_RemoveCondition E"
  for E :: "'w reconciler"
begin

lemma mark_follow_job [simp]: "restore_mark E (follow_job job c) = restore_mark E c"
  by (auto simp: mark_defs follow_job_def split: option.splits)

lemma mark_set_initialized:
  "restore_mark E (set_condition E ConditionPostgresDataInitialized st reason c) =
     (status_restore_id c, restoring_in_place E c, restore_ready E c, st = ConditionTrue)"
  using found_put [of "cs_Conditions c" "\<lparr>ConditionType = ConditionPostgresDataInitialized, ConditionStatus = st,
      ConditionReason = reason, ObservedGeneration = Generation (cc_meta c), LastTransitionTime = 0\<rparr>"]
  by (auto simp: mark_defs set_condition_def found_other_put)

lemma mark_set_progressing:
  "restore_mark E (set_condition E ConditionPGBackRestRestoreProgressing ConditionTrue reason c) =
     (status_restore_id c, True, reason = ReasonReadyForRestore, data_initialized E c)"
  using found_put [of "cs_Conditions c" "\<lparr>ConditionType = ConditionPGBackRestRestoreProgressing, ConditionStatus = ConditionTrue,
      ConditionReason = reason, ObservedGeneration = Generation (cc_meta c), LastTransitionTime = 0\<rparr>"]
  by (auto simp: mark_defs set_condition_def found_other_put)

lemma mark_remove_progressing:
  "restore_mark E (remove_condition E ConditionPGBackRestRestoreProgressing c) =
     (status_restore_id c, False, False, data_initialized E c)"
  by (simp add: mark_defs remove_condition_def found_dropped found_other_drop)

lemma initialized_remove: "\<not> data_initialized E (remove_condition E ConditionPostgresDataInitialized c)"
  by (simp add: data_initialized_def remove_condition_def found_dropped)

lemma mark_observe_job:
  assumes "observe_job E mrg job c w = (Inr (c', r), w')"
  shows "restore_mark E c' = restore_mark E c \<or> restore_mark E c' = (status_restore_id c, False, False, True) \<or>
    restore_mark E c' = (status_restore_id c, restoring_in_place E c, restore_ready E c, False)"
proof -
  let ?c = "follow_job job c"
  have "status_restore_id ?c = status_restore_id c" "restoring_in_place E ?c = restoring_in_place E c"
    "restore_ready E ?c = restore_ready E c"
    using mark_follow_job [of job c] by (simp_all add: restore_mark_def)
  moreover have "c' \<in> {remove_condition E ConditionPGBackRestRestoreProgressing
      (set_condition E ConditionPostgresDataInitialized ConditionTrue ''PGBackRestRestoreComplete'' ?c),
      set_condition E ConditionPostgresDataInitialized ConditionFalse ''PGBackRestRestoreFailed'' ?c, ?c}"
    using assms by (auto simp: observe_job_def Let_def attempt_def ret_def split: if_splits prod.splits sum.splits)
  moreover have "status_restore_id (set_condition E t st reason d) = status_restore_id d" for t st reason d
    by (simp add: status_restore_id_def set_condition_def)
  moreover have "data_initialized E (set_condition E ConditionPostgresDataInitialized ConditionTrue reason d)" for reason d
    using mark_set_initialized [of ConditionTrue reason d] by (simp add: restore_mark_def)
  ultimately show ?thesis by (auto simp: mark_remove_progressing mark_set_initialized)
qed

lemma mark_observe:
  assumes "observeRestoreEnv E mrg c w = (Inr (c', r), w')"
  shows "restore_mark E c' = restore_mark E c \<or> restore_mark E c' = (status_restore_id c, False, False, True) \<or>
    restore_mark E c' = (status_restore_id c, restoring_in_place E c, restore_ready E c, False)"
proof -
  have "c' = c \<or> (\<exists>job r' w1 w2. observe_job E mrg job c w1 = (Inr (c', r'), w2))"
    using assms by (auto simp: observeRestoreEnv_def attempt_def plain_def ret_def throw_def
        split: prod.splits sum.splits list.splits if_splits)
  then show ?thesis using mark_observe_job by metis
qed

lemma mark_prepare:
  assumes "prepareForRestore E c observed eps job restoreID w = (Inr (c', err), w')" and "cs_InstanceSets c \<noteq> []"
  shows "(\<exists>i. restore_mark E c' = (restoreID, True, False, i)) \<or>
    restore_mark E c' = (restoreID, True, True, False) \<and> job = None \<and> eps = [] \<and> \<not> cluster_running observed"
proof -
  let ?c = "restore_requested restoreID c"
  have id: "status_restore_id d = restoreID" if "restore_startup E observed ?c = Inr d" for d
    using that by (auto simp: restore_startup_def startup_at_def restore_requested_def status_restore_id_def
        split: if_splits option.splits list.splits)
  have reason: "''RestoreInPlaceRequested'' \<noteq> ReasonReadyForRestore" by (simp add: ReasonReadyForRestore_def)
  have "is_panic e" if "restore_startup E observed ?c = Inl e" for e
    using that assms(2) by (auto simp: restore_startup_def restore_requested_def nil_deref_def
        split: if_splits option.splits list.splits)
  then obtain d where d: "restore_startup E observed ?c = Inr d" and "c' = setPreparingClusterCondition E d \<or>
      c' = ready_for_restore E d \<and> job = None \<and> eps = [] \<and> \<not> cluster_running observed"
    using assms(1) by (auto simp: prepareForRestore_def Let_def returning_def attempt_def ret_def throw_def
        split: sum.splits if_splits option.splits prod.splits)
  moreover have "restore_mark E (ready_for_restore E d) = (restoreID, True, True, False)"
    using mark_set_progressing [of ReasonReadyForRestore "remove_condition E ConditionPostgresDataInitialized d"] id [OF d]
    by (simp add: ready_for_restore_def initialized_remove mark_defs remove_condition_def found_dropped)
  ultimately show ?thesis using id [OF d] reason by (auto simp: setPreparingClusterCondition_def mark_set_progressing)
qed

lemma mark_bootstrapped_mark:
  "restore_mark E (mark_bootstrapped E c) = (status_restore_id c, restoring_in_place E c, restore_ready E c, True)"
  by (simp add: mark_bootstrapped_def mark_set_initialized) (simp add: restore_mark_def)

lemma mark_populate:
  assumes "populate E P c s h w = (Inr (c', err), w')"
    and keep: "pgbackrest_keeps_mark E P"
  shows "restore_mark E c' = restore_mark E c \<or>
    restore_mark E c' = (status_restore_id c, restoring_in_place E c, restore_ready E c, True)"
proof (cases s)
  case (ClusterSource d)
  have "restore_mark E c' = restore_mark E d" if "restore_from P d src st ds h v = (Inr (c', err), w')" for d src st ds v
    using that by (auto simp: restore_from_def returning_def attempt_def ret_def split: if_splits prod.splits sum.splits)
  note filled = this
  have keep: "restore_mark E d = restore_mark E c" if "rp_PGBackRest P c xs v = (Inr (d, r, e), v')" for d xs v r e v'
    using that keep unfolding pgbackrest_keeps_mark_def by blast
  from assms(1) ClusterSource show ?thesis
    by (auto simp: reconcilePostgresClusterDataSource_def Let_def attempt_def plain_def ret_def throw_def mark_bootstrapped_mark
        dest!: keep filled split: sum.splits if_splits prod.splits option.splits)
next
  case (CloudSource d)
  with assms show ?thesis
    by (auto simp: reconcileCloudBasedDataSource_def returning_def attempt_def ret_def mark_bootstrapped_mark
        split: sum.splits if_splits prod.splits)
qed (use assms in \<open>auto simp: ret_def\<close>)

end

text \<open>How one reconciliation can go.\<close>

lemma reconcileDataSource_cases:
  assumes "reconcileDataSource E mrg P c observed w = (Inr (c', b, err), w')"
  obtains (observed) r w1 where "observeRestoreEnv E mrg c w = (Inr (c', r), w1)"
  | (prepared) c1 eps job w1 restoreID s where "observeRestoreEnv E mrg c w = (Inr (c1, Inr (eps, job)), w1)"
      "requested_source c1 = Inr (Some (restoreID, s))"
      "prepareForRestore E c1 observed eps job restoreID w1 = (Inr (c', err), w')"
  | (populated) c1 r w1 s h where "observeRestoreEnv E mrg c w = (Inr (c1, r), w1)"
      "populate E P c1 s h w1 = (Inr (c', err), w')"
  using assms unfolding reconcileDataSource_def
  by (auto simp: Let_def plain_def attempt_def ret_def throw_def split: prod.splits sum.splits option.splits if_splits)

lemma populating_state:
  assumes "reconcileDataSource E mrg P c observed w \<noteq> reconcileDataSource E mrg Q c observed w"
  obtains c1 r w1 restoreID s where "observeRestoreEnv E mrg c w = (Inr (c1, r), w1)"
    "requested_source c1 = Inr (Some (restoreID, s))" "restoreID = status_restore_id c1" "\<not> data_initialized E c1"
    "\<not> (restoring_in_place E c1 \<and> \<not> restore_ready E c1)"
  using assms unfolding reconcileDataSource_def
  by (auto simp: Let_def plain_def attempt_def ret_def throw_def split: prod.splits sum.splits option.splits if_splits)

definition restored_stays :: "'w reconciler \<Rightarrow> merge_fn \<Rightarrow> InstCluster \<Rightarrow> 'w \<Rightarrow> bool" where
  "restored_stays E mrg c w \<longleftrightarrow> (data_initialized E c \<and> \<not> restoring_in_place E c \<longrightarrow>
     (\<forall>c' r w'. observeRestoreEnv E mrg c w = (Inr (c', r), w') \<longrightarrow> data_initialized E c'))"

lemma observed_sets: "observeRestoreEnv E mrg c w = (Inr (c', r), w') \<Longrightarrow> cs_InstanceSets c' = cs_InstanceSets c"
  by (auto simp: observeRestoreEnv_def observe_job_def follow_job_def set_condition_def remove_condition_def Let_def
      attempt_def plain_def ret_def throw_def split: prod.splits sum.splits list.splits if_splits option.splits)

text \<open>
  The histories of a cluster and the reconciliations it had, latest first. Between two
  reconciliations anything may change but what steers a restore, or the record of the last restore
  may be cleared, as the restore controller does. Restore Jobs stay as they ended: one that made
  the data directory is not observed as failed later.
\<close>

inductive restore_history ::
    "'w reconciler \<Rightarrow> merge_fn \<Rightarrow> 'w restore_parts \<Rightarrow> InstCluster \<Rightarrow> (InstCluster \<times> observedInstances \<times> 'w) list \<Rightarrow> bool"
  for E mrg P where
  created: "status_restore_id c = [] \<Longrightarrow> restore_history E mrg P c []"
| changed: "restore_history E mrg P c es \<Longrightarrow> restore_mark E c' = restore_mark E c \<Longrightarrow> restore_history E mrg P c' es"
| cleared: "restore_history E mrg P c es \<Longrightarrow> status_restore_id c' = [] \<Longrightarrow> restore_history E mrg P c' es"
| reconciled: "restore_history E mrg P c es \<Longrightarrow> cs_InstanceSets c \<noteq> [] \<Longrightarrow> restored_stays E mrg c w \<Longrightarrow>
    reconcileDataSource E mrg P c observed w = (Inr (c', b, err), w') \<Longrightarrow> restore_history E mrg P c' ((c, observed, w) # es)"

definition mark_ok :: "'w reconciler \<Rightarrow> merge_fn \<Rightarrow> (InstCluster \<times> observedInstances \<times> 'w) list \<Rightarrow> mark \<Rightarrow> bool" where
  "mark_ok E mrg es m \<longleftrightarrow> mark_id m = [] \<or>
     (mark_restoring m \<or> mark_initialized m) \<and>
     (mark_ready m \<longrightarrow> (\<exists>e\<in>set es. torn_down E mrg (mark_id m) e))"

lemma mark_ok_more: "mark_ok E mrg es m \<Longrightarrow> mark_ok E mrg (e # es) m"
  by (auto simp: mark_ok_def)

context restoring
begin

lemma mark_ok_observed:
  assumes "mark_ok E mrg es (restore_mark E c)" and "restored_stays E mrg c w"
    and "observeRestoreEnv E mrg c w = (Inr (c', r), w')"
  shows "mark_ok E mrg es (restore_mark E c')"
proof -
  from mark_observe [OF assms(3)] consider "restore_mark E c' = restore_mark E c"
    | "restore_mark E c' = (status_restore_id c, False, False, True)"
    | "restore_mark E c' = (status_restore_id c, restoring_in_place E c, restore_ready E c, False)" by blast
  then show ?thesis
  proof cases
    case 3
    then have "\<not> data_initialized E c'" by (simp add: restore_mark_def)
    with assms(2,3) have "data_initialized E c \<Longrightarrow> restoring_in_place E c" by (auto simp: restored_stays_def)
    with assms(1) 3 show ?thesis by (auto simp: mark_ok_def restore_mark_def)
  qed (use assms(1) in \<open>auto simp: mark_ok_def\<close>)
qed

lemma mark_ok_history:
  assumes "restore_history E mrg P c es"
    and keep: "pgbackrest_keeps_mark E P"
  shows "mark_ok E mrg es (restore_mark E c)"
  using assms(1)
proof induction
  case (reconciled c es w observed c' b err w')
  note ok = mark_ok_observed [OF reconciled.IH reconciled.hyps(3)]
  from reconciled.hyps(4) show ?case
  proof (cases rule: reconcileDataSource_cases)
    case (observed r w1)
    then show ?thesis using ok mark_ok_more by blast
  next
    case (prepared c1 eps job w1 restoreID s)
    have "cs_InstanceSets c1 \<noteq> []"
      using observed_sets [OF prepared(1)] reconciled.hyps(2) by simp
    from mark_prepare [OF prepared(3) this] show ?thesis
    proof
      assume "restore_mark E c' = (restoreID, True, True, False) \<and> job = None \<and> eps = [] \<and> \<not> cluster_running observed"
      with prepared(1,2) have "torn_down E mrg restoreID (c, observed, w)" by (auto simp: torn_down_def)
      with \<open>restore_mark E c' = _ \<and> _\<close> show ?thesis by (auto simp: mark_ok_def)
    qed (auto simp: mark_ok_def)
  next
    case (populated c1 r w1 s h)
    from ok [OF populated(1)] mark_populate [OF populated(2) keep]
    show ?thesis by (auto simp: mark_ok_def restore_mark_def)
  qed
qed (auto simp: mark_ok_def restore_mark_def)

end

text \<open>
  When a reconciliation goes as far as populating the data directory (its outcome depends on the
  parts that write volumes, configuration and the Job), an earlier one had found nothing running.
\<close>

lemma populating_after_teardown:
  assumes "restore_history E mrg P c es"
    and "status_conditions (rc_FindCondition E) (rc_SetCondition E) (rc_RemoveCondition E)"
    and "pgbackrest_keeps_mark E P"
    and "restored_stays E mrg c w"
    and "reconcileDataSource E mrg P c observed w \<noteq> reconcileDataSource E mrg Q c observed w"
  shows "\<exists>e\<in>set es. torn_down E mrg (status_restore_id c) e"
proof -
  have "restoring E" using assms(2) by (simp add: restoring_def)
  note ok = restoring.mark_ok_observed [OF this restoring.mark_ok_history [OF this assms(1,3)] assms(4)]
  note observe = restoring.mark_observe [OF \<open>restoring E\<close>]
  from assms(5) obtain c1 r w1 restoreID s where "observeRestoreEnv E mrg c w = (Inr (c1, r), w1)"
    "requested_source c1 = Inr (Some (restoreID, s))" "restoreID = status_restore_id c1" "\<not> data_initialized E c1"
    "\<not> (restoring_in_place E c1 \<and> \<not> restore_ready E c1)"
    by (rule populating_state)
  with ok [OF this(1)] observe [OF this(1)] requested_nonempty [of c1 restoreID s] show ?thesis
    by (auto simp: mark_ok_def restore_mark_def)
qed

interpretation cmr: restoring cluster_memory
  by (simp add: restoring_def cmc.status_conditions_axioms)

text \<open>Parts of a restore in memory: nothing but the Job is written, as the number \<open>n\<close> of a timeline.\<close>

definition mem_parts :: "nat \<Rightarrow> cmem restore_parts" where
  "mem_parts n = \<lparr>rp_PGBackRest = (\<lambda>c _. ret (c, empty_Result, None)), rp_CopyConfiguration = (\<lambda>_ _. ret ()),
     rp_CreateConfig = (\<lambda>_ _. ret ()), rp_DataVolume = (\<lambda>_ _ _ _. ret JNull), rp_WALVolume = (\<lambda>_ _ _. ret None),
     rp_TablespaceVolumes = (\<lambda>_ _ _. ret []),
     rp_RestoreJob = (\<lambda>_ _ _ _ _ _ _ _ _ _ w. (Inr (), w\<lparr>cm_timeline := n\<rparr>))\<rparr>"

definition restoring_cluster :: InstCluster where
  "restoring_cluster = (instances_cluster [example_set ''00'' 1])\<lparr>
     cc_meta := example_meta\<lparr>Annotations := [PGBackRestRestore \<mapsto> ''now'']\<rparr>, cs_SystemIdentifier := ''7'',
     cc_PGBackRest := None, cs_Conditions := [],
     ic_Restore := Some \<lparr>RestoreEnabled = Some True, RestoreDataSource = Some \<lparr>SourceClusterName = [],
       SourceClusterNamespace = [], SourceRepoName = ''repo1'', SourceOptions = [], SourceTolerations = None,
       SourceEnv = [], SourceEnvFrom = []\<rparr>\<rparr>,
     ic_Repos := [\<lparr>RepoNameOf = ''repo1'', RepoAzureContainer = None, RepoGCSBucket = None, RepoS3Spec = None,
       RepoVolume = None, RepoSchedules = None\<rparr>]\<rparr>"

definition nothing_observed :: observedInstances where
  "nothing_observed = newObservedInstances restoring_cluster [] []"

lemma not_isl_run: "\<not> isl (fst r) \<Longrightarrow> r = (Inr (projr (fst r)), snd r)"
  by (cases r) (auto simp: isl_def elim: sumE)

text \<open>
  A primary of a set that is no longer specified, as while that set is being removed, makes the
  preparation panic.
\<close>

lemma prepare_panics_without_set:
  assumes "ic_StartupInstance c = []" and "restore_primary observed = Some i" and "i_spec i = None"
  shows "prepareForRestore E c observed eps job restoreID w = (Inl nil_deref, w)"
  using assms by (simp add: prepareForRestore_def restore_startup_def restore_requested_def nil_deref_def throw_def)


end
