(* ===== verification/Backrest_Jobs.thy ===== *)
theory Backrest_Jobs
  imports Services Data_Source
begin

text \<open>
  The pgBackRest backup Jobs of a cluster, \<open>internal/controller/postgrescluster/pgbackrest.go\<close>:
  the Job a user requests through a PerconaPGBackup (\<open>reconcileManualBackup\<close>) and the full
  backup that has to exist before replicas can be created from the repository
  (\<open>reconcileReplicaCreateBackup\<close>).
\<close>

section \<open>The Job\<close>

definition ConditionManualBackupSuccessful :: string where
  "ConditionManualBackupSuccessful = ''PGBackRestManualBackupSuccessful''"

definition ConditionReplicaCreate :: string where
  "ConditionReplicaCreate = ''PGBackRestReplicaCreate''"

definition ConditionReplicaRepoReady :: string where
  "ConditionReplicaRepoReady = ''PGBackRestReplicaRepoReady''"

definition ConditionRepoHostReady :: string where
  "ConditionRepoHostReady = ''PGBackRestRepoHostReady''"

definition PGBackRestRepoContainerName :: string where
  "PGBackRestRepoContainerName = ''pgbackrest''"

text \<open>
  What else a Job is made of: the random suffix of its name, the image of the init container and of
  pgBackRest, the feature gate for volume snapshots, the text of a selector, the init container of
  the pgBackRest section, the name of the service account, and the configuration volumes
  \<open>AddConfigToRepoPod\<close> adds.
\<close>

record 'w backup_parts =
  bp_random :: string
  bp_InitImage :: "InstCluster \<Rightarrow> ('w, string) io"
  bp_Image :: "InstCluster \<Rightarrow> string"
  bp_VolumeSnapshots :: bool
  bp_selector_String :: "strmap \<Rightarrow> string"
  bp_InitContainer :: "InitContainerSpec option"
  bp_ServiceAccount :: string
  bp_AddConfig :: "InstCluster \<Rightarrow> BackupJobSpec \<Rightarrow> BackupJobSpec"

text \<open>\<open>regexRepoIndex.FindString\<close>: the first digits.\<close>

definition is_digit :: "char \<Rightarrow> bool" where
  "is_digit c = (c \<in> set ''0123456789'')"

definition repo_index :: "string \<Rightarrow> string" where
  "repo_index s = takeWhile is_digit (dropWhile (\<lambda>c. \<not> is_digit c) s)"

definition backup_options :: "'w backup_parts \<Rightarrow> InstCluster \<Rightarrow> string \<Rightarrow> string list \<Rightarrow> string list" where
  "backup_options B cluster repoName opts =
     [''--stanza='' @ DefaultStanzaName, ''--repo='' @ repo_index repoName] @
     (if ic_Snapshots cluster \<and> bp_VolumeSnapshots B then [''--archive-copy=y'', ''--archive-check=y''] else []) @ opts"

definition backup_env :: "'w backup_parts \<Rightarrow> merge_fn \<Rightarrow> gover \<Rightarrow> InstCluster \<Rightarrow> string list \<Rightarrow> EnvVar list" where
  "backup_env B mrg gv cluster cmdOpts =
     [env_value ''COMMAND'' ''backup'', env_value ''COMMAND_OPTS'' (str_join '' '' cmdOpts),
      env_value ''COMPARE_HASH'' ''true'', env_value ''CONTAINER'' PGBackRestRepoContainerName,
      env_value ''NAMESPACE'' (cluster_ns cluster),
      env_value ''SELECTOR'' (bp_selector_String B (PGBackRestDedicatedSelector mrg (cluster_name cluster)))] @
     (case ic_Manual cluster of
        Some m \<Rightarrow>
          if CompareVersion gv cluster ''2.7.0'' \<ge> 0 \<and> ManualInitialDelaySeconds m \<noteq> 0
          then [env_value ''INITIAL_DELAY_SECS'' (sprint_int (ManualInitialDelaySeconds m))] else []
      | None \<Rightarrow> [])"

text \<open>Environment variables of the requested backup, or else those of all backups.\<close>

definition user_env :: "gover \<Rightarrow> InstCluster \<Rightarrow> (PGBackRestManualBackup \<Rightarrow> opaque list) \<Rightarrow> (InstCluster \<Rightarrow> opaque list) \<Rightarrow> opaque list" where
  "user_env gv cluster manual general =
     (if CompareVersion gv cluster ''2.9.0'' \<ge> 0
      then case ic_Manual cluster of
          Some m \<Rightarrow> if manual m \<noteq> [] then manual m else general cluster
        | None \<Rightarrow> general cluster
      else [])"

definition generateBackupJobSpecIntent ::
    "'w backup_parts \<Rightarrow> merge_fn \<Rightarrow> gover \<Rightarrow> InstCluster \<Rightarrow> string \<Rightarrow> string \<Rightarrow> strmap \<Rightarrow> strmap \<Rightarrow> string list \<Rightarrow> BackupJobSpec" where
  "generateBackupJobSpecIntent B mrg gv cluster repoName initImage labels annotations opts =
     (let v27 = CompareVersion gv cluster ''2.7.0'' \<ge> 0;
          resources = map_option bj_Resources (ic_Jobs cluster)
      in bp_AddConfig B cluster
        \<lparr>js_Labels = labels,
         js_Annotations = (if v27 then annotations(DefaultContainerAnnotation \<mapsto> PGBackRestRepoContainerName) else annotations),
         js_Command = [''/opt/crunchy/bin/pgbackrest''],
         js_Env = backup_env B mrg gv cluster (backup_options B cluster repoName opts),
         js_UserEnv = user_env gv cluster ManualEnv ic_BackupEnv,
         js_EnvFrom = user_env gv cluster ManualEnvFrom ic_BackupEnvFrom,
         js_Image = bp_Image B cluster, js_ImagePullPolicy = cs_ImagePullPolicy cluster,
         js_ContainerName = PGBackRestRepoContainerName, js_Resources = resources,
         js_VolumeMounts = (if v27
           then [\<lparr>MountName = CrunchyBinVolumeName, MountPath = CrunchyBinVolumePath, MountReadOnly = False\<rparr>] else []),
         js_InitContainers = (if v27
           then [InitContainer cluster PGBackRestRepoContainerName initImage (cs_ImagePullPolicy cluster)
             (RestrictedSecurityContext True) (deref resources (JObj Map.empty)) (bp_InitContainer B)] else []),
         js_Volumes = (if v27 then [CrunchyBinVolumeName] else []),
         js_SecurityContext = RestrictedSecurityContext (CompareVersion gv cluster ''2.5.0'' \<ge> 0),
         js_RestartPolicy = (case ic_Jobs cluster of
             Some jobs \<Rightarrow> if bj_RestartPolicy jobs \<noteq> [] then bj_RestartPolicy jobs else ''Never'' | None \<Rightarrow> ''Never''),
         js_ServiceAccountName = bp_ServiceAccount B,
         js_TTLSecondsAfterFinished = Option.bind (ic_Jobs cluster) bj_TTLSecondsAfterFinished,
         js_BackoffLimit = Option.bind (ic_Jobs cluster) bj_BackoffLimit,
         js_Tolerations = (case ic_Jobs cluster of Some jobs \<Rightarrow> bj_Tolerations jobs | None \<Rightarrow> []),
         js_Affinity = Option.bind (ic_Jobs cluster) bj_Affinity,
         js_PriorityClassName = deref (Option.bind (ic_Jobs cluster) bj_PriorityClassName) [],
         js_ImagePullSecrets = ic_ImagePullSecrets cluster\<rparr>)"

text \<open>
  The Job with its metadata. Its annotations and those of its pods are one map, to which the
  generation of the specification adds the default container.
\<close>

definition backup_labels :: "merge_fn \<Rightarrow> gover \<Rightarrow> InstCluster \<Rightarrow> string \<Rightarrow> string \<Rightarrow> strmap" where
  "backup_labels mrg gv cluster repoName backupType =
     Merge mrg [cs_MetadataLabels cluster, ic_BackupLabels cluster,
       WithPerconaLabels mrg gv (PGBackRestBackupJobLabels mrg (cluster_name cluster) repoName backupType)
         (cluster_name cluster) [] (version_of cluster)]"

definition apply_backup_job ::
    "'w reconciler \<Rightarrow> 'w backup_parts \<Rightarrow> merge_fn \<Rightarrow> gover \<Rightarrow> InstCluster \<Rightarrow> ObjectMeta \<Rightarrow> string \<Rightarrow> strmap \<Rightarrow> strmap \<Rightarrow>
     string list \<Rightarrow> ('w, unit) io" where
  "apply_backup_job E B mrg gv cluster meta repoName labels annotations opts =
     plain (bp_InitImage B cluster) (\<lambda>initImage.
       let annotations = Merge mrg [ic_Annotations cluster, ic_BackupAnnotations cluster, annotations];
           spec = generateBackupJobSpecIntent B mrg gv cluster repoName initImage labels annotations opts;
           annotations = (if CompareVersion gv cluster ''2.7.0'' \<ge> 0
             then annotations(DefaultContainerAnnotation \<mapsto> PGBackRestRepoContainerName) else annotations)
       in rc_Apply_Job E \<lparr>ji_meta = meta\<lparr>Labels := labels, Annotations := annotations\<rparr>, ji_Spec = spec\<rparr>)"

section \<open>Requested backups\<close>

definition condition_true :: "'w reconciler \<Rightarrow> InstCluster \<Rightarrow> string \<Rightarrow> bool" where
  "condition_true E cluster t =
     (case rc_FindCondition E (cs_Conditions cluster) t of None \<Rightarrow> False | Some c \<Rightarrow> ConditionStatus c = ConditionTrue)"

definition cluster_writable :: "observedInstances \<Rightarrow> bool" where
  "cluster_writable instances = list_ex (\<lambda>i. surely (IsWritable i)) (forCluster instances)"

definition manualBackupJobNeeded :: "'w reconciler \<Rightarrow> InstCluster \<Rightarrow> string \<Rightarrow> ('w, bool) io" where
  "manualBackupJobNeeded E cluster backupName =
     attempt (rc_Read_Backup E (object_key (mk_meta (cluster_ns cluster) backupName)))
       (\<lambda>e. if IsNotFound e then ret False else throw e)
       (\<lambda>pgBackup. ret (SpecPGCluster (b_spec pgBackup) = cluster_name cluster \<and>
          time_IsZero (DeletionTimestamp (b_meta pgBackup)) \<and> \<not> IsTerminal (State (b_status pgBackup)) \<and>
          JobName (b_status pgBackup) = []))"

definition backup_id :: "Job \<Rightarrow> string" where
  "backup_id job = str_at (Annotations (j_meta job)) PGBackRestBackup"

definition requested_backup :: "InstCluster \<Rightarrow> string" where
  "requested_backup cluster = str_at (Annotations (cc_meta cluster)) PGBackRestBackup"

text \<open>The status of a requested backup follows the Job that has its ID.\<close>

definition follow_manual :: "'w reconciler \<Rightarrow> Job \<Rightarrow> PGBackRestStatus \<Rightarrow> InstCluster \<Rightarrow> InstCluster" where
  "follow_manual E job st cluster =
     (case ManualBackupStatus st of
        None \<Rightarrow> cluster
      | Some ms \<Rightarrow>
          if JobStatusID ms \<noteq> backup_id job then cluster
          else
            (if jobCompleted job
             then set_condition E ConditionManualBackupSuccessful ConditionTrue ''ManualBackupComplete'' cluster
             else if jobFailed job
             then set_condition E ConditionManualBackupSuccessful ConditionFalse ''ManualBackupFailed'' cluster
             else cluster)\<lparr>cc_PGBackRest := Some (st\<lparr>ManualBackupStatus := Some (ms\<lparr>
               JobStatusCompletionTime := JobCompletionTime job, JobSucceededCount := JobSucceededPods job,
               JobFailedCount := JobFailedPods job,
               JobFinished := JobFinished ms \<or> jobCompleted job \<or> jobFailed job\<rparr>)\<rparr>)\<rparr>)"

text \<open>
  Whether the repository of a requested backup is ready: \<open>None\<close> when there is nothing to do
  now, an error when the repository is not specified, and else the repository.
\<close>

definition manual_repo :: "'w reconciler \<Rightarrow> InstCluster \<Rightarrow> PGBackRestManualBackup \<Rightarrow> (error + ScheduledRepo) option" where
  "manual_repo E cluster manual =
     (if \<not> condition_true E cluster ConditionRepoHostReady \<or> \<not> condition_true E cluster ConditionReplicaCreate then None
      else case find (\<lambda>r. RepoStatusName r = ManualRepoName manual) (rev (cs_RepoStatus cluster)) of
          None \<Rightarrow> None
        | Some status \<Rightarrow>
            if \<not> StanzaCreated status then None
            else
              (case find (\<lambda>r. RepoNameOf r = ManualRepoName manual) (rev (ic_Repos cluster)) of
                 Some repo \<Rightarrow>
                   if RepoNameOf repo = []
                   then Some (Inl (Errorf (''repo '' @ go_quote (ManualRepoName manual) @ '' is not defined for this cluster'')))
                   else if list_ex (\<lambda>opt. str_contains ''--repo='' opt \<or> str_contains ''--repo '' opt) (ManualOptions manual)
                   then None else Some (Inr repo)
               | None \<Rightarrow> Some (Inl (Errorf (''repo '' @ go_quote (ManualRepoName manual) @ '' is not defined for this cluster'')))))"

definition apply_manual ::
    "'w reconciler \<Rightarrow> 'w backup_parts \<Rightarrow> merge_fn \<Rightarrow> gover \<Rightarrow> InstCluster \<Rightarrow> Job option \<Rightarrow> PGBackRestManualBackup \<Rightarrow> ('w, unit) io" where
  "apply_manual E B mrg gv cluster job manual =
     (case manual_repo E cluster manual of
        None \<Rightarrow> ret ()
      | Some (Inl e) \<Rightarrow> throw e
      | Some (Inr repo) \<Rightarrow>
          let meta = PGBackRestBackupJob (bp_random B) cluster;
              meta = (case job of
                None \<Rightarrow> meta
              | Some j \<Rightarrow> meta\<lparr>Name := Name (j_meta j), ResourceVersion := ResourceVersion (j_meta j)\<rparr>)
          in apply_backup_job E B mrg gv cluster (meta\<lparr>Finalizers := [FinalizerKeepJob]\<rparr>) (RepoNameOf repo)
               (backup_labels mrg gv cluster (ManualRepoName manual) BackupManual)
               [PGBackRestBackup \<mapsto> requested_backup cluster] (ManualOptions manual))"

definition new_manual_status :: "string \<Rightarrow> PGBackRestJobStatus" where
  "new_manual_status backupID = \<lparr>JobStatusID = backupID, JobFinished = False, JobStatusCompletionTime = None,
     JobSucceededCount = 0, JobFailedCount = 0\<rparr>"

definition is_new_request :: "string \<Rightarrow> PGBackRestStatus \<Rightarrow> bool" where
  "is_new_request backupID st =
     (case ManualBackupStatus st of None \<Rightarrow> True | Some ms \<Rightarrow> JobStatusID ms \<noteq> backupID)"

definition set_manual :: "PGBackRestJobStatus \<Rightarrow> InstCluster \<Rightarrow> error + InstCluster" where
  "set_manual ms cluster =
     (case cc_PGBackRest cluster of
        None \<Rightarrow> Inl nil_deref
      | Some st \<Rightarrow> Inr (cluster\<lparr>cc_PGBackRest := Some (st\<lparr>ManualBackupStatus := Some ms\<rparr>)\<rparr>))"

text \<open>
  The rest of \<open>reconcileManualBackup\<close>, once a Job may be needed. \<open>cluster\<close> is the
  object that is worked on, \<open>kept\<close> the object of the caller.
\<close>

definition request_job ::
    "'w reconciler \<Rightarrow> 'w backup_parts \<Rightarrow> merge_fn \<Rightarrow> gover \<Rightarrow> InstCluster \<Rightarrow> InstCluster \<Rightarrow> bool \<Rightarrow> Job option \<Rightarrow>
     PGBackRestManualBackup \<Rightarrow> ('w, InstCluster \<times> error option) io" where
  "request_job E B mrg gv kept cluster finished job manual =
     (if finished then ret (kept, None)
      else if job = None
      then attempt (manualBackupJobNeeded E cluster (requested_backup cluster)) (\<lambda>e. ret (kept, Some e))
        (\<lambda>needsJob. if needsJob then returning kept (apply_manual E B mrg gv cluster job manual) else ret (kept, None))
      else returning kept (apply_manual E B mrg gv cluster job manual))"

text \<open>
  When \<open>copied\<close>, \<open>cluster\<close> is the object read again from the API server and changes to it do
  not reach the object \<open>ref\<close> of the caller; otherwise the two are one object.
\<close>

definition manual_request ::
    "'w reconciler \<Rightarrow> 'w backup_parts \<Rightarrow> merge_fn \<Rightarrow> gover \<Rightarrow> bool \<Rightarrow> InstCluster \<Rightarrow> InstCluster \<Rightarrow> PGBackRestStatus \<Rightarrow>
     Job option \<Rightarrow> observedInstances \<Rightarrow> ('w, InstCluster \<times> error option) io" where
  "manual_request E B mrg gv copied ref cluster st job instances =
     (let manualAnnotation = requested_backup cluster;
          kept = (if copied then ref else cluster)
      in case ic_Manual cluster of
           None \<Rightarrow> ret (kept, None)
         | Some manual \<Rightarrow>
             if \<not> cluster_writable instances \<or> manualAnnotation = [] then ret (kept, None)
             else if is_new_request manualAnnotation st
             then
               let cluster = remove_condition E ConditionManualBackupSuccessful cluster in
               (case set_manual (new_manual_status manualAnnotation) (if copied then ref else cluster) of
                  Inl e \<Rightarrow> throw e
                | Inr kept \<Rightarrow> request_job E B mrg gv kept (if copied then cluster else kept) False job manual)
             else request_job E B mrg gv kept cluster (JobFinished (the (ManualBackupStatus st))) job manual)"

text \<open>The Job of another request that has ended.\<close>

definition stale :: "string \<Rightarrow> Job \<Rightarrow> bool" where
  "stale manualAnnotation job \<longleftrightarrow>
     (jobCompleted job \<or> jobFailed job) \<and> manualAnnotation \<noteq> [] \<and> backup_id job \<noteq> manualAnnotation"

definition manual_backup ::
    "'w reconciler \<Rightarrow> 'w backup_parts \<Rightarrow> merge_fn \<Rightarrow> gover \<Rightarrow> bool \<Rightarrow> InstCluster \<Rightarrow> InstCluster \<Rightarrow> Job list \<Rightarrow>
     observedInstances \<Rightarrow> ('w, InstCluster \<times> error option) io" where
  "manual_backup E B mrg gv copied ref cluster jobs instances =
     (case cc_PGBackRest cluster of
        None \<Rightarrow> throw nil_deref
      | Some st \<Rightarrow>
          (case jobs of
             [] \<Rightarrow> manual_request E B mrg gv copied ref cluster st None instances
           | job # _ \<Rightarrow>
               let cluster = follow_manual E job st cluster in
               if stale (requested_backup cluster) job
               then returning (if copied then ref else cluster) (rc_Delete_Job E job)
               else manual_request E B mrg gv copied ref cluster (deref (cc_PGBackRest cluster) st) (Some job) instances))"

definition reconcileManualBackup ::
    "'w reconciler \<Rightarrow> 'w backup_parts \<Rightarrow> merge_fn \<Rightarrow> gover \<Rightarrow> InstCluster \<Rightarrow> Job list \<Rightarrow> observedInstances \<Rightarrow>
     ('w, InstCluster \<times> error option) io" where
  "reconcileManualBackup E B mrg gv cluster jobs instances =
     attempt (rc_Get_Current E (object_key (cc_meta cluster)))
       (\<lambda>e. if IsNotFound e then manual_backup E B mrg gv False cluster cluster jobs instances else ret (cluster, Some e))
       (\<lambda>current.
          if cc_PGBackRest current \<noteq> None then manual_backup E B mrg gv True cluster current jobs instances
          else manual_backup E B mrg gv False cluster cluster jobs instances)"

section \<open>The backup replicas are created from\<close>

text \<open>The status of a repository: the first with its name is looked at and changed.\<close>

fun set_complete :: "string \<Rightarrow> RepoStatus list \<Rightarrow> RepoStatus list" where
  "set_complete name [] = []"
| "set_complete name (r # rs) =
     (if RepoStatusName r = name then r\<lparr>ReplicaCreateBackupComplete := True\<rparr> # rs else r # set_complete name rs)"

definition repo_status :: "string \<Rightarrow> InstCluster \<Rightarrow> RepoStatus option" where
  "repo_status name cluster = find (\<lambda>r. RepoStatusName r = name) (cs_RepoStatus cluster)"

definition set_replica_create :: "'w reconciler \<Rightarrow> string \<Rightarrow> InstCluster \<Rightarrow> InstCluster" where
  "set_replica_create E name cluster =
     (let (status, reason) = (case repo_status name cluster of
          None \<Rightarrow> (ConditionUnknown, ''RepoStatusMissing'')
        | Some r \<Rightarrow>
            if ReplicaCreateBackupComplete r then (ConditionTrue, ''RepoBackupComplete'')
            else (ConditionFalse, ''RepoBackupNotComplete''))
      in set_condition E ConditionReplicaCreate status reason cluster)"

text \<open>A Job that failed, is for another repository or another configuration.\<close>

definition obsolete :: "string \<Rightarrow> string \<Rightarrow> Job \<Rightarrow> bool" where
  "obsolete repoName configHash job \<longleftrightarrow> jobFailed job \<or> repoName \<noteq> str_at (Labels (j_meta job)) LabelPGBackRestRepo \<or>
     str_at (Annotations (j_meta job)) PGBackRestConfigHash \<noteq> configHash"

definition replica_create_option :: string where
  \<open>replica_create_option = ''--annotation="'' @ PGBackrestAnnotationJobType @ ''"="'' @ BackupReplicaCreate @ ''"''\<close>

definition replica_create_job ::
    "'w reconciler \<Rightarrow> 'w backup_parts \<Rightarrow> merge_fn \<Rightarrow> gover \<Rightarrow> InstCluster \<Rightarrow> Job option \<Rightarrow> string \<Rightarrow> string \<Rightarrow> ('w, unit) io" where
  "replica_create_job E B mrg gv cluster job configHash repoName =
     (let meta = PGBackRestBackupJob (bp_random B) cluster;
          meta = (case job of None \<Rightarrow> meta | Some j \<Rightarrow> meta\<lparr>Name := Name (j_meta j)\<rparr>)
      in case ic_Repos cluster of
           [] \<Rightarrow> throw (Panic ''index out of range'')
         | first # _ \<Rightarrow> apply_backup_job E B mrg gv cluster meta repoName
             (backup_labels mrg gv cluster (RepoNameOf first) BackupReplicaCreate)
             [PGBackRestConfigHash \<mapsto> configHash] [replica_create_option])"

definition reconcileReplicaCreateBackup ::
    "'w reconciler \<Rightarrow> 'w backup_parts \<Rightarrow> merge_fn \<Rightarrow> gover \<Rightarrow> InstCluster \<Rightarrow> observedInstances \<Rightarrow> Job list \<Rightarrow> string \<Rightarrow> string \<Rightarrow>
     ('w, InstCluster \<times> error option) io" where
  "reconcileReplicaCreateBackup E B mrg gv cluster instances jobs configHash repoName =
     (let job = (case jobs of [] \<Rightarrow> None | j # _ \<Rightarrow> Some j);
          unchanged = set_replica_create E repoName cluster
      in case (cc_PGBackRest cluster, repo_status repoName cluster) of
           (None, _) \<Rightarrow> throw nil_deref
         | (Some _, None) \<Rightarrow> ret (unchanged, None)
         | (Some _, Some status) \<Rightarrow>
             if \<not> cluster_writable instances \<or> ReplicaCreateBackupComplete status then ret (unchanged, None)
             else
               (case job of
                  Some j \<Rightarrow>
                    if obsolete repoName configHash j then returning unchanged (rc_Delete_Job E j)
                    else if jobCompleted j
                    then ret (set_replica_create E repoName
                      (cluster\<lparr>cs_RepoStatus := set_complete repoName (cs_RepoStatus cluster)\<rparr>), None)
                    else returning unchanged (replica_create_job E B mrg gv cluster job configHash repoName)
                | None \<Rightarrow>
                    if \<not> condition_true E cluster ConditionRepoHostReady \<or> \<not> condition_true E cluster ConditionReplicaRepoReady
                    then ret (unchanged, None)
                    else returning unchanged (replica_create_job E B mrg gv cluster job configHash repoName)))"

section \<open>Properties\<close>

abbreviation applying :: "'w reconciler \<Rightarrow> (JobIntent \<Rightarrow> ('w, unit) io) \<Rightarrow> 'w reconciler" where
  "applying E f \<equiv> E\<lparr>rc_Apply_Job := f\<rparr>"

lemma applying_conditions [simp]:
  "set_condition (applying E f) = set_condition E" "remove_condition (applying E f) = remove_condition E"
  "condition_true (applying E f) = condition_true E"
  by (simp_all add: fun_eq_iff set_condition_def remove_condition_def condition_true_def)

lemma applying_reads [simp]:
  "follow_manual (applying E f) = follow_manual E" "manual_repo (applying E f) = manual_repo E"
  "manualBackupJobNeeded (applying E f) = manualBackupJobNeeded E"
  by (intro ext; simp add: follow_manual_def manual_repo_def manualBackupJobNeeded_def split: option.split)+

text \<open>The backup a Job is needed for.\<close>

definition awaits_job :: "'w reconciler \<Rightarrow> InstCluster \<Rightarrow> bool" where
  "awaits_job E cluster \<longleftrightarrow> (\<exists>b w w'.
     rc_Read_Backup E (object_key (mk_meta (cluster_ns cluster) (requested_backup cluster))) w = (Inr b, w') \<and>
     SpecPGCluster (b_spec b) = cluster_name cluster \<and> time_IsZero (DeletionTimestamp (b_meta b)) \<and>
     \<not> IsTerminal (State (b_status b)) \<and> JobName (b_status b) = [])"

text \<open>The repository of a requested backup is ready for it.\<close>

definition repo_ready :: "'w reconciler \<Rightarrow> InstCluster \<Rightarrow> PGBackRestManualBackup \<Rightarrow> bool" where
  "repo_ready E cluster manual \<longleftrightarrow>
     condition_true E cluster ConditionRepoHostReady \<and> condition_true E cluster ConditionReplicaCreate \<and>
     (\<exists>s\<in>set (cs_RepoStatus cluster). RepoStatusName s = ManualRepoName manual \<and> StanzaCreated s) \<and>
     (\<exists>r\<in>set (ic_Repos cluster). RepoNameOf r = ManualRepoName manual) \<and>
     list_all (\<lambda>opt. \<not> str_contains ''--repo='' opt \<and> \<not> str_contains ''--repo '' opt) (ManualOptions manual)"

lemma find_rev_set: "find P (rev xs) = Some x \<Longrightarrow> x \<in> set xs \<and> P x"
  by (auto simp: find_Some_iff) (metis in_set_conv_nth length_rev set_rev)

lemma manual_repo_ready: "manual_repo E cluster manual = Some (Inr repo) \<Longrightarrow> repo_ready E cluster manual"
  by (auto simp: manual_repo_def repo_ready_def list_ex_iff list_all_iff
      split: if_splits option.splits dest!: find_rev_set)

lemma apply_manual_same:
  assumes "\<not> repo_ready E cluster manual"
  shows "apply_manual (applying E f) B mrg gv cluster job manual = apply_manual (applying E g) B mrg gv cluster job manual"
  using assms manual_repo_ready [of E cluster manual]
  by (auto simp: apply_manual_def split: option.splits sum.splits)

lemma request_job_differs:
  assumes "request_job (applying E f) B mrg gv kept cluster finished job manual w \<noteq>
    request_job (applying E g) B mrg gv kept cluster finished job manual w"
  shows "repo_ready E cluster manual \<and> (job = None \<longrightarrow> awaits_job E cluster)"
proof
  show "repo_ready E cluster manual"
  proof (rule ccontr)
    assume "\<not> repo_ready E cluster manual"
    note same = apply_manual_same [OF this, of f B mrg gv job g]
    have "request_job (applying E f) B mrg gv kept cluster finished job manual =
        request_job (applying E g) B mrg gv kept cluster finished job manual"
      unfolding request_job_def applying_reads same by (rule refl)
    with assms show False by simp
  qed
  show "job = None \<longrightarrow> awaits_job E cluster"
    using assms by (auto simp: request_job_def manualBackupJobNeeded_def awaits_job_def attempt_def ret_def throw_def
        split: if_splits prod.splits sum.splits)
qed

text \<open>Changes of a cluster that matter to none of this.\<close>

definition same_request :: "'w reconciler \<Rightarrow> InstCluster \<Rightarrow> InstCluster \<Rightarrow> bool" where
  "same_request E c c' \<longleftrightarrow> cc_meta c' = cc_meta c \<and> ic_Manual c' = ic_Manual c \<and> cs_RepoStatus c' = cs_RepoStatus c \<and>
     ic_Repos c' = ic_Repos c \<and>
     (\<forall>t. t \<noteq> ConditionManualBackupSuccessful \<longrightarrow>
        rc_FindCondition E (cs_Conditions c') t = rc_FindCondition E (cs_Conditions c) t)"

lemma same_request_trans: "same_request E a b \<Longrightarrow> same_request E b c \<Longrightarrow> same_request E a c"
  by (simp add: same_request_def)

lemma condition_kinds [simp]:
  "ConditionRepoHostReady \<noteq> ConditionManualBackupSuccessful" "ConditionReplicaCreate \<noteq> ConditionManualBackupSuccessful"
  by (simp_all add: ConditionRepoHostReady_def ConditionReplicaCreate_def ConditionManualBackupSuccessful_def)

lemma same_request_ready:
  assumes "same_request E c c'"
  shows "repo_ready E c' manual = repo_ready E c manual" "awaits_job E c' = awaits_job E c"
  using assms by (simp_all add: same_request_def repo_ready_def awaits_job_def condition_true_def requested_backup_def)

context restoring
begin

lemma same_request_follow: "same_request E c (follow_manual E j st c)"
  by (simp add: same_request_def follow_manual_def set_condition_def found_other_put split: option.splits)

lemma same_request_remove: "same_request E c (remove_condition E ConditionManualBackupSuccessful c)"
  by (simp add: same_request_def remove_condition_def found_other_drop)

end

lemma same_request_set_manual: "set_manual ms c = Inr c' \<Longrightarrow> same_request E c c'"
  by (auto simp: set_manual_def same_request_def split: option.splits)

lemma manual_request_differs:
  assumes "restoring E"
    and "manual_request (applying E f) B mrg gv copied ref cluster st job instances w \<noteq>
      manual_request (applying E g) B mrg gv copied ref cluster st job instances w"
  shows "cluster_writable instances \<and> requested_backup cluster \<noteq> [] \<and> (job = None \<longrightarrow> awaits_job E cluster) \<and>
    (\<exists>manual. ic_Manual cluster = Some manual \<and> repo_ready E cluster manual)"
proof -
  let ?c = "remove_condition E ConditionManualBackupSuccessful cluster"
  obtain manual where m: "ic_Manual cluster = Some manual" "cluster_writable instances" "requested_backup cluster \<noteq> []"
    using assms(2) by (auto simp: manual_request_def Let_def split: option.splits if_splits)
  have removed: "same_request E cluster ?c" by (rule restoring.same_request_remove [OF assms(1)])
  have "same_request E cluster cluster" by (simp add: same_request_def)
  moreover have "same_request E cluster d" if "set_manual ms ?c = Inr d" for ms d
    using same_request_trans [OF removed same_request_set_manual [OF that]] .
  ultimately obtain d kept fin where "same_request E cluster d"
    "request_job (applying E f) B mrg gv kept d fin job manual w \<noteq> request_job (applying E g) B mrg gv kept d fin job manual w"
    using assms(2) m removed by (auto simp: manual_request_def Let_def split: sum.splits if_splits) blast
  with request_job_differs [OF this(2)] m same_request_ready [OF this(1)] show ?thesis by auto
qed

lemma manual_backup_differs:
  assumes "restoring E"
    and "manual_backup (applying E f) B mrg gv copied ref cluster jobs instances w \<noteq>
      manual_backup (applying E g) B mrg gv copied ref cluster jobs instances w"
  shows "cluster_writable instances \<and> requested_backup cluster \<noteq> [] \<and> (jobs = [] \<longrightarrow> awaits_job E cluster) \<and>
    (\<exists>manual. ic_Manual cluster = Some manual \<and> repo_ready E cluster manual) \<and>
    (jobs \<noteq> [] \<longrightarrow> \<not> stale (requested_backup cluster) (hd jobs))"
proof (cases jobs)
  case Nil
  with assms(2) obtain st where "manual_request (applying E f) B mrg gv copied ref cluster st None instances w \<noteq>
      manual_request (applying E g) B mrg gv copied ref cluster st None instances w"
    by (auto simp: manual_backup_def split: option.splits)
  with Nil manual_request_differs [OF assms(1) this] show ?thesis by simp
next
  case (Cons job js)
  with assms(2) obtain st where st: "cc_PGBackRest cluster = Some st" by (auto simp: manual_backup_def split: option.splits)
  let ?c = "follow_manual E job st cluster"
  have same: "same_request E cluster ?c" by (rule restoring.same_request_follow [OF assms(1)])
  from assms(2) Cons st have fresh: "\<not> stale (requested_backup ?c) job" and
    "\<exists>st. manual_request (applying E f) B mrg gv copied ref ?c st (Some job) instances w \<noteq>
      manual_request (applying E g) B mrg gv copied ref ?c st (Some job) instances w"
    by (auto simp: manual_backup_def Let_def split: if_splits)
  then obtain st' where "manual_request (applying E f) B mrg gv copied ref ?c st' (Some job) instances w \<noteq>
      manual_request (applying E g) B mrg gv copied ref ?c st' (Some job) instances w" by blast
  from manual_request_differs [OF assms(1) this] fresh same_request_ready [OF same] same Cons show ?thesis
    by (auto simp: same_request_def requested_backup_def)
qed


text \<open>
  C35: The outcome of a requested backup is not recorded in the cluster. Once the API server has
  the status of the backup that is requested, the function works on the object it read again, and
  whatever the Job of the backup has come to, the cluster the caller goes on with, and whose
  status is written, is unchanged: neither the condition of the backup nor its finished status.
\<close>

theorem requested_outcome_lost:
  assumes "rc_Get_Current E (object_key (cc_meta cluster)) w = (Inr current, w1)"
    and "cc_PGBackRest current = Some st" and "ManualBackupStatus st = Some ms"
    and "JobStatusID ms = requested_backup current"
    and "reconcileManualBackup E B mrg gv cluster jobs instances w = (Inr (cluster', err), w')"
  shows "cluster' = cluster"
proof -
  have kept: "c' = cluster" if "request_job E B mrg gv cluster c fin job manual v = (Inr (c', err), w')" for c' c fin job manual v
    using that by (auto simp: request_job_def returning_def attempt_def ret_def throw_def split: if_splits prod.splits sum.splits)
  have request: "c' = cluster" if "manual_request E B mrg gv True cluster c s job instances v = (Inr (c', err), w')"
      and "\<not> is_new_request (requested_backup c) s" for c' c s job v
    using that by (auto simp: manual_request_def ret_def Let_def split: option.splits if_splits dest: kept)
  have followed: "requested_backup (follow_manual E j st current) = requested_backup current \<and>
      \<not> is_new_request (requested_backup current) (deref (cc_PGBackRest (follow_manual E j st current)) st)" for j
    using assms(2-4) by (simp add: follow_manual_def requested_backup_def set_condition_def is_new_request_def deref_def)
  from assms(5) have "manual_backup E B mrg gv True cluster current jobs instances w1 = (Inr (cluster', err), w')"
    by (simp add: reconcileManualBackup_def attempt_def assms(1,2))
  then show ?thesis
    using assms(2-4) followed
    by (auto simp: manual_backup_def Let_def is_new_request_def returning_def attempt_def ret_def
        split: list.splits if_splits prod.splits sum.splits dest!: request)
qed



section \<open>Examples\<close>

definition mem_backup_parts :: "cmem backup_parts" where
  "mem_backup_parts = \<lparr>bp_random = ''abcd'', bp_InitImage = (\<lambda>_. ret ''init''), bp_Image = (\<lambda>_. ''pgbackrest''),
     bp_VolumeSnapshots = False, bp_selector_String = (\<lambda>_. []), bp_InitContainer = None,
     bp_ServiceAccount = ''sa'', bp_AddConfig = (\<lambda>_ s. s)\<rparr>"

definition true_condition :: "string \<Rightarrow> Condition" where
  "true_condition t = \<lparr>ConditionType = t, ConditionStatus = ConditionTrue, ConditionReason = [], ObservedGeneration = 1,
     LastTransitionTime = 0\<rparr>"

definition repo1_status :: RepoStatus where
  "repo1_status = \<lparr>RepoStatusName = ''repo1'', RepoBound = True, RepoVolumeName = [], DesiredRepoVolume = [],
     StanzaCreated = True, ReplicaCreateBackupComplete = False, RepoOptionsHash = []\<rparr>"

text \<open>The cluster asks for the backup \<open>b1\<close>, of which it has a status or not.\<close>

definition asking_cluster :: "PGBackRestJobStatus option \<Rightarrow> InstCluster" where
  "asking_cluster ms = restoring_cluster\<lparr>
     cc_meta := example_meta\<lparr>Annotations := [PGBackRestBackup \<mapsto> ''b1'']\<rparr>,
     cc_PGBackRest := Some \<lparr>ManualBackupStatus = ms, RestoreStatus = None\<rparr>,
     cs_Conditions := [true_condition ConditionRepoHostReady, true_condition ConditionReplicaCreate],
     cs_RepoStatus := [repo1_status],
     ic_Manual := Some \<lparr>ManualRepoName = ''repo1'', ManualOptions = [''--type=full''], ManualInitialDelaySeconds = 0,
       ManualEnv = [], ManualEnvFrom = []\<rparr>\<rparr>"

definition asked_backup :: PerconaPGBackup where
  "asked_backup = (sample_backup ''b1'' BackupStarting)\<lparr>
     b_spec := (b_spec (sample_backup ''b1'' BackupStarting))\<lparr>SpecPGCluster := ''hippo''\<rparr>\<rparr>"

definition asked_memory :: "PGBackRestJobStatus option \<Rightarrow> cmem" where
  "asked_memory ms = empty_memory\<lparr>cm_current := [asking_cluster ms], cm_percona_backups := [asked_backup]\<rparr>"

definition writable_pod :: InstPod where
  \<open>writable_pod = (example_pod ''a'' ''primary'' ''new'' True)\<lparr>
     p_meta := (p_meta (example_pod ''a'' ''primary'' ''new'' True))\<lparr>Annotations := [''status'' \<mapsto> ''"role":"primary"'']\<rparr>\<rparr>\<close>

definition writable_instances :: observedInstances where
  "writable_instances = newObservedInstances two_sets [example_runner ''a''] [writable_pod]"

definition backup_job :: "string \<Rightarrow> Job" where
  "backup_job c = (sample_job ''j'' c)\<lparr>j_meta := (sample_meta ''j'')\<lparr>
     Labels := [LabelPGBackRestRepo \<mapsto> ''repo1''], Annotations := [PGBackRestBackup \<mapsto> ''b1'', PGBackRestConfigHash \<mapsto> ''h'']\<rparr>\<rparr>"

definition same_version :: gover where
  "same_version a b = Inr 0"


theorem requested_outcome_lost_witness:
  "\<exists>err w. reconcileManualBackup cluster_memory mem_backup_parts (++) same_version
     (asking_cluster (Some (new_manual_status ''b1''))) [backup_job ''Complete''] writable_instances
     (asked_memory (Some (new_manual_status ''b1''))) = (Inr (asking_cluster (Some (new_manual_status ''b1'')), err), w)"
proof -
  let ?c = "asking_cluster (Some (new_manual_status ''b1''))" and ?w = "asked_memory (Some (new_manual_status ''b1''))"
  let ?r = "reconcileManualBackup cluster_memory mem_backup_parts (++) same_version ?c [backup_job ''Complete''] writable_instances ?w"
  have "\<not> isl (fst ?r)" by code_simp
  then obtain c err w where r: "?r = (Inr (c, err), w)" using not_isl_run by (metis surj_pair)
  have "rc_Get_Current cluster_memory (object_key (cc_meta ?c)) ?w = (Inr ?c, ?w)"
    by (simp add: cluster_memory_def mem_get_def lookup_def asked_memory_def)
  moreover have "cc_PGBackRest ?c = Some \<lparr>ManualBackupStatus = Some (new_manual_status ''b1''), RestoreStatus = None\<rparr>"
    by (simp add: asking_cluster_def)
  moreover have "JobStatusID (new_manual_status ''b1'') = requested_backup ?c" by code_simp
  ultimately have "c = ?c" using requested_outcome_lost [OF _ _ _ _ r] by simp
  with r show ?thesis by blast
qed



end
