(* ===== verification/Repositories.thy ===== *)
theory Repositories
  imports Backrest_Jobs
begin

text \<open>
  The pgBackRest repositories of a cluster: \<open>internal/pgbackrest/util.go\<close> and
  \<open>pgbackrest.go\<close>, and of \<open>internal/controller/postgrescluster/pgbackrest.go\<close> the status
  of repositories, their volumes, the creation of stanzas, the scheduled backups, the removal of
  what is no longer specified, and \<open>reconcilePGBackRest\<close>, which calls all of it.
\<close>

section \<open>Configuration hashes and stanzas\<close>

definition RepoHostVolumeDefined :: "InstCluster \<Rightarrow> bool" where
  "RepoHostVolumeDefined cluster = list_ex (\<lambda>repo. RepoVolume repo \<noteq> None) (ic_Repos cluster)"

definition maxPGBackrestRepos :: nat where
  "maxPGBackrestRepos = 4"

text \<open>What is hashed of a repository; a volume has nothing to hash.\<close>

definition repo_options :: "'a PGBackRestRepo_scheme \<Rightarrow> error + string list" where
  "repo_options repo =
     (case (RepoAzureContainer repo, RepoGCSBucket repo, RepoS3Spec repo) of
        (Some c, _, _) \<Rightarrow> Inr [c]
      | (None, Some b, _) \<Rightarrow> Inr [b]
      | (None, None, Some s) \<Rightarrow> Inr [S3Bucket s, S3Endpoint s, S3Region s]
      | (None, None, None) \<Rightarrow> Inl (Errorf ''found unexpected repo type''))"

fun repo_hashes :: "'w reconciler \<Rightarrow> ScheduledRepo list \<Rightarrow> strmap \<Rightarrow> error + strmap" where
  "repo_hashes E [] hashes = Inr hashes"
| "repo_hashes E (repo # repos) hashes =
     (if RepoVolume repo \<noteq> None then repo_hashes E repos hashes
      else case repo_options repo of
          Inl e \<Rightarrow> Inl e
        | Inr opts \<Rightarrow> repo_hashes E repos (hashes(RepoNameOf repo \<mapsto> SafeHash32 E opts)))"

definition CalculateConfigHashes :: "'w reconciler \<Rightarrow> InstCluster \<Rightarrow> error + strmap \<times> string" where
  "CalculateConfigHashes E cluster =
     (case repo_hashes E (ic_Repos cluster) Map.empty of
        Inl e \<Rightarrow> Inl e
      | Inr hashes \<Rightarrow> Inr (hashes, SafeHash32 E (List.map_filter (\<lambda>i. hashes (''repo'' @ sprint_nat i)) [1..<maxPGBackrestRepos + 1])))"

definition errMsgConfigHashMismatch :: string where
  "errMsgConfigHashMismatch = ''postgres operator error: pgBackRest config hash mismatch''"

definition errMsgStaleReposWithVolumesConfig :: string where
  "errMsgStaleReposWithVolumesConfig = ''postgres operator error: pgBackRest stale volume-backed repo configuration''"

definition grep_repo :: "string \<Rightarrow> string" where
  "grep_repo name = ''grep '' @ name @ ''-path /etc/pgbackrest/conf.d/pgbackrest_instance.conf''"

definition check_repo_cmd :: "InstCluster \<Rightarrow> string" where
  "check_repo_cmd cluster = str_join '' && '' (map (\<lambda>repo. grep_repo (RepoNameOf repo)) (filter (\<lambda>repo. RepoVolume repo \<noteq> None) (ic_Repos cluster)))"

definition stanza_script :: string where
  \<open>stanza_script = str_join [CHR 0x0A]
    [[],
     ''declare -r hash="$1" stanza="$2" hash_msg="$3" vol_msg="$4" check_repo_cmd="$5"'',
     ''if [[ "$(< /etc/pgbackrest/conf.d/config-hash)" != "${hash}" ]]; then'',
     ''    printf >&2 "%s" "${hash_msg}"; exit 1;'',
     ''elif ! bash -c "${check_repo_cmd}"; then'',
     '' '' @ [CHR 0x09] @ '' printf >&2 "%s" "${vol_msg}"; exit 1;'',
     ''else'',
     ''    pgbackrest stanza-create --stanza="${stanza}" || pgbackrest stanza-upgrade --stanza="${stanza}"'',
     ''fi'', []]\<close>

text \<open>The result is whether the configuration has not reached the pod yet, and the error.\<close>

definition StanzaCreateOrUpgrade :: "'w Executor \<Rightarrow> string \<Rightarrow> InstCluster \<Rightarrow> ('w, bool \<times> error option) io" where
  "StanzaCreateOrUpgrade exec configHash cluster =
     plain (exec [] [''bash'', ''-ceu'', ''--'', stanza_script, ''-'', configHash, DefaultStanzaName,
         errMsgConfigHashMismatch, errMsgStaleReposWithVolumesConfig, check_repo_cmd cluster])
       (\<lambda>(err, stdout, stderr).
          case err of
            None \<Rightarrow> ret (False, None)
          | Some e \<Rightarrow>
              let errReturn = stdout @ '' '' @ stderr in
              if errReturn = errMsgConfigHashMismatch then ret (True, None)
              else if errReturn = errMsgStaleReposWithVolumesConfig then ret (True, None)
              else ret (False, Some (Wrap errReturn e)))"

text \<open>The script that pushes timeline history files; a failure is only reported.\<close>

definition history_script :: string where
  \<open>history_script = str_join [CHR 0x0A]
    [[],
     ''set -eu'',
     [],
     ''if [ -z "${PGDATA:-}" ]; then'',
     ''    echo "PGDATA is not set; skipping history file recovery" >&2'',
     ''    exit 0'',
     ''fi'',
     [],
     ''# Use -L so find follows the pg_wal symlink ($PGDATA/pg_wal -> /pgdata/<cluster>_wal).'',
     ''# Use a temp file to avoid running the push loop in a subshell where set -e is ineffective.'',
     ''tmplist=$(mktemp)'',
     ''find -L "${PGDATA}/pg_wal" -maxdepth 1 -name '*.history' 2>/dev/null | sort > "${tmplist}"'',
     [],
     ''if [ ! -s "${tmplist}" ]; then'',
     ''    rm -f "${tmplist}"'',
     ''    exit 0'',
     ''fi'',
     [],
     ''echo "history files to push:"'',
     ''cat "${tmplist}"'',
     [],
     ''push_failed=0'',
     ''while IFS= read -r f; do'',
     ''    if pgbackrest --stanza=db --log-level-console=info archive-push --no-archive-async "${f}"; then'',
     ''        echo "pushed ${f}"'',
     ''    else'',
     ''        echo "FAILED to push ${f}" >&2'',
     ''        push_failed=1'',
     ''    fi'',
     ''done < "${tmplist}"'',
     ''rm -f "${tmplist}"'',
     [],
     ''[ "${push_failed}" -eq 0 ] || exit 1'',
     []]\<close>

definition ArchivePushHistoryFiles :: "'w Executor \<Rightarrow> ('w, string \<times> error option) io" where
  "ArchivePushHistoryFiles exec =
     plain (exec [] [''bash'', ''-ceu'', ''--'', history_script])
       (\<lambda>(err, stdout, stderr).
          let combined = stdout @ (if stderr \<noteq> [] then CHR 0x0A # ''stderr: '' @ stderr else []) in
          ret (combined, map_option (Wrap combined) err))"

section \<open>The status of repositories\<close>

text \<open>
  A claim for the volume of a repository: whether it is bound, the name of its volume, the storage
  it is limited to and requests, and what it has. A quantity is its value in bytes, no limit is 0.
\<close>

record RepoClaim =
  rv_meta :: ObjectMeta
  rv_Bound :: bool
  rv_VolumeName :: string
  rv_Limit :: int
  rv_Request :: int
  rv_Capacity :: int

definition getRepoHostStatus :: "Runner \<Rightarrow> bool" where
  "getRepoHostStatus repoHost = (StsReadyReplicas repoHost > 0)"

definition new_repo_status :: "string \<Rightarrow> RepoStatus" where
  "new_repo_status name = \<lparr>RepoStatusName = name, RepoBound = False, RepoVolumeName = [], DesiredRepoVolume = [],
     StanzaCreated = False, ReplicaCreateBackupComplete = False, RepoOptionsHash = []\<rparr>"

definition update_volume_status :: "string \<Rightarrow> strmap \<Rightarrow> RepoClaim \<Rightarrow> RepoStatus \<Rightarrow> RepoStatus" where
  "update_volume_status replicaCreateRepo desired rv rs =
     (let rs = (if ReplicaCreateBackupComplete rs \<and> RepoStatusName rs \<noteq> replicaCreateRepo \<or> RepoOptionsHash rs \<noteq> []
                then rs\<lparr>ReplicaCreateBackupComplete := False, RepoOptionsHash := []\<rparr> else rs);
          rs = rs\<lparr>RepoBound := rv_Bound rv\<rparr>;
          rs = (if RepoVolumeName rs \<noteq> [] \<and> RepoVolumeName rs \<noteq> rv_VolumeName rv
                then rs\<lparr>StanzaCreated := False, ReplicaCreateBackupComplete := False\<rparr> else rs)
      in rs\<lparr>RepoVolumeName := rv_VolumeName rv, DesiredRepoVolume := str_at desired (RepoStatusName rs)\<rparr>)"

definition volume_status :: "RepoStatus list \<Rightarrow> string \<Rightarrow> strmap \<Rightarrow> RepoClaim \<Rightarrow> RepoStatus" where
  "volume_status old replicaCreateRepo desired rv =
     (let repoName = str_at (Labels (rv_meta rv)) LabelPGBackRestRepo
      in case find (\<lambda>rs. RepoStatusName rs = repoName \<and> RepoOptionsHash rs = []) old of
           Some rs \<Rightarrow> update_volume_status replicaCreateRepo desired rv rs
         | None \<Rightarrow> (new_repo_status repoName)\<lparr>RepoBound := rv_Bound rv, RepoVolumeName := rv_VolumeName rv,
             DesiredRepoVolume := str_at desired repoName\<rparr>)"

definition update_external_status :: "string \<Rightarrow> string \<Rightarrow> RepoStatus \<Rightarrow> RepoStatus" where
  "update_external_status replicaCreateRepo hash rs =
     (let rs = (if ReplicaCreateBackupComplete rs \<and> RepoStatusName rs \<noteq> replicaCreateRepo
                then rs\<lparr>ReplicaCreateBackupComplete := False\<rparr> else rs)
      in if RepoOptionsHash rs \<noteq> hash
         then rs\<lparr>RepoOptionsHash := hash, StanzaCreated := False, ReplicaCreateBackupComplete := False\<rparr> else rs)"

definition external_status :: "RepoStatus list \<Rightarrow> string \<Rightarrow> string \<times> string \<Rightarrow> RepoStatus" where
  "external_status old replicaCreateRepo = (\<lambda>(repoName, hash).
     case find (\<lambda>rs. RepoStatusName rs = repoName \<and> \<not> RepoBound rs \<and> RepoVolumeName rs = []) old of
       Some rs \<Rightarrow> update_external_status replicaCreateRepo hash rs
     | None \<Rightarrow> (new_repo_status repoName)\<lparr>RepoOptionsHash := hash\<rparr>)"

text \<open>\<open>hashes\<close> is the map of hashes in the order it is iterated over.\<close>

definition getRepoVolumeStatus ::
    "RepoStatus list \<Rightarrow> RepoClaim list \<Rightarrow> (string \<times> string) list \<Rightarrow> string \<Rightarrow> strmap \<Rightarrow> RepoStatus list" where
  "getRepoVolumeStatus repoStatus repoVolumes hashes replicaCreateRepo desired =
     sort_key RepoStatusName (map (volume_status repoStatus replicaCreateRepo desired) repoVolumes @
       map (external_status repoStatus replicaCreateRepo) hashes)"

section \<open>Volumes of repositories\<close>

definition larger :: "int \<Rightarrow> RepoClaim option \<Rightarrow> int" where
  "larger request existing =
     (case existing of
        None \<Rightarrow> request
      | Some e \<Rightarrow>
          let request = (if rv_Request e > request then rv_Request e else request)
          in if rv_Capacity e > request then rv_Capacity e else request)"

text \<open>\<open>parse\<close> is \<open>resource.ParseQuantity\<close>, \<open>autogrow\<close> the feature gate.\<close>

definition setRepoVolumeSize ::
    "(string \<Rightarrow> error + int) \<Rightarrow> bool \<Rightarrow> RepoClaim \<Rightarrow> RepoClaim option \<Rightarrow> string \<Rightarrow> RepoClaim" where
  "setRepoVolumeSize parse autogrow pvc existing desiredVolume =
     (let limit = rv_Limit pvc; request = rv_Request pvc
      in if limit \<noteq> 0 \<and> request > limit then pvc\<lparr>rv_Request := larger limit existing\<rparr>
         else if limit \<noteq> 0 \<and> autogrow \<and> desiredVolume \<noteq> []
         then case parse desiredVolume of
             Inl _ \<Rightarrow> pvc
           | Inr desired \<Rightarrow>
               let request = (if desired > request then desired else request);
                   request = (if request \<ge> limit then limit else request)
               in pvc\<lparr>rv_Request := larger request existing\<rparr>
         else pvc\<lparr>rv_Request := larger request existing\<rparr>)"

section \<open>Operations on repositories\<close>

record RepoResources =
  rr_hosts :: "Runner list"
  rr_cronjobs :: "ObjectMeta list"
  rr_manualBackupJobs :: "Job list"
  rr_replicaCreateBackupJobs :: "Job list"
  rr_pvcs :: "RepoClaim list"

definition empty_resources :: RepoResources where
  "empty_resources = \<lparr>rr_hosts = [], rr_cronjobs = [], rr_manualBackupJobs = [], rr_replicaCreateBackupJobs = [], rr_pvcs = []\<rparr>"

text \<open>A CronJob: its metadata, schedule, whether it is suspended, and what its Jobs run.\<close>

record CronJob =
  cj_meta :: ObjectMeta
  cj_Schedule :: string
  cj_Suspend :: bool
  cj_ConcurrencyPolicy :: string
  cj_JobLabels :: strmap
  cj_JobAnnotations :: strmap
  cj_Spec :: BackupJobSpec
  cj_Controller :: "string option"

text \<open>
  The rest of what \<open>reconcilePGBackRest\<close> uses: reading the listed objects as what they are,
  writing the objects of the repository host, its volumes, secret and configuration and the RBAC
  objects, the order in which a map is iterated over, and the feature gate.
  \<open>pp_claim_error\<close> tells of an error of writing a claim the reason it gives for the
  condition that volumes are not resized, if any, and what is left of it.
\<close>

record 'w repo_parts =
  pp_Backup :: "'w backup_parts"
  pp_StatefulSets :: "Controlled list \<Rightarrow> error + Runner list"
  pp_Jobs :: "Controlled list \<Rightarrow> error + Job list"
  pp_CronJobs :: "Controlled list \<Rightarrow> error + ObjectMeta list"
  pp_Claims :: "Controlled list \<Rightarrow> error + RepoClaim list"
  pp_entries :: "strmap \<Rightarrow> (string \<times> string) list"
  pp_AutoGrow :: bool
  pp_BackupsSpecFound :: "InstCluster \<Rightarrow> bool"
  pp_Get_StatefulSet :: "key \<Rightarrow> ('w, Runner) io"
  pp_RBAC :: "InstCluster \<Rightarrow> ('w, string) io"
  pp_RepoHost :: "InstCluster \<Rightarrow> string \<Rightarrow> RepoResources \<Rightarrow> observedInstances \<Rightarrow> ('w, Runner) io"
  pp_Secret :: "InstCluster \<Rightarrow> Runner \<Rightarrow> ('w, unit) io"
  pp_Config :: "InstCluster \<Rightarrow> string \<Rightarrow> string \<Rightarrow> string list \<Rightarrow> ('w, unit) io"
  pp_volume_limit :: "opaque \<Rightarrow> int"
  pp_generate_claim :: "InstCluster \<Rightarrow> opaque \<Rightarrow> string \<Rightarrow> RepoResources \<Rightarrow> error + RepoClaim"
  pp_Apply_Claim :: "RepoClaim \<Rightarrow> ('w, RepoClaim) io"
  pp_claim_error :: "error \<Rightarrow> string option \<times> error option"
  pp_Own_CronJob :: "InstCluster \<Rightarrow> CronJob \<Rightarrow> error + CronJob"
  pp_Apply_CronJob :: "CronJob \<Rightarrow> ('w, unit) io"

subsection \<open>Growing\<close>

text \<open>One annotation of a repository host's pod; \<open>limited\<close> are the repositories with a limit.\<close>

definition grow_step ::
    "'w reconciler \<Rightarrow> (string \<Rightarrow> bool) \<Rightarrow> string \<times> string \<Rightarrow> strmap \<Rightarrow> error + strmap" where
  "grow_step E limited = (\<lambda>(annotation, value) desired.
     let (repoName, ok) = PGBackRestRepoFromVolumeSizeAnnotation annotation in
     if \<not> ok \<or> \<not> limited repoName \<or> value = [] then Inr desired
     else case rc_ParseQuantity E value of
         Inl e \<Rightarrow> Inl (Wrap ''parse quantity'' e)
       | Inr current \<Rightarrow>
           let previous = (case rc_ParseQuantity E (str_at desired repoName) of Inl _ \<Rightarrow> 0 | Inr p \<Rightarrow> p)
           in Inr (if current > previous then desired(repoName \<mapsto> value) else desired))"

fun grow :: "'w reconciler \<Rightarrow> (string \<Rightarrow> bool) \<Rightarrow> (string \<times> string) list \<Rightarrow> strmap \<Rightarrow> error + strmap" where
  "grow E limited [] desired = Inr desired"
| "grow E limited (a # as) desired =
     (case grow_step E limited a desired of Inl e \<Rightarrow> Inl e | Inr desired \<Rightarrow> grow E limited as desired)"

definition repo_limited :: "'w repo_parts \<Rightarrow> InstCluster \<Rightarrow> string \<Rightarrow> bool" where
  "repo_limited P cluster name =
     (case find (\<lambda>repo. RepoNameOf repo = name) (rev (ic_Repos cluster)) of
        None \<Rightarrow> False
      | Some repo \<Rightarrow> (case RepoVolume repo of None \<Rightarrow> False | Some claim \<Rightarrow> pp_volume_limit P claim \<noteq> 0))"

definition recorded_volumes :: "InstCluster \<Rightarrow> strmap" where
  "recorded_volumes cluster =
     (case cc_PGBackRest cluster of
        None \<Rightarrow> Map.empty
      | Some _ \<Rightarrow> fold (\<lambda>s m. if DesiredRepoVolume s \<noteq> [] then m(RepoStatusName s \<mapsto> DesiredRepoVolume s) else m)
          (cs_RepoStatus cluster) Map.empty)"

definition observeDesiredRepoVolumes ::
    "'w reconciler \<Rightarrow> 'w repo_parts \<Rightarrow> merge_fn \<Rightarrow> InstCluster \<Rightarrow> ('w, strmap) io" where
  "observeDesiredRepoVolumes E P mrg cluster =
     (if \<not> pp_AutoGrow P then ret Map.empty
      else must ''list pods'' (rc_List_Pods E (cluster_ns cluster)
          \<lparr>MatchLabels = PGBackRestDedicatedSelector mrg (cluster_name cluster), MatchExpressions = []\<rparr>) (\<lambda>pods.
        case grow E (repo_limited P cluster) (concat (map (\<lambda>pod. pp_entries P (Annotations (p_meta pod))) pods))
            (recorded_volumes cluster) of
          Inl e \<Rightarrow> throw e
        | Inr desired \<Rightarrow> ret desired))"

definition PersistentVolumeResizing :: string where
  "PersistentVolumeResizing = ''PersistentVolumeResizing''"

text \<open>The claim as the API server has it; an error that is only a condition leaves no claim.\<close>

definition applyRepoVolumeIntent ::
    "'w reconciler \<Rightarrow> 'w repo_parts \<Rightarrow> InstCluster \<Rightarrow> opaque \<Rightarrow> string \<Rightarrow> RepoResources \<Rightarrow> string \<Rightarrow>
     ('w, InstCluster \<times> (error + RepoClaim option)) io" where
  "applyRepoVolumeIntent E P cluster spec repoName resources desiredVolume =
     (case pp_generate_claim P cluster spec repoName resources of
        Inl e \<Rightarrow> ret (cluster, Inl e)
      | Inr repo \<Rightarrow>
          let existing = find (\<lambda>pvc. str_at (Labels (rv_meta pvc)) LabelPGBackRestRepo = repoName) (rr_pvcs resources);
              repo = (setRepoVolumeSize (rc_ParseQuantity E) (pp_AutoGrow P) repo existing desiredVolume)\<lparr>rv_Limit := 0\<rparr>
          in attempt (pp_Apply_Claim P repo)
               (\<lambda>e. case pp_claim_error P e of
                  (reason, err) \<Rightarrow> ret
                    (case reason of None \<Rightarrow> cluster | Some r \<Rightarrow> set_condition E PersistentVolumeResizing ConditionFalse r cluster,
                     case err of None \<Rightarrow> Inr None | Some e \<Rightarrow> Inl e))
               (\<lambda>repo. ret (cluster, Inr (Some repo))))"

fun apply_volumes ::
    "'w reconciler \<Rightarrow> 'w repo_parts \<Rightarrow> RepoResources \<Rightarrow> strmap \<Rightarrow> ScheduledRepo list \<Rightarrow> InstCluster \<Rightarrow>
     ('w, InstCluster \<times> error list \<times> RepoClaim list) io" where
  "apply_volumes E P resources desired [] cluster = ret (cluster, [], [])"
| "apply_volumes E P resources desired (repo # repos) cluster =
     (case RepoVolume repo of
        None \<Rightarrow> apply_volumes E P resources desired repos cluster
      | Some spec \<Rightarrow>
          plain (applyRepoVolumeIntent E P cluster spec (RepoNameOf repo) resources (str_at desired (RepoNameOf repo)))
            (\<lambda>(cluster, r). plain (apply_volumes E P resources desired repos cluster) (\<lambda>(cluster, errs, vols).
               case r of
                 Inl e \<Rightarrow> ret (cluster, e # errs, vols)
               | Inr None \<Rightarrow> ret (cluster, errs, vols)
               | Inr (Some claim) \<Rightarrow> ret (cluster, errs, claim # vols))))"

text \<open>The first repository is the one replicas are created from.\<close>

definition replica_create_repo :: "InstCluster \<Rightarrow> string" where
  "replica_create_repo cluster = (case ic_Repos cluster of [] \<Rightarrow> [] | repo # _ \<Rightarrow> RepoNameOf repo)"

definition reconcileRepos ::
    "'w reconciler \<Rightarrow> 'w repo_parts \<Rightarrow> merge_fn \<Rightarrow> InstCluster \<Rightarrow> strmap \<Rightarrow> RepoResources \<Rightarrow>
     ('w, InstCluster \<times> error option) io" where
  "reconcileRepos E P mrg cluster extConfigHashes resources =
     attempt (observeDesiredRepoVolumes E P mrg cluster) (\<lambda>e. ret (cluster, Some e)) (\<lambda>desired.
     plain (apply_volumes E P resources desired (ic_Repos cluster) cluster) (\<lambda>(cluster, errs, vols).
       ret (cluster\<lparr>cs_RepoStatus := getRepoVolumeStatus (cs_RepoStatus cluster) vols (pp_entries P extConfigHashes)
              (replica_create_repo cluster) desired\<rparr>,
            case errs of [] \<Rightarrow> None | e # _ \<Rightarrow> Some e)))"

subsection \<open>Stanzas\<close>

definition set_replica_repo_ready :: "'w reconciler \<Rightarrow> InstCluster \<Rightarrow> InstCluster" where
  "set_replica_repo_ready E cluster =
     (case ic_Repos cluster of
        [] \<Rightarrow> cluster
      | repo # _ \<Rightarrow>
          let (status, reason) = (case repo_status (RepoNameOf repo) cluster of
              None \<Rightarrow> (ConditionUnknown, ''RepoStatusMissing'')
            | Some r \<Rightarrow> if StanzaCreated r then (ConditionTrue, ''StanzaCreated'') else (ConditionFalse, ''StanzaNotCreated''))
          in set_condition E ConditionReplicaRepoReady status reason cluster)"

definition reconcileStanzaCreate ::
    "'w reconciler \<Rightarrow> 'w repo_parts \<Rightarrow> InstCluster \<Rightarrow> observedInstances \<Rightarrow> string \<Rightarrow> ('w, InstCluster \<times> bool \<times> error option) io" where
  "reconcileStanzaCreate E P cluster instances configHash =
     (let unchanged = set_replica_repo_ready E cluster in
      if cc_PGBackRest cluster = None then throw nil_deref
      else case find (\<lambda>i. surely (IsWritable i)) (forCluster instances) of
          None \<Rightarrow> ret (unchanged, False, None)
        | Some i \<Rightarrow>
            if list_all StanzaCreated (cs_RepoStatus cluster) then ret (unchanged, False, None)
            else
              let exec = rc_PodExec E (cluster_ns cluster) (i_name i @ ''-0'') ContainerDatabase in
              plain (StanzaCreateOrUpgrade exec configHash cluster) (\<lambda>(mismatch, err).
                case err of
                  Some e \<Rightarrow> ret (unchanged, False, Some e)
                | None \<Rightarrow>
                    if mismatch then ret (unchanged, True, None)
                    else plain (ArchivePushHistoryFiles exec) (\<lambda>_.
                      ret (set_replica_repo_ready E (cluster\<lparr>cs_RepoStatus :=
                        map (\<lambda>s. s\<lparr>StanzaCreated := True\<rparr>) (cs_RepoStatus cluster)\<rparr>), False, None))))"

subsection \<open>Schedules\<close>

definition schedule_of :: "BackupSchedules \<Rightarrow> string \<Rightarrow> string option" where
  "schedule_of s backupType =
     (if backupType = ''full'' then ScheduleFull s
      else if backupType = ''diff'' then ScheduleDifferential s
      else if backupType = ''incr'' then ScheduleIncremental s
      else None)"

definition backupScheduleFound :: "ScheduledRepo \<Rightarrow> string \<Rightarrow> bool" where
  "backupScheduleFound repo backupType =
     (case RepoSchedules repo of None \<Rightarrow> False | Some s \<Rightarrow> schedule_of s backupType \<noteq> None)"

text \<open>The CronJob a schedule has already, the last one that is not being deleted.\<close>

definition cronjob_meta :: "InstCluster \<Rightarrow> ObjectMeta list \<Rightarrow> string \<Rightarrow> string \<Rightarrow> ObjectMeta" where
  "cronjob_meta cluster cronjobs repoName backupType =
     (case find (\<lambda>c. DeletionTimestamp c = None \<and> str_at (Labels c) LabelCluster = cluster_name cluster \<and>
           str_at (Labels c) LabelPGBackRestCronJob = backupType \<and> str_at (Labels c) LabelPGBackRestRepo = repoName)
         (rev cronjobs) of
        Some c \<Rightarrow> mk_meta (cluster_ns cluster) (Name c)
      | None \<Rightarrow> PGBackRestCronJob cluster backupType repoName)"

definition schedule_ready :: "'w reconciler \<Rightarrow> InstCluster \<Rightarrow> string \<Rightarrow> bool" where
  "schedule_ready E cluster repoName \<longleftrightarrow> ClusterBootstrapped cluster \<and> condition_true E cluster ConditionReplicaCreate \<and>
     (case find (\<lambda>r. RepoStatusName r = repoName) (rev (cs_RepoStatus cluster)) of
        None \<Rightarrow> False | Some s \<Rightarrow> StanzaCreated s)"

definition reconcilePGBackRestCronJob ::
    "'w reconciler \<Rightarrow> 'w repo_parts \<Rightarrow> merge_fn \<Rightarrow> gover \<Rightarrow> InstCluster \<Rightarrow> string \<Rightarrow> ObjectMeta list \<Rightarrow> string \<Rightarrow> string \<Rightarrow>
     string \<Rightarrow> ('w, unit) io" where
  "reconcilePGBackRestCronJob E P mrg gv cluster sa cronjobs repoName backupType schedule =
     (let B = (pp_Backup P)\<lparr>bp_ServiceAccount := sa\<rparr>;
          annotations = Merge mrg [ic_Annotations cluster, ic_BackupAnnotations cluster];
          labels = Merge mrg [cs_MetadataLabels cluster, ic_BackupLabels cluster,
            WithPerconaLabels mrg gv (PGBackRestCronJobLabels mrg (cluster_name cluster) repoName backupType)
              (cluster_name cluster) [] (version_of cluster)]
      in if \<not> schedule_ready E cluster repoName then ret ()
         else plain (bp_InitImage B cluster) (\<lambda>initImage.
           let spec = generateBackupJobSpecIntent B mrg gv cluster repoName initImage labels annotations [''--type='' @ backupType];
               annotations = (if CompareVersion gv cluster ''2.7.0'' \<ge> 0
                 then annotations(DefaultContainerAnnotation \<mapsto> PGBackRestRepoContainerName) else annotations);
               cronjob = \<lparr>cj_meta = (cronjob_meta cluster cronjobs repoName backupType)\<lparr>Labels := labels, Annotations := annotations\<rparr>,
                 cj_Schedule = schedule, cj_Suspend = (ic_Shutdown cluster = Some True \<or> IsStandby cluster),
                 cj_ConcurrencyPolicy = ''Forbid'', cj_JobLabels = labels, cj_JobAnnotations = annotations,
                 cj_Spec = spec\<lparr>js_ImagePullSecrets := ic_ImagePullSecrets cluster\<rparr>, cj_Controller = None\<rparr>
           in case pp_Own_CronJob P cluster cronjob of
                Inl e \<Rightarrow> throw e
              | Inr cronjob \<Rightarrow> pp_Apply_CronJob P cronjob))"

definition schedules :: "ScheduledRepo \<Rightarrow> (string \<times> string \<times> string) list" where
  "schedules repo =
     (case RepoSchedules repo of
        None \<Rightarrow> []
      | Some s \<Rightarrow> List.map_filter (\<lambda>t. map_option (\<lambda>c. (RepoNameOf repo, t, c)) (schedule_of s t)) [''full'', ''diff'', ''incr''])"

text \<open>The errors are logged; the result is whether there was one.\<close>

fun schedule_loop :: "(string \<times> string \<times> string \<Rightarrow> ('w, unit) io) \<Rightarrow> (string \<times> string \<times> string) list \<Rightarrow> bool \<Rightarrow> ('w, bool) io" where
  "schedule_loop f [] requeue = ret requeue"
| "schedule_loop f (s # ss) requeue = attempt (f s) (\<lambda>_. schedule_loop f ss True) (\<lambda>_. schedule_loop f ss requeue)"

definition reconcileScheduledBackups ::
    "'w reconciler \<Rightarrow> 'w repo_parts \<Rightarrow> merge_fn \<Rightarrow> gover \<Rightarrow> InstCluster \<Rightarrow> string \<Rightarrow> ObjectMeta list \<Rightarrow> ('w, bool) io" where
  "reconcileScheduledBackups E P mrg gv cluster sa cronjobs =
     schedule_loop (\<lambda>(repoName, backupType, schedule).
       reconcilePGBackRestCronJob E P mrg gv cluster sa cronjobs repoName backupType schedule)
       (concat (map schedules (ic_Repos cluster))) False"

subsection \<open>What is no longer specified\<close>

definition PGBackRestBackupJobCompletion :: string where
  "PGBackRestBackupJobCompletion = labelPrefix @ ''pgbackrest-backup-job-completion''"

text \<open>
  How often an object is put on the list of those to keep: the kinds are told apart by their
  labels, the first that matches counts. What is put there never is deleted.
\<close>

definition kept_times :: "InstCluster \<Rightarrow> bool \<Rightarrow> Controlled \<Rightarrow> nat" where
  "kept_times cluster backupsSpecFound x =
     (let ls = Labels (co_meta x); repoName = str_at ls LabelPGBackRestRepo in
      if \<not> backupsSpecFound then 0
      else if ls LabelPGBackRestConfig \<noteq> None then 1
      else if ls LabelPGBackRestDedicated \<noteq> None
      then (if Name (co_meta x) \<noteq> Name (PGBackRestSSHConfig cluster) \<and> Name (co_meta x) \<noteq> Name (PGBackRestSSHSecret cluster)
            then 1 else 0)
      else if ls LabelPGBackRestRepoVolume \<noteq> None
      then length (filter (\<lambda>repo. RepoVolume repo \<noteq> None \<and> RepoNameOf repo = repoName) (ic_Repos cluster))
      else if ls LabelPGBackRestBackup \<noteq> None
      then length (filter (\<lambda>repo. RepoNameOf repo = repoName) (ic_Repos cluster))
      else if ls LabelPGBackRestCronJob \<noteq> None
      then (case find (\<lambda>repo. RepoNameOf repo = repoName) (ic_Repos cluster) of
              None \<Rightarrow> 0
            | Some repo \<Rightarrow> if backupScheduleFound repo (str_at ls LabelPGBackRestCronJob) then 1 else 0)
      else if ls LabelPGBackRestRestore \<noteq> None
      then (if Annotations (co_meta x) PGBackRestBackupJobCompletion \<noteq> None then 1 else 0) +
           (if \<not> ClusterBootstrapped cluster then 1 else 0)
      else if ls LabelPGBackRest \<noteq> None then 1
      else 0)"

fun cleanupRepoResources :: "'w reconciler \<Rightarrow> InstCluster \<Rightarrow> bool \<Rightarrow> Controlled list \<Rightarrow> ('w, Controlled list) io" where
  "cleanupRepoResources E cluster backupsSpecFound [] = ret []"
| "cleanupRepoResources E cluster backupsSpecFound (x # xs) =
     (if kept_times cluster backupsSpecFound x = 0
      then plain (rc_Delete_Object E x) (\<lambda>_. cleanupRepoResources E cluster backupsSpecFound xs)
      else plain (cleanupRepoResources E cluster backupsSpecFound xs)
        (\<lambda>ys. ret (replicate (kept_times cluster backupsSpecFound x) x @ ys)))"

definition job_kind :: "string \<Rightarrow> Job \<Rightarrow> bool" where
  "job_kind backupType job \<longleftrightarrow> str_at (Labels (j_meta job)) LabelPGBackRestBackup = backupType"

definition unstructuredToRepoResources ::
    "'w repo_parts \<Rightarrow> string \<Rightarrow> RepoResources \<Rightarrow> Controlled list \<Rightarrow> error + RepoResources" where
  "unstructuredToRepoResources P kind resources xs =
     (if kind = ''StatefulSetList''
      then map_sum id (\<lambda>ys. resources\<lparr>rr_hosts := rr_hosts resources @ ys\<rparr>) (pp_StatefulSets P xs)
      else if kind = ''CronJobList''
      then map_sum id (\<lambda>ys. resources\<lparr>rr_cronjobs := rr_cronjobs resources @ ys\<rparr>) (pp_CronJobs P xs)
      else if kind = ''JobList''
      then map_sum id (\<lambda>ys. resources\<lparr>
        rr_replicaCreateBackupJobs := rr_replicaCreateBackupJobs resources @ filter (job_kind BackupReplicaCreate) ys,
        rr_manualBackupJobs := rr_manualBackupJobs resources @ filter (job_kind BackupManual) ys\<rparr>) (pp_Jobs P xs)
      else if kind = ''PersistentVolumeClaimList''
      then map_sum id (\<lambda>ys. resources\<lparr>rr_pvcs := rr_pvcs resources @ ys\<rparr>) (pp_Claims P xs)
      else if kind \<in> {''ConfigMapList'', ''SecretList'', ''ServiceAccountList'', ''RoleList'', ''RoleBindingList''} then Inr resources
      else Inl (Errorf (''unexpected kind '' @ go_quote kind)))"

definition resource_kinds :: "string list" where
  "resource_kinds = [''StatefulSetList'', ''CronJobList'', ''JobList'', ''ConfigMapList'', ''PersistentVolumeClaimList'',
     ''SecretList'', ''ServiceAccountList'', ''RoleList'', ''RoleBindingList'']"

fun gather ::
    "'w reconciler \<Rightarrow> 'w repo_parts \<Rightarrow> InstCluster \<Rightarrow> bool \<Rightarrow> string list \<Rightarrow> RepoResources \<Rightarrow> ('w, RepoResources) io" where
  "gather E P cluster backupsSpecFound [] resources = ret resources"
| "gather E P cluster backupsSpecFound (kind # kinds) resources =
     plain (rc_List_Kind E kind (cluster_ns cluster)
         \<lparr>MatchLabels = PGBackRestSelector (cluster_name cluster), MatchExpressions = []\<rparr>) (\<lambda>items.
       if items = [] then gather E P cluster backupsSpecFound kinds resources
       else plain (cleanupRepoResources E cluster backupsSpecFound items) (\<lambda>owned.
         case unstructuredToRepoResources P kind resources owned of
           Inl e \<Rightarrow> throw e
         | Inr resources \<Rightarrow> gather E P cluster backupsSpecFound kinds resources))"

text \<open>The status of scheduled Jobs, which only users read, is left out, and so are the lists of
  RBAC objects, which nothing uses.\<close>

definition getPGBackRestResources ::
    "'w reconciler \<Rightarrow> 'w repo_parts \<Rightarrow> InstCluster \<Rightarrow> bool \<Rightarrow> ('w, RepoResources) io" where
  "getPGBackRestResources E P cluster backupsSpecFound = gather E P cluster backupsSpecFound resource_kinds empty_resources"

definition AuthorizeBackupRemovalAnnotation :: string where
  "AuthorizeBackupRemovalAnnotation = labelPrefix @ ''authorizeBackupRemoval''"

definition authorizeBackupRemovalAnnotationPresent :: "InstCluster \<Rightarrow> bool" where
  "authorizeBackupRemovalAnnotationPresent cluster \<longleftrightarrow>
     Annotations (cc_meta cluster) AuthorizeBackupRemovalAnnotation = Some ''true''"

text \<open>Whether backups are specified, the repository host is missing, and removal is authorized.\<close>

definition ObserveBackupUniverse ::
    "'w repo_parts \<Rightarrow> InstCluster \<Rightarrow> ('w, bool \<times> bool \<times> bool) io" where
  "ObserveBackupUniverse P cluster =
     attempt (pp_Get_StatefulSet P (object_key (mk_meta (cluster_ns cluster) (cluster_name cluster @ ''-repo-host''))))
       (\<lambda>e. if IsNotFound e
          then ret (pp_BackupsSpecFound P cluster, True, authorizeBackupRemovalAnnotationPresent cluster) else throw e)
       (\<lambda>_. ret (pp_BackupsSpecFound P cluster, False, authorizeBackupRemovalAnnotationPresent cluster))"

text \<open>Whether backups are specified, and whether reconciling may go on.\<close>

definition BackupsEnabled :: "'w repo_parts \<Rightarrow> InstCluster \<Rightarrow> ('w, bool \<times> bool) io" where
  "BackupsEnabled P cluster =
     plain (ObserveBackupUniverse P cluster) (\<lambda>(specFound, stsNotFound, annotationFound).
       ret (specFound, specFound \<or> annotationFound \<or> stsNotFound))"

subsection \<open>All of it\<close>

definition set_repo_host_ready :: "'w reconciler \<Rightarrow> InstCluster \<Rightarrow> InstCluster" where
  "set_repo_host_ready E cluster =
     (let (status, reason) = (case ic_RepoHostReady cluster of
          None \<Rightarrow> (ConditionUnknown, ''RepoHostStatusMissing'')
        | Some True \<Rightarrow> (ConditionTrue, ''RepoHostReady'')
        | Some False \<Rightarrow> (ConditionFalse, ''RepoHostNotReady''))
      in set_condition E ConditionRepoHostReady status reason cluster)"

text \<open>\<open>sort.Slice\<close> by age; the host that is first is reconciled.\<close>

definition repo_host_name :: "InstCluster \<Rightarrow> RepoResources \<Rightarrow> string" where
  "repo_host_name cluster resources =
     (case sort_key (\<lambda>h. CreationTimestamp (s_meta h)) (rr_hosts resources) of
        [] \<Rightarrow> cluster_name cluster @ ''-repo-host'' | h # _ \<Rightarrow> Name (s_meta h))"

definition reconcileDedicatedRepoHost ::
    "'w reconciler \<Rightarrow> 'w repo_parts \<Rightarrow> InstCluster \<Rightarrow> RepoResources \<Rightarrow> observedInstances \<Rightarrow>
     ('w, InstCluster \<times> (error + Runner)) io" where
  "reconcileDedicatedRepoHost E P cluster resources observed =
     attempt (pp_RepoHost P cluster (repo_host_name cluster resources) resources observed)
       (\<lambda>e. ret (set_repo_host_ready E cluster, Inl e))
       (\<lambda>repoHost. ret (set_repo_host_ready E (cluster\<lparr>ic_RepoHostReady := Some (getRepoHostStatus repoHost)\<rparr>), Inr repoHost))"

definition after :: "int \<Rightarrow> reconcile_Result \<Rightarrow> reconcile_Result" where
  "after seconds result = result\<lparr>RequeueAfter := seconds * Second\<rparr>"

text \<open>An operation whose error only delays the next reconciliation.\<close>

definition or_requeue :: "int \<Rightarrow> bool \<Rightarrow> reconcile_Result \<Rightarrow> reconcile_Result" where
  "or_requeue seconds failed result = (if failed then after seconds result else result)"

definition backup_jobs ::
    "'w reconciler \<Rightarrow> 'w repo_parts \<Rightarrow> merge_fn \<Rightarrow> gover \<Rightarrow> InstCluster \<Rightarrow> observedInstances \<Rightarrow> RepoResources \<Rightarrow> string \<Rightarrow>
     string \<Rightarrow> reconcile_Result \<Rightarrow> ('w, InstCluster \<times> reconcile_Result \<times> error option) io" where
  "backup_jobs E P mrg gv cluster instances resources sa configHash result =
     (let B = (pp_Backup P)\<lparr>bp_ServiceAccount := sa\<rparr> in
      plain (reconcileScheduledBackups E P mrg gv cluster sa (rr_cronjobs resources)) (\<lambda>requeue.
      plain (reconcileReplicaCreateBackup E B mrg gv cluster instances (rr_replicaCreateBackupJobs resources) configHash
          (replica_create_repo cluster)) (\<lambda>(cluster, err1).
      plain (reconcileManualBackup E B mrg gv cluster (rr_manualBackupJobs resources) instances) (\<lambda>(cluster, err2).
        ret (cluster, or_requeue 1 (err2 \<noteq> None) (or_requeue 1 (err1 \<noteq> None) (or_requeue 10 requeue result)), None)))))"

definition repos_and_jobs ::
    "'w reconciler \<Rightarrow> 'w repo_parts \<Rightarrow> merge_fn \<Rightarrow> gover \<Rightarrow> InstCluster \<Rightarrow> observedInstances \<Rightarrow> RepoResources \<Rightarrow> string \<Rightarrow>
     Runner \<Rightarrow> reconcile_Result \<Rightarrow> ('w, InstCluster \<times> reconcile_Result \<times> error option) io" where
  "repos_and_jobs E P mrg gv cluster instances resources sa repoHost result =
     (case CalculateConfigHashes E cluster of
        Inl e \<Rightarrow> ret (cluster, after 1 result, None)
      | Inr (configHashes, configHash) \<Rightarrow>
          plain (reconcileRepos E P mrg cluster configHashes resources) (\<lambda>(cluster, err).
            if err \<noteq> None then ret (cluster, after 1 result, None)
            else plain (attempt (pp_Config P cluster (Name (s_meta repoHost)) configHash (sort (map i_name (forCluster instances))))
                (\<lambda>_. ret True) (\<lambda>_. ret False)) (\<lambda>failed.
              plain (reconcileStanzaCreate E P cluster instances configHash) (\<lambda>(cluster, mismatch, err).
                backup_jobs E P mrg gv cluster instances resources sa configHash
                  (or_requeue 10 (err \<noteq> None \<or> mismatch) (or_requeue 1 failed result))))))"

definition reconcilePGBackRest ::
    "'w reconciler \<Rightarrow> 'w repo_parts \<Rightarrow> merge_fn \<Rightarrow> gover \<Rightarrow> bool \<Rightarrow> InstCluster \<Rightarrow> observedInstances \<Rightarrow>
     ('w, InstCluster \<times> reconcile_Result \<times> error option) io" where
  "reconcilePGBackRest E P mrg gv backupsSpecFound cluster instances =
     (let st = deref (cc_PGBackRest cluster) \<lparr>ManualBackupStatus = None, RestoreStatus = None\<rparr>;
          cluster = cluster\<lparr>cc_PGBackRest := Some st\<rparr>
      in attempt (getPGBackRestResources E P cluster backupsSpecFound) (\<lambda>e. ret (cluster, empty_Result, Some e)) (\<lambda>resources.
         if \<not> backupsSpecFound
         then ret (cluster\<lparr>cc_PGBackRest := Some (st\<lparr>ManualBackupStatus := None\<rparr>), cs_RepoStatus := [],
                ic_RepoHostReady := None\<rparr>, empty_Result, None)
         else attempt (pp_RBAC P cluster) (\<lambda>_. ret (cluster, after 1 empty_Result, None)) (\<lambda>sa.
           plain (reconcileDedicatedRepoHost E P cluster resources instances) (\<lambda>(cluster, repoHost).
             case repoHost of
               Inl e \<Rightarrow> ret (cluster, after 1 empty_Result, None)
             | Inr repoHost \<Rightarrow>
                 plain (attempt (pp_Secret P cluster repoHost) (\<lambda>_. ret True) (\<lambda>_. ret False)) (\<lambda>failed.
                   repos_and_jobs E P mrg gv cluster instances resources sa repoHost (or_requeue 1 failed empty_Result))))))"

section \<open>Properties\<close>

subsection \<open>The status of repositories\<close>

lemma volume_status_name:
  "RepoStatusName (volume_status old rc desired rv) = str_at (Labels (rv_meta rv)) LabelPGBackRestRepo"
  by (auto simp: volume_status_def update_volume_status_def new_repo_status_def Let_def find_Some_iff split: option.splits)

lemma external_status_name: "RepoStatusName (external_status old rc h) = fst h"
  by (auto simp: external_status_def update_external_status_def new_repo_status_def Let_def find_Some_iff
      split: option.splits prod.splits)

text \<open>
  C17: What is known of a repository holds of the repository as it is now. When the new status of a
  repository says that its stanza was created, or that the backup replicas are created from is
  complete, an old status of the same name said so for the same options and the same volume, and
  the complete backup is in the repository replicas are created from.
\<close>

theorem repo_status_current:
  assumes "s \<in> set (getRepoVolumeStatus old vols hashes replicaCreateRepo desired)"
    and "StanzaCreated s \<or> ReplicaCreateBackupComplete s"
  shows "\<exists>o'\<in>set old. RepoStatusName o' = RepoStatusName s \<and> RepoOptionsHash o' = RepoOptionsHash s \<and>
    RepoVolumeName o' \<in> {[], RepoVolumeName s} \<and> (StanzaCreated s \<longrightarrow> StanzaCreated o') \<and>
    (ReplicaCreateBackupComplete s \<longrightarrow> ReplicaCreateBackupComplete o' \<and> RepoStatusName s = replicaCreateRepo)"
proof -
  have found: "x \<in> set xs \<and> Q x" if "find Q xs = Some x" for Q and x :: RepoStatus and xs
    using that by (auto simp: find_Some_iff)
  from assms(1) consider rv where "s = volume_status old replicaCreateRepo desired rv"
    | h where "s = external_status old replicaCreateRepo h"
    by (auto simp: getRepoVolumeStatus_def)
  then show ?thesis
  proof cases
    case (1 rv)
    with assms(2) show ?thesis
      by (auto simp: volume_status_def update_volume_status_def new_repo_status_def Let_def
          split: option.splits if_splits dest!: found)
  next
    case (2 h)
    with assms(2) show ?thesis
      by (auto simp: external_status_def update_external_status_def new_repo_status_def Let_def
          split: option.splits prod.splits if_splits dest!: found)
  qed
qed

text \<open>
  C36: The status of repositories does not depend on the order in which Go iterates over the map of
  hashes, nor on the order of the volumes, as long as no two repositories have the same name.
\<close>

theorem repo_status_order:
  assumes "mset vols' = mset vols" and "mset hashes' = mset hashes"
    and "distinct (map (\<lambda>rv. str_at (Labels (rv_meta rv)) LabelPGBackRestRepo) vols @ map fst hashes)"
  shows "getRepoVolumeStatus old vols' hashes' replicaCreateRepo desired =
    getRepoVolumeStatus old vols hashes replicaCreateRepo desired"
proof -
  let ?all = "\<lambda>vs hs. map (volume_status old replicaCreateRepo desired) vs @ map (external_status old replicaCreateRepo) hs"
  have "map RepoStatusName (?all vols hashes) = map (\<lambda>rv. str_at (Labels (rv_meta rv)) LabelPGBackRestRepo) vols @ map fst hashes"
    by (simp add: comp_def volume_status_name external_status_name)
  with assms(3) have "distinct (map RepoStatusName (?all vols hashes))" by (simp only:)
  then have "inj_on RepoStatusName (set (?all vols hashes))" by (simp only: distinct_map)
  moreover have "mset (?all vols' hashes') = mset (?all vols hashes)" using assms(1,2) by (simp only: mset_append mset_map)
  moreover from this have "set (?all vols' hashes') = set (?all vols hashes)" by (rule mset_eq_setD)
  ultimately show ?thesis
    unfolding getRepoVolumeStatus_def by (intro sort_key_inj_key_eq) (simp_all only: mset_sort sorted_sort_key)
qed

subsection \<open>Volumes and stanzas\<close>


text \<open>
  C38: A pod whose configuration is not up to date is never told from a failure: the script prints
  its message to standard error only, the code compares the two outputs joined with a space, and
  what starts with a space is no message of the script. So creating a stanza before the
  configuration has reached the pod is an error, not the expected wait.
\<close>

theorem config_mismatch_is_an_error:
  assumes "\<And>stdin args. exec stdin args w = (Inr (Some e, [], message), w')"
    and "message \<in> {errMsgConfigHashMismatch, errMsgStaleReposWithVolumesConfig}"
  shows "StanzaCreateOrUpgrade exec configHash cluster w = (Inr (False, Some (Wrap ('' '' @ message) e)), w')"
  using assms(2)
  by (auto simp: StanzaCreateOrUpgrade_def plain_def attempt_def ret_def assms(1) errMsgConfigHashMismatch_def
      errMsgStaleReposWithVolumesConfig_def)

subsection \<open>Removal\<close>

text \<open>Deleting \<open>x\<close> makes no difference where \<open>x\<close> is kept.\<close>

lemma cleanup_kept:
  assumes "kept_times cluster specFound x \<noteq> 0" and "\<forall>y. y \<noteq> x \<longrightarrow> f y = g y"
  shows "cleanupRepoResources (E\<lparr>rc_Delete_Object := f\<rparr>) cluster specFound xs =
    cleanupRepoResources (E\<lparr>rc_Delete_Object := g\<rparr>) cluster specFound xs"
proof -
  have "f y = g y" if "kept_times cluster specFound y = 0" for y using that assms by metis
  then show ?thesis by (induction xs) simp_all
qed

lemma gather_kept:
  assumes "kept_times cluster specFound x \<noteq> 0" and "\<forall>y. y \<noteq> x \<longrightarrow> f y = g y"
  shows "gather (E\<lparr>rc_Delete_Object := f\<rparr>) P cluster specFound kinds resources =
    gather (E\<lparr>rc_Delete_Object := g\<rparr>) P cluster specFound kinds resources"
  by (induction kinds arbitrary: resources) (simp_all add: cleanup_kept [OF assms] cong: if_cong sum.case_cong)

text \<open>
  C16: The volume of a repository is deleted only when it is to be. If backups may be reconciled, and
  what the reconciliation of pgBackRest's objects comes to depends on deleting a claim for the volume of
  a repository, then either backups are specified and no repository of that name has a volume in
  the specification any more, or backups are not specified and there is the annotation that
  authorizes their removal or the repository host is already gone.
\<close>

theorem repo_volume_deleted_only_if_unspecified:
  assumes "BackupsEnabled P cluster w0 = (Inr (specFound, True), w1)"
    and "Labels (co_meta x) LabelPGBackRestRepoVolume \<noteq> None" and "Labels (co_meta x) LabelPGBackRestConfig = None"
    and "Labels (co_meta x) LabelPGBackRestDedicated = None" and "\<forall>y. y \<noteq> x \<longrightarrow> f y = g y"
    and "getPGBackRestResources (E\<lparr>rc_Delete_Object := f\<rparr>) P cluster specFound w \<noteq>
      getPGBackRestResources (E\<lparr>rc_Delete_Object := g\<rparr>) P cluster specFound w"
  shows "if specFound
    then \<forall>repo\<in>set (ic_Repos cluster). RepoNameOf repo = str_at (Labels (co_meta x)) LabelPGBackRestRepo \<longrightarrow> RepoVolume repo = None
    else Annotations (cc_meta cluster) AuthorizeBackupRemovalAnnotation = Some ''true'' \<or>
      (\<exists>e. fst (pp_Get_StatefulSet P (Namespace (cc_meta cluster), Name (cc_meta cluster) @ ''-repo-host'') w0) = Inl e \<and> IsNotFound e)"
proof -
  have "kept_times cluster specFound x = 0"
    using gather_kept [OF _ assms(5)] assms(6) unfolding getPGBackRestResources_def by metis
  then have "\<forall>repo\<in>set (ic_Repos cluster). RepoNameOf repo = str_at (Labels (co_meta x)) LabelPGBackRestRepo \<longrightarrow> RepoVolume repo = None"
    if specFound using that assms(2-4) by (auto simp: kept_times_def Let_def filter_empty_conv)
  moreover have "authorizeBackupRemovalAnnotationPresent cluster \<or>
      (\<exists>e. fst (pp_Get_StatefulSet P (Namespace (cc_meta cluster), Name (cc_meta cluster) @ ''-repo-host'') w0) = Inl e \<and> IsNotFound e)"
    if "\<not> specFound"
    using that assms(1)
    by (auto simp: BackupsEnabled_def ObserveBackupUniverse_def attempt_def plain_def ret_def throw_def object_key_def mk_meta_def
        split: sum.splits prod.splits if_splits)
  ultimately show ?thesis by (auto simp: authorizeBackupRemovalAnnotationPresent_def)
qed

subsection \<open>What steers a restore is kept\<close>

text \<open>The observation that a restore reconciles pgBackRest with: nothing but a list of instances.\<close>

definition only_instances :: "Instance list \<Rightarrow> observedInstances" where
  "only_instances xs = \<lparr>forCluster = xs, byNameAt = Map.empty, bySetAt = (\<lambda>_. []), setNames = []\<rparr>"

definition keeps_mark :: "'w reconciler \<Rightarrow> mark \<Rightarrow> ('w, InstCluster \<times> 'a) io \<Rightarrow> bool" where
  "keeps_mark E m k \<longleftrightarrow> (\<forall>w c x w'. k w = (Inr (c, x), w') \<longrightarrow> restore_mark E c = m)"

named_theorems keeping

lemma mark_ret [keeping]: "restore_mark E c = m \<Longrightarrow> keeps_mark E m (ret (c, x))"
  by (simp add: keeps_mark_def ret_def)

lemma mark_throw [keeping]: "keeps_mark E m (throw e)"
  by (simp add: keeps_mark_def throw_def)

lemma mark_plain: "(\<And>x. keeps_mark E m (k x)) \<Longrightarrow> keeps_mark E m (plain f k)"
  by (fastforce simp: keeps_mark_def plain_def attempt_def throw_def split: sum.splits prod.splits if_splits)

lemma mark_attempt: "(\<And>e. keeps_mark E m (h e)) \<Longrightarrow> (\<And>x. keeps_mark E m (k x)) \<Longrightarrow> keeps_mark E m (attempt f h k)"
  by (fastforce simp: keeps_mark_def attempt_def split: sum.splits prod.splits if_splits)

lemma mark_bind:
  "keeps_mark E m f \<Longrightarrow> (\<And>c x. restore_mark E c = m \<Longrightarrow> keeps_mark E m (k (c, x))) \<Longrightarrow> keeps_mark E m (plain f k)"
  by (fastforce simp: keeps_mark_def plain_def attempt_def throw_def split: sum.splits prod.splits if_splits)

lemma mark_returning [keeping]: "restore_mark E c = m \<Longrightarrow> keeps_mark E m (returning c f)"
  by (auto simp: returning_def intro!: mark_attempt mark_ret)

lemma mark_same:
  "restore_mark E (c\<lparr>cs_RepoStatus := rs\<rparr>) = restore_mark E c" "restore_mark E (c\<lparr>ic_RepoHostReady := r\<rparr>) = restore_mark E c"
  by (simp_all add: mark_defs)

lemma mark_status: "map_option RestoreStatus (cc_PGBackRest c) = map_option RestoreStatus x \<or>
    cc_PGBackRest c = None \<and> map_option RestoreStatus x = Some None \<Longrightarrow>
  restore_mark E (c\<lparr>cc_PGBackRest := x\<rparr>) = restore_mark E c"
  by (cases x; cases "cc_PGBackRest c") (auto simp: mark_defs)

lemma mark_set_manual: "set_manual ms c = Inr c' \<Longrightarrow> restore_mark E c' = restore_mark E c"
  by (auto simp: set_manual_def mark_defs split: option.splits)

context restoring
begin

lemma mark_set_other:
  assumes "t \<notin> {ConditionPGBackRestRestoreProgressing, ConditionPostgresDataInitialized}"
  shows "restore_mark E (set_condition E t st reason c) = restore_mark E c"
  using assms by (auto simp: mark_defs set_condition_def found_other_put)

lemma mark_drop_other:
  assumes "t \<notin> {ConditionPGBackRestRestoreProgressing, ConditionPostgresDataInitialized}"
  shows "restore_mark E (remove_condition E t c) = restore_mark E c"
  using assms by (auto simp: mark_defs remove_condition_def found_other_drop)

lemma mark_conditions:
  "restore_mark E (set_replica_repo_ready E c) = restore_mark E c" "restore_mark E (set_repo_host_ready E c) = restore_mark E c"
  "restore_mark E (set_replica_create E n c) = restore_mark E c"
  "restore_mark E (set_condition E PersistentVolumeResizing st reason c) = restore_mark E c"
  "restore_mark E (remove_condition E ConditionManualBackupSuccessful c) = restore_mark E c"
  by (auto simp: set_replica_repo_ready_def set_repo_host_ready_def set_replica_create_def Let_def
      ConditionReplicaRepoReady_def ConditionRepoHostReady_def ConditionReplicaCreate_def PersistentVolumeResizing_def
      ConditionManualBackupSuccessful_def ConditionPGBackRestRestoreProgressing_def ConditionPostgresDataInitialized_def
      split: list.split prod.split intro!: mark_set_other mark_drop_other)

lemma mark_follow_manual:
  assumes "cc_PGBackRest c = Some st"
  shows "restore_mark E (follow_manual E j st c) = restore_mark E c"
proof -
  have "ConditionManualBackupSuccessful \<notin> {ConditionPGBackRestRestoreProgressing, ConditionPostgresDataInitialized}"
    by (simp add: ConditionManualBackupSuccessful_def ConditionPGBackRestRestoreProgressing_def ConditionPostgresDataInitialized_def)
  note other = mark_set_other [OF this]
  have status: "cc_PGBackRest (set_condition E t s r d) = cc_PGBackRest d" for t s r d by (simp add: set_condition_def)
  show ?thesis using assms by (simp add: follow_manual_def other status mark_status [OF disjI1] Let_def split: option.splits)
qed

lemma keeps_volumes: "keeps_mark E (restore_mark E c) (apply_volumes E P resources desired repos c)"
proof (induction repos arbitrary: c)
  case (Cons repo repos)
  have applied: "keeps_mark E (restore_mark E c) (applyRepoVolumeIntent E P c s n resources d)" for s n d
    by (auto simp: applyRepoVolumeIntent_def Let_def mark_conditions split: sum.split prod.split option.split
        intro!: keeping mark_attempt)
  have volumes: "restore_mark E d = m \<Longrightarrow> keeps_mark E m (apply_volumes E P resources desired repos d)" for d m
    using Cons by blast
  show ?case
    by (auto split: option.split sum.split prod.split intro!: mark_bind [OF applied] mark_bind [OF volumes] keeping Cons)
qed (auto intro: keeping)

lemma keeps_repos: "keeps_mark E (restore_mark E c) (reconcileRepos E P mrg c hashes resources)"
  unfolding reconcileRepos_def
  by (auto simp: mark_same intro!: mark_attempt mark_bind [OF keeps_volumes] keeping)

lemma keeps_stanza: "keeps_mark E (restore_mark E c) (reconcileStanzaCreate E P c instances configHash)"
  by (auto simp: reconcileStanzaCreate_def Let_def mark_same mark_conditions split: option.split prod.split
      intro!: mark_plain keeping)

lemma keeps_replica_create:
  "keeps_mark E (restore_mark E c) (reconcileReplicaCreateBackup E B mrg gv c instances jobs configHash repoName)"
  by (auto simp: reconcileReplicaCreateBackup_def Let_def mark_same mark_conditions split: option.split list.split intro!: keeping)

lemma keeps_request: "restore_mark E kept = m \<Longrightarrow> keeps_mark E m (request_job E B mrg gv kept c fin job manual)"
  by (auto simp: request_job_def intro!: mark_attempt keeping)

lemma keeps_manual_request:
  "restore_mark E (if copied then ref else c) = m \<Longrightarrow> keeps_mark E m (manual_request E B mrg gv copied ref c st job instances)"
  by (auto simp: manual_request_def Let_def mark_conditions dest!: mark_set_manual [where E = E] split: option.split sum.split
      intro!: keeping keeps_request)

lemma keeps_manual: "keeps_mark E (restore_mark E c) (reconcileManualBackup E B mrg gv c jobs instances)"
proof -
  have "keeps_mark E (restore_mark E c) (manual_backup E B mrg gv copied c d jobs instances)" if "copied \<or> d = c" for copied d
    using that
    by (auto simp: manual_backup_def Let_def mark_follow_manual split: option.split list.split
        intro!: keeping keeps_manual_request)
  then show ?thesis by (auto simp: reconcileManualBackup_def intro!: mark_attempt keeping)
qed

lemma keeps_jobs: "restore_mark E c = m \<Longrightarrow> keeps_mark E m (backup_jobs E P mrg gv c instances resources sa configHash result)"
proof -
  have manual: "restore_mark E d = m \<Longrightarrow> keeps_mark E m (reconcileManualBackup E B mrg gv d jobs instances)" for d m B jobs
    using keeps_manual by blast
  have replica: "restore_mark E d = m \<Longrightarrow>
      keeps_mark E m (reconcileReplicaCreateBackup E B mrg gv d instances jobs configHash repoName)" for d m B jobs repoName
    using keeps_replica_create by blast
  assume "restore_mark E c = m"
  then show ?thesis unfolding backup_jobs_def Let_def
    by (auto intro!: mark_plain [where f = "reconcileScheduledBackups _ _ _ _ _ _ _"] mark_bind [OF replica] mark_bind [OF manual] keeping)
qed

lemma keeps_repos_and_jobs:
  "restore_mark E c = m \<Longrightarrow> keeps_mark E m (repos_and_jobs E P mrg gv c instances resources sa repoHost result)"
proof -
  have repos: "restore_mark E d = m \<Longrightarrow> keeps_mark E m (reconcileRepos E P mrg d hashes resources)" for d m hashes
    using keeps_repos by blast
  have stanza: "restore_mark E d = m \<Longrightarrow> keeps_mark E m (reconcileStanzaCreate E P d instances configHash)" for d m configHash
    using keeps_stanza by blast
  assume "restore_mark E c = m"
  then show ?thesis unfolding repos_and_jobs_def
    by (auto split: sum.split prod.split intro!: mark_bind [OF repos] mark_plain [where f = "attempt _ _ _"]
        mark_bind [OF stanza] keeps_jobs keeping)
qed

lemma keeps_reconcile: "keeps_mark E (restore_mark E c) (reconcilePGBackRest E P mrg gv specFound c instances)"
proof -
  let ?st = "deref (cc_PGBackRest c) \<lparr>ManualBackupStatus = None, RestoreStatus = None\<rparr>"
  have start: "restore_mark E (c\<lparr>cc_PGBackRest := Some ?st\<rparr>) = restore_mark E c"
    by (rule mark_status) (cases "cc_PGBackRest c"; simp add: deref_def)
  have ended: "restore_mark E (c\<lparr>cc_PGBackRest := Some (?st\<lparr>ManualBackupStatus := None\<rparr>), cs_RepoStatus := [], ic_RepoHostReady := None\<rparr>)
      = restore_mark E c"
    unfolding mark_same by (rule mark_status) (cases "cc_PGBackRest c"; simp add: deref_def)
  have host: "restore_mark E d = m \<Longrightarrow> keeps_mark E m (reconcileDedicatedRepoHost E P d resources instances)" for d m resources
    by (auto simp: reconcileDedicatedRepoHost_def mark_same mark_conditions intro!: mark_attempt keeping)
  show ?thesis unfolding reconcilePGBackRest_def Let_def
    by (auto simp: start ended split: sum.split prod.split intro!: mark_attempt mark_bind [OF host]
        mark_plain [where f = "attempt _ _ _"] keeps_repos_and_jobs keeping)
qed

end

text \<open>
  C8: A restore is carried out only on a cluster that was taken down for it. Over every history of
  reconciliations, each of which reconciles pgBackRest as \<open>reconcilePGBackRest\<close> does, when the next
  one goes as far as populating the data directory (its outcome depends on the parts that write
  volumes, configuration and the Job), an earlier one, made for the same restore, had found no
  database container running, no restore Job and no object of Patroni.
\<close>

theorem populated_after_teardown:
  assumes "restore_history E mrg P c es"
    and "status_conditions (rc_FindCondition E) (rc_SetCondition E) (rc_RemoveCondition E)"
    and "rp_PGBackRest P = (\<lambda>c xs. reconcilePGBackRest E R mrg gv specFound c (only_instances xs))"
    and "restored_stays E mrg c w"
    and "reconcileDataSource E mrg P c observed w \<noteq> reconcileDataSource E mrg Q c observed w"
  shows "\<exists>e\<in>set es. torn_down E mrg (status_restore_id c) e"
proof -
  have "restoring E" using assms(2) by (simp add: restoring_def)
  then have "pgbackrest_keeps_mark E P"
    using restoring.keeps_reconcile [of E] by (fastforce simp: pgbackrest_keeps_mark_def assms(3) keeps_mark_def)
  with assms show ?thesis by (intro populating_after_teardown)
qed

section \<open>Examples\<close>

text \<open>Parts in memory: everything is read and written without an error.\<close>

definition claim_of :: "Controlled \<Rightarrow> RepoClaim" where
  "claim_of x = \<lparr>rv_meta = co_meta x, rv_Bound = True, rv_VolumeName = ''v'', rv_Limit = 0, rv_Request = 1, rv_Capacity = 1\<rparr>"

definition mem_repo_parts :: "cmem repo_parts" where
  "mem_repo_parts = \<lparr>pp_Backup = mem_backup_parts, pp_StatefulSets = (\<lambda>xs. Inr (map (\<lambda>x. (example_runner [])\<lparr>s_meta := co_meta x\<rparr>) xs)),
     pp_Jobs = (\<lambda>_. Inr []), pp_CronJobs = (\<lambda>xs. Inr (map co_meta xs)), pp_Claims = (\<lambda>xs. Inr (map claim_of xs)),
     pp_entries = (\<lambda>m. List.map_filter (\<lambda>n. map_option (Pair n) (m n)) [''repo1'', ''repo2'', ''repo3'', ''repo4'']),
     pp_AutoGrow = False, pp_BackupsSpecFound = (\<lambda>c. ic_Repos c \<noteq> []),
     pp_Get_StatefulSet = mem_get cm_runners runner_key, pp_RBAC = (\<lambda>_. ret ''sa''),
     pp_RepoHost = (\<lambda>_ n _ _. ret (example_runner n)), pp_Secret = (\<lambda>_ _. ret ()), pp_Config = (\<lambda>_ _ _ _. ret ()),
     pp_volume_limit = (\<lambda>_. 0),
     pp_generate_claim = (\<lambda>c _ n _. Inr \<lparr>rv_meta = named n [LabelPGBackRestRepo \<mapsto> n], rv_Bound = False, rv_VolumeName = [],
       rv_Limit = 0, rv_Request = 1, rv_Capacity = 0\<rparr>),
     pp_Apply_Claim = (\<lambda>c. ret (c\<lparr>rv_Bound := True, rv_VolumeName := ''v''\<rparr>)), pp_claim_error = (\<lambda>e. (None, Some e)),
     pp_Own_CronJob = (\<lambda>_. Inr), pp_Apply_CronJob = (\<lambda>_. ret ())\<rparr>"

theorem repo_status_current_witness:
  "\<exists>o'\<in>set [repo1_status\<lparr>RepoBound := False\<rparr>]. StanzaCreated o'"
proof -
  let ?s = "external_status [repo1_status\<lparr>RepoBound := False\<rparr>] ''repo1'' (''repo1'', [])"
  have s: "?s \<in> set (getRepoVolumeStatus [repo1_status\<lparr>RepoBound := False\<rparr>] [] [(''repo1'', [])] ''repo1'' Map.empty)" "StanzaCreated ?s"
    by code_simp+
  then show ?thesis using repo_status_current [OF s(1)] by blast
qed

theorem repo_status_order_witness:
  "getRepoVolumeStatus [] [] [(''repo2'', ''b''), (''repo1'', ''a'')] ''repo1'' Map.empty =
    getRepoVolumeStatus [] [] [(''repo1'', ''a''), (''repo2'', ''b'')] ''repo1'' Map.empty"
  by (rule repo_status_order) simp_all


theorem config_mismatch_is_an_error_witness:
  "\<exists>e. StanzaCreateOrUpgrade (\<lambda>_ _. ret (Some (Errorf ''exit 1''), [], errMsgConfigHashMismatch)) ''h'' restoring_cluster empty_memory =
     (Inr (False, Some e), empty_memory)"
  using config_mismatch_is_an_error [of "\<lambda>_ _. ret (Some (Errorf ''exit 1''), [], errMsgConfigHashMismatch)" empty_memory
    "Errorf ''exit 1''" errMsgConfigHashMismatch empty_memory] by (auto simp: ret_def)

text \<open>The claim for the volume of a repository, and a cluster without backups whose repository host is gone.\<close>

definition volume_object :: Controlled where
  "volume_object = \<lparr>co_kind = ''PersistentVolumeClaim'',
     co_meta = named ''hippo-repo1'' [LabelCluster \<mapsto> ''hippo'', LabelPGBackRest \<mapsto> [], LabelPGBackRestRepo \<mapsto> ''repo1'',
       LabelPGBackRestRepoVolume \<mapsto> []], co_controller = None\<rparr>"

theorem repo_volume_deleted_only_if_unspecified_witness:
  "\<exists>e. fst (pp_Get_StatefulSet mem_repo_parts (Namespace example_meta, Name example_meta @ ''-repo-host'') empty_memory) = Inl e"
proof -
  let ?c = "restoring_cluster\<lparr>ic_Repos := []\<rparr>" and ?w = "empty_memory\<lparr>cm_objects := [volume_object]\<rparr>"
  let ?f = "\<lambda>y. if y = volume_object then throw (Panic []) else ret ()" and ?g = "\<lambda>y :: Controlled. ret ()"
  let ?run = "\<lambda>f. getPGBackRestResources (cluster_memory\<lparr>rc_Delete_Object := f\<rparr>) mem_repo_parts ?c False ?w"
  have kept: "kept_times ?c False volume_object = 0" by code_simp
  have listed: "rc_List_Kind cluster_memory k (cluster_ns ?c) \<lparr>MatchLabels = PGBackRestSelector (cluster_name ?c), MatchExpressions = []\<rparr> ?w =
      (Inr (if k = ''PersistentVolumeClaimList'' then [volume_object] else []), ?w)" for k
  proof -
    have "match_labels (PGBackRestSelector (cluster_name ?c)) (Labels (co_meta volume_object))"
      "Namespace (co_meta volume_object) = cluster_ns ?c" by code_simp+
    then show ?thesis by (auto simp: cluster_memory_def mem_list_def selects_def volume_object_def look_def ret_def)
  qed
  have "fst (?run ?f) = Inl (Panic [])" "\<not> isl (fst (?run ?g))"
    by (simp_all add: getPGBackRestResources_def resource_kinds_def plain_def attempt_def listed [simplified] kept ret_def throw_def
        unstructuredToRepoResources_def mem_repo_parts_def)
  then have differ: "?run ?f \<noteq> ?run ?g" by force
  have labels: "Labels (co_meta volume_object) LabelPGBackRestRepoVolume \<noteq> None" "Labels (co_meta volume_object) LabelPGBackRestConfig = None"
    "Labels (co_meta volume_object) LabelPGBackRestDedicated = None" by code_simp+
  have "fst (BackupsEnabled mem_repo_parts ?c empty_memory) = Inr (False, True)" by code_simp
  then have "BackupsEnabled mem_repo_parts ?c empty_memory = (Inr (False, True), snd (BackupsEnabled mem_repo_parts ?c empty_memory))"
    by (metis prod.collapse)
  from repo_volume_deleted_only_if_unspecified [OF this labels _ differ] show ?thesis
    by (auto simp: restoring_cluster_def split: if_splits)
qed

text \<open>A cluster that is to be restored, with one repository on a volume, and the first two reconciliations.\<close>

definition restored_parts :: "nat \<Rightarrow> cmem restore_parts" where
  "restored_parts n = (mem_parts n)\<lparr>rp_PGBackRest :=
     (\<lambda>c xs. reconcilePGBackRest cluster_memory mem_repo_parts (++) same_version True c (only_instances xs))\<rparr>"

definition volume_cluster :: InstCluster where
  "volume_cluster = restoring_cluster\<lparr>ic_Repos := [\<lparr>RepoNameOf = ''repo1'', RepoAzureContainer = None, RepoGCSBucket = None,
     RepoS3Spec = None, RepoVolume = Some JNull, RepoSchedules = None\<rparr>]\<rparr>"

definition data_source_step :: "nat \<Rightarrow> InstCluster \<Rightarrow> cmem \<Rightarrow> (error + InstCluster \<times> bool \<times> error option) \<times> cmem" where
  "data_source_step n c = reconcileDataSource cluster_memory (++) (restored_parts n) c nothing_observed"

definition prepared_cluster :: InstCluster where
  "prepared_cluster = (case data_source_step 5 volume_cluster empty_memory of
     (Inr (c, _), _) \<Rightarrow> c | (Inl _, _) \<Rightarrow> volume_cluster)"

theorem populated_after_teardown_witness:
  "\<exists>es. restore_history cluster_memory (++) (restored_parts 5) prepared_cluster es \<and>
     (\<exists>e\<in>set es. torn_down cluster_memory (++) (status_restore_id prepared_cluster) e)"
proof -
  have "\<not> isl (fst (data_source_step 5 volume_cluster empty_memory))" by code_simp
  then obtain c b err w where "data_source_step 5 volume_cluster empty_memory = (Inr (c, b, err), w)"
    using not_isl_run by (metis prod_cases3)
  moreover from this have "prepared_cluster = c" by (simp add: prepared_cluster_def)
  moreover have "status_restore_id volume_cluster = []" "cs_InstanceSets volume_cluster \<noteq> []"
    by (simp_all add: volume_cluster_def restoring_cluster_def status_restore_id_def instances_cluster_def PGCluster.defs)
  moreover have "\<not> data_initialized cluster_memory volume_cluster" "\<not> data_initialized cluster_memory prepared_cluster" by code_simp+
  ultimately have h: "restore_history cluster_memory (++) (restored_parts 5) prepared_cluster
      [(volume_cluster, nothing_observed, empty_memory)]"
    by (intro restore_history.reconciled [OF restore_history.created]) (auto simp: restored_stays_def data_source_step_def)
  have "cm_timeline (snd (data_source_step 5 prepared_cluster empty_memory)) = 5"
    "cm_timeline (snd (data_source_step 6 prepared_cluster empty_memory)) = 6" by code_simp+
  then have "data_source_step 5 prepared_cluster empty_memory \<noteq> data_source_step 6 prepared_cluster empty_memory" by auto
  then show ?thesis
    using h \<open>\<not> data_initialized cluster_memory prepared_cluster\<close>
      populated_after_teardown [OF h cmc.status_conditions_axioms, of mem_repo_parts same_version True empty_memory nothing_observed "restored_parts 6"]
    by (auto simp: restored_stays_def data_source_step_def restored_parts_def)
qed


end
