(* ===== verification/Percona_Status.thy ===== *)
theory Percona_Status
  imports Repositories
begin

text \<open>
  The status of the Percona resource of a cluster: \<open>status.go\<close> and \<open>standby.go\<close> of
  \<open>percona/controller/pgcluster\<close>, with \<open>GetPrimaryPod\<close> of \<open>percona/postgres\<close>.
  What the status is about is read from the status of the \<open>PostgresCluster\<close>.
\<close>

section \<open>Data\<close>

record PostgresInstanceSetStatus =
  set_Name :: string
  set_Size :: int32
  set_Ready :: int32

record StandbyStatus =
  LagBytes :: "64 word"
  LagLastComputedAt :: "time option"

text \<open>
  \<open>MaxAcceptableLag\<close> is a \<open>resource.Quantity\<close> as \<open>AsDec\<close> gives it: an
  integer and a scale, the quantity being the integer divided by ten to the scale.
\<close>

record PerconaStandbySpec =
  sb_Spec :: StandbySpec
  MaxAcceptableLag :: "(int \<times> int) option"

record PatroniStatus =
  SystemIdentifier :: string
  SwitchoverTimeline :: "int option"
  SwitchoverOf :: "string option"

text \<open>
  The parts of a \<open>PerconaPGCluster\<close> that its status needs besides those of \<open>Kube\<close>.
  The section \<open>proxy\<close> is followed as in \<open>Cluster_Settings\<close>; the type of the exposed
  service is \<open>None\<close> where there is no such section. \<open>px_Metadata\<close> are labels and
  annotations for all objects, the custom secrets are whether they are specified, and
  \<open>px_DataSource\<close> has the names of the repositories of its two sections.
\<close>

record PerconaCluster = PerconaPGCluster +
  px_Proxy :: "int32 option option option"
  px_ExposeType :: "string option"
  px_CustomExtensions :: "string list"
  px_Standby :: "PerconaStandbySpec option"
  px_PostgresSize :: int32
  px_PostgresReady :: int32
  px_InstanceSetStatus :: "PostgresInstanceSetStatus list"
  px_PGBouncerSize :: int32
  px_PGBouncerReady :: int32
  px_Host :: string
  px_InstalledCustomExtensions :: "string list"
  px_StandbyStatus :: "StandbyStatus option"
  px_ObservedGeneration :: int
  px_Patroni :: "PatroniStatus option"
  px_Metadata :: "(strmap \<times> strmap) option"
  px_CustomRootCATLSSecret :: bool
  px_CustomTLSSecret :: bool
  px_CustomReplicationClientTLSSecret :: bool
  px_TrackLatestRestorableTime :: "bool option"
  px_DataSource :: "(string option \<times> string option) option"

text \<open>
  The status of a \<open>PostgresCluster\<close>; of pgBackRest it is whether its host is ready, if that is
  known, and the status of its Jobs.
\<close>

record InstanceSetStatus =
  in_Name :: string
  in_Replicas :: int32
  in_ReadyReplicas :: int32
  in_UpdatedReplicas :: int32

record PostgresClusterStatus =
  ps_InstanceSets :: "InstanceSetStatus list"
  ps_PGBouncerReplicas :: int32
  ps_PGBouncerReadyReplicas :: int32
  ps_Conditions :: "Condition list"
  ps_PGBackRest :: "(bool option \<times> PGBackRestStatus) option"
  ps_Patroni :: PatroniStatus

text \<open>
  What the controller of the cluster uses of the API server besides \<open>env\<close>: the resource
  itself, the addresses and names of a load balancer, the version of the operator and the
  comparison of versions, and the namespaces that are watched.
\<close>

record 'w cluster_env =
  pe_env :: "'w env"
  pe_gover :: gover
  pe_version :: string
  pe_WatchNamespace :: "string list"
  pe_Get :: "key \<Rightarrow> ('w, PerconaCluster) io"
  pe_List :: "string option \<Rightarrow> ('w, PerconaCluster list) io"
  pe_Update :: "PerconaCluster \<Rightarrow> ('w, unit) io"
  pe_StatusUpdate :: "PerconaCluster \<Rightarrow> ('w, unit) io"
  pe_Ingress :: "key \<Rightarrow> ('w, (string \<times> string) list) io"

abbreviation "px_name cr \<equiv> Name (pg_meta cr)"
abbreviation "px_ns cr \<equiv> Namespace (pg_meta cr)"

definition pg_CompareVersion :: "'w cluster_env \<Rightarrow> 'a PerconaPGCluster_scheme \<Rightarrow> string \<Rightarrow> error + int" where
  "pg_CompareVersion E cr ver =
     (case pe_gover E (if CRVersion cr = [] then pe_version E else CRVersion cr) ver of
        Inl e \<Rightarrow> Inl (Panic ''version'') | Inr c \<Rightarrow> Inr c)"

section \<open>Host and state\<close>

definition svcFQDN :: "string \<Rightarrow> string \<Rightarrow> string" where
  "svcFQDN svcName ns = svcName @ ''.'' @ ns @ ''.svc''"

definition getHost :: "'w cluster_env \<Rightarrow> PerconaCluster \<Rightarrow> ('w, string) io" where
  "getHost E cr =
     (let postgresCluster = \<lparr>cc_meta = mk_meta (px_ns cr) (px_name cr), cc_PGBackRest = None\<rparr>;
          svcName = Name (ClusterPGBouncer postgresCluster)
      in if \<not> PGBouncerEnabled (px_Proxy cr)
         then ret (svcFQDN (Name (ClusterPrimaryService postgresCluster)) (px_ns cr))
         else if px_ExposeType cr \<noteq> Some ''LoadBalancer'' then ret (svcFQDN svcName (px_ns cr))
         else must (''get '' @ svcName @ '' service'') (pe_Ingress E (px_ns cr, svcName)) (\<lambda>ingress.
           ret (fold (\<lambda>(ip, hostname) host. if hostname \<noteq> [] then hostname else ip) ingress [])))"

definition AppStateInit :: string where "AppStateInit = ''initializing''"
definition AppStatePaused :: string where "AppStatePaused = ''paused''"
definition AppStateStopping :: string where "AppStateStopping = ''stopping''"
definition AppStateReady :: string where "AppStateReady = ''ready''"

definition getState :: "PerconaCluster \<Rightarrow> PerconaCluster \<Rightarrow> PostgresClusterStatus \<Rightarrow> string" where
  "getState cr status crunchyStatus =
     (if Pause cr = Some True
      then (if 0 <s px_PostgresReady status then AppStateStopping else AppStatePaused)
      else if (case ps_PGBackRest crunchyStatus of Some (Some ready, _) \<Rightarrow> \<not> ready | _ \<Rightarrow> False) then AppStateInit
      else if px_PGBouncerReady status \<noteq> px_PGBouncerSize status then AppStateInit
      else if px_PostgresReady status \<noteq> px_PostgresSize status then AppStateInit
      else if sum_list (map in_UpdatedReplicas (ps_InstanceSets crunchyStatus)) \<noteq> px_PostgresSize status then AppStateInit
      else if px_PostgresSize status = 0 then AppStateInit
      else AppStateReady)"

section \<open>Conditions\<close>

definition ConditionAPIGroupMigration :: string where "ConditionAPIGroupMigration = ''APIGroupMigration''"
definition ConditionStandbyLagging :: string where "ConditionStandbyLagging = ''StandbyLagging''"
definition ConditionReadyForLogicalReplication :: string where
  "ConditionReadyForLogicalReplication = ''ReadyForLogicalReplication''"
definition ConditionPMMReady :: string where "ConditionPMMReady = ''PMMReady''"

definition perconaOwnedConditions :: "string list" where
  "perconaOwnedConditions = [ConditionClusterIsReadyForBackup, ConditionAPIGroupMigration, ConditionStandbyLagging,
     ConditionReadyForLogicalReplication, ConditionPMMReady]"

definition syncConditionsFromPostgresToPercona ::
    "'w cluster_env \<Rightarrow> PostgresClusterStatus \<Rightarrow> PerconaCluster \<Rightarrow> PerconaCluster" where
  "syncConditionsFromPostgresToPercona E status cr =
     (let mirrored = fold (\<lambda>c cs. SetStatusCondition (pe_env E) cs
            (c\<lparr>ObservedGeneration := Generation (pg_meta cr)\<rparr>)) (ps_Conditions status) (ClusterConditions cr);
          stale = filter (\<lambda>t. t \<notin> ConditionType ` set (ps_Conditions status) \<and> t \<notin> set perconaOwnedConditions)
            (map ConditionType mirrored)
      in cr\<lparr>ClusterConditions := fold (\<lambda>t cs. RemoveStatusCondition (pe_env E) cs t) stale mirrored\<rparr>)"

definition syncPatroniFromPostgresToPercona :: "PostgresClusterStatus \<Rightarrow> PerconaCluster \<Rightarrow> PerconaCluster" where
  "syncPatroniFromPostgresToPercona status cr =
     (let old = deref (px_Patroni cr) \<lparr>SystemIdentifier = [], SwitchoverTimeline = None, SwitchoverOf = None\<rparr>;
          new = ps_Patroni status
      in cr\<lparr>px_Patroni := Some \<lparr>
           SystemIdentifier = (if SystemIdentifier new \<noteq> [] then SystemIdentifier new else SystemIdentifier old),
           SwitchoverTimeline = (if SwitchoverTimeline new \<noteq> None then SwitchoverTimeline new else SwitchoverTimeline old),
           SwitchoverOf = (if SwitchoverOf new \<noteq> None then SwitchoverOf new else SwitchoverOf old)\<rparr>\<rparr>)"

definition syncPgbackrestFromPostgresToPercona :: "PostgresClusterStatus \<Rightarrow> PerconaCluster \<Rightarrow> PerconaCluster" where
  "syncPgbackrestFromPostgresToPercona status cr =
     (case ps_PGBackRest status of None \<Rightarrow> cr | Some (_, st) \<Rightarrow> cr\<lparr>pg_PGBackRest := Some st\<rparr>)"

definition setClusterNotReadyCondition ::
    "'w cluster_env \<Rightarrow> time \<Rightarrow> ConditionStatus \<Rightarrow> string \<Rightarrow> PerconaCluster \<Rightarrow> PerconaCluster" where
  "setClusterNotReadyCondition E now status reason cr =
     (let set_it = cr\<lparr>ClusterConditions := SetStatusCondition (pe_env E) (ClusterConditions cr)
            \<lparr>ConditionType = ConditionClusterIsReadyForBackup, ConditionStatus = status, ConditionReason = reason,
             ObservedGeneration = Generation (pg_meta cr), LastTransitionTime = now\<rparr>\<rparr>
      in case FindStatusCondition (pe_env E) (ClusterConditions cr) ConditionClusterIsReadyForBackup of
           None \<Rightarrow> set_it
         | Some existing \<Rightarrow>
             if ConditionStatus existing \<noteq> status \<or> ConditionReason existing \<noteq> reason \<or>
               ObservedGeneration existing \<noteq> Generation (pg_meta cr)
             then set_it else cr)"

definition is_true :: "'w cluster_env \<Rightarrow> PerconaCluster \<Rightarrow> string \<Rightarrow> bool" where
  "is_true E cr t =
     (case FindStatusCondition (pe_env E) (ClusterConditions cr) t of
        None \<Rightarrow> False | Some c \<Rightarrow> ConditionStatus c = ConditionTrue)"

definition updateConditions :: "'w cluster_env \<Rightarrow> time \<Rightarrow> PostgresClusterStatus \<Rightarrow> PerconaCluster \<Rightarrow> PerconaCluster" where
  "updateConditions E now status cr =
     (let cr = syncPgbackrestFromPostgresToPercona status (syncPatroniFromPostgresToPercona status
            (syncConditionsFromPostgresToPercona E status cr))
      in if \<not> is_true E cr ConditionRepoHostReady
         then setClusterNotReadyCondition E now ConditionFalse ConditionRepoHostReady cr
         else if \<not> is_true E cr ConditionReplicaCreate
         then setClusterNotReadyCondition E now ConditionFalse ConditionReplicaCreate cr
         else setClusterNotReadyCondition E now ConditionTrue ''AllConditionsAreTrue'' cr)"

section \<open>Replication lag of a standby\<close>

definition AnnotationReplicationMainSite :: string where
  "AnnotationReplicationMainSite = PrefixPerconaPGV2 @ ''replication-main-site''"

definition defaultReplicationLagDetectionInterval :: int where "defaultReplicationLagDetectionInterval = 5 * 60 * Second"
definition laggedReplicationInterval :: int where "laggedReplicationInterval = 60 * Second"
definition replicationLagSignalFile :: string where "replicationLagSignalFile = ''/pgdata/replication-lag-detected''"

definition checked_standby :: "PerconaCluster \<Rightarrow> (PerconaStandbySpec \<times> int \<times> int) option" where
  "checked_standby cr =
     (case px_Standby cr of
        None \<Rightarrow> None
      | Some s \<Rightarrow> if StandbyEnabled (sb_Spec s) then map_option (Pair s) (MaxAcceptableLag s) else None)"

definition ShouldCheckStandbyLag :: "'w cluster_env \<Rightarrow> PerconaCluster \<Rightarrow> error + bool" where
  "ShouldCheckStandbyLag E cr =
     (case pg_CompareVersion E cr ''2.9.0'' of Inl e \<Rightarrow> Inl e | Inr c \<Rightarrow> Inr (c \<ge> 0 \<and> checked_standby cr \<noteq> None))"

text \<open>\<open>strconv.ParseInt\<close> for base 10 and 64 bits.\<close>

definition ParseInt :: "string \<Rightarrow> error + 64 word" where
  "ParseInt s =
     (let neg = (take 1 s = ''-''); ds = (if take 1 s \<in> {''-'', ''+''} then tl s else s)
      in if ds = [] \<or> \<not> list_all is_digit ds
         then Inl (Errorf (''strconv.ParseInt: parsing '' @ go_quote s @ '': invalid syntax''))
         else
           let n = foldl (\<lambda>a c. 10 * a + int (of_char c) - 48) 0 ds
           in if n < 2 ^ 63 \<or> neg \<and> n = 2 ^ 63 then Inr (word_of_int (if neg then - n else n))
              else Inl (Errorf (''strconv.ParseInt: parsing '' @ go_quote s @ '': value out of range'')))"

definition patroniVersion4 :: string where "patroniVersion4 = ''4.0.0''"

definition determineVersion :: "'w cluster_env \<Rightarrow> PerconaCluster \<Rightarrow> error + string" where
  "determineVersion E cr =
     (case pg_CompareVersion E cr ''2.7.0'' of
        Inl e \<Rightarrow> Inl e | Inr c \<Rightarrow> Inr (if c \<le> 0 then PatroniVersion cr else patroniVersion4))"

definition GetPrimaryPod :: "'w cluster_env \<Rightarrow> PerconaCluster \<Rightarrow> ('w, Pod) io" where
  "GetPrimaryPod E cr =
     (case determineVersion E cr of
        Inl e \<Rightarrow> throw e
      | Inr ver \<Rightarrow>
          (case pe_gover E ver patroniVersion4 of
             Inl e \<Rightarrow> throw (Wrap ''failed to get patroni version'' e)
           | Inr c \<Rightarrow>
               must ''failed to list pods'' (List_Pods (pe_env E) (px_ns cr)
                   [''app.kubernetes.io/instance'' \<mapsto> px_name cr,
                    ''postgres-operator.crunchydata.com/role'' \<mapsto> (if c \<ge> 0 then ''primary'' else ''master'')]) (\<lambda>pods.
                 case pods of
                   [] \<Rightarrow> throw (Errorf ''no primary pod found'')
                 | [pod] \<Rightarrow> ret pod
                 | _ \<Rightarrow> throw (Errorf ''multiple primary pods found''))))"

definition ErrPrimaryPodNotFound :: string where "ErrPrimaryPodNotFound = ''primary pod not found''"
definition ErrInvalidLagQueryOutput :: string where "ErrInvalidLagQueryOutput = ''invalid lag query output''"

text \<open>A query that the primary pod of a cluster runs; the result is what it prints, without white space around it.\<close>

definition primary_query :: "'w cluster_env \<Rightarrow> PerconaCluster \<Rightarrow> string \<Rightarrow> ('w, string) io" where
  "primary_query E cr sql =
     attempt (GetPrimaryPod E cr) (\<lambda>e. throw (Wrap (''get primary pod: '' @ error_text e) (Sentinel ErrPrimaryPodNotFound))) (\<lambda>primary.
     plain (psql_Exec (PodExec (pe_env E) (Namespace (p_meta primary)) (Name (p_meta primary)) ContainerDatabase) sql
         [(''ON_ERROR_STOP'', ''on''), (''QUIET'', ''on'')] [''-t'']) (\<lambda>(err, stdout, stderr).
       case err of
         Some e \<Rightarrow> throw (Wrap (''execute query: stderr='' @ stderr) e)
       | None \<Rightarrow> ret (TrimSpace stdout)))"

definition parse_lag :: "string \<Rightarrow> ('w, 64 word) io" where
  "parse_lag s = (case ParseInt s of Inl e \<Rightarrow> throw (Wrap (''parse lag bytes: '' @ s) e) | Inr lag \<Rightarrow> ret lag)"

definition getLagFromStreamingHost :: "'w cluster_env \<Rightarrow> PerconaCluster \<Rightarrow> ('w, 64 word) io" where
  "getLagFromStreamingHost E standby =
     plain (primary_query E standby ''SELECT latest_end_lsn - pg_last_wal_replay_lsn() AS value from pg_catalog.pg_stat_wal_receiver;'')
       (\<lambda>lagStr. if lagStr = []
          then throw (Wrap (''failed to get lag from streaming host: invalid value: '' @ go_quote lagStr) (Sentinel ErrInvalidLagQueryOutput))
          else parse_lag lagStr)"

definition getCurrentWALLSN :: "'w cluster_env \<Rightarrow> PerconaCluster \<Rightarrow> ('w, string) io" where
  "getCurrentWALLSN E cr =
     plain (primary_query E cr ''SELECT pg_current_wal_lsn();'')
       (\<lambda>lsn. if lsn = [] then throw (Errorf ''empty WAL LSN result'') else ret lsn)"

definition getWALLagBytes :: "'w cluster_env \<Rightarrow> string \<Rightarrow> PerconaCluster \<Rightarrow> ('w, 64 word) io" where
  "getWALLagBytes E currentWALLSN standby =
     plain (primary_query E standby (''SELECT pg_wal_lsn_diff('' @ [CHR 0x27] @ currentWALLSN @ [CHR 0x27] @
       ''::pg_lsn, pg_last_wal_replay_lsn());'')) parse_lag"

definition getLagFromMainSite :: "'w cluster_env \<Rightarrow> PerconaCluster \<Rightarrow> ('w, 64 word) io" where
  "getLagFromMainSite E standby =
     (let mainSiteNN = str_at (Annotations (pg_meta standby)) AnnotationReplicationMainSite
      in if mainSiteNN = []
         then throw (Errorf (''annotation '' @ [CHR 0x27] @ AnnotationReplicationMainSite @ [CHR 0x27] @ '' is missing or empty''))
         else case str_split (CHR ''/'') mainSiteNN of
             [ns, name] \<Rightarrow>
               must ''get main site for replication lag calculation'' (pe_Get E (ns, name)) (\<lambda>mainSite.
               must ''get current WAL SN'' (getCurrentWALLSN E mainSite) (\<lambda>curWALLSN.
               must ''get WAL lag bytes'' (getWALLagBytes E curWALLSN standby) ret))
           | _ \<Rightarrow> throw (Errorf (''invalid format for annotation '' @ [CHR 0x27] @ AnnotationReplicationMainSite @ [CHR 0x27])))"

text \<open>Of several errors the last is what the caller looks at.\<close>

definition getStandbyLag :: "'w cluster_env \<Rightarrow> PerconaStandbySpec \<Rightarrow> PerconaCluster \<Rightarrow> ('w, 64 word) io" where
  "getStandbyLag E s standby =
     (let main = must ''get lag from main site'' (getLagFromMainSite E standby) ret
      in if StandbyHost (sb_Spec s) \<noteq> []
         then attempt (getLagFromStreamingHost E standby)
           (\<lambda>e. if StandbyRepoName (sb_Spec s) = [] then throw e else main) ret
         else main)"

definition shouldSkipLagCheck :: "'w cluster_env \<Rightarrow> time \<Rightarrow> PerconaCluster \<Rightarrow> StandbyStatus \<Rightarrow> bool" where
  "shouldSkipLagCheck E now cr status =
     (let interval = (if is_true E cr ConditionStandbyLagging then laggedReplicationInterval
            else defaultReplicationLagDetectionInterval)
      in case LagLastComputedAt status of
           None \<Rightarrow> False
         | Some t \<Rightarrow> \<not> time_IsZero (Some t) \<and> now < t + interval)"

definition setPodReplicationLagSignal :: "'w cluster_env \<Rightarrow> PerconaCluster \<Rightarrow> bool \<Rightarrow> ('w, unit) io" where
  "setPodReplicationLagSignal E cr ready =
     must ''get primary pod'' (GetPrimaryPod E cr) (\<lambda>primary.
     plain (PodExec (pe_env E) (Namespace (p_meta primary)) (Name (p_meta primary)) ContainerDatabase []
         (if ready then [''rm'', ''-f'', replicationLagSignalFile] else [''touch'', replicationLagSignalFile])) (\<lambda>(err, _, _).
       case err of Some e \<Rightarrow> throw e | None \<Rightarrow> ret ()))"

definition set_lagging :: "'w cluster_env \<Rightarrow> ConditionStatus \<Rightarrow> string \<Rightarrow> PerconaCluster \<Rightarrow> PerconaCluster" where
  "set_lagging E status reason cr = cr\<lparr>ClusterConditions := SetStatusCondition (pe_env E) (ClusterConditions cr)
     \<lparr>ConditionType = ConditionStandbyLagging, ConditionStatus = status, ConditionReason = reason,
      ObservedGeneration = 0, LastTransitionTime = 0\<rparr>\<rparr>"

text \<open>
  The two outcomes of asking for the lag. \<open>UnscaledBig().Int64()\<close> is the integer of the
  quantity, cut to 64 bits, whatever its scale.
\<close>

definition lag_unknown :: "'w cluster_env \<Rightarrow> PerconaCluster \<Rightarrow> ('w, PerconaCluster \<times> error option) io" where
  "lag_unknown E cr =
     (let unknown = set_lagging E ConditionUnknown ''ErrorGettingLag'' cr
      in if is_true E cr ConditionStandbyLagging
         then attempt (setPodReplicationLagSignal E cr True)
           (\<lambda>e. ret (cr, Some (Wrap ''set pod replication readiness signal'' e))) (\<lambda>_. ret (unknown, None))
         else ret (unknown, None))"

definition lag_known ::
    "'w cluster_env \<Rightarrow> int \<times> int \<Rightarrow> 64 word \<Rightarrow> PerconaCluster \<Rightarrow> ('w, PerconaCluster \<times> error option) io" where
  "lag_known E maxLag lagBytes cr =
     (let lagDetected = (word_of_int (fst maxLag) <s lagBytes);
          status = (if lagDetected then ConditionTrue else ConditionFalse);
          recorded = look (time_Now (pe_env E)) (\<lambda>now. ret
            ((set_lagging E status (if lagDetected then ''LagDetected'' else ''LagNotDetected'') cr)\<lparr>
               px_StandbyStatus := Some \<lparr>LagBytes = lagBytes, LagLastComputedAt = Some now\<rparr>\<rparr>, None))
      in if IsStatusConditionPresentAndEqual (pe_env E) (ClusterConditions cr) ConditionStandbyLagging status then recorded
         else attempt (setPodReplicationLagSignal E cr (\<not> lagDetected))
           (\<lambda>e. ret (cr, Some (Wrap ''set pod replication readiness signal'' e))) (\<lambda>_. recorded))"

text \<open>No way to compute the lag: the standby follows a repository only and its main site is not known.\<close>

definition main_site_missing :: "PerconaStandbySpec \<Rightarrow> PerconaCluster \<Rightarrow> bool" where
  "main_site_missing s cr \<longleftrightarrow> StandbyRepoName (sb_Spec s) \<noteq> [] \<and> StandbyHost (sb_Spec s) = [] \<and>
     str_at (Annotations (pg_meta cr)) AnnotationReplicationMainSite = []"

definition reconcileStandbyLag :: "'w cluster_env \<Rightarrow> PerconaCluster \<Rightarrow> ('w, PerconaCluster \<times> error option) io" where
  "reconcileStandbyLag E cr =
     (case ShouldCheckStandbyLag E cr of
        Inl e \<Rightarrow> throw e
      | Inr check \<Rightarrow>
          (case (check, checked_standby cr) of
             (True, Some (s, maxLag)) \<Rightarrow>
               let status = deref (px_StandbyStatus cr) \<lparr>LagBytes = 0, LagLastComputedAt = None\<rparr>;
                   cr = cr\<lparr>px_StandbyStatus := Some status\<rparr>
               in if main_site_missing s cr then ret (set_lagging E ConditionUnknown ''MainSiteNotFound'' cr, None)
                  else if AppState cr \<noteq> AppStateReady \<and>
                    FindStatusCondition (pe_env E) (ClusterConditions cr) ConditionStandbyLagging = None then ret (cr, None)
                  else look (time_Now (pe_env E)) (\<lambda>now.
                    if shouldSkipLagCheck E now cr status then ret (cr, None)
                    else attempt (getStandbyLag E s cr) (\<lambda>_. lag_unknown E cr) (\<lambda>lagBytes. lag_known E maxLag lagBytes cr))
           | _ \<Rightarrow> ret (cr, None)))"

section \<open>The main site of a standby\<close>

text \<open>\<open>PGBackRestRepo.StorageEquals\<close>.\<close>

definition StorageEquals :: "PGBackRestRepo \<Rightarrow> PGBackRestRepo \<Rightarrow> bool" where
  "StorageEquals r other =
     (case (RepoAzureContainer r, RepoAzureContainer other) of (Some a, Some b) \<Rightarrow> a = b
      | _ \<Rightarrow> (case (RepoGCSBucket r, RepoGCSBucket other) of (Some a, Some b) \<Rightarrow> a = b
      | _ \<Rightarrow> (case (RepoS3Spec r, RepoS3Spec other) of (Some a, Some b) \<Rightarrow>
          S3Bucket a = S3Bucket b \<and> S3Endpoint a = S3Endpoint b \<and> S3Region a = S3Region b
      | _ \<Rightarrow> (case (RepoVolume r, RepoVolume other) of (Some a, Some b) \<Rightarrow> a = b
      | _ \<Rightarrow> False))))"

definition is_standby :: "PerconaCluster \<Rightarrow> bool" where
  "is_standby cr = (case px_Standby cr of None \<Rightarrow> False | Some s \<Rightarrow> StandbyEnabled (sb_Spec s))"

definition getStandbyMainSite :: "'w cluster_env \<Rightarrow> PerconaCluster \<Rightarrow> ('w, PerconaCluster option) io" where
  "getStandbyMainSite E cr =
     (case ShouldCheckStandbyLag E cr of
        Inl e \<Rightarrow> throw e
      | Inr check \<Rightarrow>
          let repoName = (case px_Standby cr of None \<Rightarrow> [] | Some s \<Rightarrow> StandbyRepoName (sb_Spec s))
          in if \<not> check \<or> repoName = []
             then throw (Errorf ''standby cluster is not enabled or repo name is not specified'')
             else case find (\<lambda>repo. RepoNameOf repo = repoName) (BackRestRepos (BackupsOf cr)) of
                 None \<Rightarrow> throw (Errorf ''standby repo name not found in list of repos'')
               | Some targetRepo \<Rightarrow>
                   must ''list clusters'' (pe_List E (if length (pe_WatchNamespace E) = 1 then Some (px_ns cr) else None)) (\<lambda>clusters.
                     ret (find (\<lambda>cluster. px_name cluster \<noteq> px_name cr \<and> \<not> is_standby cluster \<and>
                       list_ex (StorageEquals targetRepo) (BackRestRepos (BackupsOf cluster))) clusters)))"

definition reconcileStandbyMainSiteAnnotation :: "'w cluster_env \<Rightarrow> PerconaCluster \<Rightarrow> ('w, unit) io" where
  "reconcileStandbyMainSiteAnnotation E cr =
     (case ShouldCheckStandbyLag E cr of
        Inl e \<Rightarrow> throw e
      | Inr check \<Rightarrow>
          if \<not> check \<or> (case px_Standby cr of None \<Rightarrow> True | Some s \<Rightarrow> StandbyRepoName (sb_Spec s) = []) then ret ()
          else if Annotations (pg_meta cr) AnnotationReplicationMainSite \<noteq> None then ret ()
          else must ''get standby main site'' (getStandbyMainSite E cr) (\<lambda>mainSite.
            let mainSiteVal = (case mainSite of None \<Rightarrow> [] | Some m \<Rightarrow> px_ns m @ ''/'' @ px_name m) in
            must ''get cluster for main site annotation update'' (pe_Get E (object_key (pg_meta cr))) (\<lambda>crCopy.
            must ''update standby main site annotation'' (pe_Update E (crCopy\<lparr>pg_meta := (pg_meta crCopy)\<lparr>
              Annotations := (Annotations (pg_meta crCopy))(AnnotationReplicationMainSite \<mapsto> mainSiteVal)\<rparr>\<rparr>)) ret)))"

text \<open>The clusters that one tick of \<open>pollAndRequeueStandbys\<close> requeues.\<close>

definition requeued_standbys :: "'w cluster_env \<Rightarrow> time \<Rightarrow> PerconaCluster list \<Rightarrow> PerconaCluster list" where
  "requeued_standbys E now clusters =
     filter (\<lambda>c. ShouldCheckStandbyLag E c = Inr True \<and>
       (case px_StandbyStatus c of None \<Rightarrow> False | Some status \<Rightarrow> \<not> shouldSkipLagCheck E now c status)) clusters"

section \<open>Writing the status\<close>

definition instance_set_statuses :: "PostgresClusterStatus \<Rightarrow> PostgresInstanceSetStatus list" where
  "instance_set_statuses status =
     map (\<lambda>i. \<lparr>set_Name = in_Name i, set_Size = in_Replicas i, set_Ready = in_ReadyReplicas i\<rparr>) (ps_InstanceSets status)"

definition observed_status :: "PerconaCluster \<Rightarrow> PostgresClusterStatus \<Rightarrow> string \<Rightarrow> PerconaCluster \<Rightarrow> PerconaCluster" where
  "observed_status cr status host cluster =
     (let cluster = cluster\<lparr>px_PostgresSize := sum_list (map in_Replicas (ps_InstanceSets status)),
            px_PostgresReady := sum_list (map in_ReadyReplicas (ps_InstanceSets status)),
            px_InstanceSetStatus := instance_set_statuses status,
            px_PGBouncerSize := ps_PGBouncerReplicas status, px_PGBouncerReady := ps_PGBouncerReadyReplicas status,
            px_Host := host, px_InstalledCustomExtensions := px_CustomExtensions cr\<rparr>
      in cluster\<lparr>AppState := getState cr cluster status\<rparr>)"

definition mirror_pmm :: "'w cluster_env \<Rightarrow> PerconaCluster \<Rightarrow> PerconaCluster \<Rightarrow> PerconaCluster" where
  "mirror_pmm E cr cluster =
     (let E' = pe_env E in cluster\<lparr>ClusterConditions := (case FindStatusCondition E' (ClusterConditions cr) ConditionPMMReady of
        Some cond \<Rightarrow> SetStatusCondition E' (ClusterConditions cluster) cond
      | None \<Rightarrow> RemoveStatusCondition E' (ClusterConditions cluster) ConditionPMMReady)\<rparr>)"

definition updateStatus :: "'w cluster_env \<Rightarrow> PerconaCluster \<Rightarrow> PostgresClusterStatus \<Rightarrow> ('w, unit) io" where
  "updateStatus E cr status =
     must ''get app host'' (getHost E cr) (\<lambda>host.
     must ''update PerconaPGCluster status'' (RetryOnConflict (pe_env E)
       (must ''get PerconaPGCluster'' (pe_Get E (object_key (pg_meta cr))) (\<lambda>cluster.
        plain (reconcileStandbyLag E (observed_status cr status host cluster)) (\<lambda>(cluster, _).
        look (time_Now (pe_env E)) (\<lambda>now.
          let cluster = mirror_pmm E cr (cluster\<lparr>px_ObservedGeneration := Generation (pg_meta cluster)\<rparr>)
          in pe_StatusUpdate E (updateConditions E now status cluster)))))) ret)"


section \<open>Properties\<close>

subsection \<open>Mirrored conditions\<close>

definition condition_value :: "Condition option \<Rightarrow> (ConditionStatus \<times> string) option" where
  "condition_value = map_option (\<lambda>c. (ConditionStatus c, ConditionReason c))"

abbreviation latest :: "Condition list \<Rightarrow> string \<Rightarrow> Condition option" where
  "latest cs t \<equiv> find (\<lambda>c. ConditionType c = t) (rev cs)"

definition holds_in :: "PostgresClusterStatus \<Rightarrow> string \<Rightarrow> bool" where
  "holds_in status t \<longleftrightarrow> map_option ConditionStatus (latest (ps_Conditions status) t) = Some ConditionTrue"

text \<open>Conditions are kept in a list that is searched for a type.\<close>

locale listed_conditions = status_conditions found put drop_type
  for found :: "Condition list \<Rightarrow> string \<Rightarrow> Condition option" and put drop_type +
  assumes found_find: "found cs t = find (\<lambda>c. ConditionType c = t) cs"
begin

lemma value_put: "condition_value (found (put cs c) t) =
    (if t = ConditionType c then Some (ConditionStatus c, ConditionReason c) else condition_value (found cs t))"
  using found_put [of cs c] by (auto simp: condition_value_def found_other_put)

lemma value_put_all:
  "condition_value (found (fold (\<lambda>c cs. put cs (c\<lparr>ObservedGeneration := g\<rparr>)) new cs) t) =
     (case latest new t of Some c \<Rightarrow> condition_value (Some c) | None \<Rightarrow> condition_value (found cs t))"
  by (induction new rule: rev_induct) (auto simp: value_put, simp add: condition_value_def)

lemma found_drop_all: "found (fold (\<lambda>t cs. drop_type cs t) ts cs) t = (if t \<in> set ts then None else found cs t)"
proof (induction ts rule: rev_induct)
  case (snoc x xs)
  then show ?case by (cases "t = x") (auto simp: found_dropped found_other_drop)
qed simp

lemma found_none: "t \<notin> ConditionType ` set cs \<Longrightarrow> found cs t = None"
  by (force simp: found_find find_None_iff)

end

lemma latest_none: "latest cs t = None \<longleftrightarrow> t \<notin> ConditionType ` set cs"
  by (force simp: find_None_iff)

locale mirroring = listed_conditions "FindStatusCondition (pe_env E)" "SetStatusCondition (pe_env E)" "RemoveStatusCondition (pe_env E)"
  for E :: "'w cluster_env"
begin

abbreviation value_of :: "PerconaCluster \<Rightarrow> string \<Rightarrow> (ConditionStatus \<times> string) option" where
  "value_of cr t \<equiv> condition_value (FindStatusCondition (pe_env E) (ClusterConditions cr) t)"

lemma value_synced:
  "value_of (syncConditionsFromPostgresToPercona E status cr) t =
     (case latest (ps_Conditions status) t of
        Some c \<Rightarrow> condition_value (Some c)
      | None \<Rightarrow> if t \<in> set perconaOwnedConditions then value_of cr t else None)"
proof -
  let ?mirrored = "fold (\<lambda>c cs. SetStatusCondition (pe_env E) cs (c\<lparr>ObservedGeneration := Generation (pg_meta cr)\<rparr>))
    (ps_Conditions status) (ClusterConditions cr)"
  note latest_none [of t "ps_Conditions status"]
  moreover have "condition_value (FindStatusCondition (pe_env E) ?mirrored t) = None" if "t \<notin> ConditionType ` set ?mirrored"
    using found_none [OF that] by (simp add: condition_value_def)
  ultimately show ?thesis
    using value_put_all [of "Generation (pg_meta cr)" "ps_Conditions status" "ClusterConditions cr" t]
    by (auto simp: syncConditionsFromPostgresToPercona_def Let_def found_drop_all condition_value_def split: option.split)
qed

lemma value_not_ready:
  "value_of (setClusterNotReadyCondition E now st reason cr) t =
     (if t = ConditionClusterIsReadyForBackup then Some (st, reason) else value_of cr t)"
  by (auto simp: setClusterNotReadyCondition_def Let_def value_put split: option.split) (simp_all add: condition_value_def)

lemma is_true_value: "is_true E cr t \<longleftrightarrow> (\<exists>r. value_of cr t = Some (ConditionTrue, r))"
  by (auto simp: is_true_def condition_value_def split: option.split)

lemma updateConditions_value:
  "value_of (updateConditions E now status cr) t =
     (if t = ConditionClusterIsReadyForBackup
      then Some (if \<not> holds_in status ConditionRepoHostReady then (ConditionFalse, ConditionRepoHostReady)
        else if \<not> holds_in status ConditionReplicaCreate then (ConditionFalse, ConditionReplicaCreate)
        else (ConditionTrue, ''AllConditionsAreTrue''))
      else case latest (ps_Conditions status) t of
          Some c \<Rightarrow> condition_value (Some c)
        | None \<Rightarrow> if t \<in> set perconaOwnedConditions then value_of cr t else None)"
proof -
  let ?cr = "syncPgbackrestFromPostgresToPercona status (syncPatroniFromPostgresToPercona status
    (syncConditionsFromPostgresToPercona E status cr))"
  have same: "ClusterConditions ?cr = ClusterConditions (syncConditionsFromPostgresToPercona E status cr)"
    by (simp add: syncPgbackrestFromPostgresToPercona_def syncPatroniFromPostgresToPercona_def Let_def split: option.split prod.split)
  have "ConditionRepoHostReady \<notin> set perconaOwnedConditions" "ConditionReplicaCreate \<notin> set perconaOwnedConditions"
    by code_simp+
  moreover have "is_true E ?cr u \<longleftrightarrow> holds_in status u" if "u \<notin> set perconaOwnedConditions" for u
    using that unfolding is_true_value same value_synced by (auto simp: holds_in_def condition_value_def split: option.split)
  ultimately show ?thesis
    by (simp add: updateConditions_def Let_def value_not_ready same value_synced)
qed

end

text \<open>Checking the lag changes nothing of the resource but its conditions and the status of the standby.\<close>

lemma standby_lag_frame:
  assumes "reconcileStandbyLag E cr w = (Inr (cr', err), w')"
  shows "cr'\<lparr>ClusterConditions := [], px_StandbyStatus := None\<rparr> = cr\<lparr>ClusterConditions := [], px_StandbyStatus := None\<rparr>"
proof -
  have known: "d'\<lparr>ClusterConditions := [], px_StandbyStatus := None\<rparr> = d\<lparr>ClusterConditions := [], px_StandbyStatus := None\<rparr>"
    if "lag_known E m lag d v = (Inr (d', e), v')" for m lag d v d' e v'
    using that by (auto simp: lag_known_def Let_def attempt_def ret_def look_def throw_def set_lagging_def
        split: if_splits prod.splits sum.splits)
  have unknown: "d'\<lparr>ClusterConditions := [], px_StandbyStatus := None\<rparr> = d\<lparr>ClusterConditions := [], px_StandbyStatus := None\<rparr>"
    if "lag_unknown E d v = (Inr (d', e), v')" for d v d' e v'
    using that by (auto simp: lag_unknown_def Let_def attempt_def ret_def throw_def set_lagging_def
        split: if_splits prod.splits sum.splits)
  from assms show ?thesis
    by (auto simp: reconcileStandbyLag_def Let_def attempt_def ret_def look_def throw_def set_lagging_def
        split: sum.splits option.splits prod.splits bool.splits if_splits dest!: known unknown)
qed

lemma status_fields:
  assumes "c'\<lparr>ClusterConditions := [], px_StandbyStatus := None\<rparr> = c\<lparr>ClusterConditions := [], px_StandbyStatus := None\<rparr>"
  shows "AppState c' = AppState c"
  using arg_cong [OF assms, of AppState] by simp

lemma ready_state:
  "AppState (observed_status cr status host c) = AppStateReady \<Longrightarrow>
     Pause cr \<noteq> Some True \<and>
     sum_list (map in_ReadyReplicas (ps_InstanceSets status)) = sum_list (map in_Replicas (ps_InstanceSets status)) \<and>
     sum_list (map in_UpdatedReplicas (ps_InstanceSets status)) = sum_list (map in_Replicas (ps_InstanceSets status)) \<and>
     ps_PGBouncerReadyReplicas status = ps_PGBouncerReplicas status"
  by (auto simp: observed_status_def getState_def Let_def AppStateReady_def AppStateInit_def AppStatePaused_def AppStateStopping_def
      split: if_splits)

lemma sync_state:
  "AppState (syncConditionsFromPostgresToPercona E status c) = AppState c"
  "AppState (syncPatroniFromPostgresToPercona status c) = AppState c"
  "AppState (syncPgbackrestFromPostgresToPercona status c) = AppState c"
  "AppState (setClusterNotReadyCondition E now st reason c) = AppState c"
  by (simp_all add: setClusterNotReadyCondition_def syncPgbackrestFromPostgresToPercona_def Let_def
      syncPatroniFromPostgresToPercona_def syncConditionsFromPostgresToPercona_def split: option.split)

lemma updateConditions_state: "AppState (updateConditions E now status c) = AppState c"
  by (simp add: updateConditions_def Let_def sync_state)

text \<open>
  C11: What is stored as the status of a cluster. When the status was written, the last write, whatever
  conflicts there were before it, had every condition of the inner cluster as it is there and no
  condition that is there no more, unless it is one of the outer controller's own; it said the
  cluster is ready for backups exactly when the repository host is ready and the backup for
  replicas is complete; and it said the cluster is ready only if it is not paused and all instances
  are ready and up to date.
\<close>

theorem stored_status_mirrors:
  assumes "listed_conditions (FindStatusCondition (pe_env E)) (SetStatusCondition (pe_env E)) (RemoveStatusCondition (pe_env E))"
    and "retry_law (pe_env E)"
    and "updateStatus E cr status w = (Inr (), w')"
  shows "\<exists>c v. pe_StatusUpdate E c v = (Inr (), w') \<and>
    (\<forall>t. t \<notin> set perconaOwnedConditions \<longrightarrow>
       condition_value (FindStatusCondition (pe_env E) (ClusterConditions c) t) = condition_value (latest (ps_Conditions status) t)) \<and>
    (is_true E c ConditionClusterIsReadyForBackup \<longleftrightarrow>
       holds_in status ConditionRepoHostReady \<and> holds_in status ConditionReplicaCreate) \<and>
    (AppState c = AppStateReady \<longrightarrow> Pause cr \<noteq> Some True \<and>
       sum_list (map in_ReadyReplicas (ps_InstanceSets status)) = sum_list (map in_Replicas (ps_InstanceSets status)) \<and>
       sum_list (map in_UpdatedReplicas (ps_InstanceSets status)) = sum_list (map in_Replicas (ps_InstanceSets status)))"
proof -
  have mirror: "mirroring E" using assms(1) by (simp add: mirroring_def)
  have none: "condition_value None = None" by (simp add: condition_value_def)
  note value_of = mirroring.updateConditions_value [OF mirror] and is_true = mirroring.is_true_value [OF mirror]
  let ?body = "\<lambda>host. must ''get PerconaPGCluster'' (pe_Get E (object_key (pg_meta cr))) (\<lambda>cluster.
    plain (reconcileStandbyLag E (observed_status cr status host cluster)) (\<lambda>(cluster, _).
    look (time_Now (pe_env E)) (\<lambda>now.
      let cluster = mirror_pmm E cr (cluster\<lparr>px_ObservedGeneration := Generation (pg_meta cluster)\<rparr>)
      in pe_StatusUpdate E (updateConditions E now status cluster))))"
  from assms(3) obtain host w1 where "RetryOnConflict (pe_env E) (?body host) w1 = (Inr (), w')"
    by (auto simp: updateStatus_def must_def attempt_def ret_def throw_def split: prod.splits sum.splits if_splits)
  moreover have "conflict_runs (?body host) w1 (RetryOnConflict (pe_env E) (?body host) w1)" using assms(2) by (simp add: retry_law_def)
  ultimately obtain w0 where "?body host w0 = (Inr (), w')"
    using conflict_runs_inv [of "?body host" w1 "(Inr (), w')" "\<lambda>_. True"] by (auto simp: keeps_def)
  then obtain cluster cluster' err v u now where
    lag: "reconcileStandbyLag E (observed_status cr status host cluster) v = (Inr (cluster', err), u)"
    and "pe_StatusUpdate E (updateConditions E now status (mirror_pmm E cr
      (cluster'\<lparr>px_ObservedGeneration := Generation (pg_meta cluster')\<rparr>))) u = (Inr (), w')"
    by (auto simp: must_def plain_def attempt_def throw_def look_def Let_def split: prod.splits sum.splits if_splits)
  moreover have "AppState (mirror_pmm E cr (cluster'\<lparr>px_ObservedGeneration := Generation (pg_meta cluster')\<rparr>)) =
      AppState (observed_status cr status host cluster)"
    using status_fields [OF standby_lag_frame [OF lag]] by (simp add: mirror_pmm_def Let_def)
  moreover have "ConditionClusterIsReadyForBackup \<in> set perconaOwnedConditions" by (simp add: perconaOwnedConditions_def)
  ultimately show ?thesis
    by (intro exI conjI) (assumption, auto simp: is_true value_of updateConditions_state none dest!: ready_state split: option.split)
qed


subsection \<open>Lag\<close>

lemma primary_of_status [simp]: "GetPrimaryPod E (cr\<lparr>px_StandbyStatus := st\<rparr>) = GetPrimaryPod E cr"
proof -
  have "determineVersion E (cr\<lparr>px_StandbyStatus := st\<rparr>) = determineVersion E cr"
    by (simp add: determineVersion_def pg_CompareVersion_def split: sum.split)
  then show ?thesis by (simp add: GetPrimaryPod_def cong: sum.case_cong)
qed

lemma queries_of_status [simp]:
  "primary_query E (cr\<lparr>px_StandbyStatus := st\<rparr>) = primary_query E cr"
  "setPodReplicationLagSignal E (cr\<lparr>px_StandbyStatus := st\<rparr>) = setPodReplicationLagSignal E cr"
  by (intro ext, simp add: primary_query_def) (intro ext, simp add: setPodReplicationLagSignal_def)

lemma lags_of_status [simp]:
  "getLagFromStreamingHost E (cr\<lparr>px_StandbyStatus := st\<rparr>) = getLagFromStreamingHost E cr"
  "getWALLagBytes E lsn (cr\<lparr>px_StandbyStatus := st\<rparr>) = getWALLagBytes E lsn cr"
  by (simp_all add: getLagFromStreamingHost_def getWALLagBytes_def)

lemma lag_of_status [simp]: "getStandbyLag E s (cr\<lparr>px_StandbyStatus := st\<rparr>) = getStandbyLag E s cr"
proof -
  have "getLagFromMainSite E (cr\<lparr>px_StandbyStatus := st\<rparr>) = getLagFromMainSite E cr"
    unfolding getLagFromMainSite_def lags_of_status by simp
  then show ?thesis unfolding getStandbyLag_def lags_of_status by (simp only:)
qed

text \<open>The threshold is the integer of the quantity: \<open>10M\<close>, ten with the scale \<open>-6\<close>, is a lag of ten bytes.\<close>

lemma threshold_ignores_scale: "lag_known E (n, k) = lag_known E (n, k')"
  by (simp add: fun_eq_iff lag_known_def)

definition lagging_status :: "'w cluster_env \<Rightarrow> PerconaCluster \<Rightarrow> ConditionStatus option" where
  "lagging_status E cr = map_option ConditionStatus (FindStatusCondition (pe_env E) (ClusterConditions cr) ConditionStandbyLagging)"


text \<open>
  C40: A signal is left behind. When a cluster is no standby any more, or its lag is no longer to be
  checked, the check does nothing at all: a condition that says lagging stays, and nothing is done
  in any pod, so the file that keeps the primary from being ready stays too. When the main
  site is no longer known the condition becomes unknown, but nothing is done in any pod either.
\<close>

theorem lag_signal_left_behind:
  assumes "ShouldCheckStandbyLag E cr = Inr False \<or>
    ShouldCheckStandbyLag E cr = Inr True \<and> (\<exists>s m. checked_standby cr = Some (s, m) \<and> main_site_missing s cr)"
  shows "\<exists>cr'. reconcileStandbyLag E cr w = (Inr (cr', None), w) \<and>
    (ShouldCheckStandbyLag E cr = Inr False \<longrightarrow> cr' = cr)"
proof -
  have "main_site_missing s (cr\<lparr>px_StandbyStatus := x\<rparr>) = main_site_missing s cr" for s x by (simp add: main_site_missing_def)
  with assms show ?thesis by (auto simp: reconcileStandbyLag_def Let_def ret_def split: option.splits prod.splits)
qed


section \<open>Examples\<close>

text \<open>
  A standby that follows a host, with a primary pod that answers every query with 42, and the
  controller's environment for it.
\<close>

definition standby_spec :: "(int \<times> int) option \<Rightarrow> PerconaStandbySpec" where
  "standby_spec maxLag = \<lparr>sb_Spec = \<lparr>StandbyEnabled = True, StandbyRepoName = [], StandbyHost = ''main'', StandbyPort = None\<rparr>,
     MaxAcceptableLag = maxLag\<rparr>"

definition standby_cluster :: "(int \<times> int) option \<Rightarrow> PerconaCluster" where
  "standby_cluster maxLag = PerconaPGCluster.extend (sample_cluster\<lparr>AppState := AppStateReady, ClusterConditions := []\<rparr>)
     \<lparr>px_Proxy = None, px_ExposeType = None, px_CustomExtensions = [], px_Standby = Some (standby_spec maxLag),
      px_PostgresSize = 0, px_PostgresReady = 0, px_InstanceSetStatus = [], px_PGBouncerSize = 0, px_PGBouncerReady = 0,
      px_Host = [], px_InstalledCustomExtensions = [], px_StandbyStatus = None, px_ObservedGeneration = 0, px_Patroni = None,
      px_Metadata = None, px_CustomRootCATLSSecret = False, px_CustomTLSSecret = False,
      px_CustomReplicationClientTLSSecret = False, px_TrackLatestRestorableTime = Some True, px_DataSource = None\<rparr>"

definition primary_pod :: Pod where
  "primary_pod = \<lparr>p_meta = sample_meta ''primary'', PodPhase = ''Running'', PodConditions = []\<rparr>"

definition standby_env :: "mem cluster_env" where
  "standby_env = \<lparr>pe_env = memory\<lparr>List_Pods := (\<lambda>_ _. ret [primary_pod]),
       PodExec := (\<lambda>_ _ _ sql _. ret (None, if sql = [] then [] else ''42'', []))\<rparr>,
     pe_gover = (\<lambda>_ _. Inr 1), pe_version = ''3.0.0'', pe_WatchNamespace = [],
     pe_Get = (\<lambda>_. ret (standby_cluster (Some (7, 0)))), pe_List = (\<lambda>_. ret []), pe_Update = (\<lambda>_. ret ()),
     pe_StatusUpdate = (\<lambda>_. ret ()), pe_Ingress = (\<lambda>_. ret [])\<rparr>"

definition healthy_status :: PostgresClusterStatus where
  "healthy_status = \<lparr>ps_InstanceSets = [\<lparr>in_Name = ''i1'', in_Replicas = 3, in_ReadyReplicas = 3, in_UpdatedReplicas = 3\<rparr>],
     ps_PGBouncerReplicas = 0, ps_PGBouncerReadyReplicas = 0,
     ps_Conditions = [true_condition ConditionRepoHostReady, true_condition ConditionReplicaCreate], ps_PGBackRest = None,
     ps_Patroni = \<lparr>SystemIdentifier = ''7'', SwitchoverTimeline = None, SwitchoverOf = None\<rparr>\<rparr>"

lemma standby_env_conditions:
  "FindStatusCondition (pe_env standby_env) = FindStatusCondition memory"
  "SetStatusCondition (pe_env standby_env) = SetStatusCondition memory"
  "RemoveStatusCondition (pe_env standby_env) = RemoveStatusCondition memory"
  "IsStatusConditionPresentAndEqual (pe_env standby_env) = IsStatusConditionPresentAndEqual memory"
  "RetryOnConflict (pe_env standby_env) = RetryOnConflict memory"
  by (simp_all add: standby_env_def)

interpretation mlc: listed_conditions "FindStatusCondition memory" "SetStatusCondition memory" "RemoveStatusCondition memory"
proof -
  have "find P (filter Q xs) = find P xs" if "\<And>x. P x \<Longrightarrow> Q x" for P Q :: "Condition \<Rightarrow> bool" and xs
    using that by (induction xs) auto
  then show "listed_conditions (FindStatusCondition memory) (SetStatusCondition memory) (RemoveStatusCondition memory)"
    by unfold_locales (auto simp: memory_def mem_conditions_set_def find_None_iff)
qed

interpretation standby: mirroring standby_env
  by (simp add: mirroring_def standby_env_conditions mlc.listed_conditions_axioms)

theorem stored_status_mirrors_witness:
  "\<exists>c. is_true standby_env c ConditionClusterIsReadyForBackup"
proof -
  let ?r = "updateStatus standby_env (standby_cluster None) healthy_status (sample_world [])"
  have "\<not> isl (fst ?r)" by code_simp
  then have "?r = (Inr (), snd ?r)" using not_isl_run [of ?r] by simp
  moreover have "holds_in healthy_status ConditionRepoHostReady" "holds_in healthy_status ConditionReplicaCreate" by code_simp+
  moreover have "retry_law (pe_env standby_env)" using memory_retry by (simp add: retry_law_def standby_env_conditions)
  ultimately show ?thesis
    using stored_status_mirrors [OF standby.listed_conditions_axioms] by blast
qed


theorem lag_signal_left_behind_witness:
  "\<exists>w. reconcileStandbyLag standby_env (standby_cluster None) (sample_world []) = (Inr (standby_cluster None, None), w)"
proof -
  have "ShouldCheckStandbyLag standby_env (standby_cluster None) = Inr False" by code_simp
  then show ?thesis using lag_signal_left_behind [of standby_env "standby_cluster None" "sample_world []"] by auto
qed


end
