(* ===== verification/Percona_Cluster.thy ===== *)
theory Percona_Cluster
  imports Percona_Status
begin

text \<open>
  The controller of the Percona resource of a cluster: \<open>Reconcile\<close> of
  \<open>percona/controller/pgcluster/controller.go\<close> with its deletion, its guards and its watchers, and
  \<open>finalizer.go\<close>, \<open>backup.go\<close> and \<open>restore.go\<close>.
\<close>

section \<open>The interface\<close>

text \<open>
  Besides \<open>cluster_env\<close>: secrets, of which only the metadata is looked at; the registry of
  watchers, which is part of the controller; the resources this controller makes; and the inner
  cluster, which is written as \<open>ToCrunchy\<close> translates the outer one. \<open>pq_Default\<close>
  sets defaults and validates. The rest are steps of \<open>Reconcile\<close> that change the
  specification in memory and objects of their own.
\<close>

record 'w pgcluster_env =
  pq :: "'w cluster_env"
  pq_Merge :: merge_fn
  pq_List_Secrets :: "string \<Rightarrow> strmap \<Rightarrow> ('w, ObjectMeta list) io"
  pq_Delete_Secret :: "ObjectMeta \<Rightarrow> ('w, unit) io"
  pq_Stop_Watchers :: "PerconaCluster \<Rightarrow> ('w, unit) io"
  pq_Watcher_Names :: "('w, string list) io"
  pq_Watcher_Remove :: "string \<Rightarrow> ('w, unit) io"
  pq_Watcher_Start :: "string \<Rightarrow> PerconaCluster \<Rightarrow> ('w, unit) io"
  pq_List_Backups :: "string \<Rightarrow> ('w, PerconaPGBackup list) io"
  pq_Create_Backup :: "PerconaPGBackup \<Rightarrow> ('w, PerconaPGBackup) io"
  pq_Delete_Backup :: "PerconaPGBackup \<Rightarrow> ('w, unit) io"
  pq_DeleteForeground_Job :: "Job \<Rightarrow> ('w, unit) io"
  pq_Own_Job :: "PerconaPGBackup \<Rightarrow> Job \<Rightarrow> error + Job"
  pq_Create_Restore :: "PerconaPGRestore \<Rightarrow> ('w, unit) io"
  pq_Patch :: "PerconaCluster \<Rightarrow> PerconaCluster \<Rightarrow> ('w, PerconaCluster) io"
  pq_ToCrunchy :: "PerconaCluster \<Rightarrow> error + PostgresCluster"
  pq_Delete_Crunchy :: "key \<Rightarrow> ('w, unit) io"
  pq_Get_Crunchy :: "key \<Rightarrow> ('w, bool option \<times> PostgresClusterStatus) io"
  pq_Pause_Crunchy :: "key \<Rightarrow> ('w, unit) io"
  pq_CreateOrUpdate :: "PerconaCluster \<Rightarrow> ('w, bool) io"
  pq_Default :: "PerconaCluster \<Rightarrow> error + PerconaCluster"
  pq_PatroniVersionPod :: "PerconaCluster \<Rightarrow> ('w, bool) io"
  pq_first_steps :: "(string \<times> (PerconaCluster \<Rightarrow> ('w, PerconaCluster) io)) list"
  pq_version_step :: "PerconaCluster \<Rightarrow> ('w, PerconaCluster) io"
  pq_second_steps :: "(string \<times> (PerconaCluster \<Rightarrow> ('w, PerconaCluster) io)) list"
  pq_last_steps :: "PerconaCluster \<Rightarrow> ('w, bool) io"

abbreviation pq_env :: "'w pgcluster_env \<Rightarrow> 'w env" where "pq_env E \<equiv> pe_env (pq E)"

section \<open>Finalizers\<close>

definition FinalizerDeletePVC :: string where "FinalizerDeletePVC = PrefixPercona @ ''delete-pvc''"
definition FinalizerDeleteSSL :: string where "FinalizerDeleteSSL = PrefixPercona @ ''delete-ssl''"
definition FinalizerStopWatchers :: string where "FinalizerStopWatchers = PrefixPerconaInternal @ ''stop-watchers''"
definition FinalizerDeleteBackups :: string where "FinalizerDeleteBackups = PrefixPercona @ ''delete-backups''"
definition FinalizerStopWatchersDeprecated :: string where "FinalizerStopWatchersDeprecated = PrefixPercona @ ''stop-watchers''"

definition RolePostgresUser :: string where "RolePostgresUser = ''pguser''"

definition deletePVC :: "'w pgcluster_env \<Rightarrow> PerconaCluster \<Rightarrow> ('w, unit) io" where
  "deletePVC E cr =
     must ''get PVC list'' (List_PVCs (pq_env E) (px_ns cr) [LabelCluster \<mapsto> px_name cr])
       (run_each (\<lambda>pvc. must (''delete PVC '' @ Name (v_meta pvc)) (ignore_not_found (Delete_PVC (pq_env E) pvc)) ret))"

definition delete_secrets :: "'w pgcluster_env \<Rightarrow> ObjectMeta list \<Rightarrow> ('w, unit) io" where
  "delete_secrets E = run_each (\<lambda>secret. must (''delete secret '' @ Name secret) (ignore_not_found (pq_Delete_Secret E secret)) ret)"

definition deleteUserSecrets :: "'w pgcluster_env \<Rightarrow> PerconaCluster \<Rightarrow> ('w, unit) io" where
  "deleteUserSecrets E cr =
     must ''get secret list'' (pq_List_Secrets E (px_ns cr) [LabelCluster \<mapsto> px_name cr, LabelRole \<mapsto> RolePostgresUser])
       (delete_secrets E)"

fun instance_secrets :: "'w pgcluster_env \<Rightarrow> PerconaCluster \<Rightarrow> PGInstanceSetSpec list \<Rightarrow> ObjectMeta list \<Rightarrow> ('w, ObjectMeta list) io" where
  "instance_secrets E cr [] metas = ret metas"
| "instance_secrets E cr (s # ss) metas =
     must ''get instance TLS secrets'' (pq_List_Secrets E (px_ns cr) [LabelCluster \<mapsto> px_name cr, LabelInstanceSet \<mapsto> SetName s])
       (\<lambda>items. instance_secrets E cr ss (metas @ items))"

definition cluster_secret_metas :: "PerconaCluster \<Rightarrow> PostgresCluster \<Rightarrow> ObjectMeta list" where
  "cluster_secret_metas cr crunchy =
     [PGBackRestSecret crunchy, ClusterPGBouncer crunchy] @
     (if px_CustomRootCATLSSecret cr then [] else [PostgresRootCASecret crunchy]) @
     (if px_CustomTLSSecret cr then [] else [PostgresTLSSecret crunchy]) @
     (if px_CustomReplicationClientTLSSecret cr then [] else [ReplicationClientCertSecret crunchy])"

definition deleteTLSSecrets :: "'w pgcluster_env \<Rightarrow> PerconaCluster \<Rightarrow> ('w, unit) io" where
  "deleteTLSSecrets E cr =
     (case pq_ToCrunchy E cr of
        Inl e \<Rightarrow> throw (Wrap ''to crunchy'' e)
      | Inr crunchy \<Rightarrow> plain (instance_secrets E cr (pg_InstanceSets cr) (cluster_secret_metas cr crunchy)) (delete_secrets E))"

definition deletePVCAndSecrets :: "'w pgcluster_env \<Rightarrow> PerconaCluster \<Rightarrow> ('w, unit) io" where
  "deletePVCAndSecrets E cr = plain (deletePVC E cr) (\<lambda>_. deleteUserSecrets E cr)"

text \<open>Sending the stop event does not block; what is registered is removed whether or not it was received.\<close>

definition stopExternalWatchers :: "'w pgcluster_env \<Rightarrow> PerconaCluster \<Rightarrow> ('w, unit) io" where
  "stopExternalWatchers E cr =
     plain (pq_Stop_Watchers E cr) (\<lambda>_. plain (pq_Watcher_Names E) (run_each (pq_Watcher_Remove E)))"

text \<open>The regular expression \<open>^repo[1-4]$\<close>.\<close>

definition repoNameRegex :: "string \<Rightarrow> bool" where
  "repoNameRegex name \<longleftrightarrow> name \<in> {''repo1'', ''repo2'', ''repo3'', ''repo4''}"

definition stanza_delete_command :: "string \<Rightarrow> string list" where
  "stanza_delete_command repoName = [''bash'', ''-ceu'', ''--'',
     ''pgbackrest --stanza=db --log-level-console=info stop --force && '' @
     ''pgbackrest --stanza=db --log-level-console=info --repo='' @ trim_prefix ''repo'' repoName @ '' stanza-delete --force'']"

text \<open>One repository; the buffers go on from one command to the next, which only shows in messages.\<close>

definition delete_repo :: "'w pgcluster_env \<Rightarrow> PerconaCluster \<Rightarrow> Pod \<Rightarrow> PGBackRestRepo \<Rightarrow> ('w, unit) io" where
  "delete_repo E cr pod repo =
     (if \<not> repoNameRegex (RepoNameOf repo)
      then throw (Errorf (''invalid repo name '' @ go_quote (RepoNameOf repo) @ '': must match ^repo[1-4]$''))
      else plain (PodExec (pq_env E) (px_ns cr) (Name (p_meta pod)) ''database'' [] (stanza_delete_command (RepoNameOf repo)))
        (\<lambda>(err, stdout, stderr). case err of
           Some e \<Rightarrow> throw (Wrap (''delete backups, stderr: '' @ stdout @ '' '' @ stderr) e)
         | None \<Rightarrow> ret ()))"

definition deleteBackups :: "'w pgcluster_env \<Rightarrow> PerconaCluster \<Rightarrow> ('w, unit) io" where
  "deleteBackups E cr =
     plain (List_Pods (pq_env E) (px_ns cr) [LabelPerconaInstance \<mapsto> px_name cr, LabelPerconaComponent \<mapsto> ''pg'']) (\<lambda>pods.
       case pods of
         [] \<Rightarrow> throw (Errorf ''no pods found'')
       | pod # _ \<Rightarrow>
           plain (run_each (delete_repo E cr pod) (BackRestRepos (BackupsOf cr))) (\<lambda>_.
           must ''failed to list backup jobs'' (pq_List_Backups E (px_ns cr)) (\<lambda>backups.
             run_each (\<lambda>b. must (''delete backup '' @ Name (b_meta b) @ ''/'' @ Namespace (b_meta b)) (pq_Delete_Backup E b) ret)
               (filter (\<lambda>b. SpecPGCluster (b_spec b) = px_name cr) backups))))"

type_synonym 'w finalizerEntry = "string \<times> (PerconaCluster \<Rightarrow> ('w, unit) io)"

definition set_px_finalizers :: "string list \<Rightarrow> PerconaCluster \<Rightarrow> PerconaCluster" where
  "set_px_finalizers fs cr = cr\<lparr>pg_meta := (pg_meta cr)\<lparr>Finalizers := fs\<rparr>\<rparr>"

fun cluster_runFinalizers :: "'w pgcluster_env \<Rightarrow> 'w finalizerEntry list \<Rightarrow> PerconaCluster \<Rightarrow> ('w, PerconaCluster) io" where
  "cluster_runFinalizers E [] cr = ret cr"
| "cluster_runFinalizers E ((name, fn) # entries) cr =
     must (''run finalizer '' @ name)
       (RunFinalizer (pq_env E) (\<lambda>c. Finalizers (pg_meta c)) set_px_finalizers (pq_Patch E) cr name fn)
       (\<lambda>(_, cr). cluster_runFinalizers E entries cr)"

definition prePostgresClusterDeletionFinalizers :: "'w pgcluster_env \<Rightarrow> 'w finalizerEntry list" where
  "prePostgresClusterDeletionFinalizers E = [(FinalizerStopWatchers, stopExternalWatchers E), (FinalizerDeleteBackups, deleteBackups E)]"

definition postPostgresClusterDeletionFinalizers :: "'w pgcluster_env \<Rightarrow> 'w finalizerEntry list" where
  "postPostgresClusterDeletionFinalizers E = [(FinalizerDeletePVC, deletePVCAndSecrets E), (FinalizerDeleteSSL, deleteTLSSecrets E)]"

section \<open>Backups\<close>

definition backup_CompareVersion :: "'w cluster_env \<Rightarrow> PerconaPGBackup \<Rightarrow> string \<Rightarrow> error + int" where
  "backup_CompareVersion E b ver =
     (if StatusCRVersion (b_status b) = [] then Inr (-1)
      else case pe_gover E (StatusCRVersion (b_status b)) ver of Inl e \<Rightarrow> Inl (Panic ''version'') | Inr c \<Rightarrow> Inr c)"

definition listPGBackups :: "'w pgcluster_env \<Rightarrow> PerconaCluster \<Rightarrow> string \<Rightarrow> ('w, PerconaPGBackup list) io" where
  "listPGBackups E cr repoName =
     must ''failed to list backup jobs'' (pq_List_Backups E (px_ns cr)) (\<lambda>backups.
       ret (filter (\<lambda>b. SpecPGCluster (b_spec b) = px_name cr \<and> deref (SpecRepoName (b_spec b)) [] = repoName) backups))"

definition listBackupJobs :: "'w pgcluster_env \<Rightarrow> PerconaCluster \<Rightarrow> string \<Rightarrow> ('w, Job list) io" where
  "listBackupJobs E cr repoName =
     must ''failed to list backup jobs'' (List_Jobs (pq_env E) (px_ns cr)
       ((PGBackRestBackupJobLabels (pq_Merge E) (px_name cr) repoName [])(LabelPGBackRestBackup := None))) ret"

definition findPGBackup :: "'w pgcluster_env \<Rightarrow> PerconaCluster \<Rightarrow> Job \<Rightarrow> string \<Rightarrow> ('w, PerconaPGBackup option) io" where
  "findPGBackup E cr job repoName =
     must ''failed to list backup jobs'' (listPGBackups E cr repoName) (\<lambda>backups.
       ret (find (\<lambda>b. str_at (Annotations (b_meta b)) AnnotationPGBackrestBackupJobName = Name (j_meta job) \<or>
         JobName (b_status b) = Name (j_meta job)) backups))"

text \<open>A finished Job of a requested backup that is gone gives up its finalizer and its labels.\<close>

definition release_job :: "'w pgcluster_env \<Rightarrow> PerconaCluster \<Rightarrow> Job \<Rightarrow> ('w, unit) io" where
  "release_job E cr job = RetryOnConflict (pq_env E)
     (must ''get job'' (Get_Job (pq_env E) (object_key (j_meta job))) (\<lambda>j.
        Update_Job (pq_env E) (j\<lparr>j_meta := (j_meta j)\<lparr>Finalizers := fst (RemoveFinalizer (pq_env E) (Finalizers (j_meta j)) FinalizerKeepJob),
          Labels := (\<lambda>l. if PGBackRestLabels (px_name cr) l = None then Labels (j_meta j) l else None)\<rparr>\<rparr>)))"

definition empty_status :: PerconaPGBackupStatus where
  "empty_status = \<lparr>JobName = [], State = BackupNew, StatusError = [], CompletedAt = None, Destination = [],
     BackupType = [], StorageType = StorageTypeUnset, StatusRepo = None, StatusImage = [], BackupName = [], BackupSize = 0,
     StatusCRVersion = [], LatestRestorableTime = None, Snapshot = None, Conditions = []\<rparr>"

text \<open>The name of a new backup is a prefix, which the API server completes.\<close>

definition new_backup :: "'w pgcluster_env \<Rightarrow> PerconaCluster \<Rightarrow> Job \<Rightarrow> string \<Rightarrow> error + PerconaPGBackup" where
  "new_backup E cr job repoName =
     (let annotations = [AnnotationPGBackrestBackupJobName \<mapsto> Name (j_meta job)];
          backup = (\<lambda>labels annotations. \<lparr>b_meta = (mk_meta (Namespace (j_meta job)) (Name (j_meta job) @ ''-''))\<lparr>
            Labels := labels, Annotations := annotations\<rparr>,
            b_spec = \<lparr>SpecPGCluster = px_name cr, SpecRepoName = Some repoName, SpecMethod = None, SpecOptions = [],
              SpecEnv = [], SpecEnvFrom = []\<rparr>,
            b_status = empty_status\<rparr>)
      in case pg_CompareVersion (pq E) cr ''2.6.0'' of
           Inl e \<Rightarrow> Inl e
         | Inr c \<Rightarrow>
             (case px_Metadata cr of
                Some (labels, extra) \<Rightarrow>
                  Inr (if c \<ge> 0 then backup labels (Merge (pq_Merge E) [extra, annotations]) else backup Map.empty annotations)
              | None \<Rightarrow> Inr (backup Map.empty annotations)))"

text \<open>A Job belongs to its backup.\<close>

definition adopt_job :: "'w pgcluster_env \<Rightarrow> PerconaPGBackup \<Rightarrow> Job \<Rightarrow> ('w, unit) io" where
  "adopt_job E b job =
     must ''failed to update backup job'' (RetryOnConflict (pq_env E)
       (plain (Get_Job (pq_env E) (object_key (j_meta job))) (\<lambda>j.
          case pq_Own_Job E b j of
            Inl e \<Rightarrow> throw (Wrap ''failed to set controller reference'' e)
          | Inr j \<Rightarrow> Update_Job (pq_env E) j))) ret"

definition reconcileBackupJob :: "'w pgcluster_env \<Rightarrow> PerconaCluster \<Rightarrow> Job \<Rightarrow> string \<Rightarrow> ('w, unit) io" where
  "reconcileBackupJob E cr job repoName =
     must (''failed to find PerconaPGBackup for job '' @ Name (j_meta job)) (findPGBackup E cr job repoName) (\<lambda>pb.
       case pb of
         Some b \<Rightarrow> adopt_job E b job
       | None \<Rightarrow>
           if str_at (Labels (j_meta job)) LabelPGBackRestBackup = BackupManual
           then (if (JobCompleted job \<or> JobFailed job) \<and> ContainsFinalizer (pq_env E) (Finalizers (j_meta job)) FinalizerKeepJob
                 then must ''update backup job labels and finalizers'' (release_job E cr job) ret else ret ())
           else if DeletionTimestamp (j_meta job) \<noteq> None then ret ()
           else (case new_backup E cr job repoName of
                   Inl e \<Rightarrow> throw e
                 | Inr b \<Rightarrow> must (''failed to create PerconaPGBackup for job '' @ Name (j_meta job)) (pq_Create_Backup E b)
                     (\<lambda>b. adopt_job E b job)))"

definition reconcileBackupJobs :: "'w pgcluster_env \<Rightarrow> PerconaCluster \<Rightarrow> ('w, unit) io" where
  "reconcileBackupJobs E cr =
     run_each (\<lambda>repo. must ''failed to list backup jobs'' (listBackupJobs E cr (RepoNameOf repo))
       (run_each (\<lambda>job. must ''failed to reconcile backup job'' (reconcileBackupJob E cr job (RepoNameOf repo)) ret)))
       (BackRestRepos (BackupsOf cr))"

subsection \<open>Outdated backups\<close>

definition backup_present :: "InfoStanza list \<Rightarrow> PerconaPGBackup \<Rightarrow> bool" where
  "backup_present info b = list_ex (\<lambda>stanza. list_ex (\<lambda>i.
     str_at (map_of (InfoAnnotation i)) PGBackrestAnnotationJobName = JobName (b_status b)) (StanzaBackups stanza)) info"

text \<open>One backup of a repository, given what pgBackRest knows of it.\<close>

definition cleanup_backup :: "'w pgcluster_env \<Rightarrow> InfoStanza list \<Rightarrow> PerconaPGBackup \<Rightarrow> ('w, unit) io" where
  "cleanup_backup E info b =
     (if State (b_status b) \<noteq> BackupSucceeded then ret ()
      else case backup_CompareVersion (pq E) b ''2.4.0'' of
          Inl e \<Rightarrow> throw e
        | Inr c \<Rightarrow>
            if c < 0 \<or> backup_present info b then ret ()
            else plain (attempt (Get_Job (pq_env E) (Namespace (b_meta b), JobName (b_status b)))
                (\<lambda>e. if IsNotFound e then ret None else throw (Wrap ''get backup job'' e)) (\<lambda>job. ret (Some job))) (\<lambda>job.
              plain (case job of None \<Rightarrow> ret ()
                | Some j \<Rightarrow> must (''delete job '' @ Name (j_meta j) @ ''/'' @ Namespace (j_meta j)) (pq_DeleteForeground_Job E j) ret) (\<lambda>_.
              must (''delete backup '' @ Name (b_meta b) @ ''/'' @ Namespace (b_meta b)) (pq_Delete_Backup E b) ret)))"

definition info_of :: "'w pgcluster_env \<Rightarrow> PerconaCluster \<Rightarrow> string \<Rightarrow> ('w, InfoStanza list option) io" where
  "info_of E cr repoName =
     attempt (GetReadyInstancePod (pq_env E) (px_name cr) (px_ns cr)) (\<lambda>_. ret None) (\<lambda>pod.
     attempt (GetInfo (pq_env E) pod repoName)
       (\<lambda>e. if error_is e ErrNoValidBackups \<or> error_is e ErrStanzaNotCreated \<or> str_contains ''container not found'' (error_text e)
          then ret None else throw (Wrap ''get pgBackRest info'' e))
       (\<lambda>info. ret (Some info)))"

definition cleanup_repo :: "'w pgcluster_env \<Rightarrow> PerconaCluster \<Rightarrow> PGBackRestRepo \<Rightarrow> ('w, unit) io" where
  "cleanup_repo E cr repo =
     (if RepoVolume repo \<noteq> None \<and> \<not> is_true (pq E) cr ConditionRepoHostReady then ret ()
      else must ''list pg-backups'' (listPGBackups E cr (RepoNameOf repo)) (\<lambda>backups.
        if backups = [] then ret ()
        else plain (info_of E cr (RepoNameOf repo)) (\<lambda>info.
          case info of None \<Rightarrow> ret () | Some info \<Rightarrow> run_each (cleanup_backup E info) backups)))"

definition cleanupOutdatedBackups :: "'w pgcluster_env \<Rightarrow> PerconaCluster \<Rightarrow> ('w, unit) io" where
  "cleanupOutdatedBackups E cr =
     (if \<not> BackupsIsEnabled (BackupsOf cr) \<or> AppState cr \<noteq> AppStateReady then ret ()
      else run_each (cleanup_repo E cr) (BackRestRepos (BackupsOf cr)))"

text \<open>An error of cleaning up is only logged.\<close>

definition cluster_reconcileBackups :: "'w pgcluster_env \<Rightarrow> PerconaCluster \<Rightarrow> ('w, unit) io" where
  "cluster_reconcileBackups E cr =
     must ''reconcile backup jobs'' (reconcileBackupJobs E cr) (\<lambda>_. attempt (cleanupOutdatedBackups E cr) (\<lambda>_. ret ()) ret)"

definition removeStaleBackupAnnotation :: "'w pgcluster_env \<Rightarrow> PerconaCluster \<Rightarrow> ('w, PerconaCluster) io" where
  "removeStaleBackupAnnotation E cr =
     (let backupName = str_at (Annotations (pg_meta cr)) PGBackRestBackup;
          removed = cr\<lparr>pg_meta := (pg_meta cr)\<lparr>Annotations := (Annotations (pg_meta cr))(PGBackRestBackup := None)\<rparr>\<rparr>
      in if backupName = [] then ret cr
         else attempt (Get_Backup (pq_env E) (px_ns cr, backupName))
           (\<lambda>e. if IsNotFound e then ret removed else throw (Wrap (''get PerconaPGBackup '' @ backupName) e))
           (\<lambda>b. ret (if SpecPGCluster (b_spec b) \<noteq> px_name cr then removed else cr)))"

section \<open>The restore a cluster starts with\<close>

definition createBootstrapRestoreObject :: "'w pgcluster_env \<Rightarrow> PerconaCluster \<Rightarrow> ('w, unit) io" where
  "createBootstrapRestoreObject E cr =
     (case px_DataSource cr of
        None \<Rightarrow> ret ()
      | Some (None, None) \<Rightarrow> ret ()
      | Some (pgBackRest, postgresCluster) \<Rightarrow>
          let repoName = deref postgresCluster (deref pgBackRest []);
              annotations = [AnnotationClusterBootstrapRestore \<mapsto> ''true''];
              restore = (\<lambda>labels annotations. \<lparr>r_meta = (mk_meta (px_ns cr) (px_name cr @ ''-bootstrap''))\<lparr>
                  Labels := labels, Annotations := annotations\<rparr>,
                RestorePGCluster = px_name cr, RestoreRepoName = Some repoName, VolumeSnapshotBackupName = [], RestoreOptions = [],
                RestoreEnv = [], RestoreEnvFrom = [], RestoreState = RestoreNew, RestoreCompletedAt = None\<rparr>)
          in case pg_CompareVersion (pq E) cr ''2.6.0'' of
               Inl e \<Rightarrow> throw e
             | Inr c \<Rightarrow>
                 attempt (pq_Create_Restore E (case px_Metadata cr of
                     Some (labels, extra) \<Rightarrow>
                       if c \<ge> 0 then restore labels (Merge (pq_Merge E) [extra, annotations]) else restore Map.empty annotations
                   | None \<Rightarrow> restore Map.empty annotations))
                   (\<lambda>e. if IsAlreadyExists e then ret () else throw e) ret)"


section \<open>Watchers\<close>

definition walWatcherName :: "PerconaCluster \<Rightarrow> string" where
  "walWatcherName cr = px_ns cr @ ''-'' @ px_name cr @ ''-wal-watcher''"

definition stopWALWatcher :: "'w pgcluster_env \<Rightarrow> PerconaCluster \<Rightarrow> ('w, unit) io" where
  "stopWALWatcher E cr =
     plain (pq_Watcher_Names E) (\<lambda>names.
       if walWatcherName cr \<notin> set names then ret ()
       else plain (pq_Stop_Watchers E cr) (\<lambda>_. pq_Watcher_Remove E (walWatcherName cr)))"

definition startExternalWatchers :: "'w pgcluster_env \<Rightarrow> PerconaCluster \<Rightarrow> ('w, unit) io" where
  "startExternalWatchers E cr =
     (if \<not> BackupsIsEnabled (BackupsOf cr) then ret ()
      else case px_TrackLatestRestorableTime cr of
          None \<Rightarrow> throw nil_deref
        | Some track \<Rightarrow>
            if \<not> track then ret ()
            else plain (pq_Watcher_Names E) (\<lambda>names.
              if walWatcherName cr \<in> set names then ret ()
              else must ''add WAL watcher'' (pq_Watcher_Start E (walWatcherName cr) cr) ret))"

definition stopExternalWatcher :: "'w pgcluster_env \<Rightarrow> PerconaCluster \<Rightarrow> ('w, unit) io" where
  "stopExternalWatcher E cr =
     (if \<not> BackupsIsEnabled (BackupsOf cr) then ret ()
      else case px_TrackLatestRestorableTime cr of
          None \<Rightarrow> throw nil_deref | Some track \<Rightarrow> if track then ret () else stopWALWatcher E cr)"

definition reconcileExternalWatchers :: "'w pgcluster_env \<Rightarrow> PerconaCluster \<Rightarrow> ('w, unit) io" where
  "reconcileExternalWatchers E cr =
     must ''start external watchers'' (startExternalWatchers E cr) (\<lambda>_. stopExternalWatcher E cr)"

section \<open>Reconcile\<close>

definition isBackupRunning :: "'w pgcluster_env \<Rightarrow> PerconaCluster \<Rightarrow> ('w, bool) io" where
  "isBackupRunning E cr =
     must ''get backup jobs'' (List_Jobs (pq_env E) (px_ns cr) [LabelCluster \<mapsto> px_name cr]) (\<lambda>jobs.
       if list_ex (\<lambda>j. Labels (j_meta j) LabelPGBackRestBackup \<noteq> None \<and> \<not> JobFailed j \<and> \<not> JobCompleted j) jobs then ret True
       else must ''list backups'' (pq_List_Backups E (px_ns cr)) (\<lambda>backups.
         ret (list_ex (\<lambda>b. SpecPGCluster (b_spec b) = px_name cr \<and> State (b_status b) \<in> {BackupStarting, BackupRunning}) backups)))"

definition makePostgresClusterUnmanaged :: "'w pgcluster_env \<Rightarrow> PerconaCluster \<Rightarrow> ('w, unit) io" where
  "makePostgresClusterUnmanaged E cr =
     attempt (pq_Get_Crunchy E (object_key (pg_meta cr))) (\<lambda>e. if IsNotFound e then ret () else throw e)
       (\<lambda>(paused, _). if paused = Some True then ret () else pq_Pause_Crunchy E (object_key (pg_meta cr)))"

definition cluster_ensureFinalizers :: "'w pgcluster_env \<Rightarrow> PerconaCluster \<Rightarrow> ('w, PerconaCluster) io" where
  "cluster_ensureFinalizers E cr =
     (let has = (\<lambda>fs f. ContainsFinalizer (pq_env E) fs f); fs = Finalizers (pg_meta cr)
      in if \<not> has fs FinalizerStopWatchersDeprecated \<and> has fs FinalizerStopWatchers then ret cr
         else if px_TrackLatestRestorableTime cr = Some True
         then
           let fs = fst (RemoveFinalizer (pq_env E) fs FinalizerStopWatchersDeprecated);
               fs = (if has fs FinalizerStopWatchers then fs else fst (AddFinalizer (pq_env E) fs FinalizerStopWatchers))
           in must ''patch finalizers'' (pq_Patch E cr (set_px_finalizers fs cr)) (\<lambda>_. ret (set_px_finalizers fs cr))
         else ret cr)"

definition setCRVersion :: "'w pgcluster_env \<Rightarrow> PerconaCluster \<Rightarrow> ('w, PerconaCluster) io" where
  "setCRVersion E cr =
     (if CRVersion cr \<noteq> [] then ret cr
      else must ''patch CR'' (pq_Patch E cr (cr\<lparr>CRVersion := pe_version (pq E)\<rparr>)) ret)"

text \<open>
  The deletion of a cluster: finalizers that need its pods, the inner cluster, and once that is
  gone the finalizers that delete what it leaves. The result is after how many seconds to come back.
\<close>

definition delete_cluster :: "'w pgcluster_env \<Rightarrow> PerconaCluster \<Rightarrow> ('w, int) io" where
  "delete_cluster E cr =
     must ''run pre-postgrescluster finalizers'' (cluster_runFinalizers E (prePostgresClusterDeletionFinalizers E) cr) (\<lambda>cr.
     must ''delete postgres cluster'' (ignore_not_found (pq_Delete_Crunchy E (object_key (pg_meta cr)))) (\<lambda>_.
     attempt (pq_Get_Crunchy E (object_key (pg_meta cr)))
       (\<lambda>e. if IsNotFound e
          then must ''run post-postgrescluster finalizers'' (cluster_runFinalizers E (postPostgresClusterDeletionFinalizers E) cr) (\<lambda>_. ret 0)
          else throw (Wrap ''get postgres cluster'' e))
       (\<lambda>_. ret 5)))"

fun run_steps :: "(string \<times> (PerconaCluster \<Rightarrow> ('w, PerconaCluster) io)) list \<Rightarrow> PerconaCluster \<Rightarrow> ('w, PerconaCluster) io" where
  "run_steps [] cr = ret cr"
| "run_steps ((message, step) # steps) cr = must message (step cr) (run_steps steps)"

text \<open>A cluster is not paused while a backup runs.\<close>

definition pause_guard :: "'w pgcluster_env \<Rightarrow> PerconaCluster \<Rightarrow> ('w, PerconaCluster) io" where
  "pause_guard E cr =
     (if Pause cr = Some True
      then must ''is backup running'' (isBackupRunning E cr) (\<lambda>running. ret (if running then cr\<lparr>Pause := Some False\<rparr> else cr))
      else ret cr)"

definition write_cluster :: "'w pgcluster_env \<Rightarrow> PerconaCluster \<Rightarrow> ('w, int) io" where
  "write_cluster E cr =
     must ''update/create PostgresCluster'' (pq_CreateOrUpdate E cr) (\<lambda>created.
       if created then ret 1
       else attempt (pq_Get_Crunchy E (object_key (pg_meta cr)))
         (\<lambda>e. if IsNotFound e then ret 1 else throw (Wrap ''get PostgresCluster'' e))
         (\<lambda>(_, status). must ''update status'' (updateStatus (pq E) cr status) (\<lambda>_.
            plain (pq_last_steps E cr) (\<lambda>again. ret (if again then 5 else 0)))))"

definition reconcile_managed :: "'w pgcluster_env \<Rightarrow> PerconaCluster \<Rightarrow> ('w, int) io" where
  "reconcile_managed E cr =
     must ''ensure finalizers'' (cluster_ensureFinalizers E cr) (\<lambda>cr.
     must ''check patroni version pod'' (pq_PatroniVersionPod E cr) (\<lambda>waiting.
     if waiting then ret 5
     else plain (run_steps (pq_first_steps E) cr) (\<lambda>cr.
       must ''start external watchers'' (reconcileExternalWatchers E cr) (\<lambda>_.
       must ''reconcile version'' (pq_version_step E cr) (\<lambda>cr.
       must ''reconcile backups'' (cluster_reconcileBackups E cr) (\<lambda>_.
       must ''reconcile restore'' (createBootstrapRestoreObject E cr) (\<lambda>_.
       plain (run_steps (pq_second_steps E) cr) (\<lambda>cr.
       must ''reconcile replication main site annotation'' (reconcileStandbyMainSiteAnnotation (pq E) cr) (\<lambda>_.
       must ''remove stale backup annotation'' (removeStaleBackupAnnotation E cr) (\<lambda>cr.
       plain (pause_guard E cr) (write_cluster E)))))))))))"

definition reconcile_unmanaged :: "'w pgcluster_env \<Rightarrow> PerconaCluster \<Rightarrow> ('w, int) io" where
  "reconcile_unmanaged E cr =
     must ''is backup running'' (isBackupRunning E cr) (\<lambda>running.
       if \<not> running
       then must ''make PostgresCluster unmanaged'' (makePostgresClusterUnmanaged E cr) (\<lambda>_. plain (stopWALWatcher E cr) (\<lambda>_. ret 0))
       else reconcile_managed E (cr\<lparr>Unmanaged := Some False\<rparr>))"

definition cluster_Reconcile :: "'w pgcluster_env \<Rightarrow> key \<Rightarrow> ('w, int) io" where
  "cluster_Reconcile E k =
     attempt (pe_Get (pq E) k) (\<lambda>e. if IsNotFound e then ret 0 else throw (Wrap ''get PerconaPGCluster'' e)) (\<lambda>cr.
     must ''set CR version'' (setCRVersion E cr) (\<lambda>cr.
       case pq_Default E cr of
         Inl e \<Rightarrow> throw (Wrap ''validate PerconaPGCluster'' e)
       | Inr cr \<Rightarrow>
           if DeletionTimestamp (pg_meta cr) \<noteq> None then delete_cluster E cr
           else if deref (Unmanaged cr) False then reconcile_unmanaged E cr
           else reconcile_managed E cr))"


section \<open>Properties\<close>

lemma run_each_same: "(\<And>x. x \<in> set xs \<Longrightarrow> f x = g x) \<Longrightarrow> run_each f xs = run_each g xs"
  by (induction xs) simp_all

lemma run_each_differs: "run_each f xs w \<noteq> run_each g xs w \<Longrightarrow> \<exists>x\<in>set xs. \<exists>v. f x v \<noteq> g x v"
  by (metis ext run_each_same)

lemma plain_differs: "plain m f w \<noteq> plain m g w \<Longrightarrow> \<exists>x v. m w = (Inr x, v) \<and> f x v \<noteq> g x v"
  by (auto simp: plain_def attempt_def split: prod.splits sum.splits if_splits)

lemma must_differs: "must s m f w \<noteq> must s m g w \<Longrightarrow> \<exists>x v. m w = (Inr x, v) \<and> f x v \<noteq> g x v"
  by (auto simp: must_def attempt_def split: prod.splits sum.splits if_splits)

subsection \<open>Commands\<close>

abbreviation executing :: "'w pgcluster_env \<Rightarrow> (string \<Rightarrow> string \<Rightarrow> string \<Rightarrow> string \<Rightarrow> string list \<Rightarrow> ('w, error option \<times> string \<times> string) io)
    \<Rightarrow> 'w pgcluster_env" where
  "executing E f \<equiv> E\<lparr>pq := (pq E)\<lparr>pe_env := (pq_env E)\<lparr>PodExec := f\<rparr>\<rparr>\<rparr>"

text \<open>
  C39: Whatever the repositories of a stored cluster are called, deleting its backups runs no other
  command than the four for \<open>repo1\<close> to \<open>repo4\<close>, so that no name reaches the shell.
  Here this is that the outcome does not depend on how any other command runs.
\<close>

theorem deleteBackups_commands:
  assumes "\<forall>ns pod c. \<forall>i\<in>{''1'', ''2'', ''3'', ''4''}.
    f ns pod c [] [''bash'', ''-ceu'', ''--'', ''pgbackrest --stanza=db --log-level-console=info stop --force && '' @
      ''pgbackrest --stanza=db --log-level-console=info --repo='' @ i @ '' stanza-delete --force''] =
    g ns pod c [] [''bash'', ''-ceu'', ''--'', ''pgbackrest --stanza=db --log-level-console=info stop --force && '' @
      ''pgbackrest --stanza=db --log-level-console=info --repo='' @ i @ '' stanza-delete --force'']"
  shows "deleteBackups (E\<lparr>pq := (pq E)\<lparr>pe_env := (pq_env E)\<lparr>PodExec := f\<rparr>\<rparr>\<rparr>) cr =
    deleteBackups (E\<lparr>pq := (pq E)\<lparr>pe_env := (pq_env E)\<lparr>PodExec := g\<rparr>\<rparr>\<rparr>) cr"
proof -
  have "f ns pod c [] (stanza_delete_command name) = g ns pod c [] (stanza_delete_command name)" if "repoNameRegex name" for ns pod c name
  proof -
    have "trim_prefix ''repo'' ''repo1'' = ''1''" "trim_prefix ''repo'' ''repo2'' = ''2''" "trim_prefix ''repo'' ''repo3'' = ''3''"
      "trim_prefix ''repo'' ''repo4'' = ''4''" by code_simp+
    with that assms show ?thesis by (auto simp: repoNameRegex_def stanza_delete_command_def)
  qed
  then have "delete_repo (executing E f) cr pod = delete_repo (executing E g) cr pod" for pod
    by (intro ext) (simp add: delete_repo_def)
  then show ?thesis by (simp add: deleteBackups_def cong: list.case_cong)
qed

subsection \<open>Deletion\<close>

abbreviation deleting :: "'w pgcluster_env \<Rightarrow> (PVC \<Rightarrow> ('w, unit) io) \<Rightarrow> (ObjectMeta \<Rightarrow> ('w, unit) io) \<Rightarrow> 'w pgcluster_env" where
  "deleting E f h \<equiv> E\<lparr>pq := (pq E)\<lparr>pe_env := (pq_env E)\<lparr>Delete_PVC := f\<rparr>\<rparr>, pq_Delete_Secret := h\<rparr>"

lemma RunFinalizer_deleting: "RunFinalizer (E\<lparr>Delete_PVC := f\<rparr>) = RunFinalizer E"
  by (intro ext) (simp add: RunFinalizer_def)

lemma deleting_pre: "cluster_runFinalizers (deleting E f h) (prePostgresClusterDeletionFinalizers (deleting E f h)) cr =
    cluster_runFinalizers E (prePostgresClusterDeletionFinalizers E) cr"
proof -
  have "delete_repo (deleting E f h) = delete_repo E" by (simp add: fun_eq_iff delete_repo_def)
  then have "deleteBackups (deleting E f h) = deleteBackups E"
    by (intro ext) (simp add: deleteBackups_def cong: list.case_cong)
  moreover have "stopExternalWatchers (deleting E f h) = stopExternalWatchers E"
    by (simp add: fun_eq_iff stopExternalWatchers_def)
  moreover have "cluster_runFinalizers (deleting E f h) entries cr = cluster_runFinalizers E entries cr" for entries cr
  proof (induction entries arbitrary: cr)
    case (Cons entry entries)
    then have same: "cluster_runFinalizers (deleting E f h) entries = cluster_runFinalizers E entries" by (rule ext)
    obtain name fn where "entry = (name, fn)" by (cases entry)
    then show ?case unfolding \<open>entry = _\<close> cluster_runFinalizers.simps same by (simp add: RunFinalizer_deleting)
  qed simp
  ultimately show ?thesis by (simp del: cluster_runFinalizers.simps add: prePostgresClusterDeletionFinalizers_def)
qed

text \<open>
  C13: The volumes and secrets of a cluster are deleted only after the inner cluster is gone, and its
  backups before: when the outcome of a deletion depends on deleting volume claims or secrets, the
  finalizers that need running pods have ended well, and the inner cluster, read after it was
  deleted, was not found.
\<close>

theorem volumes_deleted_last:
  assumes "delete_cluster (E\<lparr>pq := (pq E)\<lparr>pe_env := (pq_env E)\<lparr>Delete_PVC := f\<rparr>\<rparr>, pq_Delete_Secret := h\<rparr>) cr w \<noteq>
    delete_cluster (E\<lparr>pq := (pq E)\<lparr>pe_env := (pq_env E)\<lparr>Delete_PVC := g\<rparr>\<rparr>, pq_Delete_Secret := k\<rparr>) cr w"
  shows "\<exists>cr' w1 w2 e w3. cluster_runFinalizers E (prePostgresClusterDeletionFinalizers E) cr w = (Inr cr', w1) \<and>
    pq_Get_Crunchy E (object_key (pg_meta cr')) w2 = (Inl e, w3) \<and> IsNotFound e \<and>
    (\<exists>r. pq_Delete_Crunchy E (object_key (pg_meta cr')) w1 = (r, w2))"
proof -
  let ?pre = "cluster_runFinalizers E (prePostgresClusterDeletionFinalizers E) cr" and ?k = "\<lambda>c. object_key (pg_meta c)"
  let ?rest = "\<lambda>f h c. attempt (pq_Get_Crunchy E (?k c))
    (\<lambda>e. if IsNotFound e
       then must ''run post-postgrescluster finalizers''
         (cluster_runFinalizers (deleting E f h) (postPostgresClusterDeletionFinalizers (deleting E f h)) c) (\<lambda>_. ret 0)
       else throw (Wrap ''get postgres cluster'' e)) (\<lambda>_. ret (5 :: int))"
  have split: "delete_cluster (deleting E f h) cr = must ''run pre-postgrescluster finalizers'' ?pre (\<lambda>c.
      must ''delete postgres cluster'' (ignore_not_found (pq_Delete_Crunchy E (?k c))) (\<lambda>_. ?rest f h c))" for f h
    unfolding delete_cluster_def deleting_pre by simp
  from assms obtain cr' w1 w2 where "?pre w = (Inr cr', w1)" "ignore_not_found (pq_Delete_Crunchy E (?k cr')) w1 = (Inr (), w2)"
    "?rest f h cr' w2 \<noteq> ?rest g k cr' w2"
    unfolding split by (auto dest!: must_differs)
  then show ?thesis
    by (auto simp: attempt_def ignore_not_found_def ret_def throw_def split: prod.splits sum.splits if_splits)
qed


subsection \<open>Outdated backups are deleted, no others\<close>

abbreviation removing :: "'w pgcluster_env \<Rightarrow> (PerconaPGBackup \<Rightarrow> ('w, unit) io) \<Rightarrow> 'w pgcluster_env" where
  "removing E f \<equiv> E\<lparr>pq_Delete_Backup := f\<rparr>"

lemma cleanup_backup_differs:
  assumes "cleanup_backup (removing E f) info b v \<noteq> cleanup_backup (removing E g) info b v"
  shows "State (b_status b) = BackupSucceeded \<and> \<not> backup_present info b \<and> f b \<noteq> g b"
proof -
  have "cleanup_backup (removing E f) info b = cleanup_backup (removing E g) info b" if "f b = g b"
    by (simp add: cleanup_backup_def that cong: sum.case_cong if_cong option.case_cong)
  with assms show ?thesis by (auto simp: cleanup_backup_def split: if_splits sum.splits)
qed

lemma info_of_GetInfo: "info_of E cr repoName w = (Inr (Some info), w') \<Longrightarrow> \<exists>pod v v'. GetInfo (pq_env E) pod repoName v = (Inr info, v')"
  by (auto simp: info_of_def attempt_def ret_def throw_def split: prod.splits sum.splits if_splits)

text \<open>
  C14: A backup is deleted as outdated only when it is. The outcome of the clean up depends on deleting a
  backup only if the cluster is ready, the backup belongs to it and has succeeded, and pgBackRest
  was asked for its repository and knows no backup that names the Job of this one.
\<close>

theorem outdated_backups_only:
  assumes "\<forall>b'. b' \<noteq> b \<longrightarrow> f b' = g b'"
    and "cleanupOutdatedBackups (E\<lparr>pq_Delete_Backup := f\<rparr>) cr w \<noteq> cleanupOutdatedBackups (E\<lparr>pq_Delete_Backup := g\<rparr>) cr w"
  shows "AppState cr = AppStateReady \<and> State (b_status b) = BackupSucceeded \<and> SpecPGCluster (b_spec b) = px_name cr \<and>
    (\<exists>repo\<in>set (BackRestRepos (BackupsOf cr)). deref (SpecRepoName (b_spec b)) [] = RepoNameOf repo \<and>
      (\<exists>pod info v v'. GetInfo (pq_env E) pod (RepoNameOf repo) v = (Inr info, v') \<and> \<not> backup_present info b))"
proof -
  have reads: "info_of (removing E f) = info_of E" "listPGBackups (removing E f) = listPGBackups E" for f
    by (intro ext, simp add: info_of_def) (intro ext, simp add: listPGBackups_def)
  from assms(2) have ready: "AppState cr = AppStateReady" and
    repos: "run_each (cleanup_repo (removing E f) cr) (BackRestRepos (BackupsOf cr)) w \<noteq>
      run_each (cleanup_repo (removing E g) cr) (BackRestRepos (BackupsOf cr)) w"
    by (auto simp: cleanupOutdatedBackups_def split: if_splits)
  from run_each_differs [OF repos] obtain repo v where repo: "repo \<in> set (BackRestRepos (BackupsOf cr))"
    and differ: "cleanup_repo (removing E f) cr repo v \<noteq> cleanup_repo (removing E g) cr repo v"
    by blast
  let ?run = "\<lambda>f backups info. case info of None \<Rightarrow> ret () | Some info \<Rightarrow> run_each (cleanup_backup (removing E f) info) backups"
  from differ have "must ''list pg-backups'' (listPGBackups E cr (RepoNameOf repo))
      (\<lambda>backups. if backups = [] then ret () else plain (info_of E cr (RepoNameOf repo)) (?run f backups)) v \<noteq>
    must ''list pg-backups'' (listPGBackups E cr (RepoNameOf repo))
      (\<lambda>backups. if backups = [] then ret () else plain (info_of E cr (RepoNameOf repo)) (?run g backups)) v"
    unfolding cleanup_repo_def reads by (simp split: if_splits)
  then obtain backups u where backups: "listPGBackups E cr (RepoNameOf repo) v = (Inr backups, u)"
    and asked: "plain (info_of E cr (RepoNameOf repo)) (?run f backups) u \<noteq> plain (info_of E cr (RepoNameOf repo)) (?run g backups) u"
    by (auto dest!: must_differs split: if_splits)
  from plain_differs [OF asked] obtain x u1 where "info_of E cr (RepoNameOf repo) u = (Inr x, u1)" "?run f backups x u1 \<noteq> ?run g backups x u1"
    by blast
  then obtain info where info: "info_of E cr (RepoNameOf repo) u = (Inr (Some info), u1)"
    and each_one: "run_each (cleanup_backup (removing E f) info) backups u1 \<noteq> run_each (cleanup_backup (removing E g) info) backups u1"
    by (cases x) auto
  from run_each_differs [OF each_one] obtain b' u2 where "b' \<in> set backups"
    and "cleanup_backup (removing E f) info b' u2 \<noteq> cleanup_backup (removing E g) info b' u2" by blast
  moreover note differs = cleanup_backup_differs [OF this(2)]
  moreover from differs have "b' = b" using assms(1) by metis
  moreover from backups have "\<forall>b\<in>set backups. SpecPGCluster (b_spec b) = px_name cr \<and> deref (SpecRepoName (b_spec b)) [] = RepoNameOf repo"
    by (auto simp: listPGBackups_def must_def attempt_def ret_def throw_def split: prod.splits sum.splits if_splits)
  ultimately show ?thesis using ready repo info_of_GetInfo [OF info] by blast
qed

subsection \<open>While a backup runs\<close>

abbreviation writing :: "'w pgcluster_env \<Rightarrow> (PerconaCluster \<Rightarrow> ('w, bool) io) \<Rightarrow> (key \<Rightarrow> ('w, unit) io) \<Rightarrow> 'w pgcluster_env" where
  "writing E f h \<equiv> E\<lparr>pq_CreateOrUpdate := f, pq_Pause_Crunchy := h\<rparr>"

lemma writing_finalizers:
  "cluster_runFinalizers (writing E f h) entries cr = cluster_runFinalizers E entries cr"
proof (induction entries arbitrary: cr)
  case (Cons entry entries)
  then have same: "cluster_runFinalizers (writing E f h) entries = cluster_runFinalizers E entries" by (rule ext)
  obtain name fn where "entry = (name, fn)" by (cases entry)
  then show ?case unfolding \<open>entry = _\<close> cluster_runFinalizers.simps same by simp
qed simp

lemma writing_deletes:
  "deletePVC (writing E f h) = deletePVC E" "delete_secrets (writing E f h) = delete_secrets E"
  "delete_repo (writing E f h) = delete_repo E" "stopExternalWatchers (writing E f h) = stopExternalWatchers E"
  "instance_secrets (writing E f h) = instance_secrets E"
proof -
  show "instance_secrets (writing E f h) = instance_secrets E"
  proof (intro ext)
    fix cr ss metas w show "instance_secrets (writing E f h) cr ss metas w = instance_secrets E cr ss metas w"
      by (induction ss arbitrary: metas w) (simp_all add: must_def attempt_def split: prod.split sum.split)
  qed
qed (simp_all add: fun_eq_iff deletePVC_def delete_secrets_def delete_repo_def stopExternalWatchers_def)

lemma writing_delete_cluster: "delete_cluster (writing E f h) = delete_cluster E"
proof -
  have "deleteBackups (writing E f h) = deleteBackups E"
    by (intro ext) (simp add: deleteBackups_def writing_deletes cong: list.case_cong)
  moreover have "deleteUserSecrets (writing E f h) = deleteUserSecrets E" "deleteTLSSecrets (writing E f h) = deleteTLSSecrets E"
    by (simp_all add: fun_eq_iff deleteUserSecrets_def deleteTLSSecrets_def writing_deletes split: sum.split)
  moreover from this(1) have "deletePVCAndSecrets (writing E f h) = deletePVCAndSecrets E"
    by (intro ext) (simp add: deletePVCAndSecrets_def writing_deletes)
  ultimately show ?thesis
    by (intro ext) (simp del: cluster_runFinalizers.simps add: delete_cluster_def writing_finalizers writing_deletes
        prePostgresClusterDeletionFinalizers_def postPostgresClusterDeletionFinalizers_def cong: if_cong)
qed

lemma writing_backups: "cluster_reconcileBackups (writing E f h) = cluster_reconcileBackups E"
proof -
  have "listPGBackups (writing E f h) = listPGBackups E" "listBackupJobs (writing E f h) = listBackupJobs E"
    "info_of (writing E f h) = info_of E" "release_job (writing E f h) = release_job E" "new_backup (writing E f h) = new_backup E"
    "adopt_job (writing E f h) = adopt_job E" "cleanup_backup (writing E f h) = cleanup_backup E"
    by (intro ext; simp add: listPGBackups_def listBackupJobs_def info_of_def release_job_def new_backup_def adopt_job_def
        cleanup_backup_def cong: sum.case_cong if_cong option.case_cong)+
  note parts = this
  have "findPGBackup (writing E f h) = findPGBackup E" by (simp add: fun_eq_iff findPGBackup_def parts)
  then have "reconcileBackupJob (writing E f h) = reconcileBackupJob E"
    by (intro ext) (simp add: reconcileBackupJob_def parts cong: option.case_cong if_cong sum.case_cong)
  then have "reconcileBackupJobs (writing E f h) = reconcileBackupJobs E"
    by (intro ext) (simp add: reconcileBackupJobs_def parts)
  moreover have "cleanup_repo (writing E f h) = cleanup_repo E"
    by (intro ext) (simp add: cleanup_repo_def parts cong: option.case_cong if_cong)
  then have "cleanupOutdatedBackups (writing E f h) = cleanupOutdatedBackups E"
    by (intro ext) (simp add: cleanupOutdatedBackups_def)
  ultimately show ?thesis by (intro ext) (simp add: cluster_reconcileBackups_def)
qed

lemma writing_steps:
  "cluster_ensureFinalizers (writing E f h) = cluster_ensureFinalizers E" "setCRVersion (writing E f h) = setCRVersion E"
  "isBackupRunning (writing E f h) = isBackupRunning E" "removeStaleBackupAnnotation (writing E f h) = removeStaleBackupAnnotation E"
  "createBootstrapRestoreObject (writing E f h) = createBootstrapRestoreObject E" "stopWALWatcher (writing E f h) = stopWALWatcher E"
  by (intro ext; simp add: cluster_ensureFinalizers_def setCRVersion_def isBackupRunning_def removeStaleBackupAnnotation_def
      createBootstrapRestoreObject_def stopWALWatcher_def Let_def cong: sum.case_cong if_cong option.case_cong prod.case_cong)+

lemma writing_watchers: "reconcileExternalWatchers (writing E f h) = reconcileExternalWatchers E"
  by (intro ext) (simp add: reconcileExternalWatchers_def startExternalWatchers_def stopExternalWatcher_def writing_steps
      cong: option.case_cong if_cong)

text \<open>What is written after the guard does not ask for a pause.\<close>

lemma guarded_write:
  assumes "\<forall>c v. \<exists>v'. isBackupRunning E c v = (Inr True, v')" and "\<forall>c. Pause c \<noteq> Some True \<longrightarrow> f c = g c"
  shows "plain (pause_guard (writing E f h) cr) (write_cluster (writing E f h)) =
    plain (pause_guard (writing E g k) cr) (write_cluster (writing E g k))"
proof
  fix w
  have "pause_guard (writing E f h) cr = pause_guard E cr" for f h
    by (intro ext) (simp add: pause_guard_def writing_steps)
  moreover have "write_cluster (writing E f h) c = write_cluster (writing E g k) c" if "Pause c \<noteq> Some True" for c
    using assms(2) that by (intro ext) (simp add: write_cluster_def cong: if_cong prod.case_cong)
  moreover have "Pause c \<noteq> Some True" if "pause_guard E cr w = (Inr c, w')" for c w'
  proof -
    obtain v' where "isBackupRunning E cr w = (Inr True, v')" using assms(1) by blast
    with that show ?thesis by (auto simp: pause_guard_def must_def attempt_def ret_def split: if_splits)
  qed
  ultimately show "plain (pause_guard (writing E f h) cr) (write_cluster (writing E f h)) w =
      plain (pause_guard (writing E g k) cr) (write_cluster (writing E g k)) w"
    using plain_differs [of "pause_guard E cr" "write_cluster (writing E f h)" w "write_cluster (writing E g k)"] by fastforce
qed

text \<open>
  C12: While a backup runs, a cluster is neither paused nor given up. If the controller finds a backup
  running whenever it looks, the outcome of a reconciliation does not depend on how the inner
  cluster would be written with a pause, nor on how it would be made unmanaged: neither happens,
  whatever the specification asks for.
\<close>

theorem no_pause_during_backup:
  assumes "\<forall>c v. \<exists>v'. isBackupRunning E c v = (Inr True, v')" and "\<forall>c. Pause c \<noteq> Some True \<longrightarrow> f c = g c"
  shows "cluster_Reconcile (E\<lparr>pq_CreateOrUpdate := f, pq_Pause_Crunchy := h\<rparr>) key =
    cluster_Reconcile (E\<lparr>pq_CreateOrUpdate := g, pq_Pause_Crunchy := k\<rparr>) key"
proof -
  have managed: "reconcile_managed (writing E f h) = reconcile_managed (writing E g k)"
    by (intro ext) (simp add: reconcile_managed_def writing_steps writing_watchers writing_backups guarded_write [OF assms, of h _ k]
        cong: if_cong)
  have "reconcile_unmanaged (writing E f h) cr w = reconcile_unmanaged (writing E g k) cr w" for cr w
  proof -
    obtain v' where "isBackupRunning E cr w = (Inr True, v')" using assms(1) by blast
    then show ?thesis by (simp add: reconcile_unmanaged_def writing_steps managed must_def attempt_def)
  qed
  then have "reconcile_unmanaged (writing E f h) = reconcile_unmanaged (writing E g k)" by (intro ext)
  with managed show ?thesis
    by (simp add: cluster_Reconcile_def writing_steps writing_delete_cluster cong: if_cong sum.case_cong)
qed


section \<open>Examples\<close>

text \<open>
  The standby of before with a ready pod, a volume claim, a backup Job that runs, and a backup
  that has ended and that pgBackRest does not know; its inner cluster is gone.
\<close>

definition unknown_backup :: PerconaPGBackup where
  "unknown_backup = (sample_backup ''b1'' BackupSucceeded)\<lparr>b_status := (sample_status BackupSucceeded)\<lparr>
     JobName := ''j1'', StatusCRVersion := ''3.0.0''\<rparr>\<rparr>"

definition running_job :: Job where
  "running_job = (sample_job ''j'' ''Started'')\<lparr>j_meta := (sample_meta ''j'')\<lparr>Labels := [LabelPGBackRestBackup \<mapsto> BackupManual]\<rparr>\<rparr>"

definition asked_cluster :: PerconaCluster where
  "asked_cluster = (standby_cluster None)\<lparr>Pause := Some True,
     pg_meta := (sample_meta ''pg'')\<lparr>Finalizers := [FinalizerDeletePVC, FinalizerDeleteBackups]\<rparr>\<rparr>"

definition cluster_sample :: "mem pgcluster_env" where
  "cluster_sample = \<lparr>pq = standby_env\<lparr>pe_Get := (\<lambda>_. ret asked_cluster),
       pe_env := (pe_env standby_env)\<lparr>List_Jobs := (\<lambda>_ _. ret [running_job]),
         List_PVCs := (\<lambda>_ _. ret [\<lparr>v_meta = sample_meta ''claim'', v_spec = sample_claim\<rparr>]),
         List_InstancePods := (\<lambda>_ _. ret [\<lparr>p_meta = sample_meta ''pod'', PodPhase = ''Running'',
           PodConditions = [\<lparr>JobConditionType = ''Ready'', JobConditionStatus = ConditionTrue\<rparr>]\<rparr>])\<rparr>\<rparr>,
     pq_Merge = (++), pq_List_Secrets = (\<lambda>_ _. ret []), pq_Delete_Secret = (\<lambda>_. ret ()), pq_Stop_Watchers = (\<lambda>_. ret ()),
     pq_Watcher_Names = ret [], pq_Watcher_Remove = (\<lambda>_. ret ()), pq_Watcher_Start = (\<lambda>_ _. ret ()),
     pq_List_Backups = (\<lambda>_. ret [unknown_backup]), pq_Create_Backup = ret, pq_Delete_Backup = (\<lambda>_. ret ()),
     pq_DeleteForeground_Job = (\<lambda>_. ret ()), pq_Own_Job = (\<lambda>_. Inr), pq_Create_Restore = (\<lambda>_. ret ()),
     pq_Patch = (\<lambda>_. ret), pq_ToCrunchy = (\<lambda>_. Inr sample_crunchy), pq_Delete_Crunchy = (\<lambda>_. ret ()),
     pq_Get_Crunchy = (\<lambda>_. throw not_found), pq_Pause_Crunchy = (\<lambda>_. ret ()), pq_CreateOrUpdate = (\<lambda>_. ret False),
     pq_Default = Inr, pq_PatroniVersionPod = (\<lambda>_. ret False), pq_first_steps = [], pq_version_step = ret,
     pq_second_steps = [], pq_last_steps = (\<lambda>_. ret False)\<rparr>"

theorem deleteBackups_commands_witness:
  "\<not> isl (fst (deleteBackups (cluster_sample\<lparr>pq := (pq cluster_sample)\<lparr>pe_env := (pq_env cluster_sample)\<lparr>
     PodExec := \<lambda>_ _ _ _ c. if length c = 4 then ret (None, [], []) else throw (Errorf ''command'')\<rparr>\<rparr>\<rparr>)
     asked_cluster (sample_world [])))"
proof -
  let ?g = "\<lambda>_ _ _ _ c. if length c = 4 then ret (None, [], []) else throw (Errorf ''command'')"
  have "\<not> isl (fst (deleteBackups (executing cluster_sample (\<lambda>_ _ _ _ _. ret (None, [], []))) asked_cluster (sample_world [])))"
    by code_simp
  then show ?thesis
    using deleteBackups_commands [of "\<lambda>_ _ _ _ _. ret (None, [], [])" ?g cluster_sample asked_cluster] by simp
qed

theorem volumes_deleted_last_witness:
  "\<exists>w1 w2 w3 e. pq_Get_Crunchy cluster_sample (''ns'', ''pg'') w2 = (Inl e, w3) \<and> IsNotFound e \<and>
     (\<exists>r cr'. pq_Delete_Crunchy cluster_sample (object_key (pg_meta cr')) w1 = (r, w2))"
proof -
  let ?run = "\<lambda>f. delete_cluster (deleting cluster_sample f (\<lambda>_. ret ())) asked_cluster (sample_world [])"
  have "isl (fst (?run (\<lambda>_. throw (Errorf ''kept'')))) \<noteq> isl (fst (?run (\<lambda>_. ret ())))" by code_simp
  then have "?run (\<lambda>_. throw (Errorf ''kept'')) \<noteq> ?run (\<lambda>_. ret ())" by metis
  from volumes_deleted_last [OF this] show ?thesis by (auto simp: cluster_sample_def throw_def)
qed

lemma unknown_backup_deleted:
  "isl (fst (cleanupOutdatedBackups (cluster_sample\<lparr>pq_Delete_Backup := f\<rparr>) asked_cluster (sample_world []))) =
     isl (fst (f unknown_backup (sample_world [])))"
  by (simp add: cleanupOutdatedBackups_def cleanup_repo_def cleanup_backup_def listPGBackups_def info_of_def GetReadyInstancePod_def
      GetInfo_def backup_CompareVersion_def backup_present_def must_def plain_def attempt_def ret_def throw_def lift_def
      cluster_sample_def asked_cluster_def standby_cluster_def standby_env_def PerconaPGCluster.extend_def sample_cluster_def sample_repo_def unknown_backup_def sample_backup_def
      sample_status_def sample_meta_def pod_ready_def BackupsIsEnabled_def memory_def mem_get_def lookup_def sample_world_def not_found_def
      AppStateReady_def split: sum.split prod.split)

theorem outdated_backups_only_witness:
  "SpecPGCluster (b_spec unknown_backup) = Name (pg_meta asked_cluster) \<and>
     (\<exists>pod info v v'. GetInfo (pq_env cluster_sample) pod ''repo1'' v = (Inr info, v') \<and> \<not> backup_present info unknown_backup)"
proof -
  let ?f = "\<lambda>_. ret ()" and ?g = "(\<lambda>_. ret ())(unknown_backup := throw (Errorf ''kept''))"
  have "isl (fst (cleanupOutdatedBackups (removing cluster_sample ?f) asked_cluster (sample_world []))) \<noteq>
      isl (fst (cleanupOutdatedBackups (removing cluster_sample ?g) asked_cluster (sample_world [])))"
    unfolding unknown_backup_deleted by (simp add: ret_def throw_def)
  then have differ: "cleanupOutdatedBackups (removing cluster_sample ?f) asked_cluster (sample_world []) \<noteq>
      cleanupOutdatedBackups (removing cluster_sample ?g) asked_cluster (sample_world [])" by metis
  have "BackRestRepos (BackupsOf asked_cluster) = [sample_repo]"
    by (simp add: asked_cluster_def standby_cluster_def PerconaPGCluster.extend_def sample_cluster_def)
  then show ?thesis using outdated_backups_only [OF _ differ, of unknown_backup] by (auto simp: sample_repo_def)
qed

theorem no_pause_during_backup_witness:
  "Pause asked_cluster = Some True \<and>
     cluster_Reconcile (cluster_sample\<lparr>pq_CreateOrUpdate := \<lambda>_. ret False, pq_Pause_Crunchy := \<lambda>_. ret ()\<rparr>) (''ns'', ''pg'') =
     cluster_Reconcile (cluster_sample\<lparr>
       pq_CreateOrUpdate := \<lambda>c. if Pause c = Some True then throw (Errorf ''paused'') else ret False,
       pq_Pause_Crunchy := \<lambda>_. throw (Errorf ''given up'')\<rparr>) (''ns'', ''pg'')"
proof -
  have "isBackupRunning cluster_sample c v = (Inr True, v)" for c v
    by (simp add: isBackupRunning_def cluster_sample_def running_job_def sample_job_def sample_meta_def must_def attempt_def ret_def
        JobFailed_def JobCompleted_def)
  then have "\<forall>c v. \<exists>v'. isBackupRunning cluster_sample c v = (Inr True, v')" by blast
  from no_pause_during_backup [OF this] show ?thesis by (simp add: asked_cluster_def)
qed


end
