(* ===== verification/Spec2Isabelle.thy ===== *)
theory Spec2Isabelle
  imports PGBackup Snapshot_Restore Rollout Scaling Patroni_Control Percona_Cluster
begin

text \<open>
  A verification library for the Percona operator for PostgreSQL
  (\<open>src/\<close>, written in Go).

  \<^bold>\<open>The program.\<close> The operator is a set of Kubernetes controllers. The controllers of
  \<open>percona/controller\<close> own the user facing resources: \<open>PerconaPGCluster\<close>,
  \<open>PerconaPGBackup\<close> and \<open>PerconaPGRestore\<close>. They write annotations and
  sections of a \<open>PostgresCluster\<close>, which the controllers of
  \<open>internal/controller\<close> turn into StatefulSets, Jobs, Secrets and volumes, with the
  settings of PostgreSQL and Patroni that \<open>internal/postgres\<close>,
  \<open>internal/patroni\<close> and the packages of the components generate. A backup
  is a request a user makes: the backup controller claims the cluster with an annotation, the
  inner controller runs the pgBackRest Job, the backup controller follows the Job, reads the
  result out of pgBackRest, and releases the cluster. A Kubernetes Lease, and for volume
  snapshots a suspended instance, keep two backups of one cluster apart. Since a reconciliation
  may stop at any error and starts again from what the API server stores, what makes the program
  correct is what it writes to the stored objects and in which order. Below it, the controller of a
  \<open>PostgresCluster\<close> observes the instances of a cluster, scales, redeploys, stops and
  restores them, drives Patroni, and runs the backup Jobs.

  \<^bold>\<open>The style of the model.\<close> An operation of the Go code is a function from a world to
  a result and a new world (\<^typ>\<open>('w, 'a) io\<close> of \<open>Prelude\<close>); a result is
  \<open>Inl\<close> of an \<open>error\<close> or \<open>Inr\<close> of a value. A panic (a nil pointer
  dereference, a slice out of range) is the error \<open>Panic\<close>, which no combinator
  swallows. The combinators \<open>attempt\<close>, \<open>must\<close>, \<open>plain\<close> and
  \<open>look\<close> are the four ways the sources use a call: handle its error, return it
  wrapped with a message, return it as it is, read the clock or a gate. Logging is left out.

  \<^bold>\<open>The interface.\<close> Code outside the repository is the record \<open>env\<close> of
  \<open>Kube\<close>: the API client of controller-runtime (get, list, create, update, patch,
  status update, delete), \<open>RetryOnConflict\<close> and the polling helpers of client-go, the
  finalizer and condition helpers of apimachinery, command execution in a pod, the clock. Its
  type of worlds is a type variable and every operation of the model takes the record as its
  first argument, so nothing is assumed by the definitions. What theorems rely on is stated as
  locales: \<open>retry_law\<close> (the result of a retry is the result of one run of its body),
  \<open>poll_law\<close> (a successful poll ended with a true condition), \<open>finalizer_laws\<close>
  and \<open>condition_laws\<close> in \<open>Kube\<close>; \<open>backup_store\<close>,
  \<open>restore_store\<close> and \<open>lease_store\<close> in \<open>Controller\<close>, which say
  which calls may change the stored state of a backup, a restore or the holder of a lease, and
  how. \<open>Memory\<close> is an API server in memory that implements the whole record; it
  interprets each of these locales, and the witnesses of the properties run the controllers on
  it by evaluation.

  \<^bold>\<open>The theories.\<close>
  \<^item> \<open>Prelude\<close>: the collections of lemmas, errors, \<open>io\<close>, the functions of
    the Go packages \<open>strings\<close>, \<open>path\<close> and \<open>strconv\<close> the sources use.
    \<open>keeps\<close> and \<open>yields\<close> are the two assertions used throughout: an
    operation preserves a property of the world, and its result on success has a property.
  \<^item> \<open>Kube\<close>: the API objects (\<open>pkg/apis\<close>) with the fields the controllers
    read or write, and the interface above.
  \<^item> \<open>Naming\<close>: \<open>internal/naming\<close> and \<open>percona/naming\<close>. Names
    derived with a hash, DNS safe names and their panics, disjointness of the Secrets of one
    cluster, the volume size annotations, which labels the selectors match.
  \<^item> \<open>Controller\<close>: \<open>percona/controller/utils.go\<close>,
    \<open>percona/k8s\<close> and \<open>percona/pgbackrest\<close>. The locale \<open>status_kind\<close>
    is the contract of a resource with a stored state that only guarded status updates change;
    it is interpreted for backups and restores. \<open>backup_step\<close> is the life of a backup
    as a step relation, from New over Starting and Running to Succeeded or Failed.
  \<^item> \<open>Memory\<close>: the API server in memory and the laws it satisfies.
  \<^item> \<open>Postgres_Exec\<close>: \<open>internal/postgres/exec.go\<close>, the psql command lines.
  \<^item> \<open>Snapshots\<close>: \<open>percona/controller/pgbackup/snapshots\<close> and
    \<open>percona/postgres\<close>. The executor interface of the Go code is the locale
    \<open>snapshot_executor\<close>, interpreted by the offline executor.
  \<^item> \<open>PGBackup\<close>: \<open>percona/controller/pgbackup/controller.go\<close>, all of
    \<open>Reconcile\<close> with its finalizers, lease, start, run and finish of a backup.
  \<^item> \<open>PGRestore\<close>: \<open>percona/controller/pgrestore/controller.go\<close> and
    \<open>pgrestore/utils/pgbackrest.go\<close>.
  \<^item> \<open>Snapshot_Restore\<close>: \<open>percona/controller/pgrestore/snapshot\<close>, the
    restore from volume snapshots. The locales \<open>claim_store\<close> and
    \<open>prompt_claims\<close> are what it relies on about volume claims; both are interpreted by
    \<open>Memory\<close>.
  \<^item> \<open>Postgres_Config\<close>: \<open>internal/postgres/parameters.go\<close> and
    \<open>hba.go\<close>, with readers of the two file formats they print, which state what
    PostgreSQL makes of the text. \<open>parameter_set\<close> is the contract of a set of
    parameters.
  \<^item> \<open>Cluster_Settings\<close>: how the rules and parameters of one cluster are put
    together from its components (monitoring, pgBouncer, logical replicas, extensions, huge pages,
    pgBackRest), as \<open>Reconcile\<close> of \<open>internal/controller/postgrescluster\<close>
    does it.
  \<^item> \<open>Patroni_Config\<close>: \<open>config.go\<close>, \<open>reconcile.go\<close>,
    \<open>certificates.go\<close> and \<open>api.go\<close> of \<open>internal/patroni\<close>;
    Go's \<open>map[string]any\<close> trees are values of type \<^typ>\<open>json\<close>.
  \<^item> \<open>Instances\<close>: \<open>instance.go\<close>, \<open>delete.go\<close>,
    \<open>pod_disruption_budget.go\<close> and \<open>topology.go\<close> of
    \<open>internal/controller/postgrescluster\<close>, and the interface record
    \<open>reconciler\<close> that this package's operations take as their first argument.
  \<^item> \<open>Cluster_Memory\<close>: an API server and a Patroni in memory that implement
    \<open>reconciler\<close>; it interprets \<open>priority_sort\<close>, \<open>service_owner\<close>,
    \<open>patroni_members\<close> and \<open>status_conditions\<close>.
  \<^item> \<open>Rollout\<close> and \<open>Scaling\<close>: the properties of \<open>Instances\<close>.
  \<^item> \<open>Services\<close>: the Services of \<open>cluster.go\<close> and \<open>patroni.go\<close>.
  \<^item> \<open>Patroni_Control\<close>: the rest of \<open>patroni.go\<close>. The locale
    \<open>patroni_members\<close> is what is relied on about Patroni's timeline.
  \<^item> \<open>Data_Source\<close>: \<open>reconcileDataSource\<close> of \<open>cluster.go\<close> and the part
    of \<open>pgbackrest.go\<close> it calls.
  \<^item> \<open>Backrest_Jobs\<close>: the backup Jobs of \<open>pgbackrest.go\<close>.
  \<^item> \<open>Repositories\<close>: the pgBackRest repositories of \<open>pgbackrest.go\<close> with their
    volumes, stanzas, schedules and removal, \<open>reconcilePGBackRest\<close>, and of
    \<open>internal/pgbackrest\<close> the files \<open>util.go\<close> and \<open>pgbackrest.go\<close>.
  \<^item> \<open>Percona_Status\<close>: \<open>status.go\<close> and \<open>standby.go\<close> of
    \<open>percona/controller/pgcluster\<close>. The locale \<open>listed_conditions\<close> is what is relied on
    about lists of conditions, and \<open>mirroring\<close> what follows for a cluster; both are interpreted
    by the API server in memory.
  \<^item> \<open>Percona_Cluster\<close>: \<open>Reconcile\<close> of \<open>percona/controller/pgcluster\<close>
    with \<open>finalizer.go\<close>, \<open>backup.go\<close> and \<open>restore.go\<close>.

  \<^bold>\<open>What is shown.\<close> One reconciliation, however it ends, moves the stored state of a
  backup or a restore along at most one step of its life; a pgBackRest backup keeps its final
  state over every history of reconciliations. The backup lease cannot be taken from an
  unfinished backup, and an acquired lease names its holder; the identity in the lease reads
  back. \<open>startBackup\<close> refuses a cluster that names another backup and otherwise writes
  the claim; \<open>finishBackup\<close> reports completion only once the cluster no longer names
  the backup; a running backup follows the conditions of its Job. A snapshot backup completes
  only with all snapshots ready, and an instance is prepared only when it was observed suspended.
  \<open>GetLatestBackup\<close> is characterised, and where it goes wrong. A restore from
  snapshots runs only when all instances were observed suspended, is recorded as succeeded only
  when every volume claim was replaced, and replaces them in two passes; its prepare job mounts
  what its script works on. Of the settings it is shown that the rules of the operator decide the
  network connections of the service users over TLS before any rule of the user, which parameters
  are in effect, which libraries are preloaded in which order, what the archive and restore
  commands are, and that the printed parameters and names read back.

  Of the instances it is shown that what is observed refines a specification by names, that a
  rollout keeps all but one of the specified instances available, leaves an available primary for
  last and makes progress, that scaling down spares leaders, scaling up reaches the specified
  number with fresh names, and that shutting down and deleting stop the replicas first. A
  requested switchover is carried out at most once, over every history with stale reads and lost
  writes. A restore populates the data directory only after the cluster was found torn down for
  it, over every history. The Job of a requested backup is written only when it is needed, and
  replicas wait for a backup of the present configuration. The volume of a repository is deleted
  only when it is no longer specified, or with an authorization when no backups are; the record of
  a stanza or a backup does not outlive the volume or the options it was made for; volumes never
  shrink.

  Of the outer cluster it is shown that its stored status mirrors the inner one and says ready only
  when all instances are, that the condition of a lagging standby and the signal to its pod go
  together (and when the signal is left behind), that no cluster is paused or given up during a
  backup, that backups are deleted as outdated only when pgBackRest does not know them, that the
  volumes of a deleted cluster go last, and which commands the deletion of backups can run. The
  findings of the manifest are the places where the code panics, loses a state, or admits or prints what it should
  not.

  \<^bold>\<open>Termination and fuel.\<close> Loops of the sources range over lists and are structural
  recursions, and the functions are total, but for \<open>fresh_instance\<close>: the search for an
  unused random name need not end, so it is a partial function into \<open>option\<close>, and
  \<open>Scaling\<close> shows when it ends. Retry and polling loops are library code and appear only
  through their laws. No fuel is used.

  \<^bold>\<open>What is not modelled.\<close> The upgrade controllers, and of the cluster controller of
  \<open>percona/controller\<close> the steps for TLS, versions, monitoring, log collection, extensions,
  schedules, sidecar volumes and logical replicas, which are fields of \<open>pgcluster_env\<close>; of \<open>internal/controller/postgrescluster\<close> the
  volumes, certificates, users, pgBouncer and monitoring. Four
  parts of modelled operations are arguments: \<open>reconcileInstance\<close>, which assembles the pod of
  an instance; the record \<open>restore_parts\<close> of what a restore writes; the record
  \<open>backup_parts\<close> of what a backup Job is made of; and the record \<open>repo_parts\<close> of the
  objects of a repository host. Within the modelled code, log lines, events, the
  watch set up of \<open>SetupWithManager\<close> and tracing spans are left out, which change no stored
  object, and messages of conditions. Times are integers, and YAML and JSON encoders of libraries
  are parameters. Text is ASCII where the sources treat Unicode.

  \<^bold>\<open>Plan.\<close> Next the upgrade controllers, the configuration of pgBackRest and pgBouncer as
  pure functions, and the steps of the cluster controller that are arguments so far.
\<close>

end
